(* ===== verification/Sepp_Prelude.thy ===== *)
theory Sepp_Prelude
  imports Main "HOL-Library.AList" "HOL-Library.Sublist" "HOL-Library.Word"
begin

text \<open>
  What the components share: the exceptions the C++ code can raise, the operations of
  \<^verbatim>\<open>std::string\<close> the sources use, the header maps (\<^verbatim>\<open>std::unordered_map\<close> from string to
  string) with their interface as a locale, and the HTTP exchange with a remote party.
  A string is a list of bytes (\<^typ>\<open>char\<close>), as \<^verbatim>\<open>std::string\<close> is.
\<close>

named_theorems cpp_str \<open>facts about the operations of std::string\<close>
named_theorems hdr_simps \<open>lookup after update in header maps\<close>

subsection \<open>Exceptions\<close>

text \<open>
  An operation that may throw returns \<open>exn + 'a\<close>, with \<open>Inl\<close> for the exception.
  \<open>TypeError\<close> and \<open>ParseError\<close> are those of nlohmann::json, \<open>ModelError\<close> one thrown by the
  \<^verbatim>\<open>from_json\<close> of a generated OpenAPI model, the others are those of the standard library.
\<close>

datatype exn = TypeError | ParseError | ModelError | OutOfRange | InvalidArgument | RuntimeError

type_synonym 'a result = "exn + 'a"

subsection \<open>std::string\<close>

text \<open>
  \<open>str_find n s\<close> is \<^verbatim>\<open>s.find(n)\<close>: the first position where \<open>n\<close> occurs, \<open>None\<close> for
  \<^verbatim>\<open>npos\<close>; \<open>str_find_from n k s\<close> is \<^verbatim>\<open>s.find(n, k)\<close>. \<open>substr\<close> throws when the start is
  past the end. \<open>size_minus\<close> is subtraction of \<^verbatim>\<open>std::size_t\<close>, which wraps.
\<close>

fun str_find :: "string \<Rightarrow> string \<Rightarrow> nat option" where
  "str_find n [] = (if n = [] then Some 0 else None)"
| "str_find n (c # cs) =
     (if prefix n (c # cs) then Some 0 else map_option Suc (str_find n cs))"

definition str_find_from :: "string \<Rightarrow> nat \<Rightarrow> string \<Rightarrow> nat option" where
  "str_find_from n k s =
     (if k > length s then None else map_option (\<lambda>i. i + k) (str_find n (drop k s)))"

definition substr :: "string \<Rightarrow> nat \<Rightarrow> nat \<Rightarrow> string result" where
  "substr s pos n = (if pos > length s then Inl OutOfRange else Inr (take n (drop pos s)))"

definition substr_end :: "string \<Rightarrow> nat \<Rightarrow> string result" where
  "substr_end s pos = (if pos > length s then Inl OutOfRange else Inr (drop pos s))"

definition size_minus :: "nat \<Rightarrow> nat \<Rightarrow> nat" where
  "size_minus a b = unat (of_nat a - of_nat b :: 64 word)"

text \<open>\<open>starts_with p s\<close> is \<^verbatim>\<open>s.rfind(p, 0) == 0\<close>.\<close>

definition starts_with :: "string \<Rightarrow> string \<Rightarrow> bool" where
  "starts_with p s = prefix p s"

definition crlf :: string where
  "crlf = [CHR 0x0D, CHR 0x0A]"

lemma str_find_SomeD:
  "str_find n s = Some i \<Longrightarrow> i \<le> length s \<and> prefix n (drop i s)"
  by (induction s arbitrary: i) (auto split: if_splits)

lemma str_find_first:
  "str_find n s = Some i \<Longrightarrow> j < i \<Longrightarrow> \<not> prefix n (drop j s)"
proof (induction s arbitrary: i j)
  case Nil
  then show ?case by (auto split: if_splits)
next
  case (Cons c cs)
  then show ?case by (cases j) (auto split: if_splits)
qed

lemma str_find_Some_bound: "str_find n s = Some i \<Longrightarrow> i + length n \<le> length s"
  using str_find_SomeD[of n s i] prefix_length_le[of n "drop i s"] by auto

lemma str_find_NoneD: "str_find n s = None \<Longrightarrow> i \<le> length s \<Longrightarrow> \<not> prefix n (drop i s)"
proof (induction s arbitrary: i)
  case Nil
  then show ?case by (auto split: if_splits)
next
  case (Cons c cs)
  then show ?case by (cases i) (auto split: if_splits)
qed

lemma str_find_append [cpp_str]:
  assumes "n \<noteq> []" and "hd n \<notin> set a"
  shows "str_find n (a @ n @ b) = Some (length a)"
  using assms
proof (induction a)
  case Nil
  then show ?case by (cases n) auto
next
  case (Cons c a)
  then have "\<not> prefix n (c # a @ n @ b)"
    by (cases n) auto
  with Cons show ?case by simp
qed

lemma str_find_absent [cpp_str]: "n \<noteq> [] \<Longrightarrow> hd n \<notin> set s \<Longrightarrow> str_find n s = None"
  by (induction s) (auto simp: prefix_def neq_Nil_conv)

lemma str_find_split:
  assumes "str_find n s = Some i"
  shows "s = take i s @ n @ drop (i + length n) s"
proof -
  from str_find_SomeD[OF assms] obtain r where r: "drop i s = n @ r"
    by (auto simp: prefix_def)
  then have "drop (i + length n) s = r"
    by (metis add.commute append_eq_conv_conj drop_drop)
  with r show ?thesis by (metis append_take_drop_id)
qed

lemma size_minus_le: "b \<le> a \<Longrightarrow> a < 2 ^ 64 \<Longrightarrow> size_minus a b = a - b"
proof -
  assume "b \<le> a" "a < 2 ^ 64"
  then have "of_nat a - of_nat b = (of_nat (a - b) :: 64 word)" by simp
  with \<open>a < 2 ^ 64\<close> show ?thesis
    unfolding size_minus_def by (simp only:) (simp add: unat_of_nat take_bit_nat_eq_self)
qed

lemma substr_ok [cpp_str]: "pos \<le> length s \<Longrightarrow> substr s pos n = Inr (take n (drop pos s))"
  by (simp add: substr_def)

lemma substr_end_ok [cpp_str]: "pos \<le> length s \<Longrightarrow> substr_end s pos = Inr (drop pos s)"
  by (simp add: substr_end_def)

lemma starts_with_append [cpp_str, simp]: "starts_with p (p @ s)"
  by (simp add: starts_with_def)

subsection \<open>Header maps\<close>

text \<open>
  A \<^verbatim>\<open>std::unordered_map<std::string, std::string>\<close> is an association list with distinct
  keys; \<open>hput\<close> is \<^verbatim>\<open>h[k] = v\<close> and \<open>hget\<close> is \<^verbatim>\<open>h.find(k)\<close>. The order of the list is the
  iteration order, which the standard leaves open: where the code iterates, the
  definitions take the order as an argument.
\<close>

type_synonym headers = "(string \<times> string) list"

definition hget :: "headers \<Rightarrow> string \<Rightarrow> string option" where
  "hget h k = map_of h k"

definition hput :: "string \<Rightarrow> string \<Rightarrow> headers \<Rightarrow> headers" where
  "hput k v h = AList.update k v h"

locale string_map =
  fixes get :: "'m \<Rightarrow> string \<Rightarrow> string option"
    and put :: "string \<Rightarrow> string \<Rightarrow> 'm \<Rightarrow> 'm"
  assumes get_put_same: "get (put k v m) k = Some v"
    and get_put_other: "k \<noteq> k' \<Longrightarrow> get (put k v m) k' = get m k'"
begin

lemma get_put: "get (put k v m) k' = (if k' = k then Some v else get m k')"
  by (simp add: get_put_same get_put_other)

text \<open>A loop of assignments: the last value assigned to a key wins.\<close>

lemma get_fold_put:
  "get (fold (\<lambda>(k, v). put k v) kvs m) k =
     (case map_of (rev kvs) k of Some v \<Rightarrow> Some v | None \<Rightarrow> get m k)"
proof (induction kvs arbitrary: m)
  case Nil
  then show ?case by simp
next
  case (Cons kv kvs)
  obtain k1 v1 where kv: "kv = (k1, v1)" by force
  show ?case
    by (auto simp: Cons kv get_put map_add_def split: option.splits)
qed

lemma get_fold_put_fresh:
  "k \<notin> fst ` set kvs \<Longrightarrow> get (fold (\<lambda>(k, v). put k v) kvs m) k = get m k"
  by (simp add: get_fold_put map_of_eq_None_iff[THEN iffD2])

lemma get_fold_put_distinct:
  assumes "distinct (map fst kvs)"
  shows "get (fold (\<lambda>(k, v). put k v) kvs m) k =
     (case map_of kvs k of Some v \<Rightarrow> Some v | None \<Rightarrow> get m k)"
proof -
  have "map_of (rev kvs) = map_of kvs"
    using assms by (intro map_of_inject_set[THEN iffD2]) (auto simp: rev_map[symmetric])
  then show ?thesis by (simp add: get_fold_put)
qed

end

interpretation hdr: string_map hget hput
  by unfold_locales (simp_all add: hget_def hput_def update_conv')

lemma hget_Nil [hdr_simps, simp]: "hget [] k = None"
  by (simp add: hget_def)

lemma hget_hput [hdr_simps, simp]: "hget (hput k v h) k' = (if k' = k then Some v else hget h k')"
  by (rule hdr.get_put)

lemma distinct_hput [simp]: "distinct (map fst h) \<Longrightarrow> distinct (map fst (hput k v h))"
  by (simp add: hput_def distinct_update)

subsection \<open>HTTP exchanges\<close>

text \<open>
  The HTTP client (\<^verbatim>\<open>oai::http::http_client\<close>, of the common-src submodule) is a parameter:
  a \<open>net\<close> gives the answer to the last call of the history of calls. The history is the
  observable effect of the program, so theorems can say what was sent, in which order. A
  status code 0 is how the client reports that no answer came.
\<close>

datatype http_method = GET | POST | PUT | DELETE | PATCH

record http_request =
  rq_uri :: string
  rq_headers :: headers
  rq_body :: string

record http_response =
  rp_status :: int
  rp_body :: string
  rp_headers :: headers

datatype http_client = SbiClient | NbiClient

datatype http_call = HttpCall http_client http_method http_request

type_synonym history = "http_call list"

type_synonym net = "history \<Rightarrow> http_response"

definition send_http_request ::
  "net \<Rightarrow> http_client \<Rightarrow> http_method \<Rightarrow> http_request \<Rightarrow> history \<Rightarrow> http_response \<times> history" where
  "send_http_request net c m r h =
     (let h' = h @ [HttpCall c m r] in (net h', h'))"

lemma send_http_request_simps [simp]:
  "fst (send_http_request net c m r h) = net (h @ [HttpCall c m r])"
  "snd (send_http_request net c m r h) = h @ [HttpCall c m r]"
  by (simp_all add: send_http_request_def Let_def)

subsection \<open>Members with getter and setter\<close>

text \<open>The laws of a private member that a class gives out through a getter and a setter.\<close>

locale class_member =
  fixes get :: "'r \<Rightarrow> 'v"
    and set :: "'v \<Rightarrow> 'r \<Rightarrow> 'r"
  assumes get_set: "get (set v r) = v"
    and set_get: "set (get r) r = r"
    and set_set: "set v (set w r) = set v r"
begin

lemma set_same_iff: "set v r = r \<longleftrightarrow> get r = v"
  using get_set set_get by metis

text \<open>Copying a member of one object into another.\<close>

lemma get_copy: "get (set (get r') r) = get r'"
  by (rule get_set)

lemma set_copy: "set (get r) (set v r) = r"
  by (simp add: set_set set_get)

end

subsection \<open>Components as state machines\<close>

text \<open>
  A component whose operations other parties trigger is a labelled step relation;
  \<open>steps\<close> is a run of it. What every step keeps, every run keeps; and when an abstract
  function follows each step, folding it follows each run.
\<close>

inductive steps :: "('e \<Rightarrow> 's \<Rightarrow> 's \<Rightarrow> bool) \<Rightarrow> 'e list \<Rightarrow> 's \<Rightarrow> 's \<Rightarrow> bool"
  for step :: "'e \<Rightarrow> 's \<Rightarrow> 's \<Rightarrow> bool" where
  steps_Nil [intro]: "steps step [] s s"
| steps_Cons [intro]: "step e s s' \<Longrightarrow> steps step es s' s'' \<Longrightarrow> steps step (e # es) s s''"

inductive_cases steps_NilE [elim!]: "steps step [] s s'"
inductive_cases steps_ConsE [elim!]: "steps step (e # es) s s'"
inductive_simps steps_Nil_iff: "steps step [] s s'"
inductive_simps steps_Cons_iff: "steps step (e # es) s s'"

lemma steps_append: "steps step es s s' \<Longrightarrow> steps step fs s' s'' \<Longrightarrow> steps step (es @ fs) s s''"
  by (induction rule: steps.induct) auto

locale invariant_machine =
  fixes step :: "'e \<Rightarrow> 's \<Rightarrow> 's \<Rightarrow> bool"
    and inv :: "'s \<Rightarrow> bool"
  assumes inv_step: "step e s s' \<Longrightarrow> inv s \<Longrightarrow> inv s'"
begin

lemma inv_steps: "steps step es s s' \<Longrightarrow> inv s \<Longrightarrow> inv s'"
  by (induction rule: steps.induct) (auto dest: inv_step)

end

locale refined_machine = invariant_machine +
  fixes abs :: "'s \<Rightarrow> 'a"
    and spec :: "'e \<Rightarrow> 'a \<Rightarrow> 'a"
  assumes spec_step: "step e s s' \<Longrightarrow> inv s \<Longrightarrow> abs s' = spec e (abs s)"
begin

lemma spec_steps: "steps step es s s' \<Longrightarrow> inv s \<Longrightarrow> abs s' = fold spec es (abs s)"
proof (induction rule: steps.induct)
  case (steps_Cons e s s' es s'')
  with inv_step[of e s s'] spec_step[of e s s'] show ?case by simp
qed simp

end

end
