(* ===== verification/Sepp_Json.thy ===== *)
theory Sepp_Json
  imports Sepp_Prelude
begin

text \<open>
  JSON documents as the sources see them through nlohmann::json: the values of RFC 8259
  and the accessors the sources call, with the exceptions the library documents for them
  (\<open>TypeError\<close> is type_error 302, 305 or 306). Turning text into a document and back
  (\<^verbatim>\<open>json::parse\<close>, \<^verbatim>\<open>dump\<close>) is a parameter of the definitions that do it. An object is
  an association list with distinct keys; a floating-point number is a mantissa and a
  binary exponent.
\<close>

named_theorems json_simps \<open>access to JSON documents\<close>

datatype json =
    JNull
  | JBool bool
  | JInt int
  | JFloat int int
  | JStr string
  | JArr "json list"
  | JObj "(string \<times> json) list"

fun is_null :: "json \<Rightarrow> bool" where
  "is_null JNull = True"
| "is_null _ = False"

fun is_object :: "json \<Rightarrow> bool" where
  "is_object (JObj _) = True"
| "is_object _ = False"

fun is_array :: "json \<Rightarrow> bool" where
  "is_array (JArr _) = True"
| "is_array _ = False"

fun is_string :: "json \<Rightarrow> bool" where
  "is_string (JStr _) = True"
| "is_string _ = False"

text \<open>\<^verbatim>\<open>empty()\<close>: null, and arrays and objects with no element.\<close>

fun json_empty :: "json \<Rightarrow> bool" where
  "json_empty JNull = True"
| "json_empty (JArr xs) = (xs = [])"
| "json_empty (JObj m) = (m = [])"
| "json_empty _ = False"

text \<open>\<^verbatim>\<open>find(k)\<close>, with \<open>None\<close> for \<^verbatim>\<open>end()\<close>, and \<^verbatim>\<open>contains(k)\<close>.\<close>

fun jfind :: "json \<Rightarrow> string \<Rightarrow> json option" where
  "jfind (JObj m) k = map_of m k"
| "jfind _ k = None"

definition jcontains :: "json \<Rightarrow> string \<Rightarrow> bool" where
  "jcontains j k = (jfind j k \<noteq> None)"

text \<open>\<^verbatim>\<open>j[k] = v\<close>: null becomes an object, anything but an object throws.\<close>

fun jset :: "string \<Rightarrow> json \<Rightarrow> json \<Rightarrow> json result" where
  "jset k v JNull = Inr (JObj [(k, v)])"
| "jset k v (JObj m) = Inr (JObj (AList.update k v m))"
| "jset k v _ = Inl TypeError"

text \<open>\<^verbatim>\<open>get<T>()\<close> for the types the sources ask for.\<close>

fun get_string :: "json \<Rightarrow> string result" where
  "get_string (JStr s) = Inr s"
| "get_string _ = Inl TypeError"

fun get_bool :: "json \<Rightarrow> bool result" where
  "get_bool (JBool b) = Inr b"
| "get_bool _ = Inl TypeError"

fun get_strings :: "json list \<Rightarrow> string list result" where
  "get_strings [] = Inr []"
| "get_strings (j # js) =
     (case get_string j of Inl e \<Rightarrow> Inl e
      | Inr s \<Rightarrow> (case get_strings js of Inl e \<Rightarrow> Inl e | Inr ss \<Rightarrow> Inr (s # ss)))"

fun get_string_vector :: "json \<Rightarrow> string list result" where
  "get_string_vector (JArr js) = get_strings js"
| "get_string_vector _ = Inl TypeError"

text \<open>
  \<^verbatim>\<open>value(k, d)\<close> with a string default: throws on a document that is not an object and on
  a member that is not a string.
\<close>

fun value_string :: "json \<Rightarrow> string \<Rightarrow> string \<Rightarrow> string result" where
  "value_string (JObj m) k d = (case map_of m k of None \<Rightarrow> Inr d | Some v \<Rightarrow> get_string v)"
| "value_string _ k d = Inl TypeError"

lemma jfind_jset [json_simps]:
  "jset k v j = Inr j' \<Longrightarrow> jfind j' k' = (if k' = k then Some v else jfind j k')"
  by (cases j) (auto simp: update_conv')

lemma jset_object [json_simps]: "jset k v j = Inr j' \<Longrightarrow> is_object j'"
  by (cases j) auto

lemma jset_ok_iff: "(\<exists>j'. jset k v j = Inr j') \<longleftrightarrow> is_null j \<or> is_object j"
  by (cases j) auto

lemma get_string_ok [json_simps]: "get_string j = Inr s \<longleftrightarrow> j = JStr s"
  by (cases j) auto

lemma get_bool_ok [json_simps]: "get_bool j = Inr b \<longleftrightarrow> j = JBool b"
  by (cases j) auto

lemma get_strings_map: "get_strings (map JStr ss) = Inr ss"
  by (induction ss) auto

lemma get_strings_ok [json_simps]: "get_strings js = Inr ss \<longleftrightarrow> js = map JStr ss"
proof
  show "get_strings js = Inr ss \<Longrightarrow> js = map JStr ss"
    by (induction js arbitrary: ss) (auto simp: json_simps split: sum.splits)
qed (simp add: get_strings_map)

lemma value_string_ok [json_simps]:
  "value_string j k d = Inr s \<longleftrightarrow>
     is_object j \<and> (case jfind j k of None \<Rightarrow> s = d | Some v \<Rightarrow> v = JStr s)"
  by (cases j) (auto simp: json_simps split: option.splits)

lemma is_object_jfind: "jfind j k = Some v \<Longrightarrow> is_object j"
  by (cases j) auto

text \<open>A run of assignments \<^verbatim>\<open>j[k] = v\<close>.\<close>

fun jset_all :: "(string \<times> json) list \<Rightarrow> json \<Rightarrow> json result" where
  "jset_all [] j = Inr j"
| "jset_all ((k, v) # kvs) j =
     (case jset k v j of Inl e \<Rightarrow> Inl e | Inr j' \<Rightarrow> jset_all kvs j')"

text \<open>Only the first assignment can throw, so a run that throws has changed nothing.\<close>

lemma jset_all_ok:
  "is_null j \<or> is_object j \<Longrightarrow> \<exists>j'. jset_all kvs j = Inr j'"
proof (induction kvs arbitrary: j)
  case (Cons kv kvs)
  obtain k v where kv: "kv = (k, v)" by force
  from Cons.prems obtain j1 where j1: "jset k v j = Inr j1"
    using jset_ok_iff by blast
  with jset_object[OF j1] Cons.IH[of j1] kv show ?case by auto
qed simp

lemma jfind_jset_all [json_simps]:
  "jset_all kvs j = Inr j' \<Longrightarrow> jfind j' k =
     (case map_of (rev kvs) k of Some v \<Rightarrow> Some v | None \<Rightarrow> jfind j k)"
proof (induction kvs arbitrary: j)
  case (Cons kv kvs)
  obtain k1 v1 where kv: "kv = (k1, v1)" by force
  with Cons.prems obtain j1 where "jset k1 v1 j = Inr j1" "jset_all kvs j1 = Inr j'"
    by (auto split: sum.splits)
  with Cons.IH[of j1] kv show ?case
    by (auto simp: jfind_jset map_add_def split: option.splits)
qed simp

lemma jset_all_object [json_simps]:
  "jset_all (kv # kvs) j = Inr j' \<Longrightarrow> is_object j'"
proof -
  have *: "is_object j1 \<Longrightarrow> jset_all kvs j1 = Inr j' \<Longrightarrow> is_object j'" for j1
    by (induction kvs arbitrary: j1) (fastforce split: sum.splits dest: jset_object)+
  show "jset_all (kv # kvs) j = Inr j' \<Longrightarrow> is_object j'"
    by (cases kv) (auto split: sum.splits dest: jset_object *)
qed

text \<open>
  \<^verbatim>\<open>for (auto it : j)\<close>: the elements of an array, the values of an object, a scalar itself.
\<close>

fun json_elems :: "json \<Rightarrow> json list" where
  "json_elems JNull = []"
| "json_elems (JArr xs) = xs"
| "json_elems (JObj m) = map snd m"
| "json_elems j = [j]"

text \<open>
  \<^verbatim>\<open>get<int>()\<close> converts numbers and booleans, with the cast to 32 bits; a float is cut to
  its integer part (the cast of one out of range is undefined in C++).
\<close>

definition trunc_float :: "int \<Rightarrow> int \<Rightarrow> int" where
  "trunc_float m e =
     (if 0 \<le> e then m * 2 ^ nat e
      else if 0 \<le> m then m div 2 ^ nat (- e) else - ((- m) div 2 ^ nat (- e)))"

definition int32 :: "int \<Rightarrow> int" where
  "int32 i = sint (word_of_int i :: 32 word)"

fun get_int :: "json \<Rightarrow> int result" where
  "get_int (JInt i) = Inr (int32 i)"
| "get_int (JBool b) = Inr (if b then 1 else 0)"
| "get_int (JFloat m e) = Inr (int32 (trunc_float m e))"
| "get_int _ = Inl TypeError"

lemma int32_id: "- (2 ^ 31) \<le> i \<Longrightarrow> i < 2 ^ 31 \<Longrightarrow> int32 i = i"
  by (simp add: int32_def signed_of_int signed_take_bit_int_eq_self)

end
