(* ===== verification/Sepp_Telescopic.thy ===== *)
theory Sepp_Telescopic
  imports Sepp_Json
begin

text \<open>
  \<^verbatim>\<open>sepp_telescopic_fqdn_mapping\<close> (src/sepp_app): the translation between the FQDN of a
  network function in a partner's network and a telescopic label, in both directions,
  for the partners of the configuration and the NF types of a fixed list.
\<close>

subsection \<open>State and model\<close>

text \<open>
  \<open>plmn_config\<close> is the pair of configuration strings of a roaming partner.
  \<open>telescopic_mapping\<close> holds the attributes of the OpenAPI model that the code sets.
\<close>

record plmn_config =
  pc_mcc :: string
  pc_mnc :: string

record telescopic_mapping =
  tm_label :: "string option"
  tm_sepp_domain :: "string option"
  tm_foreign_fqdn :: "string option"

definition empty_mapping :: telescopic_mapping where
  "empty_mapping = \<lparr>tm_label = None, tm_sepp_domain = None, tm_foreign_fqdn = None\<rparr>"

definition m_allowed_nfs :: "string list" where
  "m_allowed_nfs = [''nrf'', ''ausf'', ''smf'', ''amf'', ''udm'', ''pcf'', ''nssf'']"

definition m_sepp_domain :: string where
  "m_sepp_domain = ''sepp.5gc.mnc001.mcc001.3gppnetwork.org''"

subsection \<open>Operations\<close>

definition pad_mnc :: "string \<Rightarrow> string" where
  "pad_mnc mnc = (if length mnc = 2 then ''0'' @ mnc else mnc)"

fun is_roaming_partner :: "plmn_config list \<Rightarrow> string \<Rightarrow> bool" where
  "is_roaming_partner [] plmnId = False"
| "is_roaming_partner (p # ps) plmnId =
     (let partnerPlmnRaw = pc_mcc p @ pc_mnc p;
          partnerPlmnPadded = pc_mcc p @ pad_mnc (pc_mnc p)
      in if partnerPlmnRaw = plmnId \<or> partnerPlmnPadded = plmnId then True
         else is_roaming_partner ps plmnId)"

text \<open>
  The length of the MNC is the difference of two \<^verbatim>\<open>size_t\<close>, which wraps when \<open>.mcc\<close> stands
  in the first three characters. No \<open>substr\<close> of this function can throw.
\<close>

definition parse_fqdn :: "string \<Rightarrow> (string \<times> string) option result" where
  "parse_fqdn fqdn =
     (let suffix = ''.5gc.'' in
      case str_find suffix fqdn of
        None \<Rightarrow> Inr None
      | Some pos \<Rightarrow>
          (let nfType = take pos fqdn in
           case substr_end fqdn (pos + length suffix) of
             Inl e \<Rightarrow> Inl e
           | Inr remaining \<Rightarrow>
               (let mncPrefix = ''mnc''; mccPrefix = ''.mcc'' in
                case str_find mccPrefix remaining of
                  None \<Rightarrow> Inr None
                | Some mccPos \<Rightarrow>
                    (case substr remaining (length mncPrefix)
                            (size_minus mccPos (length mncPrefix)) of
                       Inl e \<Rightarrow> Inl e
                     | Inr mnc \<Rightarrow>
                         (case substr_end remaining (mccPos + length mccPrefix) of
                            Inl e \<Rightarrow> Inl e
                          | Inr mccStart \<Rightarrow>
                              (let mccSuffix = ''.3gppnetwork.org'' in
                               if length mccStart \<le> length mccSuffix \<or>
                                  drop (length mccStart - length mccSuffix) mccStart \<noteq> mccSuffix
                               then Inr None
                               else
                                 (let mcc = take (length mccStart - length mccSuffix) mccStart
                                  in Inr (Some (nfType, mcc @ mnc)))))))))"

definition generate_telescopic_label :: "string \<Rightarrow> string \<Rightarrow> string" where
  "generate_telescopic_label nfType plmnId = nfType @ ''plmn'' @ plmnId"

text \<open>
  The handlers return whether they found a mapping, and the model they were given with
  what they set in it. The validation of the model is only logged.
\<close>

definition fqdn_to_mapping ::
  "plmn_config list \<Rightarrow> string \<Rightarrow> telescopic_mapping \<Rightarrow> (bool \<times> telescopic_mapping) result" where
  "fqdn_to_mapping partners foreignFqdn mm =
     (case parse_fqdn foreignFqdn of
        Inl e \<Rightarrow> Inl e
      | Inr None \<Rightarrow> Inr (False, mm)
      | Inr (Some (nfType, plmnId)) \<Rightarrow>
          if nfType \<notin> set m_allowed_nfs then Inr (False, mm)
          else if \<not> is_roaming_partner partners plmnId then Inr (False, mm)
          else Inr (True, mm\<lparr>tm_label := Some (generate_telescopic_label nfType plmnId),
                            tm_sepp_domain := Some m_sepp_domain\<rparr>))"

definition mapping_to_fqdn ::
  "plmn_config list \<Rightarrow> string \<Rightarrow> telescopic_mapping \<Rightarrow> (bool \<times> telescopic_mapping) result" where
  "mapping_to_fqdn partners telescopicLabel mm =
     (let keyword = ''plmn'' in
      case str_find keyword telescopicLabel of
        None \<Rightarrow> Inr (False, mm)
      | Some pos \<Rightarrow>
          (let nfType = take pos telescopicLabel;
               plmnId = drop (pos + length keyword) telescopicLabel
           in if nfType \<in> set m_allowed_nfs \<and> is_roaming_partner partners plmnId then
                (let mcc = take 3 plmnId in
                 case substr_end plmnId 3 of
                   Inl e \<Rightarrow> Inl e
                 | Inr mnc0 \<Rightarrow>
                     (let mnc = (if length mnc0 = 2 then ''0'' @ mnc0 else mnc0);
                          resolvedFqdn = nfType @ ''.5gc.mnc'' @ mnc @ ''.mcc'' @ mcc @
                                         ''.3gppnetwork.org''
                      in Inr (True, mm\<lparr>tm_foreign_fqdn := Some resolvedFqdn,
                                      tm_label := Some telescopicLabel,
                                      tm_sepp_domain := Some m_sepp_domain\<rparr>)))
              else Inr (False, mm)))"

definition get_telescopic_mapping ::
  "plmn_config list \<Rightarrow> string \<Rightarrow> string \<Rightarrow> telescopic_mapping \<Rightarrow>
     (bool \<times> telescopic_mapping) result" where
  "get_telescopic_mapping partners foreignFqdn telescopicLabel mm =
     (if foreignFqdn \<noteq> [] \<and> telescopicLabel = [] then fqdn_to_mapping partners foreignFqdn mm
      else if foreignFqdn = [] \<and> telescopicLabel \<noteq> [] then
        mapping_to_fqdn partners telescopicLabel mm
      else Inr (False, mm))"

text \<open>The overload that returns the model as text; \<open>dump\<close> is \<^verbatim>\<open>to_json\<close> and \<^verbatim>\<open>dump\<close>.\<close>

definition get_telescopic_mapping_text ::
  "(telescopic_mapping \<Rightarrow> string) \<Rightarrow> plmn_config list \<Rightarrow> string \<Rightarrow> string \<Rightarrow> string \<Rightarrow>
     (bool \<times> string) result" where
  "get_telescopic_mapping_text dump partners foreignFqdn telescopicLabel out =
     (case get_telescopic_mapping partners foreignFqdn telescopicLabel empty_mapping of
        Inl e \<Rightarrow> Inl e
      | Inr (False, _) \<Rightarrow> Inr (False, out)
      | Inr (True, mm) \<Rightarrow> Inr (True, dump mm))"

subsection \<open>The names of network functions\<close>

text \<open>
  \<open>nf_fqdn nf mnc mcc\<close> is the shape of the FQDNs the code builds; \<open>plmn_matches\<close> is what
  \<open>is_roaming_partner\<close> decides.
\<close>

definition nf_fqdn :: "string \<Rightarrow> string \<Rightarrow> string \<Rightarrow> string" where
  "nf_fqdn nf mnc mcc = nf @ ''.5gc.mnc'' @ mnc @ ''.mcc'' @ mcc @ ''.3gppnetwork.org''"

definition plmn_matches :: "plmn_config \<Rightarrow> string \<Rightarrow> bool" where
  "plmn_matches p plmnId \<longleftrightarrow>
     plmnId = pc_mcc p @ pc_mnc p \<or> plmnId = pc_mcc p @ pad_mnc (pc_mnc p)"

definition digits :: "string \<Rightarrow> bool" where
  "digits s \<longleftrightarrow> set s \<subseteq> set ''0123456789''"

lemma digits_no_dot [simp]: "digits s \<Longrightarrow> CHR ''.'' \<notin> set s"
  by (auto simp: digits_def)

lemma digits_append [simp]: "digits (a @ b) \<longleftrightarrow> digits a \<and> digits b"
  by (auto simp: digits_def)

lemma is_roaming_partner_iff:
  "is_roaming_partner ps plmnId \<longleftrightarrow> (\<exists>p\<in>set ps. plmn_matches p plmnId)"
  by (induction ps) (auto simp: plmn_matches_def Let_def)

lemma allowed_nf_no_dot: "nf \<in> set m_allowed_nfs \<Longrightarrow> CHR ''.'' \<notin> set nf"
  by (auto simp: m_allowed_nfs_def)

lemma allowed_nf_no_plmn: "nf \<in> set m_allowed_nfs \<Longrightarrow> str_find ''plmn'' (nf @ ''plmn'' @ s) = Some (length nf)"
  by (auto simp: m_allowed_nfs_def)

subsection \<open>parse_fqdn\<close>

lemma parse_fqdn_lengths:
  "length ''.5gc.'' = 5" "length ''mnc'' = 3" "length ''.mcc'' = 4"
  "length ''.3gppnetwork.org'' = 16"
  by simp_all

lemma parse_nf_fqdn:
  assumes "CHR ''.'' \<notin> set nf" and "digits mnc" and "mcc \<noteq> []" and "length mnc < 2 ^ 60"
  shows "parse_fqdn (nf_fqdn nf mnc mcc) = Inr (Some (nf, mcc @ mnc))"
proof -
  let ?tail = "mcc @ ''.3gppnetwork.org''"
  let ?rem = "(''mnc'' @ mnc) @ ''.mcc'' @ ?tail"
  have f: "nf_fqdn nf mnc mcc = nf @ ''.5gc.'' @ ?rem"
    by (simp add: nf_fqdn_def)
  have 1: "str_find ''.5gc.'' (nf @ ''.5gc.'' @ ?rem) = Some (length nf)"
    using assms by (intro str_find_append) auto
  have 2: "str_find ''.mcc'' ?rem = Some (length mnc + 3)"
    using assms by (subst str_find_append) auto
  have 3: "size_minus (length mnc + 3) 3 = length mnc"
    using assms by (subst size_minus_le) auto
  have 4: "drop (length nf + 5) (nf @ ''.5gc.'' @ ?rem) = ?rem"
    by simp
  have 5: "take (length mnc) (drop 3 ?rem) = mnc" and 6: "drop (length mnc + 3 + 4) ?rem = ?tail"
    and 7: "3 \<le> length ?rem" and 8: "length mnc + 3 + 4 \<le> length ?rem"
    and 9: "length nf + 5 \<le> length (nf @ ''.5gc.'' @ ?rem)"
    by (simp_all add: eval_nat_numeral)
  have 10: "substr_end (nf @ ''.5gc.'' @ ?rem) (length nf + 5) = Inr ?rem"
    and 11: "substr ?rem 3 (length mnc) = Inr mnc"
    and 12: "substr_end ?rem (length mnc + 3 + 4) = Inr ?tail"
    unfolding substr_end_ok[OF 9] substr_ok[OF 7] substr_end_ok[OF 8] 4 5 6 by simp_all
  show ?thesis
    unfolding f parse_fqdn_def Let_def 1 parse_fqdn_lengths
    by (simp only: option.case 10 sum.case 2 3 11 12) (use assms(3) in simp)
qed

text \<open>No start position the function computes is past the end of its string.\<close>

lemma parse_fqdn_no_throw: "\<exists>r. parse_fqdn f = Inr r"
proof -
  { fix pos m
    assume 1: "str_find ''.5gc.'' f = Some pos"
      and 2: "str_find ''.mcc'' (drop (pos + 5) f) = Some m"
    have "pos + 5 \<le> length f" using str_find_Some_bound[OF 1] by simp
    moreover have "m + 4 \<le> length (drop (pos + 5) f)" using str_find_Some_bound[OF 2] by simp
    ultimately have "pos + 5 \<le> length f \<and> m + 4 \<le> length f - (pos + 5)" by simp
  }
  note bounds = this
  { fix pos assume "str_find ''.5gc.'' f = Some pos"
    then have "pos + 5 \<le> length f" using str_find_Some_bound by fastforce
  }
  with bounds show ?thesis
    unfolding parse_fqdn_def Let_def parse_fqdn_lengths substr_def substr_end_def
    by (fastforce split: option.splits simp del: length_drop simp add: length_drop)
qed

subsection \<open>Mapping in both directions\<close>

lemma fqdn_to_mapping_nf_fqdn:
  assumes "CHR ''.'' \<notin> set nf" and "digits mnc" and "mcc \<noteq> []" and "length mnc < 2 ^ 60"
  shows "fqdn_to_mapping partners (nf_fqdn nf mnc mcc) mm =
     Inr (if nf \<in> set m_allowed_nfs \<and> (\<exists>p\<in>set partners. plmn_matches p (mcc @ mnc))
          then (True, mm\<lparr>tm_label := Some (nf @ ''plmn'' @ mcc @ mnc),
                         tm_sepp_domain := Some m_sepp_domain\<rparr>)
          else (False, mm))"
  by (simp add: fqdn_to_mapping_def parse_nf_fqdn[OF assms] is_roaming_partner_iff
      generate_telescopic_label_def)

lemma mapping_to_fqdn_label:
  assumes "nf \<in> set m_allowed_nfs" and "p \<in> set partners" and "plmn_matches p (mcc @ mnc)"
    and "length mcc = 3"
  shows "mapping_to_fqdn partners (nf @ ''plmn'' @ mcc @ mnc) mm =
     Inr (True, mm\<lparr>tm_foreign_fqdn := Some (nf_fqdn nf (pad_mnc mnc) mcc),
                   tm_label := Some (nf @ ''plmn'' @ mcc @ mnc),
                   tm_sepp_domain := Some m_sepp_domain\<rparr>)"
proof -
  have r: "is_roaming_partner partners (mcc @ mnc)"
    using assms is_roaming_partner_iff by blast
  have d: "drop (length nf + length ''plmn'') (nf @ ''plmn'' @ mcc @ mnc) = mcc @ mnc"
    by simp
  have 3: "take 3 (mcc @ mnc) = mcc" "substr_end (mcc @ mnc) 3 = Inr mnc"
    using assms(4) by (simp_all add: substr_end_def)
  show ?thesis
    unfolding mapping_to_fqdn_def Let_def allowed_nf_no_plmn[OF assms(1)]
    by (simp only: option.case d 3 sum.case)
      (simp add: assms(1) r nf_fqdn_def pad_mnc_def)
qed

text \<open>
  C22: the mapping service only answers for NF types of its list and PLMNs of configured
  roaming partners, and the label it hands out is the NF type followed by that PLMN.
\<close>

theorem telescopic_only_partners:
  assumes "get_telescopic_mapping partners fqdn label mm = Inr (True, mm')"
  shows "\<exists>nf plmn. nf \<in> set m_allowed_nfs \<and> (\<exists>p\<in>set partners. plmn_matches p plmn) \<and>
     tm_label mm' = Some (nf @ ''plmn'' @ plmn) \<and> tm_sepp_domain mm' = Some m_sepp_domain"
proof (cases "fqdn = []")
  case False
  with assms have "label = []" and "fqdn_to_mapping partners fqdn mm = Inr (True, mm')"
    by (auto simp: get_telescopic_mapping_def split: if_splits)
  then obtain nf plmn where "nf \<in> set m_allowed_nfs" and "\<exists>p\<in>set partners. plmn_matches p plmn"
    and "mm' = mm\<lparr>tm_label := Some (nf @ ''plmn'' @ plmn), tm_sepp_domain := Some m_sepp_domain\<rparr>"
    by (auto simp: fqdn_to_mapping_def generate_telescopic_label_def is_roaming_partner_iff
        split: sum.splits option.splits if_splits)
  then show ?thesis by (intro exI[of _ nf] exI[of _ plmn]) simp
next
  case True
  with assms have m: "mapping_to_fqdn partners label mm = Inr (True, mm')"
    by (auto simp: get_telescopic_mapping_def split: if_splits)
  then obtain pos where pos: "str_find ''plmn'' label = Some pos"
    by (cases "str_find ''plmn'' label") (auto simp: mapping_to_fqdn_def)
  define nf plmn where "nf = take pos label" and "plmn = drop (pos + length ''plmn'') label"
  have split: "label = nf @ ''plmn'' @ plmn"
    using str_find_split[OF pos] by (simp add: nf_def plmn_def)
  have "nf \<in> set m_allowed_nfs \<and> is_roaming_partner partners plmn \<and>
      tm_label mm' = Some label \<and> tm_sepp_domain mm' = Some m_sepp_domain"
    using m unfolding mapping_to_fqdn_def Let_def pos option.case nf_def[symmetric] plmn_def[symmetric]
    by (auto split: if_splits sum.splits)
  with split show ?thesis by (auto simp: is_roaming_partner_iff)
qed

theorem telescopic_only_partners_witness:
  "\<exists>mm' nf plmn.
     get_telescopic_mapping [\<lparr>pc_mcc = ''262'', pc_mnc = ''10''\<rparr>]
       ''smf.5gc.mnc10.mcc262.3gppnetwork.org'' [] empty_mapping = Inr (True, mm') \<and>
     tm_label mm' = Some (nf @ ''plmn'' @ plmn) \<and> nf \<in> set m_allowed_nfs"
proof -
  let ?mm = "empty_mapping\<lparr>tm_label := Some ''smfplmn26210'', tm_sepp_domain := Some m_sepp_domain\<rparr>"
  have "get_telescopic_mapping [\<lparr>pc_mcc = ''262'', pc_mnc = ''10''\<rparr>]
       ''smf.5gc.mnc10.mcc262.3gppnetwork.org'' [] empty_mapping = Inr (True, ?mm)"
    by code_simp
  with telescopic_only_partners[OF this] show ?thesis by blast
qed

text \<open>
  C23: an FQDN of an allowed NF in a partner's network is mapped to a label, and that label
  is mapped back to the FQDN, with a two-digit MNC written with three digits.
\<close>

theorem telescopic_roundtrip:
  assumes "nf \<in> set m_allowed_nfs" and "p \<in> set partners" and "plmn_matches p (mcc @ mnc)"
    and "length mcc = 3" and "digits mnc" and "length mnc \<le> 3"
  shows "\<exists>mm' mm'' label.
     get_telescopic_mapping partners (nf_fqdn nf mnc mcc) [] mm = Inr (True, mm') \<and>
     tm_label mm' = Some label \<and>
     get_telescopic_mapping partners [] label mm = Inr (True, mm'') \<and>
     tm_foreign_fqdn mm'' = Some (nf_fqdn nf (pad_mnc mnc) mcc)"
proof -
  have dot: "CHR ''.'' \<notin> set nf" by (rule allowed_nf_no_dot[OF assms(1)])
  have ne: "mcc \<noteq> []" "length mnc < 2 ^ 60" "nf_fqdn nf mnc mcc \<noteq> []"
    using assms by (auto simp: nf_fqdn_def)
  show ?thesis
    using assms fqdn_to_mapping_nf_fqdn[OF dot assms(5) ne(1,2), of partners mm] ne(3)
      mapping_to_fqdn_label[OF assms(1,2,3,4), of mm]
    by (auto simp: get_telescopic_mapping_def)
qed

theorem telescopic_roundtrip_witness:
  "\<exists>mm' mm'' label.
     get_telescopic_mapping [\<lparr>pc_mcc = ''262'', pc_mnc = ''10''\<rparr>] (nf_fqdn ''smf'' ''10'' ''262'') []
       empty_mapping = Inr (True, mm') \<and>
     tm_label mm' = Some label \<and>
     get_telescopic_mapping [\<lparr>pc_mcc = ''262'', pc_mnc = ''10''\<rparr>] [] label empty_mapping =
       Inr (True, mm'') \<and>
     tm_foreign_fqdn mm'' = Some (nf_fqdn ''smf'' ''010'' ''262'')"
  using telescopic_roundtrip[of "''smf''" "\<lparr>pc_mcc = ''262'', pc_mnc = ''10''\<rparr>"
      "[\<lparr>pc_mcc = ''262'', pc_mnc = ''10''\<rparr>]" "''262''" "''10''" empty_mapping]
  by (simp add: m_allowed_nfs_def plmn_matches_def digits_def pad_mnc_def)

text \<open>
  The service never throws when every configured MCC has at least three characters;
  the only exception is the cut of the MCC off a shorter PLMN.
\<close>

theorem telescopic_no_exception:
  assumes "\<And>p. p \<in> set partners \<Longrightarrow> 3 \<le> length (pc_mcc p)"
  shows "\<exists>b mm'. get_telescopic_mapping partners fqdn label mm = Inr (b, mm')"
proof -
  have "\<exists>b mm'. fqdn_to_mapping partners fqdn mm = Inr (b, mm')"
    using parse_fqdn_no_throw[of fqdn] by (auto simp: fqdn_to_mapping_def split: option.splits)
  moreover have len: "3 \<le> length plmn" if "is_roaming_partner partners plmn" for plmn
    using that assms by (force simp: is_roaming_partner_iff plmn_matches_def)
  have "\<exists>b mm'. mapping_to_fqdn partners label mm = Inr (b, mm')"
    unfolding mapping_to_fqdn_def Let_def substr_end_def
    using len by (fastforce split: option.splits simp del: length_drop)
  ultimately show ?thesis by (auto simp: get_telescopic_mapping_def)
qed

theorem telescopic_no_exception_witness:
  "\<exists>b mm'. get_telescopic_mapping [\<lparr>pc_mcc = ''262'', pc_mnc = ''10''\<rparr>] [] ''smfplmn''
     empty_mapping = Inr (b, mm')"
  by (rule telescopic_no_exception) simp

end
