(* ===== verification/Sepp_Decimal.thy ===== *)
theory Sepp_Decimal
  imports Sepp_Prelude
begin

text \<open>
  Decimal numbers of the C++ standard library: \<^verbatim>\<open>std::to_string\<close> and \<^verbatim>\<open>std::stoi\<close>, and the
  white space of the classic locale, with the round trip the components rely on.
\<close>

definition is_space :: "char \<Rightarrow> bool" where
  "is_space c \<longleftrightarrow> c = CHR '' '' \<or> c = CHR 0x09 \<or> c = CHR 0x0A \<or> c = CHR 0x0B \<or> c = CHR 0x0C \<or>
     c = CHR 0x0D"

definition digit_char :: "nat \<Rightarrow> char" where
  "digit_char d = ''0123456789'' ! d"

definition digit_value :: "char \<Rightarrow> nat option" where
  "digit_value c =
     (let n = of_char c :: nat in if 48 \<le> n \<and> n \<le> 57 then Some (n - 48) else None)"

definition is_digit :: "char \<Rightarrow> bool" where
  "is_digit c \<longleftrightarrow> digit_value c \<noteq> None"

fun nat_str :: "nat \<Rightarrow> string" where
  "nat_str n = (if n < 10 then [digit_char n] else nat_str (n div 10) @ [digit_char (n mod 10)])"

declare nat_str.simps [simp del]

definition to_string :: "int \<Rightarrow> string" where
  "to_string i = (if i < 0 then CHR ''-'' # nat_str (nat (- i)) else nat_str (nat i))"

fun str_nat :: "nat \<Rightarrow> string \<Rightarrow> nat" where
  "str_nat acc [] = acc"
| "str_nat acc (c # cs) = str_nat (acc * 10 + the (digit_value c)) cs"

text \<open>
  \<^verbatim>\<open>std::stoi\<close>: white space, a sign, and the longest run of digits; what follows is
  ignored. No digit is \<^verbatim>\<open>std::invalid_argument\<close>, a value that is not an \<^verbatim>\<open>int\<close> is
  \<^verbatim>\<open>std::out_of_range\<close>.
\<close>

definition stoi :: "string \<Rightarrow> int result" where
  "stoi s =
     (let t = dropWhile is_space s;
          neg = (case t of c # cs \<Rightarrow> c = CHR ''-'' | [] \<Rightarrow> False);
          u = (case t of c # cs \<Rightarrow> if c = CHR ''-'' \<or> c = CHR ''+'' then cs else t | [] \<Rightarrow> t);
          ds = takeWhile is_digit u;
          v = (if neg then - int (str_nat 0 ds) else int (str_nat 0 ds))
      in if ds = [] then Inl InvalidArgument
         else if v < - (2 ^ 31) \<or> v \<ge> 2 ^ 31 then Inl OutOfRange
         else Inr v)"

lemma digit_char_value: "d < 10 \<Longrightarrow> digit_value (digit_char d) = Some d"
proof -
  have "list_all (\<lambda>d. digit_value (digit_char d) = Some d) [0..<10]" by code_simp
  then show "d < 10 \<Longrightarrow> digit_value (digit_char d) = Some d" by (simp add: list_all_iff)
qed

lemma digit_char_plain:
  "d < 10 \<Longrightarrow> \<not> is_space (digit_char d) \<and> is_digit (digit_char d) \<and>
     digit_char d \<noteq> CHR ''-'' \<and> digit_char d \<noteq> CHR ''+'' \<and> digit_char d \<noteq> CHR '':''"
proof -
  have "list_all (\<lambda>d. \<not> is_space (digit_char d) \<and> is_digit (digit_char d) \<and>
     digit_char d \<noteq> CHR ''-'' \<and> digit_char d \<noteq> CHR ''+'' \<and> digit_char d \<noteq> CHR '':'') [0..<10]"
    by code_simp
  then show "d < 10 \<Longrightarrow> ?thesis" by (simp add: list_all_iff)
qed

lemma nat_str_set: "c \<in> set (nat_str n) \<Longrightarrow> \<exists>d < 10. c = digit_char d"
proof (induction n rule: nat_str.induct)
  case (1 n)
  show ?case
  proof (cases "n < 10")
    case True
    with 1 show ?thesis by (auto simp: nat_str.simps[of n])
  next
    case False
    with 1 have "c \<in> set (nat_str (n div 10)) \<or> c = digit_char (n mod 10)"
      by (auto simp: nat_str.simps[of n])
    moreover have "n mod 10 < 10" by simp
    ultimately show ?thesis using 1 False by blast
  qed
qed

lemma nat_str_ne [simp]: "nat_str n \<noteq> []"
  by (subst nat_str.simps) simp

lemma nat_str_plain:
  assumes "c \<in> set (nat_str n)"
  shows "\<not> is_space c \<and> is_digit c \<and> c \<noteq> CHR ''-'' \<and> c \<noteq> CHR ''+'' \<and> c \<noteq> CHR '':''"
proof -
  from nat_str_set[OF assms] obtain d where "d < 10" "c = digit_char d" by blast
  with digit_char_plain[of d] show ?thesis by simp
qed

lemma str_nat_append: "str_nat acc (xs @ [c]) = str_nat acc xs * 10 + the (digit_value c)"
  by (induction xs arbitrary: acc) auto

lemma str_nat_nat_str: "str_nat 0 (nat_str n) = n"
proof (induction n rule: nat_str.induct)
  case (1 n)
  show ?case
  proof (cases "n < 10")
    case True
    then show ?thesis by (subst nat_str.simps) (simp add: digit_char_value)
  next
    case False
    with 1 show ?thesis
      by (subst nat_str.simps) (simp add: str_nat_append digit_char_value)
  qed
qed

lemma to_string_plain: "c \<in> set (to_string i) \<Longrightarrow> \<not> is_space c"
  using nat_str_plain by (auto simp: to_string_def is_space_def split: if_splits)

lemma to_string_ne [simp]: "to_string i \<noteq> []"
  by (simp add: to_string_def)

lemma stoi_to_string:
  assumes "0 \<le> i" and "i < 2 ^ 31"
  shows "stoi (to_string i) = Inr i"
proof -
  let ?s = "nat_str (nat i)"
  obtain c cs where s: "?s = c # cs" by (cases ?s) auto
  have plain: "\<not> is_space c" "c \<noteq> CHR ''-''" "c \<noteq> CHR ''+''"
    using nat_str_plain[of c "nat i"] s by auto
  have "takeWhile is_digit ?s = ?s"
    using nat_str_plain by (intro takeWhile_eq_all_conv[THEN iffD2]) blast
  then show ?thesis
    using assms plain s str_nat_nat_str[of "nat i"] by (simp add: stoi_def to_string_def)
qed

end
