(* ===== verification/Sepp_Base64.thy ===== *)
theory Sepp_Base64
  imports Sepp_Prelude
begin

text \<open>
  The interface of a base64 codec, and RFC 4648 as its instance. The sources call OpenSSL's
  base64 BIO, which is not part of the repository: the definitions of Sepp\_Jose take it as
  a parameter, and \<open>base64_codec\<close> is what they rely on. \<open>rfc4648_encode\<close> and
  \<open>rfc4648_decode\<close> are the codec the BIO implements; they interpret the locale, so every
  fact proved inside it holds of them, and the witnesses run on them.
\<close>

definition b64_alphabet :: string where
  "b64_alphabet = ''ABCDEFGHIJKLMNOPQRSTUVWXYZabcdefghijklmnopqrstuvwxyz0123456789+/''"

text \<open>
  The sizes reach OpenSSL as \<^verbatim>\<open>int\<close>. \<open>b64_small\<close> is the size up to which the encoded text
  still fits one.
\<close>

definition b64_small :: "string \<Rightarrow> bool" where
  "b64_small s \<longleftrightarrow> 4 * ((length s + 2) div 3) < 2 ^ 31"

lemma pad_count: "k < 4 \<Longrightarrow> (n + k) mod 4 = 0 \<Longrightarrow>
    k = (4 - n mod 4) mod (4 :: nat)"
proof -
  assume k: "k < 4" and m: "(n + k) mod 4 = 0"
  have "(n mod 4 + k) mod 4 = 0" using m by (simp add: mod_add_left_eq)
  moreover have "n mod 4 \<in> {0, 1, 2, 3}" using mod_less_divisor[of 4 n] by auto
  moreover have "k \<in> {0, 1, 2, 3}" using k by auto
  ultimately show ?thesis by auto presburger+
qed

locale base64_codec =
  fixes enc :: "string \<Rightarrow> string"
    and dec :: "string \<Rightarrow> string option"
  assumes enc_shape: "b64_small s \<Longrightarrow>
      \<exists>body k. enc s = body @ replicate k CHR ''='' \<and> k < 4 \<and> set body \<subseteq> set b64_alphabet"
    and enc_length: "b64_small s \<Longrightarrow> length (enc s) = 4 * ((length s + 2) div 3)"
    and dec_enc: "b64_small s \<Longrightarrow> s \<noteq> [] \<Longrightarrow> dec (enc s) = Some s"
    and dec_Nil: "dec [] = None \<or> dec [] = Some []"
begin

lemma enc_Nil: "enc [] = []"
  using enc_length[of "[]"] by (simp add: b64_small_def)

lemma dec_enc_value: "b64_small s \<Longrightarrow> (case dec (enc s) of None \<Rightarrow> [] | Some r \<Rightarrow> r) = s"
proof (cases "s = []")
  case True
  then show ?thesis using dec_Nil enc_Nil by (elim disjE) simp_all
next
  case False
  assume "b64_small s"
  with False show ?thesis by (simp add: dec_enc)
qed

text \<open>The body and the padding of the encoded text: the padding completes the last group.\<close>

lemma enc_body:
  assumes "b64_small s"
  obtains body where "enc s = body @ replicate ((4 - length body mod 4) mod 4) CHR ''=''"
    and "set body \<subseteq> set b64_alphabet"
proof -
  from enc_shape[OF assms] obtain body k where
    e: "enc s = body @ replicate k CHR ''=''" and k: "k < 4" and b: "set body \<subseteq> set b64_alphabet"
    by blast
  have "(length body + k) mod 4 = 0"
  proof -
    have "length body + k = 4 * ((length s + 2) div 3)"
      using enc_length[OF assms] e by simp
    then show ?thesis by simp
  qed
  from k this have "k = (4 - length body mod 4) mod 4" by (rule pad_count)
  with e b that show thesis by blast
qed

end

subsection \<open>RFC 4648\<close>

definition b64_char :: "nat \<Rightarrow> char" where
  "b64_char n = b64_alphabet ! n"

fun index_of :: "char \<Rightarrow> string \<Rightarrow> nat option" where
  "index_of c [] = None"
| "index_of c (d # ds) = (if c = d then Some 0 else map_option Suc (index_of c ds))"

definition b64_value :: "char \<Rightarrow> nat option" where
  "b64_value c = index_of c b64_alphabet"

fun rfc4648_encode :: "string \<Rightarrow> string" where
  "rfc4648_encode [] = []"
| "rfc4648_encode [a] =
     (let n = of_char a :: nat in
      [b64_char (n div 4), b64_char (n mod 4 * 16), CHR ''='', CHR ''=''])"
| "rfc4648_encode [a, b] =
     (let n = of_char a :: nat; m = of_char b :: nat in
      [b64_char (n div 4), b64_char (n mod 4 * 16 + m div 16), b64_char (m mod 16 * 4), CHR ''=''])"
| "rfc4648_encode (a # b # c # s) =
     (let n = of_char a :: nat; m = of_char b :: nat; k = of_char c :: nat in
      b64_char (n div 4) # b64_char (n mod 4 * 16 + m div 16) #
      b64_char (m mod 16 * 4 + k div 64) # b64_char (k mod 64) # rfc4648_encode s)"

fun rfc4648_decode :: "string \<Rightarrow> string option" where
  "rfc4648_decode [] = Some []"
| "rfc4648_decode (w # x # y # z # s) =
     (case (b64_value w, b64_value x) of
        (Some i, Some j) \<Rightarrow>
          (case b64_value y of
             None \<Rightarrow> if y = CHR ''='' \<and> z = CHR ''='' \<and> s = []
                     then Some [char_of (i * 4 + j div 16)] else None
           | Some k \<Rightarrow>
               (case b64_value z of
                  None \<Rightarrow> if z = CHR ''='' \<and> s = []
                          then Some [char_of (i * 4 + j div 16), char_of (j mod 16 * 16 + k div 4)]
                          else None
                | Some l \<Rightarrow>
                    map_option (\<lambda>r. char_of (i * 4 + j div 16) #
                        char_of (j mod 16 * 16 + k div 4) # char_of (k mod 4 * 64 + l) # r)
                      (rfc4648_decode s)))
      | _ \<Rightarrow> None)"
| "rfc4648_decode _ = None"

lemma b64_value_char: "n < 64 \<Longrightarrow> b64_value (b64_char n) = Some n"
proof -
  have "list_all (\<lambda>n. b64_value (b64_char n) = Some n) [0..<64]" by code_simp
  then show "n < 64 \<Longrightarrow> b64_value (b64_char n) = Some n" by (simp add: list_all_iff)
qed

lemma b64_value_pad [simp]: "b64_value CHR ''='' = None"
  by code_simp

lemma b64_char_alphabet: "n < 64 \<Longrightarrow> b64_char n \<in> set b64_alphabet"
proof -
  have "length b64_alphabet = 64" by (simp add: b64_alphabet_def)
  then show "n < 64 \<Longrightarrow> b64_char n \<in> set b64_alphabet" by (simp add: b64_char_def)
qed

lemma byte_bound [simp]: "(of_char c :: nat) < 256"
  by (rule nat_of_char_less_256)

lemma byte_div4 [simp]: "(of_char c :: nat) div 4 < 64"
  using byte_bound[of c] by linarith

lemma sextet2 [simp]: "(of_char a :: nat) mod 4 * 16 + (of_char b :: nat) div 16 < 64"
proof -
  have "(of_char a :: nat) mod 4 < 4" "(of_char b :: nat) div 16 < 16"
    using byte_bound[of b] by linarith+
  then show ?thesis by linarith
qed

lemma sextet3 [simp]: "(of_char a :: nat) mod 16 * 4 + (of_char b :: nat) div 64 < 64"
proof -
  have "(of_char a :: nat) mod 16 < 16" "(of_char b :: nat) div 64 < 4"
    using byte_bound[of b] by linarith+
  then show ?thesis by linarith
qed

lemma sextet_ends [simp]:
  "(of_char a :: nat) mod 4 * 16 < 64" "(of_char a :: nat) mod 16 * 4 < 64"
  "(of_char a :: nat) mod 64 < 64"
proof -
  have "(of_char a :: nat) mod 4 < 4" "(of_char a :: nat) mod 16 < 16" by simp_all
  then show "(of_char a :: nat) mod 4 * 16 < 64" "(of_char a :: nat) mod 16 * 4 < 64"
    by linarith+
qed simp

text \<open>Unpacking what was packed in base \<open>n\<close>.\<close>

lemma pack_div [simp]: "r < n \<Longrightarrow> (q * n + r) div n = (q :: nat)"
  by simp

lemma pack_mod [simp]: "r < n \<Longrightarrow> (q * n + r) mod n = (r :: nat)"
  by simp

lemma byte_high [simp]: "(of_char c :: nat) div 16 < 16" "(of_char c :: nat) div 64 < 4"
  using byte_bound[of c] by linarith+

lemma unpack1: "(of_char a :: nat) div 4 * 4 + (of_char a mod 4 * 16 + (of_char b :: nat) div 16) div 16 = of_char a"
  by (subst pack_div) simp_all

lemma unpack2:
  "(q * 16 + (of_char b :: nat) div 16) mod 16 * 16 + (of_char b mod 16 * 4 + (of_char c :: nat) div 64) div 4
    = of_char b"
  by (subst pack_mod, simp, subst pack_div) simp_all

lemma unpack3: "(q * 4 + (of_char c :: nat) div 64) mod 4 * 64 + of_char c mod 64 = (of_char c :: nat)"
  by (subst pack_mod) simp_all

lemma rfc4648_enc_length: "length (rfc4648_encode s) = 4 * ((length s + 2) div 3)"
proof (induction s rule: rfc4648_encode.induct)
  case (4 a b c s)
  have "(5 + length s) div 3 = Suc ((2 + length s) div 3)" by linarith
  with 4 show ?case by (simp add: Let_def)
qed (simp_all add: Let_def)

lemma rfc4648_enc_shape:
  "\<exists>body k. rfc4648_encode s = body @ replicate k CHR ''='' \<and> k < 4 \<and> set body \<subseteq> set b64_alphabet"
proof (induction s rule: rfc4648_encode.induct)
  case 1
  show ?case by (intro exI[of _ "[]"] exI[of _ 0]) simp
next
  case (2 a)
  show ?case
    by (intro exI[of _ "[b64_char (of_char a div 4), b64_char (of_char a mod 4 * 16)]"]
        exI[of _ "Suc (Suc 0)"]) (simp add: Let_def b64_char_alphabet)
next
  case (3 a b)
  show ?case
    by (intro exI[of _ "[b64_char (of_char a div 4), b64_char (of_char a mod 4 * 16 + of_char b div 16),
          b64_char (of_char b mod 16 * 4)]"] exI[of _ "Suc 0"]) (simp add: Let_def b64_char_alphabet)
next
  case (4 a b c s)
  then obtain body k where "rfc4648_encode s = body @ replicate k CHR ''=''" "k < 4"
    "set body \<subseteq> set b64_alphabet" by blast
  then show ?case
    by (intro exI[of _ "[b64_char (of_char a div 4), b64_char (of_char a mod 4 * 16 + of_char b div 16),
          b64_char (of_char b mod 16 * 4 + of_char c div 64), b64_char (of_char c mod 64)] @ body"]
        exI[of _ k]) (simp add: Let_def b64_char_alphabet)
qed

lemma rfc4648_dec_enc: "rfc4648_decode (rfc4648_encode s) = Some s"
proof (induction s rule: rfc4648_encode.induct)
  case (2 a)
  show ?case using unpack1[of a "CHR 0x00"] by (simp add: Let_def b64_value_char)
next
  case (3 a b)
  show ?case
    using unpack1[of a b] unpack2[of "of_char a mod 4" b "CHR 0x00"]
    by (simp add: Let_def b64_value_char)
next
  case (4 a b c s)
  then show ?case
    using unpack1[of a b] unpack2[of "of_char a mod 4" b c] unpack3[of "of_char b mod 16" c]
    by (simp add: Let_def b64_value_char)
qed simp

interpretation rfc4648: base64_codec rfc4648_encode rfc4648_decode
  by unfold_locales (simp_all add: rfc4648_enc_shape rfc4648_enc_length rfc4648_dec_enc)

end
