(* ===== verification/Sepp_Jose.thy ===== *)
theory Sepp_Jose
  imports Sepp_Base64
begin

text \<open>
  \<^verbatim>\<open>jose\<close> (src/sepp_app/sepp\_JOSE.cpp): base64url text and the AES-128-GCM protection of a
  payload. The OpenSSL calls are the fields of \<open>jose_env\<close>; the alphabet translation, the
  padding, the size checks and the order of the steps are the code's.
\<close>

subsection \<open>What the code calls\<close>

text \<open>
  \<open>je_b64_encode s n\<close> is the content of the memory BIO after \<^verbatim>\<open>BIO_write(bio, s, n)\<close> through
  the base64 filter. \<open>je_b64_decode t n m\<close> is what \<^verbatim>\<open>BIO_read\<close> of at most \<open>m\<close> bytes returns
  from \<^verbatim>\<open>BIO_new_mem_buf(t, n)\<close> through it, \<open>None\<close> for a negative size. \<open>je_rand_iv\<close> is the
  outcome of \<^verbatim>\<open>RAND_bytes\<close> for this call. \<open>je_seal key iv aad pt\<close> is the ciphertext and tag of
  the EVP encryption calls, \<open>je_open key iv aad ct tag\<close> the plaintext of the decryption
  calls, \<open>None\<close> when one of the calls whose result the code tests fails.
\<close>

record jose_env =
  je_b64_encode :: "string \<Rightarrow> int \<Rightarrow> string"
  je_b64_decode :: "string \<Rightarrow> int \<Rightarrow> int \<Rightarrow> string option"
  je_rand_iv :: "string option"
  je_seal :: "string \<Rightarrow> string \<Rightarrow> string \<Rightarrow> string \<Rightarrow> (string \<times> string) option"
  je_open :: "string \<Rightarrow> string \<Rightarrow> string \<Rightarrow> string \<Rightarrow> string \<Rightarrow> string option"

text \<open>\<^verbatim>\<open>static_cast<int>\<close> of a size.\<close>

definition int_of_size :: "nat \<Rightarrow> int" where
  "int_of_size n = sint (of_nat n :: 32 word)"

lemma int_of_size_small: "n < 2 ^ 31 \<Longrightarrow> int_of_size n = int n"
  by (simp add: int_of_size_def signed_of_nat signed_take_bit_int_eq_self)

subsection \<open>base64url\<close>

definition url_char :: "char \<Rightarrow> string" where
  "url_char c = (if c = CHR ''+'' then ''-'' else if c = CHR ''/'' then ''_''
                 else if c \<noteq> CHR ''='' then [c] else [])"

definition base64url_encode :: "'a jose_env_scheme \<Rightarrow> string \<Rightarrow> string" where
  "base64url_encode E input =
     (let ret = je_b64_encode E input (int_of_size (length input))
      in concat (map url_char ret))"

definition std_char :: "char \<Rightarrow> char" where
  "std_char c = (if c = CHR ''-'' then CHR ''+'' else if c = CHR ''_'' then CHR ''/'' else c)"

function pad_loop :: "string \<Rightarrow> string" where
  "pad_loop b64 = (if length b64 mod 4 \<noteq> 0 then pad_loop (b64 @ ''='') else b64)"
  by pat_completeness auto
termination
proof (relation "measure (\<lambda>s. (4 - length s mod 4) mod 4)", simp)
  fix s :: string
  assume "length s mod 4 \<noteq> 0"
  moreover have "length s mod 4 < 4" by simp
  ultimately have "(4 - Suc (length s) mod 4) mod 4 < (4 - length s mod 4) mod 4"
    by (simp add: mod_Suc) linarith
  then show "(s @ ''='', s) \<in> measure (\<lambda>s. (4 - length s mod 4) mod 4)"
    by simp
qed

declare pad_loop.simps [simp del]

definition base64url_decode :: "'a jose_env_scheme \<Rightarrow> string \<Rightarrow> string" where
  "base64url_decode E input =
     (let b64 = pad_loop (map std_char input);
          n = int_of_size (length b64)
      in case je_b64_decode E b64 n n of None \<Rightarrow> [] | Some buffer \<Rightarrow> buffer)"

subsection \<open>JWE payloads\<close>

text \<open>The result is the triple of the output parameters: IV, ciphertext, tag.\<close>

definition apply_jwe_encryption ::
  "'a jose_env_scheme \<Rightarrow> string \<Rightarrow> string \<Rightarrow> string \<Rightarrow> (string \<times> string \<times> string) option" where
  "apply_jwe_encryption E plaintext aad_b64 key =
     (if length key \<noteq> 16 then None
      else case je_rand_iv E of
             None \<Rightarrow> None
           | Some iv \<Rightarrow>
               (case je_seal E key iv aad_b64 plaintext of
                  None \<Rightarrow> None
                | Some (ciphertext, tag) \<Rightarrow>
                    Some (base64url_encode E iv, base64url_encode E ciphertext,
                          base64url_encode E tag)))"

definition decrypt_jwe_payload ::
  "'a jose_env_scheme \<Rightarrow> string \<Rightarrow> string \<Rightarrow> string \<Rightarrow> string \<Rightarrow> string \<Rightarrow> string option" where
  "decrypt_jwe_payload E ciphertext_b64 aad_b64 iv_b64 tag_b64 key =
     (let ciphertext_raw = base64url_decode E ciphertext_b64;
          iv_raw = base64url_decode E iv_b64;
          tag_raw = base64url_decode E tag_b64
      in if length key \<noteq> 16 \<or> length iv_raw \<noteq> 12 \<or> length tag_raw \<noteq> 16 then None
         else je_open E key iv_raw aad_b64 ciphertext_raw tag_raw)"

subsection \<open>What the code relies on\<close>

text \<open>
  The base64 BIO is a base64 codec, for sizes that fit an \<^verbatim>\<open>int\<close>; AES-128-GCM with a 12-byte
  IV opens what it sealed and keeps the length, and \<^verbatim>\<open>RAND_bytes\<close> fills the 12 bytes.
\<close>

definition bio_encode :: "'a jose_env_scheme \<Rightarrow> string \<Rightarrow> string" where
  "bio_encode E s = je_b64_encode E s (int (length s))"

definition bio_decode :: "'a jose_env_scheme \<Rightarrow> string \<Rightarrow> string option" where
  "bio_decode E t = je_b64_decode E t (int (length t)) (int (length t))"

definition bio_ok :: "'a jose_env_scheme \<Rightarrow> bool" where
  "bio_ok E \<longleftrightarrow> base64_codec (bio_encode E) (bio_decode E)"

definition gcm_ok :: "'a jose_env_scheme \<Rightarrow> bool" where
  "gcm_ok E \<longleftrightarrow>
     (\<forall>iv. je_rand_iv E = Some iv \<longrightarrow> length iv = 12) \<and>
     (\<forall>key iv aad pt ct tag. length key = 16 \<longrightarrow> length iv = 12 \<longrightarrow>
        je_seal E key iv aad pt = Some (ct, tag) \<longrightarrow>
        length ct = length pt \<and> length tag = 16 \<and> je_open E key iv aad ct tag = Some pt)"

text \<open>
  An environment that meets both: RFC 4648, and a cipher that reverses the payload and
  puts the first 16 bytes of key, IV and additional data in the tag.
\<close>

definition demo_tag :: "string \<Rightarrow> string \<Rightarrow> string \<Rightarrow> string" where
  "demo_tag key iv aad = take 16 (key @ iv @ aad)"

definition demo_jose_env :: jose_env where
  "demo_jose_env = \<lparr>
     je_b64_encode = (\<lambda>s n. rfc4648_encode s),
     je_b64_decode = (\<lambda>t n m. rfc4648_decode t),
     je_rand_iv = Some ''initvector12'',
     je_seal = (\<lambda>key iv aad pt. Some (rev pt, demo_tag key iv aad)),
     je_open = (\<lambda>key iv aad ct tag. if tag = demo_tag key iv aad then Some (rev ct) else None)\<rparr>"

lemma demo_bio_ok: "bio_ok demo_jose_env"
  using rfc4648.base64_codec_axioms
  by (simp add: bio_ok_def bio_encode_def[abs_def] bio_decode_def[abs_def] demo_jose_env_def)

lemma demo_gcm_ok: "gcm_ok demo_jose_env"
  by (auto simp: gcm_ok_def demo_jose_env_def demo_tag_def)

subsection \<open>base64url round trip\<close>

lemma pad_loop_eq: "pad_loop s = s @ replicate ((4 - length s mod 4) mod 4) CHR ''=''"
proof (induction s rule: pad_loop.induct)
  case (1 b64)
  show ?case
  proof (cases "length b64 mod 4 = 0")
    case True
    then show ?thesis by (subst pad_loop.simps) simp
  next
    case False
    have "length b64 mod 4 < 4" by simp
    then have "(4 - length b64 mod 4) mod 4 = Suc ((4 - Suc (length b64) mod 4) mod 4)"
      using False by (simp add: mod_Suc) linarith
    with 1 False show ?thesis by (subst pad_loop.simps) simp
  qed
qed

lemma b64_alphabet_plain:
  "CHR ''='' \<notin> set b64_alphabet" "CHR ''-'' \<notin> set b64_alphabet" "CHR ''_'' \<notin> set b64_alphabet"
  by (simp_all add: b64_alphabet_def)

lemma std_url_char:
  assumes "set body \<subseteq> set b64_alphabet"
  shows "map std_char (concat (map url_char body)) = body"
proof -
  have "map std_char (url_char c) = [c]" if "c \<in> set b64_alphabet" for c
    using that b64_alphabet_plain by (auto simp: url_char_def std_char_def)
  with assms show ?thesis by (induction body) auto
qed

lemma url_char_pad [simp]: "url_char CHR ''='' = []"
  by (simp add: url_char_def)

lemma b64_small_length: "b64_small s \<Longrightarrow> length s < 2 ^ 31"
  by (simp add: b64_small_def)

text \<open>Below the size limit the casts to \<^verbatim>\<open>int\<close> change nothing.\<close>

lemma base64url_encode_bio:
  "b64_small s \<Longrightarrow> base64url_encode E s = concat (map url_char (bio_encode E s))"
  using b64_small_length by (simp add: base64url_encode_def bio_encode_def int_of_size_small)

text \<open>The text a codec law speaks about is the one the decoder rebuilds.\<close>

lemma base64url_rebuild:
  assumes "bio_ok E" and "b64_small s"
  shows "pad_loop (map std_char (base64url_encode E s)) = bio_encode E s"
    and "length (bio_encode E s) < 2 ^ 31"
proof -
  have codec: "base64_codec (bio_encode E) (bio_decode E)"
    using assms(1) by (simp add: bio_ok_def)
  show "length (bio_encode E s) < 2 ^ 31"
    using base64_codec.enc_length[OF codec assms(2)] assms(2) by (simp add: b64_small_def)
  obtain body where e: "bio_encode E s = body @ replicate ((4 - length body mod 4) mod 4) CHR ''=''"
    and b: "set body \<subseteq> set b64_alphabet"
    using base64_codec.enc_body[OF codec assms(2)] by blast
  have "map std_char (base64url_encode E s) = body"
    unfolding base64url_encode_bio[OF assms(2)] e
    by (simp add: std_url_char[OF b])
  then show "pad_loop (map std_char (base64url_encode E s)) = bio_encode E s"
    by (simp add: pad_loop_eq e)
qed

lemma base64url_decode_encode:
  assumes "bio_ok E" and "b64_small s"
  shows "base64url_decode E (base64url_encode E s) = s"
proof -
  have codec: "base64_codec (bio_encode E) (bio_decode E)"
    using assms(1) by (simp add: bio_ok_def)
  have "base64url_decode E (base64url_encode E s) =
      (case bio_decode E (bio_encode E s) of None \<Rightarrow> [] | Some r \<Rightarrow> r)"
    using base64url_rebuild[OF assms]
    by (simp add: base64url_decode_def bio_decode_def int_of_size_small Let_def)
  with base64_codec.dec_enc_value[OF codec assms(2)] show ?thesis by simp
qed

text \<open>
  Decoding an encoded string gives the string back, for every size whose base64 text fits
  the \<^verbatim>\<open>int\<close> the code passes to OpenSSL.
\<close>

theorem base64url_roundtrip:
  assumes "bio_ok E" and "b64_small s"
  shows "base64url_decode E (base64url_encode E s) = s"
  by (rule base64url_decode_encode[OF assms])

theorem base64url_roundtrip_witness:
  "base64url_decode demo_jose_env (base64url_encode demo_jose_env ''GET /nudm HTTP/2.0?'') =
     ''GET /nudm HTTP/2.0?'' \<and>
   base64url_encode demo_jose_env ''>>>???'' = ''Pj4-Pz8_''"
proof
  show "base64url_decode demo_jose_env (base64url_encode demo_jose_env ''GET /nudm HTTP/2.0?'') =
     ''GET /nudm HTTP/2.0?''"
    by (rule base64url_roundtrip[OF demo_bio_ok]) (simp add: b64_small_def)
  show "base64url_encode demo_jose_env ''>>>???'' = ''Pj4-Pz8_''"
    by code_simp
qed

text \<open>
  The encoded text is URL safe: it holds none of the characters \<open>+\<close>, \<open>/\<close> and \<open>=\<close>, nor a
  line break, whatever OpenSSL returned in between.
\<close>

theorem base64url_encode_url_safe:
  assumes "bio_ok E" and "b64_small s"
  shows "set (base64url_encode E s) \<subseteq> set b64_alphabet - {CHR ''+'', CHR ''/''} \<union> {CHR ''-'', CHR ''_''}"
proof -
  have codec: "base64_codec (bio_encode E) (bio_decode E)"
    using assms(1) by (simp add: bio_ok_def)
  obtain body where "bio_encode E s = body @ replicate ((4 - length body mod 4) mod 4) CHR ''=''"
    and b: "set body \<subseteq> set b64_alphabet"
    using base64_codec.enc_body[OF codec assms(2)] by blast
  then have "base64url_encode E s = concat (map url_char body)"
    by (simp add: base64url_encode_bio[OF assms(2)])
  with b show ?thesis by (auto simp: url_char_def split: if_splits)
qed

theorem base64url_encode_url_safe_witness:
  "set (base64url_encode demo_jose_env ''>>>???'') \<subseteq>
     set b64_alphabet - {CHR ''+'', CHR ''/''} \<union> {CHR ''-'', CHR ''_''}"
  by (rule base64url_encode_url_safe[OF demo_bio_ok]) (simp add: b64_small_def)

subsection \<open>JWE round trip\<close>

lemma b64_small_le: "b64_small s \<Longrightarrow> length t \<le> length s \<Longrightarrow> b64_small t"
proof -
  assume "b64_small s" "length t \<le> length s"
  moreover from this have "(length t + 2) div 3 \<le> (length s + 2) div 3"
    by (intro div_le_mono) simp
  ultimately show ?thesis by (simp add: b64_small_def)
qed

lemma b64_small_short: "length s \<le> 16 \<Longrightarrow> b64_small s"
  by (simp add: b64_small_def)

lemma decrypt_encrypted:
  assumes "bio_ok E" and "gcm_ok E" and "b64_small plaintext"
    and enc: "apply_jwe_encryption E plaintext aad key = Some (iv, ct, tag)"
  shows "decrypt_jwe_payload E ct aad iv tag key = Some plaintext"
proof -
  from enc obtain iv0 ct0 tag0 where key: "length key = 16" and iv0: "je_rand_iv E = Some iv0"
    and seal: "je_seal E key iv0 aad plaintext = Some (ct0, tag0)"
    and out: "iv = base64url_encode E iv0" "ct = base64url_encode E ct0"
      "tag = base64url_encode E tag0"
    by (auto simp: apply_jwe_encryption_def split: if_splits option.splits)
  have 12: "length iv0 = 12"
    using assms(2) iv0 by (simp add: gcm_ok_def)
  then have opened: "length ct0 = length plaintext" "length tag0 = 16"
    "je_open E key iv0 aad ct0 tag0 = Some plaintext"
    using assms(2) key seal unfolding gcm_ok_def by blast+
  have "b64_small iv0" "b64_small tag0" "b64_small ct0"
    using 12 opened assms(3) by (auto intro: b64_small_short b64_small_le)
  then have "base64url_decode E iv = iv0" "base64url_decode E ct = ct0"
    "base64url_decode E tag = tag0"
    unfolding out by (auto intro: base64url_decode_encode[OF assms(1)])
  with key 12 opened show ?thesis
    by (simp add: decrypt_jwe_payload_def)
qed

lemma base64url_encode_ne:
  assumes "bio_ok E" and "b64_small s" and "s \<noteq> []"
  shows "base64url_encode E s \<noteq> []"
proof
  assume e: "base64url_encode E s = []"
  have "base64url_encode E [] = []"
    using assms(1) base64_codec.enc_Nil[of "bio_encode E" "bio_decode E"]
    by (simp add: bio_ok_def base64url_encode_bio b64_small_short)
  with e have "base64url_decode E (base64url_encode E s) = base64url_decode E (base64url_encode E [])"
    by simp
  with assms show False by (simp add: base64url_decode_encode b64_small_short)
qed

lemma encrypted_nonempty:
  assumes "bio_ok E" and "gcm_ok E" and "b64_small plaintext" and "plaintext \<noteq> []"
    and enc: "apply_jwe_encryption E plaintext aad key = Some (iv, ct, tag)"
  shows "iv \<noteq> [] \<and> ct \<noteq> [] \<and> tag \<noteq> []"
proof -
  from enc obtain iv0 ct0 tag0 where key: "length key = 16" and iv0: "je_rand_iv E = Some iv0"
    and seal: "je_seal E key iv0 aad plaintext = Some (ct0, tag0)"
    and out: "iv = base64url_encode E iv0" "ct = base64url_encode E ct0"
      "tag = base64url_encode E tag0"
    by (auto simp: apply_jwe_encryption_def split: if_splits option.splits)
  have 12: "length iv0 = 12"
    using assms(2) iv0 by (simp add: gcm_ok_def)
  then have len: "length ct0 = length plaintext" "length tag0 = 16"
    using assms(2) key seal unfolding gcm_ok_def by blast+
  have "b64_small iv0" "b64_small tag0" "b64_small ct0"
    using 12 len assms(3) by (auto intro: b64_small_short b64_small_le)
  moreover have "iv0 \<noteq> []" "tag0 \<noteq> []" "ct0 \<noteq> []"
    using 12 len assms(4) by auto
  ultimately show ?thesis
    unfolding out using base64url_encode_ne[OF assms(1)] by blast
qed

text \<open>
  C14: what \<^verbatim>\<open>apply_jwe_encryption\<close> produced, \<^verbatim>\<open>decrypt_jwe_payload\<close> opens with the same key
  and additional data, and it returns the plaintext.
\<close>

theorem jwe_roundtrip:
  assumes "bio_ok E" and "gcm_ok E" and "b64_small plaintext"
    and "apply_jwe_encryption E plaintext aad key = Some (iv, ct, tag)"
  shows "decrypt_jwe_payload E ct aad iv tag key = Some plaintext"
  by (rule decrypt_encrypted[OF assms])

theorem jwe_roundtrip_witness:
  "\<exists>iv ct tag. apply_jwe_encryption demo_jose_env ''{}'' ''aad'' ''0123456789abcdef'' = Some (iv, ct, tag) \<and>
     decrypt_jwe_payload demo_jose_env ct ''aad'' iv tag ''0123456789abcdef'' = Some ''{}''"
proof -
  have "\<exists>iv ct tag. apply_jwe_encryption demo_jose_env ''{}'' ''aad'' ''0123456789abcdef'' = Some (iv, ct, tag)"
    by (simp add: apply_jwe_encryption_def demo_jose_env_def)
  with jwe_roundtrip[OF demo_bio_ok demo_gcm_ok, of "''{}''" "''aad''" "''0123456789abcdef''"]
  show ?thesis by (fastforce simp: b64_small_def)
qed

text \<open>Both directions refuse a key that is not 16 bytes long.\<close>

lemma jwe_key_size:
  "length key \<noteq> 16 \<Longrightarrow> apply_jwe_encryption E pt aad key = None"
  "length key \<noteq> 16 \<Longrightarrow> decrypt_jwe_payload E ct aad iv tag key = None"
  by (simp_all add: apply_jwe_encryption_def decrypt_jwe_payload_def Let_def)

end
