(* ===== verification/Sepp_N32c.thy ===== *)
theory Sepp_N32c
  imports Sepp_Json
begin

text \<open>
  \<^verbatim>\<open>sepp_n32c_handshake\<close> (src/sepp_app): the N32-c handshake of a SEPP with its peer, that is
  capability exchange, parameter exchange, context termination and error notification.
  Every handler is a function from the state and the JSON document it gets to the state it
  leaves, the response document and headers it fills in, and the boolean it returns, or the
  exception it lets out.
\<close>

subsection \<open>State\<close>

record n32c =
  m_n32c_context_id :: string
  m_peer_sepp_fqdn :: string
  m_sender_fqdn :: string
  m_peer_target_api_root_supported :: bool
  m_selected_sec_capability :: string
  m_allowed_n32_purposes :: "string list"
  m_selected_jwe_cipher :: string
  m_selected_jws_cipher :: string

definition n32c_init :: n32c where
  "n32c_init = \<lparr>m_n32c_context_id = [], m_peer_sepp_fqdn = [],
     m_sender_fqdn = ''sepp.5gc.mnc22.mcc208.3gppnetwork.org'',
     m_peer_target_api_root_supported = False, m_selected_sec_capability = ''PRINS'',
     m_allowed_n32_purposes = [], m_selected_jwe_cipher = ''A128GCM'',
     m_selected_jws_cipher = ''ES256''\<rparr>"

subsection \<open>The generated models\<close>

text \<open>
  The OpenAPI models (\<^verbatim>\<open>SecNegotiateReqData\<close>, \<^verbatim>\<open>SecParamExchReqData\<close>, \<^verbatim>\<open>SecParamExchRspData\<close>,
  \<^verbatim>\<open>N32fContextInfo\<close>) are generated into a submodule. A record holds the attributes the code
  sets or reads, an \<open>option\<close> where it asks whether the attribute is set. A purpose and a
  protection policy, which the code only passes on, are the documents they stand for.
  \<^verbatim>\<open>from_json\<close>, \<^verbatim>\<open>validate\<close> and \<^verbatim>\<open>to_json\<close> are fields of the environment (\<open>None\<close>: throws);
  where the code only logs the result of \<^verbatim>\<open>validate\<close> it is left out.
\<close>

record sec_negotiate_req =
  nr_sender :: string
  nr_target_api_root :: "bool option"
  nr_purposes :: "json list"

record sec_param_req =
  pq_context_id :: string
  pq_sender :: string
  pq_jwe_suites :: "string list option"
  pq_jws_suites :: "string list option"
  pq_policy :: "json option"

record sec_param_rsp =
  pr_context_id :: string
  pr_sender :: string
  pr_jwe :: "string option"
  pr_jws :: "string option"
  pr_policy :: "json option"

record context_info =
  ci_context_id :: string

record n32c_env =
  ne_nbi_url :: string
  ne_negotiate_from :: "json \<Rightarrow> sec_negotiate_req option"
  ne_negotiate_valid :: "sec_negotiate_req \<Rightarrow> bool"
  ne_negotiate_to :: "sec_negotiate_req \<Rightarrow> json"
  ne_purpose_from :: "json \<Rightarrow> json option"
  ne_empty_policy :: json
  ne_param_req_from :: "json \<Rightarrow> sec_param_req option"
  ne_param_req_to :: "sec_param_req \<Rightarrow> json"
  ne_param_rsp_from :: "json \<Rightarrow> sec_param_rsp option"
  ne_param_rsp_to :: "sec_param_rsp \<Rightarrow> json"
  ne_context_from :: "json \<Rightarrow> context_info option"
  ne_context_to :: "context_info \<Rightarrow> json"

text \<open>State, response document, response headers, returned value or exception.\<close>

type_synonym 's handled = "'s \<times> json \<times> headers \<times> bool result"

definition SBI_TARGET_API_ROOT_HEADER :: string where
  "SBI_TARGET_API_ROOT_HEADER = ''3gpp-Sbi-Target-ApiRoot-Supported''"

definition HEADER_VALUE_YES :: string where
  "HEADER_VALUE_YES = ''true''"

definition CAP_TLS :: string where "CAP_TLS = ''TLS''"
definition CAP_PRINS :: string where "CAP_PRINS = ''PRINS''"

definition validate_handshake_request :: "json \<Rightarrow> bool" where
  "validate_handshake_request req_data \<longleftrightarrow> \<not> (is_null req_data \<or> \<not> is_object req_data)"

subsection \<open>Capability exchange\<close>

text \<open>
  What the capability handler would select from the peer's list. The code only compares it
  with the configured capability and logs a difference.
\<close>

definition supported_caps :: "json \<Rightarrow> string list result" where
  "supported_caps req_data =
     (case jfind req_data ''supportedSecCapabilityList'' of
        None \<Rightarrow> Inr []
      | Some l \<Rightarrow> if is_array l then get_string_vector l else Inr [])"

definition selected_cap :: "string list \<Rightarrow> string" where
  "selected_cap caps =
     (if caps = [] then CAP_PRINS
      else if CAP_TLS \<in> set caps then CAP_TLS
      else if CAP_PRINS \<in> set caps then CAP_PRINS
      else hd caps)"

definition handle_exchange_capability_request ::
  "n32c_env \<Rightarrow> json \<Rightarrow> json \<Rightarrow> headers \<Rightarrow> n32c \<Rightarrow> n32c handled" where
  "handle_exchange_capability_request E req_data resp_data resp_headers s =
     (if \<not> validate_handshake_request req_data then (s, resp_data, resp_headers, Inr False)
      else case ne_negotiate_from E req_data of
        None \<Rightarrow> (s, resp_data, resp_headers, Inr False)
      | Some req_obj \<Rightarrow>
          if \<not> ne_negotiate_valid E req_obj then (s, resp_data, resp_headers, Inr False)
          else
            (let s1 = (case nr_target_api_root req_obj of
                         Some b \<Rightarrow> s\<lparr>m_peer_target_api_root_supported := b\<rparr>
                       | None \<Rightarrow> s);
                 hs = hput SBI_TARGET_API_ROOT_HEADER HEADER_VALUE_YES resp_headers;
                 s2 = s1\<lparr>m_peer_sepp_fqdn := nr_sender req_obj\<rparr>
             in case supported_caps req_data of
                  Inl e \<Rightarrow> (s2, resp_data, hs, Inl e)
                | Inr caps \<Rightarrow>
                    (case jset_all
                       [(''sender'', JStr (ne_nbi_url E)),
                        (''selectedSecCapability'', JStr (m_selected_sec_capability s2)),
                        (''3GppSbiTargetApiRootSupported'', JBool True),
                        (''allowedUsagePurpose'',
                           JArr [JObj [(''usagePurpose'', JStr ''ROAMING'')]])] resp_data of
                       Inl e \<Rightarrow> (s2, resp_data, hs, Inl e)
                     | Inr r \<Rightarrow> (s2, r, hs, Inr True))))"

definition create_exchange_capability_obj ::
  "n32c_env \<Rightarrow> n32c \<Rightarrow> sec_negotiate_req result" where
  "create_exchange_capability_obj E s =
     (case ne_purpose_from E (JObj [(''usagePurpose'', JStr ''ROAMING'')]) of
        None \<Rightarrow> Inl ModelError
      | Some purpose \<Rightarrow>
          Inr \<lparr>nr_sender = m_sender_fqdn s, nr_target_api_root = Some True,
               nr_purposes = [purpose]\<rparr>)"

definition create_exchange_capability_req :: "n32c_env \<Rightarrow> n32c \<Rightarrow> json result" where
  "create_exchange_capability_req E s =
     (case create_exchange_capability_obj E s of
        Inl e \<Rightarrow> Inl e
      | Inr req_obj \<Rightarrow>
          jset ''supportedSecCapabilityList'' (JArr [JStr (m_selected_sec_capability s)])
            (ne_negotiate_to E req_obj))"

fun usage_purposes :: "json list \<Rightarrow> string list" where
  "usage_purposes [] = []"
| "usage_purposes (item # items) =
     (case jfind item ''usagePurpose'' of
        Some (JStr p) \<Rightarrow> p # usage_purposes items
      | _ \<Rightarrow> usage_purposes items)"

definition handle_exchange_capability_response ::
  "json \<Rightarrow> n32c \<Rightarrow> n32c \<times> bool result" where
  "handle_exchange_capability_response resp_data s =
     (if \<not> validate_handshake_request resp_data then (s, Inr False)
      else
        (let s1 = (case jfind resp_data ''sender'' of
                     Some (JStr f) \<Rightarrow> s\<lparr>m_peer_sepp_fqdn := f\<rparr>
                   | _ \<Rightarrow> s)
         in case (case jfind resp_data ''3GppSbiTargetApiRootSupported'' of
                    None \<Rightarrow> Inr s1
                  | Some v \<Rightarrow> (case get_bool v of
                                Inl e \<Rightarrow> Inl e
                              | Inr b \<Rightarrow> Inr (s1\<lparr>m_peer_target_api_root_supported := b\<rparr>))) of
              Inl e \<Rightarrow> (s1, Inl e)
            | Inr s2 \<Rightarrow>
                (case jfind resp_data ''selectedSecCapability'' of
                   Some (JStr sel) \<Rightarrow>
                     (s2\<lparr>m_allowed_n32_purposes :=
                        (case jfind resp_data ''allowedUsagePurpose'' of
                           Some (JArr items) \<Rightarrow> usage_purposes items
                         | _ \<Rightarrow> [])\<rparr>, Inr True)
                 | _ \<Rightarrow> (s2, Inr False))))"

subsection \<open>Parameter exchange\<close>

text \<open>
  \<open>uuid\<close> is what \<^verbatim>\<open>boost::uuids::random_generator\<close> would give to this call.
\<close>

definition create_exchange_params_obj ::
  "n32c_env \<Rightarrow> string \<Rightarrow> n32c \<Rightarrow> n32c \<times> sec_param_req" where
  "create_exchange_params_obj E uuid s =
     (let s1 = (if m_n32c_context_id s = [] then s\<lparr>m_n32c_context_id := uuid\<rparr> else s)
      in (s1, \<lparr>pq_context_id = m_n32c_context_id s1, pq_sender = m_sender_fqdn s1,
               pq_jwe_suites = Some [''A128GCM'', ''A256GCM''],
               pq_jws_suites = Some [''ES256'', ''RS256''],
               pq_policy = Some (ne_empty_policy E)\<rparr>))"

definition create_exchange_params_req :: "n32c_env \<Rightarrow> string \<Rightarrow> n32c \<Rightarrow> n32c \<times> json" where
  "create_exchange_params_req E uuid s =
     (case create_exchange_params_obj E uuid s of (s1, req_obj) \<Rightarrow> (s1, ne_param_req_to E req_obj))"

text \<open>The first suite the peer lists, the default where it lists none.\<close>

definition first_suite :: "string \<Rightarrow> string list option \<Rightarrow> string" where
  "first_suite d suites = (case suites of Some (c # cs) \<Rightarrow> c | _ \<Rightarrow> d)"

definition handle_exchange_params ::
  "n32c_env \<Rightarrow> string \<Rightarrow> json \<Rightarrow> json \<Rightarrow> headers \<Rightarrow> n32c \<Rightarrow> n32c handled" where
  "handle_exchange_params E uuid req_data resp_data resp_headers s =
     (if \<not> validate_handshake_request req_data then (s, resp_data, resp_headers, Inr False)
      else case ne_param_req_from E req_data of
        None \<Rightarrow> (s, resp_data, resp_headers, Inr False)
      | Some req_obj \<Rightarrow>
          (let hs = hput SBI_TARGET_API_ROOT_HEADER HEADER_VALUE_YES resp_headers;
               s1 = (if pq_context_id req_obj \<noteq> [] then s\<lparr>m_n32c_context_id := pq_context_id req_obj\<rparr>
                     else if m_n32c_context_id s = [] then s\<lparr>m_n32c_context_id := uuid\<rparr>
                     else s);
               selected_jwe = first_suite ''A128GCM'' (pq_jwe_suites req_obj);
               s2 = s1\<lparr>m_selected_jwe_cipher := selected_jwe\<rparr>;
               selected_jws = first_suite ''ES256'' (pq_jws_suites req_obj);
               s3 = s2\<lparr>m_selected_jws_cipher := selected_jws\<rparr>;
               sel_policy = (case pq_policy req_obj of Some p \<Rightarrow> p | None \<Rightarrow> ne_empty_policy E);
               resp_obj = \<lparr>pr_context_id = m_n32c_context_id s1, pr_sender = ne_nbi_url E,
                           pr_jwe = Some selected_jwe, pr_jws = Some selected_jws,
                           pr_policy = Some sel_policy\<rparr>
           in (s3, ne_param_rsp_to E resp_obj, hs, Inr True)))"

definition handle_exchange_params_response ::
  "n32c_env \<Rightarrow> json \<Rightarrow> n32c \<Rightarrow> n32c \<times> bool" where
  "handle_exchange_params_response E resp_data s =
     (if \<not> validate_handshake_request resp_data then (s, False)
      else case ne_param_rsp_from E resp_data of
        None \<Rightarrow> (s, False)
      | Some rsp_obj \<Rightarrow>
          (let s1 = (if pr_context_id rsp_obj \<noteq> [] then s\<lparr>m_n32c_context_id := pr_context_id rsp_obj\<rparr>
                     else s);
               s2 = (case pr_jwe rsp_obj of Some c \<Rightarrow> s1\<lparr>m_selected_jwe_cipher := c\<rparr> | None \<Rightarrow> s1);
               s3 = (case pr_jws rsp_obj of Some c \<Rightarrow> s2\<lparr>m_selected_jws_cipher := c\<rparr> | None \<Rightarrow> s2)
           in (s3, True)))"

subsection \<open>Termination and error notification\<close>

definition create_n32f_terminate_obj :: "n32c \<Rightarrow> context_info option" where
  "create_n32f_terminate_obj s =
     (if m_n32c_context_id s = [] then None else Some \<lparr>ci_context_id = m_n32c_context_id s\<rparr>)"

definition create_n32f_terminate_req :: "n32c_env \<Rightarrow> n32c \<Rightarrow> json option" where
  "create_n32f_terminate_req E s = map_option (ne_context_to E) (create_n32f_terminate_obj s)"

definition handle_n32f_terminate_req ::
  "n32c_env \<Rightarrow> json \<Rightarrow> json \<Rightarrow> headers \<Rightarrow> n32c \<Rightarrow> n32c handled" where
  "handle_n32f_terminate_req E req_data resp_data resp_headers s =
     (if \<not> validate_handshake_request req_data then (s, resp_data, resp_headers, Inr False)
      else case ne_context_from E req_data of
        None \<Rightarrow> (s, resp_data, resp_headers, Inr False)
      | Some term_req \<Rightarrow>
          (let incoming = ci_context_id term_req;
               hs = hput SBI_TARGET_API_ROOT_HEADER HEADER_VALUE_YES resp_headers;
               r = ne_context_to E \<lparr>ci_context_id = incoming\<rparr>;
               s1 = (if m_n32c_context_id s = incoming \<or> m_n32c_context_id s = []
                     then s\<lparr>m_n32c_context_id := []\<rparr> else s)
           in (s1, r, hs, Inr True)))"

text \<open>
  The body of the answer is parsed only to log it: both branches of the code after the
  test for an empty one clear the context.
\<close>

definition handle_n32f_terminate_response :: "n32c_env \<Rightarrow> json \<Rightarrow> n32c \<Rightarrow> n32c \<times> bool" where
  "handle_n32f_terminate_response E resp_data s =
     (if is_null resp_data \<or> json_empty resp_data then (s\<lparr>m_n32c_context_id := []\<rparr>, True)
      else (case ne_context_from E resp_data of
              Some term_rsp \<Rightarrow> (s\<lparr>m_n32c_context_id := []\<rparr>, True)
            | None \<Rightarrow> (s\<lparr>m_n32c_context_id := []\<rparr>, True)))"

definition handle_n32f_error :: "json \<Rightarrow> json \<Rightarrow> headers \<Rightarrow> n32c \<Rightarrow> n32c handled" where
  "handle_n32f_error req_data resp_data resp_headers s =
     (if \<not> validate_handshake_request req_data then (s, resp_data, resp_headers, Inr False)
      else
        (let hs = hput SBI_TARGET_API_ROOT_HEADER HEADER_VALUE_YES resp_headers
         in case jset ''acknowledged'' (JBool True) resp_data of
              Inl e \<Rightarrow> (s, resp_data, hs, Inl e)
            | Inr r \<Rightarrow> (s, r, hs, Inr True)))"

subsection \<open>The handshake as a state machine\<close>

text \<open>
  What can happen to a handshake instance: a request of the peer, the answer of the peer to
  a request of its own, and the creation of one. Nothing orders these events, so a run is
  any sequence of them; the servers hand every handler an empty response.
\<close>

datatype n32c_event =
    CapabilityReq json
  | CreateCapability
  | CapabilityRsp json
  | ParamsReq string json
  | CreateParams string
  | ParamsRsp json
  | TerminateReq json
  | CreateTerminate
  | TerminateRsp json
  | ErrorReq json

inductive n32c_step :: "n32c_env \<Rightarrow> n32c_event \<Rightarrow> n32c \<Rightarrow> n32c \<Rightarrow> bool" for E where
  "handle_exchange_capability_request E d JNull [] s = (s', r, hs, b) \<Longrightarrow>
     n32c_step E (CapabilityReq d) s s'"
| "create_exchange_capability_req E s = q \<Longrightarrow> n32c_step E CreateCapability s s"
| "handle_exchange_capability_response d s = (s', b) \<Longrightarrow> n32c_step E (CapabilityRsp d) s s'"
| "uuid \<noteq> [] \<Longrightarrow> handle_exchange_params E uuid d JNull [] s = (s', r, hs, b) \<Longrightarrow>
     n32c_step E (ParamsReq uuid d) s s'"
| "uuid \<noteq> [] \<Longrightarrow> create_exchange_params_req E uuid s = (s', q) \<Longrightarrow>
     n32c_step E (CreateParams uuid) s s'"
| "handle_exchange_params_response E d s = (s', b') \<Longrightarrow> n32c_step E (ParamsRsp d) s s'"
| "handle_n32f_terminate_req E d JNull [] s = (s', r, hs, b) \<Longrightarrow>
     n32c_step E (TerminateReq d) s s'"
| "create_n32f_terminate_req E s = t \<Longrightarrow> n32c_step E CreateTerminate s s"
| "handle_n32f_terminate_response E d s = (s', b') \<Longrightarrow> n32c_step E (TerminateRsp d) s s'"
| "handle_n32f_error d JNull [] s = (s', r, hs, b) \<Longrightarrow> n32c_step E (ErrorReq d) s s'"

text \<open>
  The contract for the context: it is the identifier both sides will use, or there is none.
  An identifier the peer sends is adopted, a missing one is filled in, termination drops
  the context when the peer names it, and the answer to a termination always drops it.
\<close>

definition context_of :: "n32c \<Rightarrow> string option" where
  "context_of s = (if m_n32c_context_id s = [] then None else Some (m_n32c_context_id s))"

definition adopt :: "string \<Rightarrow> string option \<Rightarrow> string option" where
  "adopt i c = (if i = [] then c else Some i)"

definition or_fresh :: "string \<Rightarrow> string option \<Rightarrow> string option" where
  "or_fresh u c = (if c = None then Some u else c)"

fun context_spec :: "n32c_env \<Rightarrow> n32c_event \<Rightarrow> string option \<Rightarrow> string option" where
  "context_spec E (ParamsReq u d) c =
     (case (if is_object d then ne_param_req_from E d else None) of
        None \<Rightarrow> c | Some r \<Rightarrow> or_fresh u (adopt (pq_context_id r) c))"
| "context_spec E (CreateParams u) c = or_fresh u c"
| "context_spec E (ParamsRsp d) c =
     (case (if is_object d then ne_param_rsp_from E d else None) of
        None \<Rightarrow> c | Some r \<Rightarrow> adopt (pr_context_id r) c)"
| "context_spec E (TerminateReq d) c =
     (case (if is_object d then ne_context_from E d else None) of
        None \<Rightarrow> c | Some i \<Rightarrow> (if c = Some (ci_context_id i) then None else c))"
| "context_spec E (TerminateRsp d) c = None"
| "context_spec E _ c = c"

lemma validate_iff [simp]: "validate_handshake_request d \<longleftrightarrow> is_object d"
  by (cases d) (auto simp: validate_handshake_request_def)

text \<open>
  What each operation leaves of the fields: the configuration, which none writes, and the
  context.
\<close>

definition same_config :: "n32c \<Rightarrow> n32c \<Rightarrow> bool" where
  "same_config s s' \<longleftrightarrow> m_selected_sec_capability s' = m_selected_sec_capability s \<and>
     m_sender_fqdn s' = m_sender_fqdn s"

lemma capability_request_frame:
  "handle_exchange_capability_request E d r hs s = (s', r', hs', b) \<Longrightarrow>
     same_config s s' \<and> m_n32c_context_id s' = m_n32c_context_id s"
  unfolding handle_exchange_capability_request_def Let_def same_config_def
  by (cases "ne_negotiate_from E d"; cases "supported_caps d")
    (auto split: option.splits sum.splits if_splits)

lemma capability_response_frame:
  "handle_exchange_capability_response d s = (s', b) \<Longrightarrow>
     same_config s s' \<and> m_n32c_context_id s' = m_n32c_context_id s"
proof -
  define s1 where "s1 = (case jfind d ''sender'' of
      Some (JStr f) \<Rightarrow> s\<lparr>m_peer_sepp_fqdn := f\<rparr> | _ \<Rightarrow> s)"
  have 1: "same_config s s1 \<and> m_n32c_context_id s1 = m_n32c_context_id s"
    by (simp add: s1_def same_config_def split: option.split json.split)
  show "handle_exchange_capability_response d s = (s', b) \<Longrightarrow> ?thesis"
    unfolding handle_exchange_capability_response_def Let_def s1_def[symmetric]
    using 1 by (auto simp: same_config_def split: if_splits option.splits sum.splits json.splits)
qed

lemma params_request_frame:
  "handle_exchange_params E u d r hs s = (s', r', hs', b) \<Longrightarrow> u \<noteq> [] \<Longrightarrow>
     same_config s s' \<and> context_of s' = context_spec E (ParamsReq u d) (context_of s)"
  by (auto simp: handle_exchange_params_def same_config_def context_of_def adopt_def or_fresh_def
      Let_def split: option.splits if_splits)

lemma create_params_frame:
  "create_exchange_params_req E u s = (s', q) \<Longrightarrow> u \<noteq> [] \<Longrightarrow>
     same_config s s' \<and> context_of s' = context_spec E (CreateParams u) (context_of s)"
  by (auto simp: create_exchange_params_req_def create_exchange_params_obj_def same_config_def
      context_of_def or_fresh_def Let_def split: if_splits)

lemma params_response_frame:
  "handle_exchange_params_response E d s = (s', b) \<Longrightarrow>
     same_config s s' \<and> context_of s' = context_spec E (ParamsRsp d) (context_of s)"
  by (auto simp: handle_exchange_params_response_def same_config_def context_of_def adopt_def
      Let_def split: option.splits if_splits)

lemma terminate_request_frame:
  "handle_n32f_terminate_req E d r hs s = (s', r', hs', b) \<Longrightarrow>
     same_config s s' \<and> context_of s' = context_spec E (TerminateReq d) (context_of s)"
  by (auto simp: handle_n32f_terminate_req_def same_config_def context_of_def Let_def
      split: option.splits if_splits)

lemma terminate_response_frame:
  "handle_n32f_terminate_response E d s = (s', b) \<Longrightarrow>
     same_config s s' \<and> context_of s' = None"
  by (auto simp: handle_n32f_terminate_response_def same_config_def context_of_def
      split: option.splits if_splits)

lemma error_frame:
  "handle_n32f_error d r hs s = (s', r', hs', b) \<Longrightarrow> s' = s"
  by (auto simp: handle_n32f_error_def Let_def split: sum.splits if_splits)

lemma n32c_step_frame:
  "n32c_step E e s s' \<Longrightarrow>
     same_config s s' \<and> context_of s' = context_spec E e (context_of s)"
proof (induction rule: n32c_step.induct)
  case (1 d s s' r hs b)
  then show ?case using capability_request_frame[OF 1] by (simp add: context_of_def)
next
  case (3 d s s' b)
  then show ?case using capability_response_frame[OF 3] by (simp add: context_of_def)
next
  case (4 u d s s' r hs b)
  then show ?case using params_request_frame by blast
next
  case (5 u s s' q)
  then show ?case using create_params_frame by blast
next
  case (6 d s s' b)
  then show ?case by (rule params_response_frame)
next
  case (7 d s s' r hs b)
  then show ?case by (rule terminate_request_frame)
next
  case (9 d s s' b)
  then show ?case using terminate_response_frame[OF 9] by simp
next
  case (10 d s s' r hs b)
  then show ?case using error_frame[OF 10] by (simp add: same_config_def)
qed (simp_all add: same_config_def)

interpretation n32c_machine: refined_machine "n32c_step E"
    "\<lambda>s. m_selected_sec_capability s = cap \<and> m_sender_fqdn s = fqdn" context_of "context_spec E"
  for E cap fqdn
  by unfold_locales (simp_all add: n32c_step_frame same_config_def | metis n32c_step_frame same_config_def)+

subsection \<open>What the code relies on of the models\<close>

text \<open>
  \<^verbatim>\<open>to_json\<close> gives an object and \<^verbatim>\<open>from_json\<close> reads back what it wrote; a capability request
  is still read, as a valid one from the same sender, when the list of capabilities is
  added to its document.
\<close>

definition params_dto_ok :: "n32c_env \<Rightarrow> bool" where
  "params_dto_ok E \<longleftrightarrow>
     (\<forall>r. is_object (ne_param_req_to E r) \<and> ne_param_req_from E (ne_param_req_to E r) = Some r) \<and>
     (\<forall>r. is_object (ne_param_rsp_to E r) \<and> ne_param_rsp_from E (ne_param_rsp_to E r) = Some r) \<and>
     (\<forall>c. is_object (ne_context_to E c) \<and> ne_context_from E (ne_context_to E c) = Some c)"

definition negotiate_dto_ok :: "n32c_env \<Rightarrow> bool" where
  "negotiate_dto_ok E \<longleftrightarrow>
     ne_purpose_from E (JObj [(''usagePurpose'', JStr ''ROAMING'')]) \<noteq> None \<and>
     (\<forall>r. is_object (ne_negotiate_to E r)) \<and>
     (\<forall>r cap d. jset ''supportedSecCapabilityList'' (JArr [JStr cap]) (ne_negotiate_to E r) = Inr d \<longrightarrow>
        (\<exists>r'. ne_negotiate_from E d = Some r' \<and> ne_negotiate_valid E r' \<and>
              nr_sender r' = nr_sender r \<and> nr_target_api_root r' = nr_target_api_root r))"

text \<open>An environment that meets both, with the member names of TS 29.573.\<close>

definition opt_member :: "string \<Rightarrow> ('a \<Rightarrow> json) \<Rightarrow> 'a option \<Rightarrow> (string \<times> json) list" where
  "opt_member k f x = (case x of None \<Rightarrow> [] | Some v \<Rightarrow> [(k, f v)])"

definition strings_of :: "json option \<Rightarrow> string list option" where
  "strings_of j = (case j of None \<Rightarrow> None
     | Some v \<Rightarrow> (case get_string_vector v of Inl e \<Rightarrow> None | Inr ss \<Rightarrow> Some ss))"

definition string_of :: "json option \<Rightarrow> string option" where
  "string_of j = (case j of Some (JStr s) \<Rightarrow> Some s | _ \<Rightarrow> None)"

definition bool_of :: "json option \<Rightarrow> bool option" where
  "bool_of j = (case j of Some (JBool b) \<Rightarrow> Some b | _ \<Rightarrow> None)"

definition demo_n32c_env :: n32c_env where
  "demo_n32c_env = \<lparr>
     ne_nbi_url = ''https://sepp.home.org:8443'',
     ne_negotiate_from = (\<lambda>d. map_option (\<lambda>f. \<lparr>nr_sender = f,
        nr_target_api_root = bool_of (jfind d ''3GppSbiTargetApiRootSupported''),
        nr_purposes = []\<rparr>) (string_of (jfind d ''sender''))),
     ne_negotiate_valid = (\<lambda>r. True),
     ne_negotiate_to = (\<lambda>r. JObj ((''sender'', JStr (nr_sender r)) #
        opt_member ''3GppSbiTargetApiRootSupported'' JBool (nr_target_api_root r))),
     ne_purpose_from = Some,
     ne_empty_policy = JObj [(''apiIeMappingList'', JArr [])],
     ne_param_req_from = (\<lambda>d. case (string_of (jfind d ''n32fContextId''), string_of (jfind d ''sender'')) of
        (Some i, Some f) \<Rightarrow> Some \<lparr>pq_context_id = i, pq_sender = f,
           pq_jwe_suites = strings_of (jfind d ''jweCipherSuiteList''),
           pq_jws_suites = strings_of (jfind d ''jwsCipherSuiteList''),
           pq_policy = jfind d ''protectionPolicyInfo''\<rparr>
      | _ \<Rightarrow> None),
     ne_param_req_to = (\<lambda>r. JObj ((''n32fContextId'', JStr (pq_context_id r)) #
        (''sender'', JStr (pq_sender r)) #
        opt_member ''jweCipherSuiteList'' (JArr \<circ> map JStr) (pq_jwe_suites r) @
        opt_member ''jwsCipherSuiteList'' (JArr \<circ> map JStr) (pq_jws_suites r) @
        opt_member ''protectionPolicyInfo'' id (pq_policy r))),
     ne_param_rsp_from = (\<lambda>d. case (string_of (jfind d ''n32fContextId''), string_of (jfind d ''sender'')) of
        (Some i, Some f) \<Rightarrow> Some \<lparr>pr_context_id = i, pr_sender = f,
           pr_jwe = string_of (jfind d ''selectedJweCipherSuite''),
           pr_jws = string_of (jfind d ''selectedJwsCipherSuite''),
           pr_policy = jfind d ''selProtectionPolicyInfo''\<rparr>
      | _ \<Rightarrow> None),
     ne_param_rsp_to = (\<lambda>r. JObj ((''n32fContextId'', JStr (pr_context_id r)) #
        (''sender'', JStr (pr_sender r)) #
        opt_member ''selectedJweCipherSuite'' JStr (pr_jwe r) @
        opt_member ''selectedJwsCipherSuite'' JStr (pr_jws r) @
        opt_member ''selProtectionPolicyInfo'' id (pr_policy r))),
     ne_context_from = (\<lambda>d. map_option (\<lambda>i. \<lparr>ci_context_id = i\<rparr>) (string_of (jfind d ''n32fContextId''))),
     ne_context_to = (\<lambda>c. JObj [(''n32fContextId'', JStr (ci_context_id c))])\<rparr>"

lemma demo_members [simp]:
  "strings_of (Some (JArr (map JStr ss))) = Some ss" "strings_of None = None"
  "string_of (Some (JStr s)) = Some s" "string_of None = None"
  "bool_of (Some (JBool b)) = Some b" "bool_of None = None"
  by (simp_all add: strings_of_def get_strings_map string_of_def bool_of_def)

lemma demo_params_dto_ok: "params_dto_ok demo_n32c_env"
proof -
  have 1: "ne_param_req_from demo_n32c_env (ne_param_req_to demo_n32c_env r) = Some r" for r
    by (cases r; cases "pq_jwe_suites r"; cases "pq_jws_suites r"; cases "pq_policy r")
      (simp_all add: demo_n32c_env_def opt_member_def)
  have 2: "ne_param_rsp_from demo_n32c_env (ne_param_rsp_to demo_n32c_env r) = Some r" for r
    by (cases r; cases "pr_jwe r"; cases "pr_jws r"; cases "pr_policy r")
      (simp_all add: demo_n32c_env_def opt_member_def)
  show ?thesis
    unfolding params_dto_ok_def using 1 2 by (simp add: demo_n32c_env_def)
qed

lemma demo_negotiate_dto_ok: "negotiate_dto_ok demo_n32c_env"
  by (auto simp: negotiate_dto_ok_def demo_n32c_env_def opt_member_def bool_of_def
      split: option.splits)

subsection \<open>Properties\<close>

text \<open>
  C12: the context of a handshake follows its contract along every sequence of requests,
  answers and own operations, whatever the documents hold.
\<close>

theorem n32c_context_refines:
  assumes "steps (n32c_step E) es s s'"
  shows "context_of s' = fold (context_spec E) es (context_of s)"
  using n32c_machine.spec_steps[OF assms] by simp

theorem n32c_context_refines_witness:
  "context_of n32c_init = fold (context_spec demo_n32c_env)
     [ParamsReq ''u1'' (JArr []), TerminateReq (JStr ''x'')] (context_of n32c_init)"
proof -
  have "n32c_step demo_n32c_env (ParamsReq ''u1'' (JArr [])) n32c_init n32c_init"
    by (rule n32c_step.intros(4)) (simp_all add: handle_exchange_params_def)
  moreover have "n32c_step demo_n32c_env (TerminateReq (JStr ''x'')) n32c_init n32c_init"
    by (rule n32c_step.intros(7)) (simp_all add: handle_n32f_terminate_req_def)
  ultimately show ?thesis
    by (intro n32c_context_refines) (rule steps_Cons, assumption, rule steps_Cons, assumption, rule steps_Nil)
qed

text \<open>
  C11: no message of the peer changes the security capability an instance was configured
  with, nor the FQDN it introduces itself with: the handshake cannot be used to downgrade
  PRINS to another mechanism.
\<close>

theorem n32c_no_downgrade:
  assumes "steps (n32c_step E) es s s'"
  shows "m_selected_sec_capability s' = m_selected_sec_capability s \<and>
     m_sender_fqdn s' = m_sender_fqdn s"
  using n32c_machine.inv_steps[OF assms] by simp

theorem n32c_no_downgrade_witness:
  "\<exists>s'. steps (n32c_step demo_n32c_env)
     [CapabilityRsp (JObj [(''selectedSecCapability'', JStr ''TLS'')])] n32c_init s' \<and>
     m_selected_sec_capability s' = ''PRINS''"
proof -
  obtain s' b where "handle_exchange_capability_response
      (JObj [(''selectedSecCapability'', JStr ''TLS'')]) n32c_init = (s', b)"
    by force
  then have "steps (n32c_step demo_n32c_env)
      [CapabilityRsp (JObj [(''selectedSecCapability'', JStr ''TLS'')])] n32c_init s'"
    by - (rule steps_Cons, erule n32c_step.intros(3), rule steps_Nil)
  with n32c_no_downgrade[OF this] show ?thesis by (auto simp: n32c_init_def)
qed

text \<open>
  After a parameter exchange both SEPPs hold the same non-empty context identifier and
  the same two cipher suites, the first ones of the initiator's lists. The two run the same
  code and differ in their state and in the URL they give as sender.
\<close>

theorem params_exchange_agreement:
  assumes dto: "params_dto_ok E" and "uuid \<noteq> []"
    and req: "create_exchange_params_req E uuid a = (a1, q)"
    and rsp: "handle_exchange_params (E\<lparr>ne_nbi_url := url\<rparr>) uuid' q JNull [] b = (b1, p, hs, ok)"
    and fin: "handle_exchange_params_response E p a1 = (a2, ok')"
  shows "ok = Inr True \<and> ok' \<and> m_n32c_context_id a2 \<noteq> [] \<and>
     m_n32c_context_id b1 = m_n32c_context_id a2 \<and>
     m_selected_jwe_cipher a2 = ''A128GCM'' \<and> m_selected_jwe_cipher b1 = ''A128GCM'' \<and>
     m_selected_jws_cipher a2 = ''ES256'' \<and> m_selected_jws_cipher b1 = ''ES256''"
proof -
  obtain qo where qo: "create_exchange_params_obj E uuid a = (a1, qo)" "q = ne_param_req_to E qo"
    using req by (auto simp: create_exchange_params_req_def split: prod.splits)
  then have q: "m_n32c_context_id a1 \<noteq> []" "pq_context_id qo = m_n32c_context_id a1"
    "pq_jwe_suites qo = Some [''A128GCM'', ''A256GCM'']"
    "pq_jws_suites qo = Some [''ES256'', ''RS256'']"
    using assms(2) by (auto simp: create_exchange_params_obj_def Let_def split: if_splits)
  have "is_object q" "ne_param_req_from E q = Some qo"
    using dto qo by (simp_all add: params_dto_ok_def)
  with rsp q obtain po where p: "p = ne_param_rsp_to E po"
    and "ok = Inr True" and po: "pr_context_id po = m_n32c_context_id a1"
      "pr_jwe po = Some ''A128GCM''" "pr_jws po = Some ''ES256''"
    and b1: "m_n32c_context_id b1 = m_n32c_context_id a1"
      "m_selected_jwe_cipher b1 = ''A128GCM''" "m_selected_jws_cipher b1 = ''ES256''"
    by (auto simp: handle_exchange_params_def first_suite_def Let_def)
  moreover have "is_object p" "ne_param_rsp_from E p = Some po"
    using dto p by (simp_all add: params_dto_ok_def)
  ultimately show ?thesis
    using fin q by (auto simp: handle_exchange_params_response_def)
qed

theorem params_exchange_agreement_witness:
  "\<exists>a1 q b1 p hs a2.
     create_exchange_params_req demo_n32c_env ''5e9b'' n32c_init = (a1, q) \<and>
     handle_exchange_params (demo_n32c_env\<lparr>ne_nbi_url := ''https://peer''\<rparr>) ''77aa'' q JNull []
       n32c_init = (b1, p, hs, Inr True) \<and>
     handle_exchange_params_response demo_n32c_env p a1 = (a2, True) \<and>
     m_n32c_context_id b1 = m_n32c_context_id a2"
proof -
  obtain a1 q where 1: "create_exchange_params_req demo_n32c_env ''5e9b'' n32c_init = (a1, q)"
    by force
  obtain b1 p hs ok where 2: "handle_exchange_params (demo_n32c_env\<lparr>ne_nbi_url := ''https://peer''\<rparr>)
      ''77aa'' q JNull [] n32c_init = (b1, p, hs, ok)" by (metis prod_cases4)
  obtain a2 ok' where 3: "handle_exchange_params_response demo_n32c_env p a1 = (a2, ok')" by force
  have ne: "''5e9b'' \<noteq> []" by simp
  from params_exchange_agreement[OF demo_params_dto_ok ne 1 2 3] show ?thesis
    using 1 2 3
    by (intro exI[of _ a1] exI[of _ q] exI[of _ b1] exI[of _ p] exI[of _ hs] exI[of _ a2]) simp
qed

text \<open>
  A termination request is acknowledged with the identifier it names, and drops the
  context exactly when it names it: a peer that does not know the identifier of the
  established context cannot tear it down, although it is told that it did.
\<close>

theorem terminate_only_matching:
  assumes "is_object d" and "ne_context_from E d = Some i"
  shows "handle_n32f_terminate_req E d r hs s =
     (if m_n32c_context_id s = ci_context_id i then s\<lparr>m_n32c_context_id := []\<rparr> else s,
      ne_context_to E \<lparr>ci_context_id = ci_context_id i\<rparr>,
      hput SBI_TARGET_API_ROOT_HEADER HEADER_VALUE_YES hs, Inr True)"
  using assms by (auto simp: handle_n32f_terminate_req_def Let_def)

theorem terminate_only_matching_witness:
  "fst (handle_n32f_terminate_req demo_n32c_env (JObj [(''n32fContextId'', JStr ''guess'')]) JNull []
     (n32c_init\<lparr>m_n32c_context_id := ''5e9b''\<rparr>)) = n32c_init\<lparr>m_n32c_context_id := ''5e9b''\<rparr>"
  by (subst terminate_only_matching[of _ _ "\<lparr>ci_context_id = ''guess''\<rparr>"])
    (simp_all add: demo_n32c_env_def n32c_init_def)

text \<open>
  A handler that refuses a request leaves the instance, the response document and the
  response headers as they were.
\<close>

theorem refused_request_changes_nothing:
  "(handle_exchange_capability_request E d r hs s = (s1, r1, h1, Inr False) \<longrightarrow>
      s1 = s \<and> r1 = r \<and> h1 = hs) \<and>
   (handle_exchange_params E uuid d r hs s = (s2, r2, h2, Inr False) \<longrightarrow>
      s2 = s \<and> r2 = r \<and> h2 = hs) \<and>
   (handle_n32f_terminate_req E d r hs s = (s3, r3, h3, Inr False) \<longrightarrow>
      s3 = s \<and> r3 = r \<and> h3 = hs) \<and>
   (handle_n32f_error d r hs s = (s4, r4, h4, Inr False) \<longrightarrow> s4 = s \<and> r4 = r \<and> h4 = hs)"
proof (intro conjI)
  show "handle_exchange_capability_request E d r hs s = (s1, r1, h1, Inr False) \<longrightarrow>
      s1 = s \<and> r1 = r \<and> h1 = hs"
    unfolding handle_exchange_capability_request_def Let_def
    by (cases "supported_caps d") (auto split: option.splits sum.splits if_splits)
  show "handle_exchange_params E uuid d r hs s = (s2, r2, h2, Inr False) \<longrightarrow>
      s2 = s \<and> r2 = r \<and> h2 = hs"
    by (auto simp: handle_exchange_params_def Let_def split: option.splits if_splits)
  show "handle_n32f_terminate_req E d r hs s = (s3, r3, h3, Inr False) \<longrightarrow>
      s3 = s \<and> r3 = r \<and> h3 = hs"
    by (auto simp: handle_n32f_terminate_req_def Let_def split: option.splits if_splits)
  show "handle_n32f_error d r hs s = (s4, r4, h4, Inr False) \<longrightarrow> s4 = s \<and> r4 = r \<and> h4 = hs"
    by (auto simp: handle_n32f_error_def Let_def split: sum.splits if_splits)
qed

theorem refused_request_changes_nothing_witness:
  "handle_exchange_params demo_n32c_env ''u'' (JArr []) JNull [] n32c_init =
     (n32c_init, JNull, [], Inr False)"
proof -
  obtain s2 r2 h2 where h: "handle_exchange_params demo_n32c_env ''u'' (JArr []) JNull [] n32c_init =
      (s2, r2, h2, Inr False)"
    by (simp add: handle_exchange_params_def)
  with refused_request_changes_nothing[of demo_n32c_env "JArr []" JNull "[]" n32c_init s2 r2 h2
      "''u''" s2 r2 h2 s2 r2 h2 s2 r2 h2]
  show ?thesis by simp
qed



lemma get_strings_throws: "(\<exists>e. get_strings js = Inl e) \<longleftrightarrow> (\<exists>j\<in>set js. \<not> is_string j)"
proof (induction js)
  case (Cons j js)
  then show ?case by (cases j) (auto split: sum.splits)
qed simp

lemma supported_caps_throws:
  "(\<exists>e. supported_caps d = Inl e) \<longleftrightarrow>
     (\<exists>l. jfind d ''supportedSecCapabilityList'' = Some (JArr l) \<and> (\<exists>v\<in>set l. \<not> is_string v))"
proof (cases "jfind d ''supportedSecCapabilityList''")
  case (Some v)
  then show ?thesis
    by (cases v) (auto simp: supported_caps_def get_strings_throws[symmetric])
qed (simp add: supported_caps_def)

lemma capability_request_accepted:
  assumes "is_object d" and "ne_negotiate_from E d = Some ro" and "ne_negotiate_valid E ro"
  shows "\<exists>r s'. handle_exchange_capability_request E d JNull hs s =
     (s', r, hput SBI_TARGET_API_ROOT_HEADER HEADER_VALUE_YES hs,
      case supported_caps d of Inl e \<Rightarrow> Inl e | Inr caps \<Rightarrow> Inr True) \<and>
     m_peer_sepp_fqdn s' = nr_sender ro"
  using assms
  by (cases "supported_caps d")
    (simp_all add: handle_exchange_capability_request_def Let_def)

text \<open>
  The capability handler lets an exception out exactly when the list of capabilities is
  an array with an element that is not a string, and by then it has taken over the name the
  peer gave.
\<close>

theorem capability_request_throws:
  assumes "is_object d" and "ne_negotiate_from E d = Some ro" and "ne_negotiate_valid E ro"
    and h: "handle_exchange_capability_request E d JNull hs s = (s', r, hs', res)"
  shows "((\<exists>e. res = Inl e) \<longleftrightarrow>
      (\<exists>l. jfind d ''supportedSecCapabilityList'' = Some (JArr l) \<and> (\<exists>v\<in>set l. \<not> is_string v))) \<and>
     m_peer_sepp_fqdn s' = nr_sender ro"
proof -
  from capability_request_accepted[OF assms(1,2,3), of hs s] h
  have res: "res = (case supported_caps d of Inl e \<Rightarrow> Inl e | Inr caps \<Rightarrow> Inr True)"
    and peer: "m_peer_sepp_fqdn s' = nr_sender ro" by auto
  have "(\<exists>e. res = Inl e) \<longleftrightarrow> (\<exists>e. supported_caps d = Inl e)"
    by (simp add: res split: sum.split)
  with peer show ?thesis by (simp only: supported_caps_throws)
qed

theorem capability_request_throws_witness:
  "\<exists>s' r hs' e. handle_exchange_capability_request demo_n32c_env
     (JObj [(''sender'', JStr ''evil''), (''supportedSecCapabilityList'', JArr [JInt 7])]) JNull []
     n32c_init = (s', r, hs', Inl e) \<and> m_peer_sepp_fqdn s' = ''evil''"
proof -
  let ?d = "JObj [(''sender'', JStr ''evil''), (''supportedSecCapabilityList'', JArr [JInt 7])]"
  let ?ro = "\<lparr>nr_sender = ''evil'', nr_target_api_root = None, nr_purposes = []\<rparr>"
  obtain s' r hs' res where h: "handle_exchange_capability_request demo_n32c_env ?d JNull [] n32c_init =
      (s', r, hs', res)" by (metis prod_cases4)
  have o: "is_object ?d" by simp
  have f: "ne_negotiate_from demo_n32c_env ?d = Some ?ro" and v: "ne_negotiate_valid demo_n32c_env ?ro"
    by (simp_all add: demo_n32c_env_def)
  note t = capability_request_throws[OF o f v h]
  from t obtain e where "res = Inl e" by auto
  with t h show ?thesis by auto
qed

end
