(* ===== verification/Sepp_N32f.thy ===== *)
theory Sepp_N32f
  imports Sepp_Decimal Sepp_Jose Sepp_N32c "HOL-Library.Multiset"
begin

text \<open>
  \<^verbatim>\<open>sepp_n32f_forward\<close> (src/sepp_app): the N32-f side of a SEPP. It wraps an HTTP message of a
  network function into a JOSE-protected JSON message, unwraps the message a peer sends,
  passes the request on to the local network function and wraps its answer.
\<close>

subsection \<open>State and environment\<close>

text \<open>
  The members that no operation reads (\<^verbatim>\<open>m_peer_sepp_fqdn\<close>, \<^verbatim>\<open>m_local_nrf_uri\<close>, \<^verbatim>\<open>m_sign_key\<close>,
  \<^verbatim>\<open>m_nf_forward_cb\<close>) are left out. A key is the string of its bytes.
\<close>

record n32f =
  m_n32f_context_id :: string
  m_security_capability :: string
  m_enc_key :: string

definition n32f_init :: n32f where
  "n32f_init = \<lparr>m_n32f_context_id = [], m_security_capability = ''PRINS'', m_enc_key = []\<rparr>"

record nf_http_request =
  nq_method :: string
  nq_path :: string
  nq_authority :: string
  nq_body :: string
  nq_mcc :: string
  nq_mnc :: string
  nq_headers :: headers

record nf_http_response =
  np_status_code :: int
  np_body :: string
  np_headers :: headers

definition nf_http_response_init :: nf_http_response where
  "nf_http_response_init = \<lparr>np_status_code = 200, np_body = [], np_headers = []\<rparr>"

text \<open>
  \<open>flat_jwe\<close> holds the attributes of the generated \<^verbatim>\<open>FlatJweJson\<close>; one that was not set reads
  as the empty string. The messages \<^verbatim>\<open>N32fReformattedReqMsg\<close> and \<^verbatim>\<open>N32fReformattedRspMsg\<close>
  are used for their \<^verbatim>\<open>reformattedData\<close> only, so their \<^verbatim>\<open>from_json\<close> and \<^verbatim>\<open>to_json\<close>
  translate between a document and a \<open>flat_jwe\<close>.
\<close>

record flat_jwe =
  fj_protected :: string
  fj_unprotected :: json
  fj_aad :: string
  fj_iv :: string
  fj_ciphertext :: string
  fj_tag :: string

text \<open>
  What the code calls: the models, \<^verbatim>\<open>json::parse\<close> and \<^verbatim>\<open>dump\<close> (\<open>None\<close>: throws), of the HTTP
  client \<^verbatim>\<open>prepare_json_request\<close> and \<^verbatim>\<open>get_json\<close>, the URL of the configured NRF, the iteration
  order of an \<^verbatim>\<open>unordered_map\<close>, and OpenSSL.
\<close>

record n32f_env =
  fe_req_from :: "json \<Rightarrow> flat_jwe option"
  fe_req_to :: "flat_jwe \<Rightarrow> json"
  fe_rsp_from :: "json \<Rightarrow> flat_jwe option"
  fe_rsp_to :: "flat_jwe \<Rightarrow> json"
  fe_n32c :: n32c_env
  fe_parse :: "string \<Rightarrow> json option"
  fe_dump :: "json \<Rightarrow> string option"
  fe_prepare :: "string \<Rightarrow> string \<Rightarrow> http_request"
  fe_get_json :: "http_response \<Rightarrow> json option"
  fe_nrf_url :: string
  fe_order :: "headers \<Rightarrow> headers"
  fe_jose :: jose_env

definition fe_context_from :: "n32f_env \<Rightarrow> json \<Rightarrow> context_info option" where
  "fe_context_from F = ne_context_from (fe_n32c F)"

definition fe_context_to :: "n32f_env \<Rightarrow> context_info \<Rightarrow> json" where
  "fe_context_to F = ne_context_to (fe_n32c F)"

subsection \<open>The PLMN of a query string\<close>

definition hex_to_int :: "char \<Rightarrow> nat option" where
  "hex_to_int c =
     (let n = of_char c :: nat in
      if 48 \<le> n \<and> n \<le> 57 then Some (n - 48)
      else if 97 \<le> n \<and> n \<le> 102 then Some (n - 97 + 10)
      else if 65 \<le> n \<and> n \<le> 70 then Some (n - 65 + 10)
      else None)"

definition plus_char :: "char \<Rightarrow> char" where
  "plus_char c = (if c = CHR ''+'' then CHR '' '' else c)"

fun url_decode :: "string \<Rightarrow> string" where
  "url_decode (c # a # b # cs) =
     (case (c = CHR ''%'', hex_to_int a, hex_to_int b) of
        (True, Some hi, Some lo) \<Rightarrow> char_of (hi * 16 + lo) # url_decode cs
      | _ \<Rightarrow> plus_char c # url_decode (a # b # cs))"
| "url_decode (c # cs) = plus_char c # url_decode cs"
| "url_decode [] = []"

text \<open>
  Reading the PLMN out of a decoded value. When the document is no JSON, or a member is no
  string, the code searches the text; a member read before the exception stays assigned.
\<close>

definition quoted_mcc :: string where
  "quoted_mcc = [CHR 0x22] @ ''mcc'' @ [CHR 0x22, CHR '':'', CHR 0x22]"

definition quoted_mnc :: string where
  "quoted_mnc = [CHR 0x22] @ ''mnc'' @ [CHR 0x22, CHR '':'', CHR 0x22]"

definition plmn_of_text :: "string \<Rightarrow> string \<times> string \<Rightarrow> string \<times> string" where
  "plmn_of_text v out =
     (let mcc = (case str_find quoted_mcc v of None \<Rightarrow> fst out | Some p \<Rightarrow> take 3 (drop (p + 7) v));
          mnc = (case str_find quoted_mnc v of None \<Rightarrow> snd out
                 | Some p \<Rightarrow> (case str_find_from [CHR 0x22] (p + 7) v of
                              None \<Rightarrow> snd out
                            | Some e \<Rightarrow> take (e - (p + 7)) (drop (p + 7) v)))
      in (mcc, mnc))"

definition plmn_of_value ::
  "(string \<Rightarrow> json option) \<Rightarrow> string \<Rightarrow> string \<times> string \<Rightarrow> string \<times> string" where
  "plmn_of_value parse v out =
     (case parse v of
        None \<Rightarrow> plmn_of_text v out
      | Some j \<Rightarrow>
          (case value_string j ''mcc'' [] of
             Inl e \<Rightarrow> plmn_of_text v out
           | Inr mcc \<Rightarrow>
               (case value_string j ''mnc'' [] of
                  Inl e \<Rightarrow> plmn_of_text v (mcc, snd out)
                | Inr mnc \<Rightarrow> (mcc, mnc))))"

function plmn_of_query ::
  "(string \<Rightarrow> json option) \<Rightarrow> string \<Rightarrow> string \<times> string \<Rightarrow> string \<times> string" where
  "plmn_of_query parse query_str out =
     (if query_str = [] then out
      else
        (let amp_pos = str_find ''&'' query_str;
             param = (case amp_pos of None \<Rightarrow> query_str | Some i \<Rightarrow> take i query_str);
             rest = (case amp_pos of None \<Rightarrow> [] | Some i \<Rightarrow> drop (i + 1) query_str)
         in case str_find ''='' param of
              Some eq_pos \<Rightarrow>
                (if take eq_pos param = ''plmn-id'' \<or> take eq_pos param = ''target-plmn-id''
                 then plmn_of_value parse (url_decode (drop (eq_pos + 1) param)) out
                 else plmn_of_query parse rest out)
            | None \<Rightarrow> plmn_of_query parse rest out))"
  by pat_completeness auto
termination
  by (relation "measure (\<lambda>(parse, q, out). length q)")
    (auto split: option.splits)

declare plmn_of_query.simps [simp del]

definition extract_plmn_from_path ::
  "(string \<Rightarrow> json option) \<Rightarrow> string \<Rightarrow> string \<times> string \<Rightarrow> string \<times> string" where
  "extract_plmn_from_path parse path out =
     (case str_find ''?'' path of
        None \<Rightarrow> out
      | Some pos \<Rightarrow> plmn_of_query parse (drop (pos + 1) path) out)"

subsection \<open>The additional authenticated data\<close>

text \<open>
  \<open>getlines\<close> is the sequence of lines \<^verbatim>\<open>std::getline\<close> reads until it fails; \<open>read_token\<close> is
  \<^verbatim>\<open>stream >> s\<close> on what is left of a line, where \<open>s\<close> keeps its value at the end.
\<close>

fun getlines :: "string \<Rightarrow> string list" where
  "getlines [] = []"
| "getlines (c # cs) =
     (if c = CHR 0x0A then [] # getlines cs
      else case getlines cs of [] \<Rightarrow> [[c]] | l # ls \<Rightarrow> (c # l) # ls)"

definition read_token :: "string \<Rightarrow> string \<Rightarrow> string \<times> string" where
  "read_token s old =
     (let t = dropWhile is_space s in
      if t = [] then (old, [])
      else (takeWhile (\<lambda>c. \<not> is_space c) t, dropWhile (\<lambda>c. \<not> is_space c) t))"

definition strip_cr :: "string \<Rightarrow> string" where
  "strip_cr line = (if line \<noteq> [] \<and> last line = CHR 0x0D then butlast line else line)"

definition parse_header_line :: "string \<Rightarrow> string \<times> headers \<Rightarrow> string \<times> headers" where
  "parse_header_line line0 out =
     (let line = strip_cr line0 in
      case str_find '':'' line of
        None \<Rightarrow> out
      | Some pos \<Rightarrow>
          (let header_name = take pos line;
               v0 = drop (pos + 1) line;
               header_value = (if v0 \<noteq> [] \<and> hd v0 = CHR '' '' then drop 1 v0 else v0);
               authority = (if header_name = ''authority'' then header_value else fst out)
           in (authority, hput header_name header_value (snd out))))"

text \<open>The result holds the method (or status), path, authority and headers.\<close>

definition parse_aad ::
  "string \<Rightarrow> headers \<Rightarrow> (string \<times> string \<times> string \<times> headers) option" where
  "parse_aad decoded_aad hs0 =
     (case getlines decoded_aad of
        [] \<Rightarrow> None
      | line # lines \<Rightarrow>
          (case read_token (strip_cr line) [] of
             (method, rest) \<Rightarrow>
               (case read_token rest [] of
                  (path, rest') \<Rightarrow>
                    (case fold parse_header_line lines ([], hs0) of
                       (authority, hs) \<Rightarrow> Some (method, path, authority, hs)))))"

definition has_crlf :: "string \<Rightarrow> bool" where
  "has_crlf s \<longleftrightarrow> CHR 0x0D \<in> set s \<or> CHR 0x0A \<in> set s"

text \<open>\<open>force_http\<close> is the scheme replacement that two functions of the code contain.\<close>

definition force_http :: "string \<Rightarrow> string" where
  "force_http s =
     (if starts_with ''https://'' s then ''http://'' @ drop 8 s
      else if \<not> starts_with ''http://'' s then ''http://'' @ s
      else s)"

definition header_line :: "string \<Rightarrow> string \<Rightarrow> string" where
  "header_line key value = key @ '': '' @ value @ crlf"

definition aad_raw :: "string \<Rightarrow> string \<Rightarrow> string \<Rightarrow> headers \<Rightarrow> string" where
  "aad_raw method_or_status path authority ordered =
     method_or_status @ '' '' @ path @ '' HTTP/2.0'' @ crlf @
     (if authority \<noteq> [] then
        header_line ''authority'' authority @
        header_line ''3gpp-sbi-target-apiroot'' (force_http authority)
      else []) @
     concat (map (\<lambda>(key, value). if \<not> has_crlf key \<and> \<not> has_crlf value
                                 then header_line key value else []) ordered)"

subsection \<open>Wrapping a message\<close>

definition protected_hdr :: "n32f \<Rightarrow> json" where
  "protected_hdr s = JObj
     [(''alg'', JStr (if m_enc_key s = [] then ''dir'' else ''A128GCMKW'')),
      (''enc'', JStr ''A128GCM''), (''n32fMsgId'', JStr ''1'')]"

definition build_reformatted_data ::
  "n32f_env \<Rightarrow> n32f \<Rightarrow> string \<Rightarrow> string \<Rightarrow> string \<Rightarrow> string \<Rightarrow> string \<Rightarrow> headers \<Rightarrow>
     flat_jwe option result" where
  "build_reformatted_data F s method_or_status path authority body context_id response_headers =
     (let J = fe_jose F;
          aad_b64 = base64url_encode J
            (aad_raw method_or_status path authority (fe_order F response_headers));
          unprotected = fe_context_to F \<lparr>ci_context_id = context_id\<rparr>
      in case fe_dump F (protected_hdr s) of
           None \<Rightarrow> Inl TypeError
         | Some d \<Rightarrow>
             (let out = \<lparr>fj_protected = base64url_encode J d, fj_unprotected = unprotected,
                         fj_aad = aad_b64, fj_iv = [], fj_ciphertext = [], fj_tag = []\<rparr>
              in if body = [] then Inr (Some out)
                 else if m_enc_key s \<noteq> [] then
                   (case apply_jwe_encryption J body aad_b64 (m_enc_key s) of
                      None \<Rightarrow> Inr None
                    | Some (iv, ct, tag) \<Rightarrow>
                        Inr (Some (out\<lparr>fj_iv := iv, fj_ciphertext := ct, fj_tag := tag\<rparr>)))
                 else Inr (Some (out\<lparr>fj_ciphertext := base64url_encode J body\<rparr>))))"

text \<open>
  The request is left as it is when the capability is TLS; \<open>None\<close> is the returned
  \<^verbatim>\<open>false\<close>.
\<close>

definition create_n32f_process_request ::
  "n32f_env \<Rightarrow> n32f \<Rightarrow> string \<Rightarrow> string \<Rightarrow> string \<Rightarrow> string \<Rightarrow> json \<Rightarrow> json option result" where
  "create_n32f_process_request F s authority path method body req_body =
     (if m_security_capability s = ''TLS'' then Inr (Some req_body)
      else
        (let ctx_id = (if m_n32f_context_id s = [] then ''dummy_context_id'' else m_n32f_context_id s)
         in case build_reformatted_data F s method path authority body ctx_id [] of
              Inl e \<Rightarrow> Inl e
            | Inr None \<Rightarrow> Inr None
            | Inr (Some reformatted_data) \<Rightarrow> Inr (Some (fe_req_to F reformatted_data))))"

subsection \<open>Requests to local network functions\<close>

definition method_of_string :: "string \<Rightarrow> http_method" where
  "method_of_string m =
     (if m = ''POST'' then POST else if m = ''PUT'' then PUT
      else if m = ''DELETE'' then DELETE else if m = ''PATCH'' then PATCH else GET)"

definition select_target :: "n32f_env \<Rightarrow> string \<Rightarrow> headers \<Rightarrow> string" where
  "select_target F authority hs =
     (case hget hs ''3gpp-sbi-target-apiroot'' of
        Some v \<Rightarrow> if v \<noteq> [] then v else if authority \<noteq> [] then authority else fe_nrf_url F
      | None \<Rightarrow> if authority \<noteq> [] then authority else fe_nrf_url F)"

definition target_request ::
  "n32f_env \<Rightarrow> string \<Rightarrow> string \<Rightarrow> string \<Rightarrow> headers \<Rightarrow> http_request" where
  "target_request F authority path payload hs =
     (let uri = force_http (select_target F authority hs) @ path;
          req = (if payload \<noteq> [] then fe_prepare F uri payload
                 else \<lparr>rq_uri = uri, rq_headers = [], rq_body = []\<rparr>)
      in req\<lparr>rq_headers :=
           fold (\<lambda>(k, v) m. if k \<noteq> ''authority'' \<and> k \<noteq> ''3gpp-sbi-target-apiroot''
                            then hput k v m else m) (fe_order F hs) (rq_headers req)\<rparr>)"

definition keep_response_headers :: "headers \<Rightarrow> headers \<Rightarrow> headers" where
  "keep_response_headers ordered m0 =
     fold (\<lambda>(k, v) m. if k = ''location'' \<or> k = ''content-type'' \<or> k = ''retry-after''
                      then hput k v m else m) ordered m0"

text \<open>
  The outcome is \<open>None\<close> when no answer came (status 0, \<^verbatim>\<open>false\<close>); otherwise the response
  document, the status and the raw response, which the caller may have asked for.
\<close>

definition send_http_request_to_target ::
  "n32f_env \<Rightarrow> net \<Rightarrow> string \<Rightarrow> string \<Rightarrow> string \<Rightarrow> string \<Rightarrow> headers \<Rightarrow> history \<Rightarrow>
     (json \<times> int \<times> nf_http_response) option \<times> history" where
  "send_http_request_to_target F net authority path method_str payload hs h =
     (case send_http_request net SbiClient (method_of_string method_str)
             (target_request F authority path payload hs) h of
        (http_response, h') \<Rightarrow>
          (let status_code = rp_status http_response in
           if status_code = 0 then (None, h')
           else
             (let raw = \<lparr>np_status_code = status_code, np_body = rp_body http_response,
                         np_headers = keep_response_headers (fe_order F (rp_headers http_response)) []\<rparr>;
                  response_json =
                    (if rp_body http_response \<noteq> [] then
                       (case fe_get_json F http_response of
                          Some j \<Rightarrow> j
                        | None \<Rightarrow> JObj [(''body'', JStr (rp_body http_response))])
                     else JObj [])
              in (Some (response_json, status_code, raw), h'))))"

definition validate_n32f_message :: "json \<Rightarrow> bool" where
  "validate_n32f_message req_data \<longleftrightarrow> \<not> is_null req_data \<and> is_object req_data"

definition bad_capability :: "string \<Rightarrow> json" where
  "bad_capability detail = JObj
     [(''status'', JInt 400), (''title'', JStr ''Bad Request''),
      (''cause'', JStr ''INVALID_CAPABILITY_ENDPOINT''), (''detail'', JStr detail)]"

subsection \<open>Handlers\<close>

text \<open>
  The handlers of N32-f do not change the instance: their effect is the history of calls.
\<close>

fun string_members :: "(string \<times> json) list \<Rightarrow> headers \<Rightarrow> headers" where
  "string_members [] m = m"
| "string_members ((k, JStr v) # kvs) m = string_members kvs (hput k v m)"
| "string_members (kv # kvs) m = string_members kvs m"

definition forward_headers_of :: "json \<Rightarrow> headers" where
  "forward_headers_of req_data =
     (case jfind req_data ''headers'' of Some (JObj kvs) \<Rightarrow> string_members kvs [] | _ \<Rightarrow> [])"

definition handle_n32f_forward ::
  "n32f_env \<Rightarrow> net \<Rightarrow> n32f \<Rightarrow> json \<Rightarrow> json \<Rightarrow> headers \<Rightarrow> history \<Rightarrow> history handled" where
  "handle_n32f_forward F net s req_data resp_data resp_headers h =
     (if \<not> validate_n32f_message req_data then (h, resp_data, resp_headers, Inr False)
      else if m_security_capability s \<noteq> ''TLS'' then
        (h, bad_capability ''Endpoint requires TLS capability'',
         hput ''content-type'' ''application/problem+json'' resp_headers, Inr False)
      else
        (case value_string req_data ''authority'' [] of
           Inl e \<Rightarrow> (h, resp_data, resp_headers, Inl e)
         | Inr target_authority \<Rightarrow>
             (case (value_string req_data ''path'' [], value_string req_data ''query'' []) of
                (Inr path, Inr query) \<Rightarrow>
                  (case send_http_request_to_target F net target_authority (path @ ''?'' @ query)
                          ''GET'' [] (forward_headers_of req_data) h of
                     (None, h') \<Rightarrow> (h', resp_data, resp_headers, Inr False)
                   | (Some (response_json, status_code, raw), h') \<Rightarrow>
                       (h', if json_empty response_json \<and> status_code = 200
                            then JObj [(''status'', JStr ''OK'')] else response_json,
                        hput ''content-type'' ''application/json'' resp_headers, Inr True))
              | _ \<Rightarrow> (h, resp_data, resp_headers, Inl TypeError))))"

text \<open>
  The context identifier of a process message: the one of the unprotected header, else a
  member of the message itself.
\<close>

definition process_context_id :: "n32f_env \<Rightarrow> json \<Rightarrow> flat_jwe \<Rightarrow> string result" where
  "process_context_id F req_data reformatted_data =
     (let unprotected = fj_unprotected reformatted_data in
      case (if is_object unprotected then
              (case fe_context_from F unprotected of
                 Some ctx_info \<Rightarrow> Inr (ci_context_id ctx_info)
               | None \<Rightarrow> value_string unprotected ''n32fContextId'' [])
            else Inr []) of
        Inl e \<Rightarrow> Inl e
      | Inr context_id \<Rightarrow>
          if context_id = [] \<and> jcontains req_data ''n32fContextId''
          then value_string req_data ''n32fContextId'' []
          else Inr context_id)"

definition payload_of :: "n32f_env \<Rightarrow> n32f \<Rightarrow> flat_jwe \<Rightarrow> string option" where
  "payload_of F s jwe =
     (if fj_ciphertext jwe = [] then Some []
      else if m_enc_key s \<noteq> [] \<and> fj_iv jwe \<noteq> [] \<and> fj_tag jwe \<noteq> [] then
        decrypt_jwe_payload (fe_jose F) (fj_ciphertext jwe) (fj_aad jwe) (fj_iv jwe) (fj_tag jwe)
          (m_enc_key s)
      else Some (base64url_decode (fe_jose F) (fj_ciphertext jwe)))"

definition unwrap_request :: "n32f_env \<Rightarrow> n32f \<Rightarrow> flat_jwe \<Rightarrow> nf_http_request option" where
  "unwrap_request F s jwe =
     (case parse_aad (base64url_decode (fe_jose F) (fj_aad jwe)) [] of
        None \<Rightarrow> None
      | Some (method, path, authority, hs) \<Rightarrow>
          (case extract_plmn_from_path (fe_parse F) path ([], []) of
             (mcc, mnc) \<Rightarrow>
               (case payload_of F s jwe of
                  None \<Rightarrow> None
                | Some body \<Rightarrow>
                    Some \<lparr>nq_method = method, nq_path = path, nq_authority = authority,
                          nq_body = body, nq_mcc = mcc, nq_mnc = mnc, nq_headers = hs\<rparr>)))"

text \<open>The rest of the process handler, once the request is unwrapped.\<close>

definition relay_request ::
  "n32f_env \<Rightarrow> net \<Rightarrow> n32f \<Rightarrow> string \<Rightarrow> nf_http_request \<Rightarrow> json \<Rightarrow> headers \<Rightarrow> history \<Rightarrow> history handled" where
  "relay_request F net s context_id q resp_data resp_headers h =
     (case send_http_request_to_target F net (nq_authority q) (nq_path q) (nq_method q)
             (nq_body q) (nq_headers q) h of
        (None, h') \<Rightarrow> (h', resp_data, resp_headers, Inr False)
      | (Some (nf_resp_json, status_code, producer), h') \<Rightarrow>
          (case build_reformatted_data F s (to_string status_code) (nq_path q) (nq_authority q)
                  (np_body producer) context_id (np_headers producer) of
             Inl e \<Rightarrow> (h', resp_data, resp_headers, Inl e)
           | Inr None \<Rightarrow> (h', resp_data, resp_headers, Inr False)
           | Inr (Some resp) \<Rightarrow>
               (h', fe_rsp_to F resp,
                hput ''content-type'' ''application/json'' resp_headers, Inr True)))"

definition handle_n32f_process_post ::
  "n32f_env \<Rightarrow> net \<Rightarrow> n32f \<Rightarrow> json \<Rightarrow> json \<Rightarrow> headers \<Rightarrow> history \<Rightarrow> history handled" where
  "handle_n32f_process_post F net s req_data resp_data resp_headers h =
     (if \<not> validate_n32f_message req_data then (h, resp_data, resp_headers, Inr False)
      else if m_security_capability s \<noteq> ''PRINS'' then
        (h, bad_capability ''Endpoint /n32f-process requires PRINS capability'',
         hput ''content-type'' ''application/problem+json'' resp_headers, Inr False)
      else case fe_req_from F req_data of
        None \<Rightarrow> (h, resp_data, resp_headers, Inr False)
      | Some jwe \<Rightarrow>
          (case process_context_id F req_data jwe of
             Inl e \<Rightarrow> (h, resp_data, resp_headers, Inl e)
           | Inr context_id \<Rightarrow>
               if context_id = [] then (h, resp_data, resp_headers, Inr False)
               else (case unwrap_request F s jwe of
                       None \<Rightarrow> (h, resp_data, resp_headers, Inr False)
                     | Some q \<Rightarrow> relay_request F net s context_id q resp_data resp_headers h)))"

definition handle_n32f_process_options :: "json \<Rightarrow> json result" where
  "handle_n32f_process_options resp_data =
     jset_all [(''supportedFeatures'', JStr ''1''),
               (''supportedEncAlgs'', JArr [JStr ''A128GCM'', JStr ''A256GCM'']),
               (''supportedIpxs'', JArr [])] resp_data"

subsection \<open>Reading back the additional data\<close>

text \<open>
  A token is what the first line can carry as method, status or path; a header can be
  carried when its name holds no colon. Lines with CR or LF in them are not written.
\<close>

definition token :: "string \<Rightarrow> bool" where
  "token s \<longleftrightarrow> s \<noteq> [] \<and> (\<forall>c\<in>set s. \<not> is_space c)"

definition carried :: "headers \<Rightarrow> headers" where
  "carried hs = filter (\<lambda>(k, v). \<not> has_crlf k \<and> \<not> has_crlf v) hs"

definition header_names_ok :: "headers \<Rightarrow> bool" where
  "header_names_ok hs \<longleftrightarrow> (\<forall>(k, v)\<in>set hs. CHR '':'' \<notin> set k \<and> k \<noteq> ''authority'')"

lemma getlines_line: "CHR 0x0A \<notin> set l \<Longrightarrow> getlines (l @ CHR 0x0A # rest) = l # getlines rest"
  by (induction l) auto

lemma getlines_crlf: "\<not> has_crlf l \<Longrightarrow> getlines (l @ crlf @ rest) = (l @ [CHR 0x0D]) # getlines rest"
  using getlines_line[of "l @ [CHR 0x0D]" rest] by (simp add: has_crlf_def crlf_def)

lemma strip_cr_snoc [simp]: "strip_cr (l @ [CHR 0x0D]) = l"
  by (simp add: strip_cr_def)

lemma has_crlf_simps [simp]:
  "has_crlf (a @ b) \<longleftrightarrow> has_crlf a \<or> has_crlf b" "\<not> has_crlf []"
  "has_crlf (c # b) \<longleftrightarrow> c = CHR 0x0D \<or> c = CHR 0x0A \<or> has_crlf b"
  by (auto simp: has_crlf_def)

lemma token_no_crlf: "token s \<Longrightarrow> \<not> has_crlf s"
  by (auto simp: token_def has_crlf_def is_space_def)

lemma has_crlf_force_http: "\<not> has_crlf s \<Longrightarrow> \<not> has_crlf (force_http s)"
  using set_drop_subset[of 8 s] by (auto simp: force_http_def has_crlf_def)

lemma read_token_token:
  assumes "token s"
  shows "read_token (s @ CHR '' '' # rest) old = (s, CHR '' '' # rest)"
    and "read_token (CHR '' '' # s @ CHR '' '' # rest) old = (s, CHR '' '' # rest)"
proof -
  have sp: "is_space CHR '' ''" by (simp add: is_space_def)
  obtain c cs where s: "s = c # cs" using assms by (cases s) (auto simp: token_def)
  have plain: "\<forall>c\<in>set s. \<not> is_space c" using assms by (simp add: token_def)
  have d: "dropWhile is_space (s @ CHR '' '' # rest) = s @ CHR '' '' # rest"
    using plain s by simp
  have t: "takeWhile (\<lambda>c. \<not> is_space c) (s @ CHR '' '' # rest) = s"
    "dropWhile (\<lambda>c. \<not> is_space c) (s @ CHR '' '' # rest) = CHR '' '' # rest"
    using plain sp by (simp_all add: takeWhile_append2 dropWhile_append2)
  show "read_token (s @ CHR '' '' # rest) old = (s, CHR '' '' # rest)"
    by (simp add: read_token_def d t)
  show "read_token (CHR '' '' # s @ CHR '' '' # rest) old = (s, CHR '' '' # rest)"
    using sp by (simp add: read_token_def d t)
qed

lemma parse_header_line_ok:
  assumes "CHR '':'' \<notin> set k" and "\<not> has_crlf k" and "\<not> has_crlf v"
  shows "parse_header_line (k @ '': '' @ v @ [CHR 0x0D]) (a, m) =
     (if k = ''authority'' then v else a, hput k v m)"
proof -
  have s: "strip_cr (k @ '': '' @ v @ [CHR 0x0D]) = k @ '':'' @ CHR '' '' # v"
    using strip_cr_snoc[of "k @ '': '' @ v"] by simp
  have f: "str_find '':'' (k @ '':'' @ CHR '' '' # v) = Some (length k)"
    using assms by (intro str_find_append) auto
  have d: "drop (length k + 1) (k @ '':'' @ CHR '' '' # v) = CHR '' '' # v" by simp
  show ?thesis
    unfolding parse_header_line_def Let_def s f by (simp only: option.case d) simp
qed

definition carried_lines :: "headers \<Rightarrow> string" where
  "carried_lines hs = concat (map (\<lambda>(key, value). if \<not> has_crlf key \<and> \<not> has_crlf value
     then header_line key value else []) hs)"

lemma getlines_header_line:
  assumes "\<not> has_crlf k" and "\<not> has_crlf v"
  shows "getlines (header_line k v @ rest) = (k @ '': '' @ v @ [CHR 0x0D]) # getlines rest"
  using getlines_crlf[of "k @ '': '' @ v" rest] assms by (simp add: header_line_def)

lemma parse_carried_lines:
  assumes "header_names_ok hs"
  shows "fold parse_header_line (getlines (carried_lines hs)) (a, m) =
     (a, fold (\<lambda>(k, v). hput k v) (carried hs) m)"
  using assms
proof (induction hs arbitrary: m)
  case Nil
  then show ?case by (simp add: carried_lines_def carried_def)
next
  case (Cons kv hs)
  obtain k v where kv: "kv = (k, v)" by force
  with Cons.prems have k: "CHR '':'' \<notin> set k" "k \<noteq> ''authority''" and hs: "header_names_ok hs"
    by (auto simp: header_names_ok_def)
  have l: "carried_lines (kv # hs) =
      (if \<not> has_crlf k \<and> \<not> has_crlf v then header_line k v else []) @ carried_lines hs"
    by (simp add: carried_lines_def kv)
  show ?case
  proof (cases "\<not> has_crlf k \<and> \<not> has_crlf v")
    case True
    with l have "getlines (carried_lines (kv # hs)) =
        (k @ '': '' @ v @ [CHR 0x0D]) # getlines (carried_lines hs)"
      by (simp add: getlines_header_line)
    with True k Cons.IH[OF hs] kv parse_header_line_ok[of k v a m] show ?thesis
      by (simp add: carried_def)
  next
    case False
    with l Cons.IH[OF hs] kv show ?thesis by (auto simp: carried_def)
  qed
qed

definition aad_headers :: "string \<Rightarrow> headers \<Rightarrow> headers \<Rightarrow> headers" where
  "aad_headers authority hs m =
     fold (\<lambda>(k, v). hput k v) (carried hs)
       (if authority \<noteq> [] then hput ''3gpp-sbi-target-apiroot'' (force_http authority)
                               (hput ''authority'' authority m) else m)"

lemma parse_aad_raw:
  assumes "token method" and "token path" and "\<not> has_crlf authority" and "header_names_ok hs"
  shows "parse_aad (aad_raw method path authority hs) m =
     Some (method, path, authority, aad_headers authority hs m)"
proof -
  let ?line = "method @ '' '' @ path @ '' HTTP/2.0''"
  let ?auth = "if authority \<noteq> [] then
        header_line ''authority'' authority @
        header_line ''3gpp-sbi-target-apiroot'' (force_http authority) else []"
  have raw: "aad_raw method path authority hs = ?line @ crlf @ ?auth @ carried_lines hs"
    by (simp add: aad_raw_def carried_lines_def)
  have "\<not> has_crlf ?line" using assms(1,2) by (simp add: token_no_crlf)
  then have lines: "getlines (aad_raw method path authority hs) =
      (?line @ [CHR 0x0D]) # getlines (?auth @ carried_lines hs)"
    unfolding raw by (rule getlines_crlf)
  have first: "read_token ?line [] = (method, '' '' @ path @ '' HTTP/2.0'')"
    "read_token ('' '' @ path @ '' HTTP/2.0'') [] = (path, '' HTTP/2.0'')"
    using read_token_token(1)[OF assms(1)] read_token_token(2)[OF assms(2)] by simp_all
  have "fold parse_header_line (getlines (?auth @ carried_lines hs)) ([], m) =
      (authority, aad_headers authority hs m)"
  proof (cases "authority = []")
    case True
    then show ?thesis by (simp add: parse_carried_lines[OF assms(4)] aad_headers_def)
  next
    case False
    have a: "parse_header_line (''authority'' @ '': '' @ authority @ [CHR 0x0D]) ([], m) =
        (authority, hput ''authority'' authority m)"
      using assms(3) by (subst parse_header_line_ok) simp_all
    have b: "parse_header_line (''3gpp-sbi-target-apiroot'' @ '': '' @ force_http authority @ [CHR 0x0D])
          (authority, hput ''authority'' authority m) =
        (authority, hput ''3gpp-sbi-target-apiroot'' (force_http authority)
           (hput ''authority'' authority m))"
      using has_crlf_force_http[OF assms(3)] by (subst parse_header_line_ok) simp_all
    have l: "getlines (?auth @ carried_lines hs) =
        (''authority'' @ '': '' @ authority @ [CHR 0x0D]) #
        (''3gpp-sbi-target-apiroot'' @ '': '' @ force_http authority @ [CHR 0x0D]) #
        getlines (carried_lines hs)"
      using False assms(3) has_crlf_force_http[OF assms(3)]
      by (simp only: if_True not_False_eq_True append_assoc)
        (subst getlines_header_line; simp; subst getlines_header_line; simp)
    show ?thesis
      unfolding l fold_Cons comp_def a b parse_carried_lines[OF assms(4)]
      using False by (simp add: aad_headers_def)
  qed
  then show ?thesis
    unfolding parse_aad_def lines list.case strip_cr_snoc first prod.case
    by simp
qed

subsection \<open>What the code relies on\<close>

text \<open>
  The models read back what they wrote, the fixed protected header can be dumped,
  \<^verbatim>\<open>prepare_json_request\<close> keeps the URI and the body it is given, and iterating over a map
  visits each of its entries once.
\<close>

definition n32f_env_ok :: "n32f_env \<Rightarrow> bool" where
  "n32f_env_ok F \<longleftrightarrow>
     bio_ok (fe_jose F) \<and> gcm_ok (fe_jose F) \<and> params_dto_ok (fe_n32c F) \<and>
     (\<forall>j. is_object (fe_req_to F j) \<and> fe_req_from F (fe_req_to F j) = Some j) \<and>
     (\<forall>j. is_object (fe_rsp_to F j) \<and> fe_rsp_from F (fe_rsp_to F j) = Some j) \<and>
     (\<forall>s. fe_dump F (protected_hdr s) \<noteq> None) \<and>
     (\<forall>u b. rq_uri (fe_prepare F u b) = u \<and> rq_body (fe_prepare F u b) = b) \<and>
     (\<forall>h. mset (fe_order F h) = mset h)"

lemma n32f_env_okD:
  assumes "n32f_env_ok F"
  shows "bio_ok (fe_jose F)" "gcm_ok (fe_jose F)"
    "is_object (fe_req_to F j)" "fe_req_from F (fe_req_to F j) = Some j"
    "is_object (fe_rsp_to F j)" "fe_rsp_from F (fe_rsp_to F j) = Some j"
    "\<exists>t. fe_dump F (protected_hdr s) = Some t"
    "rq_uri (fe_prepare F u b) = u" "rq_body (fe_prepare F u b) = b"
    "mset (fe_order F h) = mset h" "set (fe_order F h) = set h"
    "is_object (fe_context_to F c)" "fe_context_from F (fe_context_to F c) = Some c"
  using assms unfolding n32f_env_ok_def params_dto_ok_def fe_context_from_def fe_context_to_def
  by (blast dest: mset_eq_setD)+

lemma fe_order_Nil [simp]: "n32f_env_ok F \<Longrightarrow> fe_order F [] = []"
  using n32f_env_okD(10)[of F "[]"] by simp

subsection \<open>Wrapping and unwrapping\<close>

text \<open>
  Two instances with the same key understand each other's messages, as long as the texts
  fit the sizes OpenSSL takes.
\<close>

lemma build_parts:
  assumes ok: "n32f_env_ok F" and key: "m_enc_key a = m_enc_key b"
    and build: "build_reformatted_data F a ms path authority body ctx hs = Inr (Some jwe)"
    and small: "b64_small (aad_raw ms path authority (fe_order F hs))" "b64_small body"
  shows "base64url_decode (fe_jose F) (fj_aad jwe) = aad_raw ms path authority (fe_order F hs)"
    and "payload_of F b jwe = Some body"
    and "fj_unprotected jwe = fe_context_to F \<lparr>ci_context_id = ctx\<rparr>"
proof -
  let ?J = "fe_jose F"
  let ?raw = "aad_raw ms path authority (fe_order F hs)"
  note bio = n32f_env_okD(1)[OF ok] and gcm = n32f_env_okD(2)[OF ok]
  obtain t where "fe_dump F (protected_hdr a) = Some t"
    using n32f_env_okD(7)[OF ok] by blast
  note b = build[unfolded build_reformatted_data_def Let_def this option.case]
  have "fj_aad jwe = base64url_encode ?J ?raw"
    using b by (auto split: if_splits option.splits)
  with base64url_decode_encode[OF bio small(1)]
  show "base64url_decode ?J (fj_aad jwe) = ?raw" by simp
  show "fj_unprotected jwe = fe_context_to F \<lparr>ci_context_id = ctx\<rparr>"
    using b by (auto split: if_splits option.splits)
  show "payload_of F b jwe = Some body"
  proof (cases "body = []")
    case True
    with b show ?thesis by (auto simp: payload_of_def)
  next
    case body: False
    show ?thesis
    proof (cases "m_enc_key a = []")
      case True
      with b body have "fj_ciphertext jwe = base64url_encode ?J body" by auto
      with True key body base64url_encode_ne[OF bio small(2) body]
        base64url_decode_encode[OF bio small(2)]
      show ?thesis by (simp add: payload_of_def)
    next
      case False
      with b body obtain iv ct tag where
        enc: "apply_jwe_encryption ?J body (base64url_encode ?J ?raw) (m_enc_key a) = Some (iv, ct, tag)"
        and out: "fj_iv jwe = iv" "fj_ciphertext jwe = ct" "fj_tag jwe = tag"
        by (auto split: option.splits)
      have "decrypt_jwe_payload ?J ct (fj_aad jwe) iv tag (m_enc_key a) = Some body"
        using decrypt_encrypted[OF bio gcm small(2) enc] \<open>fj_aad jwe = _\<close> by simp
      with encrypted_nonempty[OF bio gcm small(2) body enc] out False key show ?thesis
        by (simp add: payload_of_def)
    qed
  qed
qed

lemma build_without_key:
  assumes "n32f_env_ok F" and "m_enc_key a = []"
  shows "\<exists>jwe. build_reformatted_data F a ms path authority body ctx hs = Inr (Some jwe)"
proof -
  obtain t where "fe_dump F (protected_hdr a) = Some t"
    using n32f_env_okD(7)[OF assms(1)] by blast
  with assms(2) show ?thesis by (simp add: build_reformatted_data_def Let_def)
qed

lemma header_names_ok_order:
  "n32f_env_ok F \<Longrightarrow> header_names_ok (fe_order F hs) \<longleftrightarrow> header_names_ok hs"
  by (simp add: header_names_ok_def n32f_env_okD(11))

lemma unwrap_wrapped:
  assumes ok: "n32f_env_ok F" and key: "m_enc_key a = m_enc_key b"
    and build: "build_reformatted_data F a method path authority body ctx hs = Inr (Some jwe)"
    and small: "b64_small (aad_raw method path authority (fe_order F hs))" "b64_small body"
    and shape: "token method" "token path" "\<not> has_crlf authority" "header_names_ok hs"
  shows "\<exists>mcc mnc. unwrap_request F b jwe =
     Some \<lparr>nq_method = method, nq_path = path, nq_authority = authority, nq_body = body,
           nq_mcc = mcc, nq_mnc = mnc, nq_headers = aad_headers authority (fe_order F hs) []\<rparr>"
  using build_parts[OF ok key build small] parse_aad_raw[OF shape(1-3), of "fe_order F hs" "[]"]
    shape(4) header_names_ok_order[OF ok]
  by (simp add: unwrap_request_def split: prod.split)

subsection \<open>Requests\<close>

lemma force_http_ne [simp]: "force_http s \<noteq> []"
  by (auto simp: force_http_def starts_with_def)

lemma force_http_idem [simp]: "force_http (force_http s) = force_http s"
proof -
  have "starts_with ''http://'' (force_http s)"
    by (auto simp: force_http_def starts_with_def)
  then show ?thesis
    by (auto simp: force_http_def[of "force_http s"] starts_with_def prefix_def)
qed

lemma force_http_scheme: "starts_with ''http://'' (force_http s @ t)"
  by (auto simp: force_http_def starts_with_def intro: prefix_prefix)

lemma hget_aad_headers_Nil [simp]:
  "hget (aad_headers authority [] m) k =
     (if authority = [] then hget m k
      else if k = ''3gpp-sbi-target-apiroot'' then Some (force_http authority)
      else if k = ''authority'' then Some authority else hget m k)"
  by (simp add: aad_headers_def carried_def)

lemma target_request_uri:
  assumes "n32f_env_ok F"
  shows "rq_uri (target_request F authority path payload hs) =
      force_http (select_target F authority hs) @ path"
    and "rq_body (target_request F authority path payload hs) = payload"
  using n32f_env_okD(8,9)[OF assms] by (simp_all add: target_request_def Let_def)

lemma send_history:
  "snd (send_http_request_to_target F net authority path m payload hs h) =
     h @ [HttpCall SbiClient (method_of_string m) (target_request F authority path payload hs)]"
  by (simp add: send_http_request_to_target_def send_http_request_def Let_def split: prod.split)

text \<open>Once a request is unwrapped, it is sent, whatever happens to the answer.\<close>

lemma relay_history:
  "fst (relay_request F net s ctx q r hs h) =
     h @ [HttpCall SbiClient (method_of_string (nq_method q))
            (target_request F (nq_authority q) (nq_path q) (nq_body q) (nq_headers q))]"
proof -
  obtain out h' where s: "send_http_request_to_target F net (nq_authority q) (nq_path q)
      (nq_method q) (nq_body q) (nq_headers q) h = (out, h')" by force
  then have "h' = h @ [HttpCall SbiClient (method_of_string (nq_method q))
            (target_request F (nq_authority q) (nq_path q) (nq_body q) (nq_headers q))]"
    using send_history by (metis snd_conv)
  with s show ?thesis
    by (simp add: relay_request_def split: option.split sum.split prod.split)
qed

lemma process_accepts:
  assumes "is_object d" and "m_security_capability s = ''PRINS''" and "fe_req_from F d = Some jwe"
    and "process_context_id F d jwe = Inr ctx" and "ctx \<noteq> []" and "unwrap_request F s jwe = Some q"
  shows "handle_n32f_process_post F net s d r hs h = relay_request F net s ctx q r hs h"
proof -
  have "validate_n32f_message d"
    using assms(1) by (cases d) (auto simp: validate_n32f_message_def)
  with assms show ?thesis by (simp add: handle_n32f_process_post_def)
qed

lemma process_context_wrapped:
  assumes "n32f_env_ok F" and "fj_unprotected jwe = fe_context_to F \<lparr>ci_context_id = ctx\<rparr>" and "ctx \<noteq> []"
  shows "process_context_id F d jwe = Inr ctx"
  using assms by (simp add: process_context_id_def n32f_env_okD(12,13))

lemma created_request:
  assumes "create_n32f_process_request F a authority path method body JNull = Inr (Some q)"
    and "m_security_capability a \<noteq> ''TLS''"
  shows "\<exists>ctx jwe. ctx \<noteq> [] \<and> q = fe_req_to F jwe \<and>
     build_reformatted_data F a method path authority body ctx [] = Inr (Some jwe)"
proof -
  let ?ctx = "if m_n32f_context_id a = [] then ''dummy_context_id'' else m_n32f_context_id a"
  from assms obtain jwe where
    "build_reformatted_data F a method path authority body ?ctx [] = Inr (Some jwe)"
    "q = fe_req_to F jwe"
    unfolding create_n32f_process_request_def Let_def by (auto split: sum.splits option.splits)
  then show ?thesis by (intro exI[of _ ?ctx] exI[of _ jwe]) simp
qed

lemma request_delivered:
  assumes ok: "n32f_env_ok F" and key: "m_enc_key a = m_enc_key b"
    and cap: "m_security_capability a \<noteq> ''TLS''" "m_security_capability b = ''PRINS''"
    and create: "create_n32f_process_request F a authority path method body JNull = Inr (Some q)"
    and small: "b64_small (aad_raw method path authority [])" "b64_small body"
    and shape: "token method" "token path" "\<not> has_crlf authority"
  shows "\<exists>ctx jwe mcc mnc. ctx \<noteq> [] \<and> is_object q \<and> fe_req_from F q = Some jwe \<and>
     process_context_id F q jwe = Inr ctx \<and>
     unwrap_request F b jwe =
       Some \<lparr>nq_method = method, nq_path = path, nq_authority = authority, nq_body = body,
             nq_mcc = mcc, nq_mnc = mnc, nq_headers = aad_headers authority [] []\<rparr>"
proof -
  from created_request[OF create cap(1)] obtain ctx jwe where
    ctx: "ctx \<noteq> []" and q: "q = fe_req_to F jwe"
    and build: "build_reformatted_data F a method path authority body ctx [] = Inr (Some jwe)"
    by blast
  have small': "b64_small (aad_raw method path authority (fe_order F []))"
    using small(1) ok by simp
  have hn: "header_names_ok []" by (simp add: header_names_ok_def)
  from unwrap_wrapped[OF ok key build small' small(2) shape hn] obtain mcc mnc where
    "unwrap_request F b jwe =
       Some \<lparr>nq_method = method, nq_path = path, nq_authority = authority, nq_body = body,
             nq_mcc = mcc, nq_mnc = mnc, nq_headers = aad_headers authority [] []\<rparr>"
    using ok by auto
  moreover have "process_context_id F q jwe = Inr ctx"
    using build_parts(3)[OF ok key build small' small(2)] ctx by (rule process_context_wrapped[OF ok])
  ultimately show ?thesis using ctx q n32f_env_okD(3,4)[OF ok] by blast
qed

subsection \<open>An environment\<close>

text \<open>
  The demonstration environment: the members of a \<open>flat_jwe\<close> under the names of TS 29.573.
\<close>

definition demo_jwe_to :: "flat_jwe \<Rightarrow> json" where
  "demo_jwe_to j = JObj [(''reformattedData'', JObj
     [(''protected'', JStr (fj_protected j)), (''unprotected'', fj_unprotected j),
      (''aad'', JStr (fj_aad j)), (''iv'', JStr (fj_iv j)),
      (''ciphertext'', JStr (fj_ciphertext j)), (''tag'', JStr (fj_tag j))])]"

definition demo_jwe_from :: "json \<Rightarrow> flat_jwe option" where
  "demo_jwe_from d =
     (case jfind d ''reformattedData'' of
        None \<Rightarrow> None
      | Some j \<Rightarrow>
          (case (string_of (jfind j ''protected''), jfind j ''unprotected'', string_of (jfind j ''aad''),
                 string_of (jfind j ''iv''), string_of (jfind j ''ciphertext''), string_of (jfind j ''tag'')) of
             (Some p, Some u, Some a, Some i, Some c, Some t) \<Rightarrow>
               Some \<lparr>fj_protected = p, fj_unprotected = u, fj_aad = a, fj_iv = i,
                     fj_ciphertext = c, fj_tag = t\<rparr>
           | _ \<Rightarrow> None))"

definition demo_n32f_env :: n32f_env where
  "demo_n32f_env = \<lparr>
     fe_req_from = demo_jwe_from, fe_req_to = demo_jwe_to,
     fe_rsp_from = demo_jwe_from, fe_rsp_to = demo_jwe_to,
     fe_n32c = demo_n32c_env,
     fe_parse = (\<lambda>t. None), fe_dump = (\<lambda>j. Some ''{}''),
     fe_prepare = (\<lambda>u b. \<lparr>rq_uri = u,
        rq_headers = [(''content-type'', ''application/json'')], rq_body = b\<rparr>),
     fe_get_json = (\<lambda>r. None), fe_nrf_url = ''http://nrf:8000'', fe_order = rev,
     fe_jose = demo_jose_env\<rparr>"

lemma demo_jwe [simp]: "demo_jwe_from (demo_jwe_to j) = Some j" "is_object (demo_jwe_to j)"
  by (simp_all add: demo_jwe_from_def demo_jwe_to_def)

lemma demo_n32f_env_ok: "n32f_env_ok demo_n32f_env"
  using demo_bio_ok demo_gcm_ok demo_params_dto_ok
  by (simp add: n32f_env_ok_def demo_n32f_env_def)

lemma demo_jose_small:
  "length t \<le> 3000 \<Longrightarrow> b64_small t"
  by (simp add: b64_small_def)

subsection \<open>Properties\<close>

text \<open>
  C13: the additional authenticated data of a message is read back by the receiver as the
  same method (or status), path and authority, and the headers that were written into it.
\<close>

theorem aad_roundtrip:
  assumes "token method" and "token path" and "\<not> has_crlf authority" and "header_names_ok hs"
  shows "parse_aad (aad_raw method path authority hs) m =
     Some (method, path, authority, aad_headers authority hs m)"
  by (rule parse_aad_raw[OF assms])

theorem aad_roundtrip_witness:
  "parse_aad (aad_raw ''GET'' ''/nudm-sdm/v2/imsi-1'' ''udm.org'' [(''location'', ''/x'')]) [] =
     Some (''GET'', ''/nudm-sdm/v2/imsi-1'', ''udm.org'',
       aad_headers ''udm.org'' [(''location'', ''/x'')] [])"
  by (rule aad_roundtrip) (simp_all add: token_def is_space_def header_names_ok_def)

text \<open>
  A request that one SEPP wraps under PRINS reaches the network function behind the
  other one as it was: exactly one HTTP request leaves the second SEPP, with the same
  method, the same path at the same authority over plain HTTP, and the same body. A request
  without authority goes to the configured NRF.
\<close>

theorem prins_request_delivered:
  assumes ok: "n32f_env_ok F" and key: "m_enc_key a = m_enc_key b"
    and cap: "m_security_capability a \<noteq> ''TLS''" "m_security_capability b = ''PRINS''"
    and create: "create_n32f_process_request F a authority path method body JNull = Inr (Some q)"
    and small: "b64_small (aad_raw method path authority [])" "b64_small body"
    and shape: "token method" "token path" "\<not> has_crlf authority"
  shows "\<exists>r. fst (handle_n32f_process_post F net b q resp hs h) =
       h @ [HttpCall SbiClient (method_of_string method) r] \<and>
     rq_uri r = force_http (if authority = [] then fe_nrf_url F else authority) @ path \<and>
     rq_body r = body"
proof -
  from request_delivered[OF ok key cap create small shape] obtain ctx jwe mcc mnc where
    c: "ctx \<noteq> []" and d: "is_object q" "fe_req_from F q = Some jwe" "process_context_id F q jwe = Inr ctx"
    and u: "unwrap_request F b jwe =
       Some \<lparr>nq_method = method, nq_path = path, nq_authority = authority, nq_body = body,
             nq_mcc = mcc, nq_mnc = mnc, nq_headers = aad_headers authority [] []\<rparr>"
    by (elim exE conjE)
  have "select_target F authority (aad_headers authority [] []) =
      (if authority = [] then fe_nrf_url F else force_http authority)"
    by (simp add: select_target_def)
  then have "rq_uri (target_request F authority path body (aad_headers authority [] [])) =
      force_http (if authority = [] then fe_nrf_url F else authority) @ path"
    by (simp add: target_request_uri(1)[OF ok])
  with process_accepts[OF d(1) cap(2) d(2,3) c u, of net resp hs h] target_request_uri(2)[OF ok]
  show ?thesis by (simp add: relay_history)
qed

theorem prins_request_delivered_witness:
  "\<exists>q r. create_n32f_process_request demo_n32f_env n32f_init ''udm.org'' ''/sdm?x=1'' ''POST'' ''{}'' JNull =
       Inr (Some q) \<and>
     fst (handle_n32f_process_post demo_n32f_env (\<lambda>h. \<lparr>rp_status = 0, rp_body = [], rp_headers = []\<rparr>)
       n32f_init q JNull [] []) = [HttpCall SbiClient POST r] \<and>
     rq_uri r = ''http://udm.org/sdm?x=1'' \<and> rq_body r = ''{}''"
proof -
  obtain q where q: "create_n32f_process_request demo_n32f_env n32f_init ''udm.org'' ''/sdm?x=1''
      ''POST'' ''{}'' JNull = Inr (Some q)"
    by (simp add: create_n32f_process_request_def build_reformatted_data_def n32f_init_def
        demo_n32f_env_def)
  have cap: "m_security_capability n32f_init \<noteq> ''TLS''" "m_security_capability n32f_init = ''PRINS''"
    by (simp_all add: n32f_init_def)
  have small: "b64_small (aad_raw ''POST'' ''/sdm?x=1'' ''udm.org'' [])" "b64_small ''{}''"
    by (rule demo_jose_small, simp add: aad_raw_def header_line_def crlf_def force_http_def
        starts_with_def)+
  have shape: "token ''POST''" "token ''/sdm?x=1''" "\<not> has_crlf ''udm.org''"
    by (simp_all add: token_def is_space_def)
  have u: "force_http ''udm.org'' = ''http://udm.org''"
    by (simp add: force_http_def starts_with_def)
  from prins_request_delivered[OF demo_n32f_env_ok refl cap q small shape,
      of "\<lambda>h. \<lparr>rp_status = 0, rp_body = [], rp_headers = []\<rparr>" JNull "[]" "[]"] q u
  show ?thesis by (auto simp: method_of_string_def)
qed

lemma process_history:
  "fst (handle_n32f_process_post F net s d r hs h) = h \<or>
   (\<exists>q :: nf_http_request. fst (handle_n32f_process_post F net s d r hs h) =
        h @ [HttpCall SbiClient (method_of_string (nq_method q))
            (target_request F (nq_authority q) (nq_path q) (nq_body q) (nq_headers q))])"
  unfolding handle_n32f_process_post_def
  by (auto simp: relay_history split: option.split sum.split intro!: exI)

lemma forward_history:
  "fst (handle_n32f_forward F net s d r hs h) = h \<or>
   (\<exists>a p. fst (handle_n32f_forward F net s d r hs h) =
        h @ [HttpCall SbiClient GET (target_request F a p [] (forward_headers_of d))])"
proof -
  have *: "fst (case x of (None, h') \<Rightarrow> (h', r, hs, Inr False)
      | (Some (j, c, raw), h') \<Rightarrow> (h', if json_empty j \<and> c = 200 then JObj [(''status'', JStr ''OK'')] else j,
          hput ''content-type'' ''application/json'' hs, (Inr True :: bool result))) = snd x" for x ::
      "(json \<times> int \<times> nf_http_response) option \<times> history"
    by (cases x) (simp split: option.split prod.split)
  show ?thesis
    unfolding handle_n32f_forward_def
    by (cases "value_string d ''authority'' []"; cases "value_string d ''path'' []";
        cases "value_string d ''query'' []")
      (auto simp: * send_history method_of_string_def)
qed

text \<open>
  C18: whatever a peer sends to the two N32-f endpoints, the SEPP makes at most one request,
  and only with plain HTTP to the local side; the forward endpoint only ever sends GET
  without a body.
\<close>

theorem n32f_single_local_request:
  assumes "n32f_env_ok F"
  shows "(fst (handle_n32f_process_post F net s d r hs h) = h \<or>
      (\<exists>m q. fst (handle_n32f_process_post F net s d r hs h) = h @ [HttpCall SbiClient m q] \<and>
         starts_with ''http://'' (rq_uri q))) \<and>
    (fst (handle_n32f_forward F net s d r hs h) = h \<or>
      (\<exists>q. fst (handle_n32f_forward F net s d r hs h) = h @ [HttpCall SbiClient GET q] \<and>
         starts_with ''http://'' (rq_uri q) \<and> rq_body q = []))"
proof -
  have u: "starts_with ''http://'' (rq_uri (target_request F a p b m))"
    "rq_body (target_request F a p b m) = b" for a p b m
    using target_request_uri[OF assms] force_http_scheme by simp_all
  show ?thesis
    using process_history[of F net s d r hs h] forward_history[of F net s d r hs h] u by metis
qed

theorem n32f_single_local_request_witness:
  "\<exists>q. fst (handle_n32f_forward demo_n32f_env (\<lambda>h. \<lparr>rp_status = 404, rp_body = [], rp_headers = []\<rparr>)
     \<lparr>m_n32f_context_id = [], m_security_capability = ''TLS'', m_enc_key = []\<rparr>
     (JObj [(''authority'', JStr ''https://udm''), (''path'', JStr ''/p'')]) JNull [] []) =
     [HttpCall SbiClient GET q] \<and> starts_with ''http://'' (rq_uri q)"
proof -
  let ?net = "\<lambda>h :: history. \<lparr>rp_status = 404, rp_body = [], rp_headers = []\<rparr>"
  let ?s = "\<lparr>m_n32f_context_id = [], m_security_capability = ''TLS'', m_enc_key = []\<rparr>"
  let ?d = "JObj [(''authority'', JStr ''https://udm''), (''path'', JStr ''/p'')]"
  have "fst (handle_n32f_forward demo_n32f_env ?net ?s ?d JNull [] []) \<noteq> []"
    by code_simp
  with n32f_single_local_request[OF demo_n32f_env_ok, of ?net ?s ?d JNull "[]" "[]"]
  show ?thesis by auto
qed

text \<open>
  C19: each endpoint answers only under its own mechanism: under another capability the
  message is refused with a 400 problem document, before any part of it is looked at and
  without a request to the local side.
\<close>

theorem wrong_capability_refused:
  assumes "is_object d"
  shows "(m_security_capability s \<noteq> ''PRINS'' \<longrightarrow>
      (\<exists>j. handle_n32f_process_post F net s d r hs h =
         (h, j, hput ''content-type'' ''application/problem+json'' hs, Inr False) \<and>
       jfind j ''status'' = Some (JInt 400) \<and>
       jfind j ''cause'' = Some (JStr ''INVALID_CAPABILITY_ENDPOINT''))) \<and>
    (m_security_capability s \<noteq> ''TLS'' \<longrightarrow>
      (\<exists>j. handle_n32f_forward F net s d r hs h =
         (h, j, hput ''content-type'' ''application/problem+json'' hs, Inr False) \<and>
       jfind j ''status'' = Some (JInt 400) \<and>
       jfind j ''cause'' = Some (JStr ''INVALID_CAPABILITY_ENDPOINT'')))"
proof -
  have "validate_n32f_message d"
    using assms by (cases d) (auto simp: validate_n32f_message_def)
  then show ?thesis
    by (simp add: handle_n32f_process_post_def handle_n32f_forward_def bad_capability_def)
qed

theorem wrong_capability_refused_witness:
  "\<exists>j. handle_n32f_forward demo_n32f_env (\<lambda>h. \<lparr>rp_status = 0, rp_body = [], rp_headers = []\<rparr>)
     n32f_init (JObj []) JNull [] [] =
     ([], j, hput ''content-type'' ''application/problem+json'' [], Inr False) \<and>
     jfind j ''status'' = Some (JInt 400)"
proof -
  have o: "is_object (JObj [])" and c: "m_security_capability n32f_init \<noteq> ''TLS''"
    by (simp_all add: n32f_init_def)
  from wrong_capability_refused[OF o, of n32f_init demo_n32f_env
      "\<lambda>h. \<lparr>rp_status = 0, rp_body = [], rp_headers = []\<rparr>" JNull "[]" "[]"] c
  show ?thesis by blast
qed

lemma build_context_free:
  "build_reformatted_data F (s\<lparr>m_n32f_context_id := c\<rparr>) = build_reformatted_data F s"
  by (intro ext, cases s)
    (simp only: build_reformatted_data_def protected_hdr_def n32f.select_convs n32f.update_convs)

lemma unwrap_context_free:
  "unwrap_request F (s\<lparr>m_n32f_context_id := c\<rparr>) = unwrap_request F s"
  by (intro ext, cases s)
    (simp only: unwrap_request_def payload_of_def n32f.select_convs n32f.update_convs)

lemma relay_context_free:
  "relay_request F net (s\<lparr>m_n32f_context_id := c\<rparr>) = relay_request F net s"
  by (intro ext) (simp only: relay_request_def build_context_free)

text \<open>
  The context identifier of a message is not compared with the established one: an
  instance treats every message alike whatever context it holds, none included, and only
  asks for the identifier to be there.
\<close>

theorem process_context_not_compared:
  "handle_n32f_process_post F net (s\<lparr>m_n32f_context_id := c\<rparr>) d r hs h =
     handle_n32f_process_post F net s d r hs h"
  unfolding handle_n32f_process_post_def unwrap_context_free relay_context_free by simp

subsection \<open>Query strings\<close>

text \<open>
  \<open>url_encode\<close> writes every character that is not a letter, digit or one of \<open>-.\<close> and the
  underscore as an escape with upper-case digits, as clients do.
\<close>

definition unreserved :: "char \<Rightarrow> bool" where
  "unreserved c \<longleftrightarrow> c \<in> set (''ABCDEFGHIJKLMNOPQRSTUVWXYZabcdefghijklmnopqrstuvwxyz'' @ ''0123456789-._'')"

definition hex_char :: "nat \<Rightarrow> char" where
  "hex_char n = ''0123456789ABCDEF'' ! n"

definition url_encode :: "string \<Rightarrow> string" where
  "url_encode s = concat (map (\<lambda>c. if unreserved c then [c]
     else [CHR ''%'', hex_char (of_char c div 16), hex_char (of_char c mod 16)]) s)"

lemma hex_to_int_char: "n < 16 \<Longrightarrow> hex_to_int (hex_char n) = Some n"
proof -
  have "list_all (\<lambda>n. hex_to_int (hex_char n) = Some n) [0..<16]" by code_simp
  then show "n < 16 \<Longrightarrow> hex_to_int (hex_char n) = Some n" by (simp add: list_all_iff)
qed

lemma url_decode_plain: "c \<noteq> CHR ''%'' \<Longrightarrow> url_decode (c # s) = plus_char c # url_decode s"
  by (cases s rule: remdups_adj.cases) (simp_all)

lemma url_decode_encode: "url_decode (url_encode s @ t) = s @ url_decode t"
proof (induction s)
  case Nil
  then show ?case by (simp add: url_encode_def)
next
  case (Cons c s)
  have e: "url_encode (c # s) = (if unreserved c then [c]
      else [CHR ''%'', hex_char (of_char c div 16), hex_char (of_char c mod 16)]) @ url_encode s"
    by (simp add: url_encode_def)
  show ?case
  proof (cases "unreserved c")
    case True
    moreover have "c \<noteq> CHR ''%'' \<and> c \<noteq> CHR ''+''" using True by (auto simp: unreserved_def)
    ultimately show ?thesis using Cons e by (simp add: url_decode_plain plus_char_def)
  next
    case False
    have "(of_char c :: nat) div 16 < 16" "(of_char c :: nat) mod 16 < 16" by simp_all
    with False Cons e show ?thesis by (simp add: hex_to_int_char)
  qed
qed

text \<open>
  Percent-encoding is undone by \<^verbatim>\<open>url_decode\<close>, for every byte string.
\<close>

theorem url_decode_roundtrip: "url_decode (url_encode s) = s"
  using url_decode_encode[of s "[]"] by simp

end
