(* ===== verification/Sepp_Wire.thy ===== *)
theory Sepp_Wire
  imports Sepp_N32f
begin

text \<open>
  What two SEPPs rely on when they exchange documents as text: a document that one writes
  and dumps is parsed and read by the other as what it was. This is stated for the models
  the code sends, since text is parsed into a document with the same members, though not
  necessarily in the same order. A small text format meets the hypotheses, so theorems
  about two SEPPs have witnesses that run.
\<close>

definition wire_ok :: "n32f_env \<Rightarrow> bool" where
  "wire_ok F \<longleftrightarrow>
     (\<forall>j t. fe_dump F (fe_req_to F j) = Some t \<longrightarrow>
        (\<exists>d. fe_parse F t = Some d \<and> is_object d \<and> fe_req_from F d = Some j)) \<and>
     (\<forall>j t. fe_dump F (fe_rsp_to F j) = Some t \<longrightarrow>
        (\<exists>d. fe_parse F t = Some d \<and> is_object d \<and> fe_rsp_from F d = Some j)) \<and>
     (\<forall>r t. fe_dump F (ne_param_req_to (fe_n32c F) r) = Some t \<longrightarrow>
        (\<exists>d. fe_parse F t = Some d \<and> is_object d \<and> ne_param_req_from (fe_n32c F) d = Some r)) \<and>
     (\<forall>r t. fe_dump F (ne_param_rsp_to (fe_n32c F) r) = Some t \<longrightarrow>
        (\<exists>d. fe_parse F t = Some d \<and> is_object d \<and> ne_param_rsp_from (fe_n32c F) d = Some r)) \<and>
     (\<forall>c t. fe_dump F (ne_context_to (fe_n32c F) c) = Some t \<longrightarrow>
        (\<exists>d. fe_parse F t = Some d \<and> is_object d \<and> ne_context_from (fe_n32c F) d = Some c))"

lemma wire_okD:
  assumes "wire_ok F"
  shows "fe_dump F (fe_req_to F j) = Some t \<Longrightarrow>
        \<exists>d. fe_parse F t = Some d \<and> is_object d \<and> fe_req_from F d = Some j"
    and "fe_dump F (fe_rsp_to F j) = Some t \<Longrightarrow>
        \<exists>d. fe_parse F t = Some d \<and> is_object d \<and> fe_rsp_from F d = Some j"
    and "fe_dump F (ne_param_req_to (fe_n32c F) q) = Some t \<Longrightarrow>
        \<exists>d. fe_parse F t = Some d \<and> is_object d \<and> ne_param_req_from (fe_n32c F) d = Some q"
    and "fe_dump F (ne_param_rsp_to (fe_n32c F) p) = Some t \<Longrightarrow>
        \<exists>d. fe_parse F t = Some d \<and> is_object d \<and> ne_param_rsp_from (fe_n32c F) d = Some p"
    and "fe_dump F (ne_context_to (fe_n32c F) c) = Some t \<Longrightarrow>
        \<exists>d. fe_parse F t = Some d \<and> is_object d \<and> ne_context_from (fe_n32c F) d = Some c"
  using assms unfolding wire_ok_def by blast+

subsection \<open>A text format\<close>

text \<open>
  Every character of a string is marked, so that a string ends at the first dot that is not.
\<close>

fun esc :: "string \<Rightarrow> string" where
  "esc [] = ''.''"
| "esc (c # cs) = CHR ''+'' # c # esc cs"

fun unesc :: "string \<Rightarrow> string \<times> string" where
  "unesc (m # c # cs) =
     (if m = CHR ''+'' then (c # fst (unesc cs), snd (unesc cs)) else ([], c # cs))"
| "unesc [m] = ([], [])"
| "unesc [] = ([], [])"

definition int_of_string :: "string \<Rightarrow> int" where
  "int_of_string s = (case s of
       [] \<Rightarrow> 0 | c # cs \<Rightarrow> if c = CHR ''-'' then - int (str_nat 0 cs) else int (str_nat 0 s))"

lemma int_of_to_string [simp]: "int_of_string (to_string i) = i"
proof (cases "i < 0")
  case True
  then show ?thesis by (simp add: int_of_string_def to_string_def str_nat_nat_str)
next
  case False
  obtain c cs where s: "nat_str (nat i) = c # cs" by (cases "nat_str (nat i)") auto
  have "c \<noteq> CHR ''-''" using nat_str_plain[of c "nat i"] s by simp
  with False s str_nat_nat_str[of "nat i"] show ?thesis
    by (simp add: int_of_string_def to_string_def)
qed

fun wr :: "json \<Rightarrow> string" and wr_list :: "json list \<Rightarrow> string" and
  wr_members :: "(string \<times> json) list \<Rightarrow> string" where
  "wr JNull = ''N''"
| "wr (JBool b) = (if b then ''T'' else ''F'')"
| "wr (JInt i) = CHR ''#'' # esc (to_string i)"
| "wr (JFloat m e) = CHR ''D'' # esc (to_string m) @ esc (to_string e)"
| "wr (JStr s) = CHR ''S'' # esc s"
| "wr (JArr xs) = CHR ''['' # wr_list xs"
| "wr (JObj kvs) = CHR ''{'' # wr_members kvs"
| "wr_list [] = '']''"
| "wr_list (x # xs) = wr x @ wr_list xs"
| "wr_members [] = ''}''"
| "wr_members ((k, v) # kvs) = CHR ''K'' # esc k @ wr v @ wr_members kvs"

fun rd :: "nat \<Rightarrow> string \<Rightarrow> (json \<times> string) option" and
  rd_list :: "nat \<Rightarrow> string \<Rightarrow> (json list \<times> string) option" and
  rd_members :: "nat \<Rightarrow> string \<Rightarrow> ((string \<times> json) list \<times> string) option" where
  "rd (Suc n) (c # s) =
     (if c = CHR ''N'' then Some (JNull, s)
      else if c = CHR ''T'' then Some (JBool True, s)
      else if c = CHR ''F'' then Some (JBool False, s)
      else if c = CHR ''#'' then Some (JInt (int_of_string (fst (unesc s))), snd (unesc s))
      else if c = CHR ''D'' then
        Some (JFloat (int_of_string (fst (unesc s))) (int_of_string (fst (unesc (snd (unesc s))))),
              snd (unesc (snd (unesc s))))
      else if c = CHR ''S'' then Some (JStr (fst (unesc s)), snd (unesc s))
      else if c = CHR ''['' then map_option (\<lambda>(xs, r). (JArr xs, r)) (rd_list n s)
      else if c = CHR ''{'' then map_option (\<lambda>(kvs, r). (JObj kvs, r)) (rd_members n s)
      else None)"
| "rd n s = None"
| "rd_list (Suc n) (c # s) =
     (if c = CHR '']'' then Some ([], s)
      else (case rd n (c # s) of
              None \<Rightarrow> None
            | Some (x, r) \<Rightarrow> map_option (\<lambda>(xs, r'). (x # xs, r')) (rd_list n r)))"
| "rd_list n s = None"
| "rd_members (Suc n) (c # s) =
     (if c = CHR ''}'' then Some ([], s)
      else (case rd n (snd (unesc s)) of
              None \<Rightarrow> None
            | Some (x, r) \<Rightarrow>
                map_option (\<lambda>(kvs, r'). ((fst (unesc s), x) # kvs, r')) (rd_members n r)))"
| "rd_members n s = None"

lemma unesc_esc [simp]: "unesc (esc s @ t) = (s, t)"
proof (induction s)
  case Nil
  show ?case by (cases t) simp_all
qed simp

lemma wr_head: "\<exists>c s. wr j = c # s \<and> c \<noteq> CHR '']'' \<and> c \<noteq> CHR ''}''"
  by (cases j) auto

lemma wr_list_pos: "0 < length (wr_list xs)"
proof (cases xs)
  case (Cons x ys)
  obtain c s where "wr x = c # s" using wr_head by blast
  with Cons show ?thesis by simp
qed simp

lemma rd_wr:
  "length (wr j) \<le> n \<Longrightarrow> rd n (wr j @ t) = Some (j, t)"
  "length (wr_list xs) \<le> m \<Longrightarrow> rd_list m (wr_list xs @ t') = Some (xs, t')"
  "length (wr_members kvs) \<le> k \<Longrightarrow> rd_members k (wr_members kvs @ t'') = Some (kvs, t'')"
proof (induction j and xs and kvs arbitrary: n t and m t' and k t'' rule: wr_wr_list_wr_members.induct)
  case (6 xs)
  then obtain n' where "n = Suc n'" by (cases n) auto
  with 6 show ?case by simp
next
  case (7 kvs)
  then obtain n' where "n = Suc n'" by (cases n) auto
  with 7 show ?case by simp
next
  case (9 x xs)
  obtain c s where x: "wr x = c # s" "c \<noteq> CHR '']''" using wr_head by blast
  obtain m' where m: "m = Suc m'" using 9(3) x by (cases m) auto
  then have "length (wr x) \<le> m'" "length (wr_list xs) \<le> m'"
    using 9(3) x wr_list_pos[of xs] by (simp_all del: length_greater_0_conv)
  then have "rd m' (wr x @ wr_list xs @ t') = Some (x, wr_list xs @ t')"
    and "rd_list m' (wr_list xs @ t') = Some (xs, t')"
    using 9(1)[of m' "wr_list xs @ t'"] 9(2)[of m' t'] by simp_all
  with x show ?case by (simp add: m)
next
  case (11 key v kvs)
  then obtain k' where k: "k = Suc k'" by (cases k) auto
  with 11 show ?case by simp
qed (auto dest!: Suc_le_D)

definition demo_parse :: "string \<Rightarrow> json option" where
  "demo_parse t = (case rd (length t) t of Some (j, []) \<Rightarrow> Some j | _ \<Rightarrow> None)"

lemma demo_parse_wr [simp]: "demo_parse (wr j) = Some j"
  using rd_wr(1)[of j "length (wr j)" "[]"] by (simp add: demo_parse_def)

definition demo_wire_env :: n32f_env where
  "demo_wire_env = demo_n32f_env\<lparr>fe_parse := demo_parse, fe_dump := (\<lambda>j. Some (wr j)),
     fe_get_json := (\<lambda>r. demo_parse (rp_body r))\<rparr>"

lemma demo_wire_env_ok: "n32f_env_ok demo_wire_env" "wire_ok demo_wire_env"
  using demo_n32f_env_ok unfolding n32f_env_ok_def wire_ok_def params_dto_ok_def
  by (simp_all add: demo_wire_env_def demo_n32f_env_def)

end
