(* ===== verification/Sepp_Profile.thy ===== *)
theory Sepp_Profile
  imports Sepp_Json Sepp_Decimal
begin

text \<open>
  \<^verbatim>\<open>nf_profile\<close> and \<^verbatim>\<open>sepp_profile\<close> (src/sepp_app): the profile a SEPP registers at the NRF,
  the document made of it and the profile read from a document.
\<close>

subsection \<open>IPv4 addresses\<close>

text \<open>
  A \<^verbatim>\<open>struct in_addr\<close> is its four bytes in memory. \<open>inet_ntoa\<close> and \<open>inet_pton\<close> are the
  functions of the C library for the dotted form: four decimal numbers up to 255 without
  superfluous zeros.
\<close>

type_synonym in_addr = "8 word list"
type_synonym in6_addr = "8 word list"

definition inet_ntoa :: "in_addr \<Rightarrow> string" where
  "inet_ntoa a =
     (case map (\<lambda>b. nat_str (unat b)) a of
        [] \<Rightarrow> []
      | s # ss \<Rightarrow> s @ concat (map (\<lambda>t. CHR ''.'' # t) ss))"

fun split_dots :: "string \<Rightarrow> string list" where
  "split_dots [] = [[]]"
| "split_dots (c # cs) =
     (if c = CHR ''.'' then [] # split_dots cs
      else case split_dots cs of [] \<Rightarrow> [[c]] | p # ps \<Rightarrow> (c # p) # ps)"

definition octet :: "string \<Rightarrow> 8 word option" where
  "octet s =
     (if s = [] \<or> \<not> list_all is_digit s \<or> length s > 3 then None
      else (let v = str_nat 0 s in
            if v > 255 \<or> nat_str v \<noteq> s then None else Some (of_nat v)))"

definition inet_pton :: "string \<Rightarrow> in_addr option" where
  "inet_pton s =
     (case map octet (split_dots s) of
        [Some a, Some b, Some c, Some d] \<Rightarrow> Some [a, b, c, d]
      | _ \<Rightarrow> None)"

lemma digit_not_dot: "is_digit c \<Longrightarrow> c \<noteq> CHR ''.''"
proof -
  have "\<not> is_digit CHR ''.''" by code_simp
  then show "is_digit c \<Longrightarrow> c \<noteq> CHR ''.''" by auto
qed

lemma split_dots_plain: "CHR ''.'' \<notin> set s \<Longrightarrow> split_dots s = [s]"
  by (induction s) auto

lemma split_dots_cons: "CHR ''.'' \<notin> set s \<Longrightarrow> split_dots (s @ CHR ''.'' # t) = s # split_dots t"
  by (induction s) auto

lemma nat_str_no_dot: "CHR ''.'' \<notin> set (nat_str n)"
  using nat_str_plain digit_not_dot by blast

lemma unat_byte: "unat (b :: 8 word) < 256"
  using unsigned_less[of b] by simp

lemma octet_nat_str: "octet (nat_str (unat b)) = Some b"
proof -
  have small: "list_all (\<lambda>n. length (nat_str n) \<le> 3) [0..<256]" by code_simp
  then have "length (nat_str (unat b)) \<le> 3" using unat_byte[of b] by (simp add: list_all_iff)
  moreover have "list_all is_digit (nat_str (unat b))"
    using nat_str_plain by (auto simp: list_all_iff)
  moreover have "unat b \<le> 255" using unat_byte[of b] by simp
  ultimately show ?thesis by (simp add: octet_def str_nat_nat_str Let_def)
qed

lemma inet_pton_ntoa: "length a = 4 \<Longrightarrow> inet_pton (inet_ntoa a) = Some a"
proof -
  assume "length a = 4"
  then obtain w x y z where a: "a = [w, x, y, z]"
    by (auto simp: numeral_eq_Suc length_Suc_conv)
  show ?thesis
    by (simp add: a inet_pton_def inet_ntoa_def split_dots_cons split_dots_plain nat_str_no_dot
        octet_nat_str)
qed

subsection \<open>The profile\<close>

text \<open>
  \<^verbatim>\<open>snssai_t\<close>, \<^verbatim>\<open>nf_service_t\<close> and \<^verbatim>\<open>sepp_info_t\<close> are structures of a submodule; a slice
  identifier is the pair of values the code writes for its members, and \<open>mk_snssai\<close> is the
  constructor from a number and a string. \<^verbatim>\<open>trim\<close> is a parameter as well. IPv6 addresses
  are sixteen bytes; they are stored, but not written to a document nor read from one.
\<close>

record snssai =
  sn_sst :: json
  sn_sd :: json

record nf_service_version =
  sv_api_version_in_uri :: string
  sv_api_full_version :: string

record ip_endpoint =
  ep_ipv4_address :: in_addr
  ep_transport :: string
  ep_port :: int

record nf_service =
  ns_service_instance_id :: string
  ns_service_name :: string
  ns_versions :: "nf_service_version list"
  ns_scheme :: string
  ns_nf_service_status :: string
  ns_ip_endpoints :: "ip_endpoint list"

record sepp_info =
  si_prefix :: string
  si_ports :: "(string \<times> int) list"
  si_remote_plmns :: "(string \<times> string) list"
  si_n32_purposes :: "string list"

record nf_profile =
  nf_instance_id :: string
  nf_instance_name :: string
  nf_type :: string
  nf_status :: string
  heartBeat_timer :: "32 word"
  snssais :: "snssai list"
  nf_fqdn_name :: string
  ipv4_addresses :: "in_addr list"
  ipv6_addresses :: "in6_addr list"
  priority :: "16 word"
  capacity :: "16 word"

record sepp_profile = nf_profile +
  nf_services :: "nf_service list"
  custom_info :: json
  sepp_info_of :: sepp_info

definition sepp_profile_init :: sepp_profile where
  "sepp_profile_init = \<lparr>nf_instance_id = [], nf_instance_name = [], nf_type = ''NF_TYPE_UNKNOWN'',
     nf_status = [], heartBeat_timer = 0, snssais = [], nf_fqdn_name = [], ipv4_addresses = [],
     ipv6_addresses = [], priority = 0, capacity = 0, nf_services = [], custom_info = JNull,
     sepp_info_of = \<lparr>si_prefix = [], si_ports = [], si_remote_plmns = [], si_n32_purposes = []\<rparr>\<rparr>"

text \<open>
  The members are protected; these are the setters and getters. A getter comes with a result
  or a reference to fill in, or both; it is one function here.
\<close>

definition set_nf_instance_id :: "string \<Rightarrow> 'a nf_profile_scheme \<Rightarrow> 'a nf_profile_scheme" where
  "set_nf_instance_id v p = p\<lparr>nf_instance_id := v\<rparr>"

definition get_nf_instance_id :: "'a nf_profile_scheme \<Rightarrow> string" where
  "get_nf_instance_id p = nf_instance_id p"

definition set_nf_instance_name :: "string \<Rightarrow> 'a nf_profile_scheme \<Rightarrow> 'a nf_profile_scheme" where
  "set_nf_instance_name v p = p\<lparr>nf_instance_name := v\<rparr>"

definition get_nf_instance_name :: "'a nf_profile_scheme \<Rightarrow> string" where
  "get_nf_instance_name p = nf_instance_name p"

definition set_nf_type :: "string \<Rightarrow> 'a nf_profile_scheme \<Rightarrow> 'a nf_profile_scheme" where
  "set_nf_type v p = p\<lparr>nf_type := v\<rparr>"

definition get_nf_type :: "'a nf_profile_scheme \<Rightarrow> string" where
  "get_nf_type p = nf_type p"

definition set_nf_status :: "string \<Rightarrow> 'a nf_profile_scheme \<Rightarrow> 'a nf_profile_scheme" where
  "set_nf_status v p = p\<lparr>nf_status := v\<rparr>"

definition get_nf_status :: "'a nf_profile_scheme \<Rightarrow> string" where
  "get_nf_status p = nf_status p"

definition set_nf_heartBeat_timer :: "32 word \<Rightarrow> 'a nf_profile_scheme \<Rightarrow> 'a nf_profile_scheme" where
  "set_nf_heartBeat_timer v p = p\<lparr>heartBeat_timer := v\<rparr>"

definition get_nf_heartBeat_timer :: "'a nf_profile_scheme \<Rightarrow> 32 word" where
  "get_nf_heartBeat_timer p = heartBeat_timer p"

definition set_nf_priority :: "16 word \<Rightarrow> 'a nf_profile_scheme \<Rightarrow> 'a nf_profile_scheme" where
  "set_nf_priority v p = p\<lparr>priority := v\<rparr>"

definition get_nf_priority :: "'a nf_profile_scheme \<Rightarrow> 16 word" where
  "get_nf_priority p = priority p"

definition set_nf_capacity :: "16 word \<Rightarrow> 'a nf_profile_scheme \<Rightarrow> 'a nf_profile_scheme" where
  "set_nf_capacity v p = p\<lparr>capacity := v\<rparr>"

definition get_nf_capacity :: "'a nf_profile_scheme \<Rightarrow> 16 word" where
  "get_nf_capacity p = capacity p"

definition set_nf_snssais :: "snssai list \<Rightarrow> 'a nf_profile_scheme \<Rightarrow> 'a nf_profile_scheme" where
  "set_nf_snssais v p = p\<lparr>snssais := v\<rparr>"

definition get_nf_snssais :: "'a nf_profile_scheme \<Rightarrow> snssai list" where
  "get_nf_snssais p = snssais p"

definition set_fqdn :: "string \<Rightarrow> 'a nf_profile_scheme \<Rightarrow> 'a nf_profile_scheme" where
  "set_fqdn v p = p\<lparr>nf_fqdn_name := v\<rparr>"

definition get_fqdn :: "'a nf_profile_scheme \<Rightarrow> string" where
  "get_fqdn p = nf_fqdn_name p"

definition set_nf_ipv4_addresses :: "in_addr list \<Rightarrow> 'a nf_profile_scheme \<Rightarrow> 'a nf_profile_scheme" where
  "set_nf_ipv4_addresses v p = p\<lparr>ipv4_addresses := v\<rparr>"

definition get_nf_ipv4_addresses :: "'a nf_profile_scheme \<Rightarrow> in_addr list" where
  "get_nf_ipv4_addresses p = ipv4_addresses p"

definition set_nf_services :: "nf_service list \<Rightarrow> sepp_profile \<Rightarrow> sepp_profile" where
  "set_nf_services v p = p\<lparr>nf_services := v\<rparr>"

definition get_nf_services :: "sepp_profile \<Rightarrow> nf_service list" where
  "get_nf_services p = nf_services p"

definition set_custom_info :: "json \<Rightarrow> sepp_profile \<Rightarrow> sepp_profile" where
  "set_custom_info v p = p\<lparr>custom_info := v\<rparr>"

definition get_custom_info :: "sepp_profile \<Rightarrow> json" where
  "get_custom_info p = custom_info p"

definition set_sepp_info :: "sepp_info \<Rightarrow> sepp_profile \<Rightarrow> sepp_profile" where
  "set_sepp_info v p = p\<lparr>sepp_info_of := v\<rparr>"

definition get_sepp_info :: "sepp_profile \<Rightarrow> sepp_info" where
  "get_sepp_info p = sepp_info_of p"

definition set_nf_ipv6_addresses :: "in6_addr list \<Rightarrow> 'a nf_profile_scheme \<Rightarrow> 'a nf_profile_scheme" where
  "set_nf_ipv6_addresses v p = p\<lparr>ipv6_addresses := v\<rparr>"

lemmas profile_access =
  set_nf_instance_id_def get_nf_instance_id_def set_nf_instance_name_def get_nf_instance_name_def
  set_nf_type_def get_nf_type_def set_nf_status_def get_nf_status_def set_nf_heartBeat_timer_def
  get_nf_heartBeat_timer_def set_nf_priority_def get_nf_priority_def set_nf_capacity_def
  get_nf_capacity_def set_nf_snssais_def get_nf_snssais_def set_fqdn_def get_fqdn_def
  set_nf_ipv4_addresses_def get_nf_ipv4_addresses_def set_nf_services_def get_nf_services_def
  set_custom_info_def get_custom_info_def set_sepp_info_def get_sepp_info_def
  set_nf_ipv6_addresses_def

interpretation m_nf_instance_id: class_member get_nf_instance_id set_nf_instance_id
  by unfold_locales (simp_all add: profile_access)

interpretation m_nf_instance_name: class_member get_nf_instance_name set_nf_instance_name
  by unfold_locales (simp_all add: profile_access)

interpretation m_nf_type: class_member get_nf_type set_nf_type
  by unfold_locales (simp_all add: profile_access)

interpretation m_nf_status: class_member get_nf_status set_nf_status
  by unfold_locales (simp_all add: profile_access)

interpretation m_nf_heartBeat_timer: class_member get_nf_heartBeat_timer set_nf_heartBeat_timer
  by unfold_locales (simp_all add: profile_access)

interpretation m_nf_priority: class_member get_nf_priority set_nf_priority
  by unfold_locales (simp_all add: profile_access)

interpretation m_nf_capacity: class_member get_nf_capacity set_nf_capacity
  by unfold_locales (simp_all add: profile_access)

interpretation m_nf_snssais: class_member get_nf_snssais set_nf_snssais
  by unfold_locales (simp_all add: profile_access)

interpretation m_fqdn: class_member get_fqdn set_fqdn
  by unfold_locales (simp_all add: profile_access)

interpretation m_nf_ipv4_addresses: class_member get_nf_ipv4_addresses set_nf_ipv4_addresses
  by unfold_locales (simp_all add: profile_access)

interpretation m_nf_services: class_member get_nf_services set_nf_services
  by unfold_locales (simp_all add: profile_access)

interpretation m_custom_info: class_member get_custom_info set_custom_info
  by unfold_locales (simp_all add: profile_access)

interpretation m_sepp_info: class_member get_sepp_info set_sepp_info
  by unfold_locales (simp_all add: profile_access)

text \<open>The operations that add to a list.\<close>

definition add_snssai :: "snssai \<Rightarrow> 'a nf_profile_scheme \<Rightarrow> 'a nf_profile_scheme" where
  "add_snssai s p = p\<lparr>snssais := snssais p @ [s]\<rparr>"

definition add_nf_ipv4_addresses :: "in_addr \<Rightarrow> 'a nf_profile_scheme \<Rightarrow> 'a nf_profile_scheme" where
  "add_nf_ipv4_addresses a p = p\<lparr>ipv4_addresses := ipv4_addresses p @ [a]\<rparr>"

definition add_nf_ipv6_addresses :: "in6_addr \<Rightarrow> 'a nf_profile_scheme \<Rightarrow> 'a nf_profile_scheme" where
  "add_nf_ipv6_addresses a p = p\<lparr>ipv6_addresses := ipv6_addresses p @ [a]\<rparr>"

definition add_nf_service :: "nf_service \<Rightarrow> sepp_profile \<Rightarrow> sepp_profile" where
  "add_nf_service n p = p\<lparr>nf_services := nf_services p @ [n]\<rparr>"

definition handle_heartbeart_timeout :: "sepp_profile \<Rightarrow> sepp_profile" where
  "handle_heartbeart_timeout p = set_nf_status ''SUSPENDED'' p"

subsection \<open>Construction and assignment\<close>

definition sepp_profile_of_id :: "string \<Rightarrow> sepp_profile" where
  "sepp_profile_of_id i = sepp_profile_init\<lparr>nf_instance_id := i\<rparr>"

text \<open>
  The assignments go member by member. That of the base class applied to a SEPP profile keeps
  the members of the derived class.
\<close>

definition nf_profile_assign :: "'b nf_profile_scheme \<Rightarrow> 'a nf_profile_scheme \<Rightarrow> 'a nf_profile_scheme" where
  "nf_profile_assign s p = p\<lparr>nf_instance_id := nf_instance_id s, heartBeat_timer := heartBeat_timer s,
     snssais := snssais s, nf_fqdn_name := nf_fqdn_name s, ipv4_addresses := ipv4_addresses s,
     ipv6_addresses := ipv6_addresses s, priority := priority s, capacity := capacity s,
     nf_type := nf_type s, nf_instance_name := nf_instance_name s, nf_status := nf_status s\<rparr>"

definition sepp_profile_assign :: "sepp_profile \<Rightarrow> sepp_profile \<Rightarrow> sepp_profile" where
  "sepp_profile_assign s p = p\<lparr>nf_instance_id := nf_instance_id s, heartBeat_timer := heartBeat_timer s,
     snssais := snssais s, ipv6_addresses := ipv6_addresses s, ipv4_addresses := ipv4_addresses s,
     nf_fqdn_name := nf_fqdn_name s, priority := priority s, capacity := capacity s,
     nf_type := nf_type s, nf_instance_name := nf_instance_name s, nf_status := nf_status s,
     custom_info := custom_info s, sepp_info_of := sepp_info_of s, nf_services := nf_services s\<rparr>"

text \<open>No member is forgotten: the assigned object is a copy of the other.\<close>

lemma sepp_profile_assign_copies: "sepp_profile_assign s p = s"
  by (simp add: sepp_profile_assign_def)

lemma nf_profile_assign_copies:
  "nf_profile.truncate (nf_profile_assign s p) = nf_profile.truncate s \<and>
   nf_profile.more (nf_profile_assign s p) = nf_profile.more p"
  by (simp add: nf_profile_assign_def nf_profile.truncate_def)

subsection \<open>Writing a profile\<close>

definition snssai_json :: "snssai \<Rightarrow> json" where
  "snssai_json s = JObj [(''sst'', sn_sst s), (''sd'', sn_sd s)]"

definition nf_profile_to_json :: "'a nf_profile_scheme \<Rightarrow> json \<Rightarrow> json result" where
  "nf_profile_to_json p data = jset_all
     ([(''nfInstanceId'', JStr (nf_instance_id p)), (''nfInstanceName'', JStr (nf_instance_name p)),
       (''nfType'', JStr (nf_type p)), (''nfStatus'', JStr (nf_status p)),
       (''heartBeatTimer'', JInt (sint (heartBeat_timer p))),
       (''sNssais'', JArr (map snssai_json (snssais p)))] @
      (if nf_fqdn_name p \<noteq> [] then [(''fqdn'', JStr (nf_fqdn_name p))] else []) @
      [(''ipv4Addresses'', JArr (map (JStr \<circ> inet_ntoa) (ipv4_addresses p))),
       (''priority'', JInt (uint (priority p))), (''capacity'', JInt (uint (capacity p)))]) data"

definition version_json :: "nf_service_version \<Rightarrow> json" where
  "version_json v = JObj [(''apiVersionInUri'', JStr (sv_api_version_in_uri v)),
     (''apiFullVersion'', JStr (sv_api_full_version v))]"

definition endpoint_json :: "ip_endpoint \<Rightarrow> json" where
  "endpoint_json e = JObj [(''ipv4Address'', JStr (inet_ntoa (ep_ipv4_address e))),
     (''transport'', JStr (ep_transport e)), (''port'', JInt (ep_port e))]"

definition service_json :: "nf_service \<Rightarrow> json" where
  "service_json s = JObj [(''serviceInstanceId'', JStr (ns_service_instance_id s)),
     (''serviceName'', JStr (ns_service_name s)), (''versions'', JArr (map version_json (ns_versions s))),
     (''scheme'', JStr (ns_scheme s)), (''nfServiceStatus'', JStr (ns_nf_service_status s)),
     (''ipEndPoints'', JArr (map endpoint_json (ns_ip_endpoints s)))]"

definition sepp_info_json :: "sepp_info \<Rightarrow> json \<Rightarrow> json result" where
  "sepp_info_json i = jset_all
     [(''seppPrefix'', JStr (si_prefix i)),
      (''seppPorts'', JObj (map (\<lambda>(k, v). (k, JInt v)) (si_ports i))),
      (''remotePlmnList'',
         JArr (map (\<lambda>(mcc, mnc). JObj [(''mcc'', JStr mcc), (''mnc'', JStr mnc)]) (si_remote_plmns i))),
      (''n32Purposes'', JArr (map JStr (si_n32_purposes i)))]"

definition sepp_profile_to_json :: "sepp_profile \<Rightarrow> json \<Rightarrow> json result" where
  "sepp_profile_to_json p data =
     (case nf_profile_to_json p data of
        Inl e \<Rightarrow> Inl e
      | Inr d \<Rightarrow>
          (case jset_all [(''nfServices'', JArr (map service_json (nf_services p))),
                          (''custom_info'', custom_info p)] d of
             Inl e \<Rightarrow> Inl e
           | Inr d' \<Rightarrow>
               (case sepp_info_json (sepp_info_of p)
                       (case jfind d' ''seppInfo'' of Some j \<Rightarrow> j | None \<Rightarrow> JNull) of
                  Inl e \<Rightarrow> Inl e
                | Inr i \<Rightarrow> jset ''seppInfo'' i d')))"

subsection \<open>Reading a profile\<close>

text \<open>
  Reading goes member by member and may throw in between, so a step gives the profile as far
  as it was read and the exception, if there was one.
\<close>

record profile_env =
  pe_snssai :: "int \<Rightarrow> string \<Rightarrow> snssai result"
  pe_trim :: "string \<Rightarrow> string"

fun seq_reads :: "('p \<Rightarrow> 'p \<times> exn option) list \<Rightarrow> 'p \<Rightarrow> 'p \<times> exn option" where
  "seq_reads [] p = (p, None)"
| "seq_reads (f # fs) p =
     (case f p of (p', None) \<Rightarrow> seq_reads fs p' | (p', Some e) \<Rightarrow> (p', Some e))"

definition read_member ::
  "json \<Rightarrow> string \<Rightarrow> (json \<Rightarrow> 'p \<Rightarrow> 'p \<times> exn option) \<Rightarrow> 'p \<Rightarrow> 'p \<times> exn option" where
  "read_member data k f p = (case jfind data k of None \<Rightarrow> (p, None) | Some v \<Rightarrow> f v p)"

definition read_as ::
  "(json \<Rightarrow> 'v result) \<Rightarrow> ('v \<Rightarrow> 'p \<Rightarrow> 'p) \<Rightarrow> json \<Rightarrow> 'p \<Rightarrow> 'p \<times> exn option" where
  "read_as get upd v p = (case get v of Inl e \<Rightarrow> (p, Some e) | Inr x \<Rightarrow> (upd x p, None))"

definition get_snssai :: "profile_env \<Rightarrow> json \<Rightarrow> snssai result" where
  "get_snssai E it =
     (case (jfind it ''sst'', jfind it ''sd'') of
        (Some sst, Some sd) \<Rightarrow>
          (case (get_int sst, get_string sd) of
             (Inr n, Inr s) \<Rightarrow> pe_snssai E n s
           | _ \<Rightarrow> Inl TypeError)
      | _ \<Rightarrow> Inl TypeError)"

text \<open>An address that cannot be parsed is stored as 0.0.0.0.\<close>

definition get_addr :: "profile_env \<Rightarrow> json \<Rightarrow> in_addr result" where
  "get_addr E it =
     (case get_string it of
        Inl e \<Rightarrow> Inl e
      | Inr address \<Rightarrow>
          Inr (case inet_pton (pe_trim E address) of Some a \<Rightarrow> a | None \<Rightarrow> [0, 0, 0, 0]))"

definition read_identity :: "json \<Rightarrow> ('a nf_profile_scheme \<Rightarrow> 'a nf_profile_scheme \<times> exn option) list" where
  "read_identity data =
     [read_member data ''nfInstanceId'' (read_as get_string (\<lambda>s p. p\<lparr>nf_instance_id := s\<rparr>)),
      read_member data ''nfInstanceName'' (read_as get_string (\<lambda>s p. p\<lparr>nf_instance_name := s\<rparr>)),
      read_member data ''nfType'' (read_as get_string (\<lambda>s p. p\<lparr>nf_type := s\<rparr>)),
      read_member data ''nfStatus'' (read_as get_string (\<lambda>s p. p\<lparr>nf_status := s\<rparr>)),
      read_member data ''heartBeatTimer'' (read_as get_int (\<lambda>i p. p\<lparr>heartBeat_timer := word_of_int i\<rparr>))]"

definition read_snssais ::
  "profile_env \<Rightarrow> json \<Rightarrow> 'a nf_profile_scheme \<Rightarrow> 'a nf_profile_scheme \<times> exn option" where
  "read_snssais E data =
     read_member data ''sNssais'' (\<lambda>v. seq_reads (map (read_as (get_snssai E) add_snssai) (json_elems v)))"

definition read_addresses ::
  "profile_env \<Rightarrow> json \<Rightarrow> 'a nf_profile_scheme \<Rightarrow> 'a nf_profile_scheme \<times> exn option" where
  "read_addresses E data =
     read_member data ''ipv4Addresses''
       (\<lambda>v. seq_reads (map (read_as (get_addr E) add_nf_ipv4_addresses) (json_elems v)))"

definition read_numbers :: "json \<Rightarrow> ('a nf_profile_scheme \<Rightarrow> 'a nf_profile_scheme \<times> exn option) list" where
  "read_numbers data =
     [read_member data ''priority'' (read_as get_int (\<lambda>i p. p\<lparr>priority := word_of_int i\<rparr>)),
      read_member data ''capacity'' (read_as get_int (\<lambda>i p. p\<lparr>capacity := word_of_int i\<rparr>))]"

definition nf_profile_from_json ::
  "profile_env \<Rightarrow> json \<Rightarrow> 'a nf_profile_scheme \<Rightarrow> 'a nf_profile_scheme \<times> exn option" where
  "nf_profile_from_json E data = seq_reads
     (read_identity data @
      [read_snssais E data,
       read_member data ''fqdn'' (read_as get_string (\<lambda>s p. p\<lparr>nf_fqdn_name := s\<rparr>)),
       read_addresses E data] @
      read_numbers data)"

definition read_prefix :: "json \<Rightarrow> sepp_profile \<Rightarrow> sepp_profile \<times> exn option" where
  "read_prefix data =
     read_member data ''seppInfo'' (\<lambda>info. read_member info ''seppPrefix''
       (read_as get_string (\<lambda>s p. p\<lparr>sepp_info_of := (sepp_info_of p)\<lparr>si_prefix := s\<rparr>\<rparr>)))"

definition sepp_profile_from_json ::
  "profile_env \<Rightarrow> json \<Rightarrow> sepp_profile \<Rightarrow> sepp_profile \<times> exn option" where
  "sepp_profile_from_json E data = seq_reads
     ([nf_profile_from_json E data] @
      read_identity data @
      [read_snssais E data, read_addresses E data] @
      read_numbers data @ [read_prefix data])"

subsection \<open>Reading what was written\<close>

lemma seq_reads_append:
  "seq_reads (fs @ gs) p =
     (case seq_reads fs p of (p', None) \<Rightarrow> seq_reads gs p' | (p', Some e) \<Rightarrow> (p', Some e))"
  by (induction fs arbitrary: p) (auto split: prod.splits option.splits)

lemma seq_reads_all:
  assumes "\<And>x p. x \<in> set xs \<Longrightarrow> f x p = (g x p, None)"
  shows "seq_reads (map f xs) p = (fold g xs p, None)"
  using assms by (induction xs arbitrary: p) auto

text \<open>
  The members of a written document, as the readers look them up.
\<close>

lemma sepp_profile_to_json_members:
  assumes "sepp_profile_to_json p JNull = Inr d"
  shows "jfind d ''nfInstanceId'' = Some (JStr (nf_instance_id p))"
    "jfind d ''nfInstanceName'' = Some (JStr (nf_instance_name p))"
    "jfind d ''nfType'' = Some (JStr (nf_type p))"
    "jfind d ''nfStatus'' = Some (JStr (nf_status p))"
    "jfind d ''heartBeatTimer'' = Some (JInt (sint (heartBeat_timer p)))"
    "jfind d ''sNssais'' = Some (JArr (map snssai_json (snssais p)))"
    "jfind d ''fqdn'' = (if nf_fqdn_name p \<noteq> [] then Some (JStr (nf_fqdn_name p)) else None)"
    "jfind d ''ipv4Addresses'' = Some (JArr (map (JStr \<circ> inet_ntoa) (ipv4_addresses p)))"
    "jfind d ''priority'' = Some (JInt (uint (priority p)))"
    "jfind d ''capacity'' = Some (JInt (uint (capacity p)))"
    "\<exists>i. jfind d ''seppInfo'' = Some i \<and> jfind i ''seppPrefix'' = Some (JStr (si_prefix (sepp_info_of p)))"
proof -
  from assms obtain d0 d1 i where 0: "nf_profile_to_json p JNull = Inr d0"
    and 1: "jset_all [(''nfServices'', JArr (map service_json (nf_services p))),
                      (''custom_info'', custom_info p)] d0 = Inr d1"
    and 2: "sepp_info_json (sepp_info_of p)
        (case jfind d1 ''seppInfo'' of Some j \<Rightarrow> j | None \<Rightarrow> JNull) = Inr i"
    and 3: "jset ''seppInfo'' i d1 = Inr d"
    by (auto simp: sepp_profile_to_json_def split: sum.splits)
  have d: "jfind d k = (if k = ''seppInfo'' then Some i
      else if k = ''custom_info'' then Some (custom_info p)
      else if k = ''nfServices'' then Some (JArr (map service_json (nf_services p)))
      else jfind d0 k)" for k
    by (simp add: jfind_jset[OF 3] jfind_jset_all[OF 1])
  note m = jfind_jset_all[OF 0[unfolded nf_profile_to_json_def]]
  show "jfind d ''nfInstanceId'' = Some (JStr (nf_instance_id p))"
    "jfind d ''nfInstanceName'' = Some (JStr (nf_instance_name p))"
    "jfind d ''nfType'' = Some (JStr (nf_type p))"
    "jfind d ''nfStatus'' = Some (JStr (nf_status p))"
    "jfind d ''heartBeatTimer'' = Some (JInt (sint (heartBeat_timer p)))"
    "jfind d ''sNssais'' = Some (JArr (map snssai_json (snssais p)))"
    "jfind d ''fqdn'' = (if nf_fqdn_name p \<noteq> [] then Some (JStr (nf_fqdn_name p)) else None)"
    "jfind d ''ipv4Addresses'' = Some (JArr (map (JStr \<circ> inet_ntoa) (ipv4_addresses p)))"
    "jfind d ''priority'' = Some (JInt (uint (priority p)))"
    "jfind d ''capacity'' = Some (JInt (uint (capacity p)))"
    by (cases "nf_fqdn_name p = []"; simp add: d m)+
  show "\<exists>i. jfind d ''seppInfo'' = Some i \<and> jfind i ''seppPrefix'' = Some (JStr (si_prefix (sepp_info_of p)))"
    using jfind_jset_all[OF 2[unfolded sepp_info_json_def], of "''seppPrefix''"] by (simp add: d)
qed

lemma sepp_profile_to_json_total: "\<exists>d. sepp_profile_to_json p JNull = Inr d"
proof -
  obtain d0 where 0: "nf_profile_to_json p JNull = Inr d0"
    using jset_all_ok[of JNull] by (fastforce simp: nf_profile_to_json_def)
  have o0: "is_object d0"
    by (rule jset_all_object) (use 0 in \<open>simp only: nf_profile_to_json_def append_Cons\<close>)
  obtain d1 where 1: "jset_all [(''nfServices'', JArr (map service_json (nf_services p))),
                      (''custom_info'', custom_info p)] d0 = Inr d1"
    using jset_all_ok o0 by blast
  have o1: "is_object d1" by (rule jset_all_object[OF 1])
  have "jfind d1 ''seppInfo'' = None"
    using jfind_jset_all[OF 0[unfolded nf_profile_to_json_def], of "''seppInfo''"]
    by (cases "nf_fqdn_name p = []") (simp_all add: jfind_jset_all[OF 1])
  moreover obtain i where "sepp_info_json (sepp_info_of p) JNull = Inr i"
    using jset_all_ok[of JNull] by (fastforce simp: sepp_info_json_def)
  moreover obtain d where "jset ''seppInfo'' i d1 = Inr d"
    using o1 jset_ok_iff by blast
  ultimately show ?thesis using 0 1 by (simp add: sepp_profile_to_json_def)
qed

definition snssais_readable :: "profile_env \<Rightarrow> snssai list \<Rightarrow> bool" where
  "snssais_readable E ss \<longleftrightarrow> (\<forall>s\<in>set ss. get_snssai E (snssai_json s) = Inr s)"

definition addresses_readable :: "profile_env \<Rightarrow> in_addr list \<Rightarrow> bool" where
  "addresses_readable E as \<longleftrightarrow>
     (\<forall>a\<in>set as. length a = 4 \<and> pe_trim E (inet_ntoa a) = inet_ntoa a)"

lemma fold_add_snssai: "fold add_snssai ss p = p\<lparr>snssais := snssais p @ ss\<rparr>"
  by (induction ss arbitrary: p) (simp_all add: add_snssai_def)

lemma fold_add_addr: "fold add_nf_ipv4_addresses as p = p\<lparr>ipv4_addresses := ipv4_addresses p @ as\<rparr>"
  by (induction as arbitrary: p) (simp_all add: add_nf_ipv4_addresses_def)

lemma read_snssais_written:
  assumes "jfind d ''sNssais'' = Some (JArr (map snssai_json ss))" and "snssais_readable E ss"
  shows "read_snssais E d q = (q\<lparr>snssais := snssais q @ ss\<rparr>, None)"
proof -
  have "seq_reads (map (\<lambda>s. read_as (get_snssai E) add_snssai (snssai_json s)) ss) q =
      (fold add_snssai ss q, None)"
    using assms(2) by (intro seq_reads_all) (simp add: read_as_def snssais_readable_def)
  with assms(1) show ?thesis
    by (simp add: read_snssais_def read_member_def comp_def fold_add_snssai)
qed

lemma read_addresses_written:
  assumes "jfind d ''ipv4Addresses'' = Some (JArr (map (JStr \<circ> inet_ntoa) as))"
    and "addresses_readable E as"
  shows "read_addresses E d q = (q\<lparr>ipv4_addresses := ipv4_addresses q @ as\<rparr>, None)"
proof -
  have "seq_reads (map (\<lambda>a. read_as (get_addr E) add_nf_ipv4_addresses (JStr (inet_ntoa a))) as) q =
      (fold add_nf_ipv4_addresses as q, None)"
    using assms(2)
    by (intro seq_reads_all)
      (simp add: read_as_def get_addr_def addresses_readable_def inet_pton_ntoa)
  with assms(1) show ?thesis
    by (simp add: read_addresses_def read_member_def comp_def fold_add_addr)
qed

lemma int32_word16: "word_of_int (int32 (uint (w :: 16 word))) = w"
proof -
  have "- (2 ^ 31) \<le> uint w" by (rule order_trans[of _ 0]) simp_all
  moreover have "uint w < 2 ^ 31" by (rule less_trans[OF unsigned_less]) simp
  ultimately have "int32 (uint w) = uint w" by (rule int32_id)
  then show ?thesis by simp
qed

lemma int32_word32: "word_of_int (int32 (sint (w :: 32 word))) = w"
  by (simp add: int32_def)


definition demo_profile_env :: profile_env where
  "demo_profile_env = \<lparr>pe_snssai = (\<lambda>n s. Inr \<lparr>sn_sst = JInt n, sn_sd = JStr s\<rparr>), pe_trim = (\<lambda>s. s)\<rparr>"


end
