(* ===== verification/Sepp_Nrf.thy ===== *)
theory Sepp_Nrf
  imports Sepp_Profile
begin

text \<open>
  \<^verbatim>\<open>sepp_event\<close>, \<^verbatim>\<open>task_manager\<close> and \<^verbatim>\<open>sepp_nrf\<close> (src/sepp_app): the millisecond clock with its
  subscribers, and the registration of the SEPP at the NRF with the heartbeat that keeps it
  registered.
\<close>

subsection \<open>The clock\<close>

text \<open>
  A subscriber of the tick is called at a start time and then once per period. A connection
  is the number of the subscription; disconnecting removes it.
\<close>

record slot =
  slot_id :: nat
  slot_period :: "64 word"
  slot_start :: "64 word"

record sepp_event =
  ev_next :: nat
  ev_slots :: "slot list"

definition sepp_event_init :: sepp_event where
  "sepp_event_init = \<lparr>ev_next = 0, ev_slots = []\<rparr>"

definition slot_fires :: "slot \<Rightarrow> 64 word \<Rightarrow> bool" where
  "slot_fires s t \<longleftrightarrow> slot_start s \<le> t \<and> (t - slot_start s) mod slot_period s = 0"

definition subscribe_task_nf_heartbeat :: "64 word \<Rightarrow> 64 word \<Rightarrow> sepp_event \<Rightarrow> nat \<times> sepp_event" where
  "subscribe_task_nf_heartbeat period start ev =
     (ev_next ev, \<lparr>ev_next = Suc (ev_next ev),
        ev_slots = ev_slots ev @ [\<lparr>slot_id = ev_next ev, slot_period = period, slot_start = start\<rparr>]\<rparr>)"

definition disconnect :: "nat option \<Rightarrow> sepp_event \<Rightarrow> sepp_event" where
  "disconnect c ev = (case c of None \<Rightarrow> ev
     | Some i \<Rightarrow> ev\<lparr>ev_slots := filter (\<lambda>s. slot_id s \<noteq> i) (ev_slots ev)\<rparr>)"

subsection \<open>The NRF client\<close>

text \<open>
  The configuration the code reads, and what it calls: \<^verbatim>\<open>sbi_helper::get_nrf_nf_instance_uri\<close>,
  \<^verbatim>\<open>prepare_json_request\<close>, \<^verbatim>\<open>dump\<close> and the \<^verbatim>\<open>to_json\<close> of the generated \<^verbatim>\<open>PatchItem\<close>.
\<close>

record patch_item =
  pi_op :: string
  pi_path :: string
  pi_value :: string

record nrf_env =
  re_sbi_host :: string
  re_sbi_addr4 :: in_addr
  re_sbi_port :: int
  re_sbi_api_version :: string
  re_nrf_api_version :: string
  re_nrf_url :: string
  re_instance_uri :: "string \<Rightarrow> string \<Rightarrow> string \<Rightarrow> string"
  re_prepare :: "string \<Rightarrow> string \<Rightarrow> http_request"
  re_dump :: "json \<Rightarrow> string option"
  re_patch_json :: "patch_item \<Rightarrow> json"

record nrf =
  nrf_profile :: sepp_profile
  nrf_instance_id :: string
  nrf_url :: string
  nrf_connection :: "nat option"

definition HEART_BEAT_TIMER :: "32 word" where
  "HEART_BEAT_TIMER = 10"

definition heartbeat_interval :: "64 word" where
  "heartbeat_interval = ucast (HEART_BEAT_TIMER * 1000)"

definition sepp_telescopic_API_NAME :: string where
  "sepp_telescopic_API_NAME = ''nsepp-telescopic''"

definition generate_sepp_profile :: "nrf_env \<Rightarrow> string \<Rightarrow> sepp_profile \<Rightarrow> sepp_profile" where
  "generate_sepp_profile N instance_id p0 =
     (let p1 = set_nf_instance_id instance_id p0;
          p2 = set_nf_instance_name ''OAI-SEPP'' p1;
          p3 = set_nf_type ''SEPP'' p2;
          p4 = set_nf_status ''REGISTERED'' p3;
          p5 = set_fqdn (re_sbi_host N) p4;
          p6 = set_nf_heartBeat_timer 50 p5;
          p7 = set_nf_priority 1 p6;
          p8 = set_nf_capacity 100 p7;
          p9 = add_nf_ipv4_addresses (re_sbi_addr4 N) p8;
          version = \<lparr>sv_api_version_in_uri = re_sbi_api_version N, sv_api_full_version = ''1.0.0''\<rparr>;
          endpoint = \<lparr>ep_ipv4_address = re_sbi_addr4 N, ep_transport = ''TCP'', ep_port = re_sbi_port N\<rparr>;
          nf_service = \<lparr>ns_service_instance_id = sepp_telescopic_API_NAME,
                        ns_service_name = sepp_telescopic_API_NAME, ns_versions = [version],
                        ns_scheme = ''http'', ns_nf_service_status = ''REGISTERED'',
                        ns_ip_endpoints = [endpoint]\<rparr>;
          p10 = add_nf_service nf_service p9
      in set_sepp_info \<lparr>si_prefix = ''oai-sepp-prefix'', si_ports = [(''n32f'', 443), (''n32c'', 443)],
           si_remote_plmns = [(''262'', ''10'')], si_n32_purposes = [''ROAMING'']\<rparr> p10)"

definition sepp_nrf_new :: "nrf_env \<Rightarrow> string \<Rightarrow> nrf" where
  "sepp_nrf_new N uuid =
     \<lparr>nrf_profile = generate_sepp_profile N uuid sepp_profile_init, nrf_instance_id = uuid,
      nrf_url = re_instance_uri N (re_nrf_api_version N) (re_nrf_url N) uuid,
      nrf_connection = None\<rparr>"

text \<open>\<open>ms\<close> is the time \<^verbatim>\<open>system_clock\<close> gives.\<close>

definition start_event_nf_heartbeat ::
  "64 word \<Rightarrow> nrf \<times> sepp_event \<Rightarrow> nrf \<times> sepp_event" where
  "start_event_nf_heartbeat ms ne =
     (let interval = heartbeat_interval in
      case subscribe_task_nf_heartbeat interval (ms + interval) (snd ne) of
        (i, ev) \<Rightarrow> ((fst ne)\<lparr>nrf_connection := Some i\<rparr>, ev))"

definition register_to_nrf ::
  "nrf_env \<Rightarrow> net \<Rightarrow> 64 word \<Rightarrow> nrf \<times> sepp_event \<Rightarrow> history \<Rightarrow>
     ((nrf \<times> sepp_event) \<times> history) result" where
  "register_to_nrf N net ms ne h =
     (case sepp_profile_to_json (nrf_profile (fst ne)) JNull of
        Inl e \<Rightarrow> Inl e
      | Inr body \<Rightarrow>
          (case re_dump N body of
             None \<Rightarrow> Inl TypeError
           | Some b \<Rightarrow>
               (case send_http_request net SbiClient PUT (re_prepare N (nrf_url (fst ne)) b) h of
                  (http_response, h') \<Rightarrow>
                    (if rp_status http_response = 201 \<or> rp_status http_response = 200 then
                       (if str_find ''REGISTERED'' (rp_body http_response) \<noteq> Some 0
                        then Inr (start_event_nf_heartbeat ms ne, h')
                        else Inr (ne, h'))
                     else Inr (ne, h')))))"

definition heartbeat_doc :: "nrf_env \<Rightarrow> json" where
  "heartbeat_doc N = JArr [re_patch_json N
     \<lparr>pi_op = ''replace'', pi_path = ''/nfStatus'', pi_value = ''REGISTERED''\<rparr>]"

definition trigger_nf_heartbeat_procedure ::
  "nrf_env \<Rightarrow> net \<Rightarrow> nrf \<Rightarrow> sepp_event \<times> history \<Rightarrow> (sepp_event \<times> history) result" where
  "trigger_nf_heartbeat_procedure N net n s =
     (case re_dump N (heartbeat_doc N) of
        None \<Rightarrow> Inl TypeError
      | Some b \<Rightarrow>
          (case send_http_request net SbiClient PATCH (re_prepare N (nrf_url n) b) (snd s) of
             (http_response, h') \<Rightarrow>
               (if rp_status http_response = 200 \<or> rp_status http_response = 204
                then Inr (fst s, h')
                else Inr (disconnect (nrf_connection n) (fst s), h'))))"

definition deregister_to_nrf :: "net \<Rightarrow> nrf \<Rightarrow> history \<Rightarrow> history" where
  "deregister_to_nrf net n h =
     snd (send_http_request net SbiClient DELETE \<lparr>rq_uri = nrf_url n, rq_headers = [], rq_body = []\<rparr> h)"

subsection \<open>Ticks\<close>

text \<open>
  \<open>task_tick\<close> calls the subscribers of a tick in order; one that was disconnected by an
  earlier one is not called. \<open>manage_tasks k\<close> is \<open>k\<close> rounds of the endless loop of the task
  manager, whose counter is a \<^verbatim>\<open>uint64_t\<close>.
\<close>

fun run_slots ::
  "(sepp_event \<times> history \<Rightarrow> (sepp_event \<times> history) result) \<Rightarrow> 64 word \<Rightarrow> slot list \<Rightarrow>
     sepp_event \<times> history \<Rightarrow> (sepp_event \<times> history) result" where
  "run_slots sig t [] s = Inr s"
| "run_slots sig t (sl # sls) s =
     (if sl \<in> set (ev_slots (fst s)) \<and> slot_fires sl t then
        (case sig s of Inl e \<Rightarrow> Inl e | Inr s' \<Rightarrow> run_slots sig t sls s')
      else run_slots sig t sls s)"

definition task_tick ::
  "nrf_env \<Rightarrow> net \<Rightarrow> nrf \<Rightarrow> 64 word \<Rightarrow> sepp_event \<times> history \<Rightarrow> (sepp_event \<times> history) result" where
  "task_tick N net n t s =
     run_slots (trigger_nf_heartbeat_procedure N net n) t (ev_slots (fst s)) s"

fun manage_tasks ::
  "nrf_env \<Rightarrow> net \<Rightarrow> nrf \<Rightarrow> nat \<Rightarrow> 64 word \<Rightarrow> sepp_event \<times> history \<Rightarrow>
     (sepp_event \<times> history) result" where
  "manage_tasks N net n 0 t s = Inr s"
| "manage_tasks N net n (Suc k) t s =
     (case task_tick N net n t s of
        Inl e \<Rightarrow> Inl e
      | Inr s' \<Rightarrow> manage_tasks N net n k (t + 1) s')"

subsection \<open>The rhythm of the heartbeat\<close>

lemma heartbeat_interval_value: "heartbeat_interval = 10000"
  by (simp add: heartbeat_interval_def HEART_BEAT_TIMER_def)

lemma of_nat64_le: "a < 2 ^ 64 \<Longrightarrow> b < 2 ^ 64 \<Longrightarrow> (of_nat a \<le> (of_nat b :: 64 word)) \<longleftrightarrow> a \<le> b"
  by (simp add: word_le_nat_alt unat_of_nat take_bit_nat_eq_self)

text \<open>As long as the clock does not wrap, a slot fires at its start and every period later.\<close>

lemma slot_fires_nat:
  assumes "slot_period sl = of_nat P" and "slot_start sl = of_nat S"
    and "P < 2 ^ 64" and "S < 2 ^ 64" and "u < 2 ^ 64"
  shows "slot_fires sl (of_nat u) \<longleftrightarrow> S \<le> u \<and> (u - S) mod P = 0"
proof (cases "S \<le> u")
  case True
  then have d: "of_nat u - of_nat S = (of_nat (u - S) :: 64 word)" by simp
  have "unat ((of_nat (u - S) :: 64 word) mod of_nat P) = (u - S) mod P"
    using assms by (simp add: unat_mod unat_of_nat take_bit_nat_eq_self)
  then show ?thesis
    using True assms unfolding slot_fires_def assms(1,2) d
    by (metis of_nat64_le unat_eq_0)
next
  case False
  with assms show ?thesis by (simp add: slot_fires_def of_nat64_le)
qed

definition beat_times :: "nat \<Rightarrow> nat \<Rightarrow> nat \<Rightarrow> nat \<Rightarrow> nat list" where
  "beat_times P S T k = filter (\<lambda>u. S \<le> u \<and> (u - S) mod P = 0) [T..<T + k]"

lemma beat_times_Suc:
  "beat_times P S T (Suc k) =
     (if S \<le> T \<and> (T - S) mod P = 0 then T # beat_times P S (Suc T) k else beat_times P S (Suc T) k)"
proof -
  have "[T..<T + Suc k] = T # [Suc T..<Suc T + k]" by (simp add: upt_conv_Cons del: upt_Suc)
  then show ?thesis unfolding beat_times_def by simp
qed

lemma div_Suc_step: "0 < P \<Longrightarrow> (Suc n) div P = (if Suc n mod P = 0 then Suc (n div P) else n div (P :: nat))"
  by (simp add: div_Suc)

lemma beat_count:
  assumes "0 < P" and "T \<le> S"
  shows "length (beat_times P S T k) = (if T + k \<le> S then 0 else (T + k - S - 1) div P + 1)"
proof (induction k)
  case 0
  with assms show ?case by (simp add: beat_times_def)
next
  case (Suc k)
  have l: "length (beat_times P S T (Suc k)) = length (beat_times P S T k) +
      (if S \<le> T + k \<and> (T + k - S) mod P = 0 then 1 else 0)"
    by (simp add: beat_times_def)
  consider "T + k < S" | "T + k = S" | "S < T + k" by linarith
  then show ?case
  proof cases
    case 3
    then obtain m where m: "T + k - S = Suc m" by (metis Suc_diff_Suc add_diff_cancel_left' less_imp_add_positive zero_less_diff gr0_conv_Suc)
    moreover from m have "T + Suc k - S = Suc (Suc m)" using 3 by linarith
    ultimately show ?thesis using Suc l 3 div_Suc_step[OF assms(1), of m] by simp
  qed (use Suc l in simp_all)
qed

text \<open>One tick with the heartbeat as the only subscriber and an NRF that answers well.\<close>

definition heartbeat_call :: "nrf_env \<Rightarrow> nrf \<Rightarrow> string \<Rightarrow> http_call" where
  "heartbeat_call N n b = HttpCall SbiClient PATCH (re_prepare N (nrf_url n) b)"

lemma tick_ok:
  assumes "re_dump N (heartbeat_doc N) = Some b"
    and "\<And>h. rp_status (net h) = 200 \<or> rp_status (net h) = 204"
    and "ev_slots ev = [sl]"
  shows "task_tick N net n t (ev, h) =
     Inr (ev, if slot_fires sl t then h @ [heartbeat_call N n b] else h)"
  using assms
  by (simp add: task_tick_def trigger_nf_heartbeat_procedure_def send_http_request_def Let_def
      heartbeat_call_def)

lemma manage_tasks_beats:
  assumes dump: "re_dump N (heartbeat_doc N) = Some b"
    and ok: "\<And>h. rp_status (net h) = 200 \<or> rp_status (net h) = 204"
    and sl: "ev_slots ev = [sl]" "slot_period sl = of_nat P" "slot_start sl = of_nat S"
    and bounds: "P < 2 ^ 64" "S < 2 ^ 64"
  shows "T + k < 2 ^ 64 \<Longrightarrow> manage_tasks N net n k (of_nat T) (ev, h) =
     Inr (ev, h @ replicate (length (beat_times P S T k)) (heartbeat_call N n b))"
proof (induction k arbitrary: T h)
  case 0
  then show ?case by (simp add: beat_times_def)
next
  case (Suc k)
  have f: "slot_fires sl (of_nat T) \<longleftrightarrow> S \<le> T \<and> (T - S) mod P = 0"
    using Suc.prems bounds sl by (intro slot_fires_nat) simp_all
  have t: "of_nat T + 1 = (of_nat (Suc T) :: 64 word)" by simp
  show ?case
    using Suc.IH[of "Suc T"] Suc.prems
    by (simp add: tick_ok[OF dump ok sl(1)] f beat_times_Suc t del: of_nat_Suc)
qed

text \<open>
  C16: once the heartbeat is started at time \<open>ms\<close> and as long as the NRF answers, it sends
  exactly one PATCH request in every ten seconds of ticks, the first one ten seconds after
  \<open>ms\<close>, and nothing else.
\<close>

theorem heartbeat_every_period:
  assumes start: "start_event_nf_heartbeat (of_nat ms) (n, sepp_event_init) = (n', ev)"
    and dump: "re_dump N (heartbeat_doc N) = Some b"
    and ok: "\<And>h. rp_status (net h) = 200 \<or> rp_status (net h) = 204"
    and time: "ms + 10000 < 2 ^ 64" "T \<le> ms + 10000" "T + k < 2 ^ 64"
  shows "manage_tasks N net n' k (of_nat T) (ev, h) =
     Inr (ev, h @ replicate (if T + k \<le> ms + 10000 then 0 else (T + k - (ms + 10000) - 1) div 10000 + 1)
                    (heartbeat_call N n' b))"
proof -
  obtain sl where sl: "ev_slots ev = [sl]" "slot_period sl = of_nat 10000"
      "slot_start sl = of_nat (ms + 10000)"
    using start by (auto simp: start_event_nf_heartbeat_def subscribe_task_nf_heartbeat_def
        sepp_event_init_def heartbeat_interval_value)
  show ?thesis
    using manage_tasks_beats[OF dump ok sl _ time(1) time(3)] beat_count[of 10000 T "ms + 10000" k] time(2)
    by simp
qed

definition demo_nrf_env :: nrf_env where
  "demo_nrf_env = \<lparr>re_sbi_host = ''sepp.local'', re_sbi_addr4 = [127, 0, 0, 1], re_sbi_port = 80,
     re_sbi_api_version = ''v1'', re_nrf_api_version = ''v1'', re_nrf_url = ''http://nrf'',
     re_instance_uri = (\<lambda>v root i. root @ ''/nnrf-nfm/'' @ v @ ''/nf-instances/'' @ i),
     re_prepare = (\<lambda>u b. \<lparr>rq_uri = u, rq_headers = [], rq_body = b\<rparr>),
     re_dump = (\<lambda>j. Some ''[]''), re_patch_json = (\<lambda>p. JObj [])\<rparr>"

definition answer :: "int \<Rightarrow> net" where
  "answer code h = \<lparr>rp_status = code, rp_body = [], rp_headers = []\<rparr>"

theorem heartbeat_every_period_witness:
  "\<exists>n' ev. start_event_nf_heartbeat (of_nat 500) (sepp_nrf_new demo_nrf_env ''id'', sepp_event_init) = (n', ev) \<and>
     manage_tasks demo_nrf_env (answer 204) n' 30000 (of_nat 501) (ev, []) =
       Inr (ev, replicate 3 (heartbeat_call demo_nrf_env n' ''[]''))"
proof -
  obtain n' ev where s: "start_event_nf_heartbeat (of_nat 500)
      (sepp_nrf_new demo_nrf_env ''id'', sepp_event_init) = (n', ev)" by force
  have d: "re_dump demo_nrf_env (heartbeat_doc demo_nrf_env) = Some ''[]''"
    by (simp add: demo_nrf_env_def)
  have a: "rp_status (answer 204 h) = 200 \<or> rp_status (answer 204 h) = 204" for h
    by (simp add: answer_def)
  show ?thesis
    using heartbeat_every_period[OF s d a, where T = 501 and k = 30000 and h = "[]"] s by simp
qed

lemma manage_tasks_no_slot:
  "ev_slots (fst s) = [] \<Longrightarrow> manage_tasks N net n k t s = Inr s"
  by (induction k arbitrary: t) (simp_all add: task_tick_def)

text \<open>
  A heartbeat the NRF does not answer with 200 or 204 is the last one: the subscription
  is gone and no number of ticks makes another call, nor a new registration.
\<close>

theorem failed_heartbeat_is_last:
  assumes conn: "nrf_connection n = Some (slot_id sl)" and one: "ev_slots ev = [sl]"
    and due: "slot_fires sl t" and dump: "re_dump N (heartbeat_doc N) = Some b"
    and bad: "rp_status (net (h @ [heartbeat_call N n b])) \<notin> {200, 204}"
  shows "\<exists>ev'. ev_slots ev' = [] \<and>
     manage_tasks N net n (Suc k) t (ev, h) = Inr (ev', h @ [heartbeat_call N n b])"
proof -
  have "task_tick N net n t (ev, h) =
      Inr (disconnect (nrf_connection n) ev, h @ [heartbeat_call N n b])"
    using one due dump bad
    by (simp add: task_tick_def trigger_nf_heartbeat_procedure_def send_http_request_def Let_def
        heartbeat_call_def)
  moreover have "ev_slots (disconnect (nrf_connection n) ev) = []"
    by (simp add: conn one disconnect_def)
  ultimately show ?thesis by (simp add: manage_tasks_no_slot)
qed

theorem failed_heartbeat_is_last_witness:
  "\<exists>n' ev ev'. start_event_nf_heartbeat 0 (sepp_nrf_new demo_nrf_env ''id'', sepp_event_init) = (n', ev) \<and>
     manage_tasks demo_nrf_env (answer 503) n' 100000 10000 (ev, []) =
       Inr (ev', [heartbeat_call demo_nrf_env n' ''[]''])"
proof -
  obtain n' ev where s: "start_event_nf_heartbeat 0
      (sepp_nrf_new demo_nrf_env ''id'', sepp_event_init) = (n', ev)" by force
  let ?sl = "\<lparr>slot_id = 0, slot_period = 10000, slot_start = 10000\<rparr>"
  have "nrf_connection n' = Some (slot_id ?sl)" "ev_slots ev = [?sl]"
    using s by (auto simp: start_event_nf_heartbeat_def subscribe_task_nf_heartbeat_def
        sepp_event_init_def heartbeat_interval_value)
  moreover have "slot_fires ?sl 10000" by (simp add: slot_fires_def)
  moreover have "re_dump demo_nrf_env (heartbeat_doc demo_nrf_env) = Some ''[]''"
    by (simp add: demo_nrf_env_def)
  moreover have "rp_status (answer 503 ([] @ [heartbeat_call demo_nrf_env n' ''[]''])) \<notin> {200, 204}"
    by (simp add: answer_def)
  ultimately have "\<exists>ev'. ev_slots ev' = [] \<and>
     manage_tasks demo_nrf_env (answer 503) n' (Suc 99999) 10000 (ev, []) =
       Inr (ev', [] @ [heartbeat_call demo_nrf_env n' ''[]''])"
    by (rule failed_heartbeat_is_last)
  moreover have "Suc 99999 = 100000" by simp
  ultimately show ?thesis using s by (metis append_Nil)
qed



end
