(* ===== verification/Sepp_App.thy ===== *)
theory Sepp_App
  imports Sepp_Telescopic Sepp_Wire Sepp_Nrf
begin

text \<open>
  \<^verbatim>\<open>sepp_app\<close> (src/sepp_app): the application object that owns the components. It starts them
  from the configuration, drives the handshake with the peer as initiator, hands the
  requests of the servers to the components, and carries the requests of local network
  functions to the peer, under PRINS or under TLS.
\<close>

subsection \<open>State and environment\<close>

text \<open>
  A \<^verbatim>\<open>unique_ptr\<close> member is an option. The mapping service is the list of partners it was
  given. The configuration is part of the environment.
\<close>

record sepp_app =
  m_sepp_nrf_inst :: "nrf option"
  m_sepp_telescopic_fqdn_mapping :: "plmn_config list option"
  m_sepp_n32c_handshake_inst :: "n32c option"
  m_sepp_n32f_forward_inst :: "n32f option"
  m_remote_sepp_url :: "string option"
  m_roaming_partners :: "plmn_config list"

definition sepp_app_empty :: sepp_app where
  "sepp_app_empty = \<lparr>m_sepp_nrf_inst = None, m_sepp_telescopic_fqdn_mapping = None,
     m_sepp_n32c_handshake_inst = None, m_sepp_n32f_forward_inst = None,
     m_remote_sepp_url = None, m_roaming_partners = []\<rparr>"

record app_env =
  ae_n32f :: n32f_env
  ae_nrf :: nrf_env
  ae_negotiate_rsp_from :: "json \<Rightarrow> bool"
  ae_register_nrf :: bool
  ae_roaming_partners :: "plmn_config list"
  ae_security :: string
  ae_is_c_sepp :: bool
  ae_tls_enabled :: bool
  ae_nbi_port :: nat

abbreviation ae_n32c :: "app_env \<Rightarrow> n32c_env" where
  "ae_n32c E \<equiv> fe_n32c (ae_n32f E)"

subsection \<open>The handshake as initiator\<close>

text \<open>
  \<open>nbi_post\<close> is the request both procedures send: \<open>None\<close> when \<^verbatim>\<open>dump\<close> throws.
\<close>

definition nbi_post ::
  "app_env \<Rightarrow> net \<Rightarrow> string \<Rightarrow> json \<Rightarrow> history \<Rightarrow> (http_response \<times> history) option" where
  "nbi_post E net target_endpoint req_body h =
     (case fe_dump (ae_n32f E) req_body of
        None \<Rightarrow> None
      | Some b \<Rightarrow> Some (send_http_request net NbiClient POST
                         (fe_prepare (ae_n32f E) target_endpoint b) h))"

definition set_n32f_context :: "n32c \<Rightarrow> sepp_app \<Rightarrow> sepp_app" where
  "set_n32f_context c s =
     s\<lparr>m_sepp_n32f_forward_inst :=
        map_option (\<lambda>f. f\<lparr>m_n32f_context_id := m_n32c_context_id c\<rparr>) (m_sepp_n32f_forward_inst s)\<rparr>"

definition create_exchange_params ::
  "app_env \<Rightarrow> net \<Rightarrow> string \<Rightarrow> sepp_app \<Rightarrow> history \<Rightarrow> sepp_app \<times> history \<times> unit result" where
  "create_exchange_params E net uuid s h =
     (case (m_sepp_n32c_handshake_inst s, m_remote_sepp_url s) of
        (Some c, Some url) \<Rightarrow>
          (case create_exchange_params_req (ae_n32c E) uuid c of
             (c1, req_body) \<Rightarrow>
               (let s1 = s\<lparr>m_sepp_n32c_handshake_inst := Some c1\<rparr> in
                case nbi_post E net (url @ ''/n32c-handshake/v1/exchange-params'') req_body h of
                  None \<Rightarrow> (s1, h, Inl TypeError)
                | Some (rsp, h') \<Rightarrow>
                    (if rp_status rsp = 200 \<or> rp_status rsp = 201 then
                       (case fe_parse (ae_n32f E) (rp_body rsp) of
                          None \<Rightarrow> (s1, h', Inr ())
                        | Some resp_body \<Rightarrow>
                            (case ne_param_rsp_from (ae_n32c E) resp_body of
                               None \<Rightarrow> (s1, h', Inr ())
                             | Some param_rsp \<Rightarrow>
                                 (case handle_exchange_params_response (ae_n32c E) resp_body c1 of
                                    (c2, ok) \<Rightarrow>
                                      (let s2 = s1\<lparr>m_sepp_n32c_handshake_inst := Some c2\<rparr>
                                       in (if ok then set_n32f_context c2 s2 else s2, h', Inr ())))))
                     else (s1, h', Inr ()))))
      | _ \<Rightarrow> (s, h, Inr ()))"

text \<open>
  What the \<^verbatim>\<open>catch\<close> of the capability exchange makes of an exception of the parameter
  exchange: the state stays as far as it got.
\<close>

definition swallow :: "sepp_app \<times> history \<times> unit result \<Rightarrow> sepp_app \<times> history \<times> unit result" where
  "swallow x = (case x of (s, h, r) \<Rightarrow> (s, h, Inr ()))"

definition create_exchange_capability ::
  "app_env \<Rightarrow> net \<Rightarrow> string \<Rightarrow> sepp_app \<Rightarrow> history \<Rightarrow> sepp_app \<times> history \<times> unit result" where
  "create_exchange_capability E net uuid s h =
     (case m_sepp_n32c_handshake_inst s of
        None \<Rightarrow> (s, h, Inr ())
      | Some c \<Rightarrow>
          (case create_exchange_capability_req (ae_n32c E) c of
             Inl e \<Rightarrow> (s, h, Inl e)
           | Inr req_body \<Rightarrow>
               (case m_remote_sepp_url s of
                  None \<Rightarrow> (s, h, Inr ())
                | Some url \<Rightarrow>
                    (case nbi_post E net (url @ ''/n32c-handshake/v1/exchange-capability'') req_body h of
                       None \<Rightarrow> (s, h, Inl TypeError)
                     | Some (rsp, h') \<Rightarrow>
                         (if rp_status rsp = 200 \<or> rp_status rsp = 201 then
                            (case fe_parse (ae_n32f E) (rp_body rsp) of
                               None \<Rightarrow> (s, h', Inr ())
                             | Some resp_body \<Rightarrow>
                                 (if \<not> ae_negotiate_rsp_from E resp_body then (s, h', Inr ())
                                  else (case handle_exchange_capability_response resp_body c of
                                          (c1, r) \<Rightarrow>
                                            (let s1 = s\<lparr>m_sepp_n32c_handshake_inst := Some c1\<rparr> in
                                             if r = Inr True \<and> m_selected_sec_capability c1 = ''PRINS''
                                             then swallow (create_exchange_params E net uuid s1 h')
                                             else (s1, h', Inr ())))))
                          else (s, h', Inr ()))))))"

definition send_n32f_terminate ::
  "app_env \<Rightarrow> net \<Rightarrow> sepp_app \<Rightarrow> history \<Rightarrow> sepp_app \<times> history \<times> unit result" where
  "send_n32f_terminate E net s h =
     (case (m_sepp_n32c_handshake_inst s, m_remote_sepp_url s) of
        (Some c, Some url) \<Rightarrow>
          (case create_n32f_terminate_req (ae_n32c E) c of
             None \<Rightarrow> (s, h, Inr ())
           | Some req_body \<Rightarrow>
               (case nbi_post E net (url @ ''/n32c-handshake/v1/n32f-terminate'') req_body h of
                  None \<Rightarrow> (s, h, Inl TypeError)
                | Some (rsp, h') \<Rightarrow>
                    (if rp_status rsp = 200 \<or> rp_status rsp = 204 then
                       (let resp_body =
                          (if rp_body rsp \<noteq> [] then
                             (case fe_parse (ae_n32f E) (rp_body rsp) of
                                Some j \<Rightarrow> j | None \<Rightarrow> JObj [])
                           else JNull)
                        in (s\<lparr>m_sepp_n32c_handshake_inst :=
                               Some (fst (handle_n32f_terminate_response (ae_n32c E) resp_body c))\<rparr>,
                            h', Inr ()))
                     else (s, h', Inr ()))))
      | _ \<Rightarrow> (s, h, Inr ()))"

subsection \<open>Start and stop\<close>

definition remote_url :: "app_env \<Rightarrow> plmn_config \<Rightarrow> string" where
  "remote_url E plmn =
     (if ae_tls_enabled E then ''https://'' else ''http://'') @ ''sepp.5gc.mnc'' @ pc_mnc plmn @
     ''.mcc'' @ pc_mcc plmn @ ''.3gppnetwork.org:'' @ nat_str (ae_nbi_port E)"

text \<open>The instances the constructor makes once it has the NRF client.\<close>

definition app_instances :: "app_env \<Rightarrow> nrf \<Rightarrow> sepp_app" where
  "app_instances E n =
     \<lparr>m_sepp_nrf_inst = Some n,
      m_sepp_telescopic_fqdn_mapping = Some (ae_roaming_partners E),
      m_sepp_n32c_handshake_inst = Some (n32c_init\<lparr>m_selected_sec_capability := ae_security E\<rparr>),
      m_sepp_n32f_forward_inst = Some (n32f_init\<lparr>m_security_capability := ae_security E\<rparr>),
      m_remote_sepp_url = None,
      m_roaming_partners = ae_roaming_partners E\<rparr>"

text \<open>
  They are only created when the SEPP registers at the NRF. \<open>ms\<close> is the clock, \<open>uuid\<close> the
  identifier of the instance and \<open>uuid'\<close> the one a context would get.
\<close>

definition sepp_app_new ::
  "app_env \<Rightarrow> net \<Rightarrow> 64 word \<Rightarrow> string \<Rightarrow> string \<Rightarrow> sepp_event \<Rightarrow> history \<Rightarrow>
     (sepp_app \<times> sepp_event \<times> history) result" where
  "sepp_app_new E net ms uuid uuid' ev h =
     (if \<not> ae_register_nrf E then Inr (sepp_app_empty, ev, h)
      else
        (case register_to_nrf (ae_nrf E) net ms (sepp_nrf_new (ae_nrf E) uuid, ev) h of
           Inl e \<Rightarrow> Inl e
         | Inr ((n, ev'), h') \<Rightarrow>
             (let s = app_instances E n in
              if ae_is_c_sepp E \<and> ae_roaming_partners E \<noteq> [] then
                (case create_exchange_capability E net uuid'
                        (s\<lparr>m_remote_sepp_url := Some (remote_url E (hd (ae_roaming_partners E)))\<rparr>) h' of
                   (s', h'', r) \<Rightarrow> (case r of Inl e \<Rightarrow> Inl e | Inr u \<Rightarrow> Inr (s', ev', h'')))
              else Inr (s, ev', h'))))"

definition stop :: "app_env \<Rightarrow> net \<Rightarrow> sepp_app \<Rightarrow> history \<Rightarrow> sepp_app \<times> history \<times> unit result" where
  "stop E net s h =
     (case (if ae_is_c_sepp E \<and>
               (case m_sepp_n32c_handshake_inst s of Some c \<Rightarrow> m_n32c_context_id c \<noteq> [] | None \<Rightarrow> False)
            then send_n32f_terminate E net s h else (s, h, Inr ())) of
        (s1, h1, Inl e) \<Rightarrow> (s1, h1, Inl e)
      | (s1, h1, Inr u) \<Rightarrow>
          (s1, (case m_sepp_nrf_inst s1 of Some n \<Rightarrow> deregister_to_nrf net n h1 | None \<Rightarrow> h1), Inr ()))"

subsection \<open>Handlers\<close>

text \<open>
  The handlers hand over to the component, if there is one. What the code does before that
  in a \<^verbatim>\<open>try\<close> block with its own copy of the model only writes log messages.
\<close>

definition with_n32c :: "(n32c \<Rightarrow> n32c handled) \<Rightarrow> json \<Rightarrow> headers \<Rightarrow> sepp_app \<Rightarrow> sepp_app handled" where
  "with_n32c f resp_data resp_headers s =
     (case m_sepp_n32c_handshake_inst s of
        None \<Rightarrow> (s, resp_data, resp_headers, Inr False)
      | Some c \<Rightarrow> (case f c of
          (c', r, hs, b) \<Rightarrow> (s\<lparr>m_sepp_n32c_handshake_inst := Some c'\<rparr>, r, hs, b)))"

definition app_exchange_capability_request ::
  "app_env \<Rightarrow> json \<Rightarrow> json \<Rightarrow> headers \<Rightarrow> sepp_app \<Rightarrow> sepp_app handled" where
  "app_exchange_capability_request E req_data resp_data resp_headers =
     with_n32c (handle_exchange_capability_request (ae_n32c E) req_data resp_data resp_headers)
       resp_data resp_headers"

definition app_exchange_params ::
  "app_env \<Rightarrow> string \<Rightarrow> json \<Rightarrow> json \<Rightarrow> headers \<Rightarrow> sepp_app \<Rightarrow> sepp_app handled" where
  "app_exchange_params E uuid req_data resp_data resp_headers =
     with_n32c (handle_exchange_params (ae_n32c E) uuid req_data resp_data resp_headers)
       resp_data resp_headers"

definition app_n32f_terminate_req ::
  "app_env \<Rightarrow> json \<Rightarrow> json \<Rightarrow> headers \<Rightarrow> sepp_app \<Rightarrow> sepp_app handled" where
  "app_n32f_terminate_req E req_data resp_data resp_headers =
     with_n32c (handle_n32f_terminate_req (ae_n32c E) req_data resp_data resp_headers)
       resp_data resp_headers"

definition app_n32f_error :: "json \<Rightarrow> json \<Rightarrow> headers \<Rightarrow> sepp_app \<Rightarrow> sepp_app handled" where
  "app_n32f_error req_data resp_data resp_headers =
     with_n32c (handle_n32f_error req_data resp_data resp_headers) resp_data resp_headers"

definition app_n32f_forward ::
  "app_env \<Rightarrow> net \<Rightarrow> sepp_app \<Rightarrow> json \<Rightarrow> json \<Rightarrow> headers \<Rightarrow> history \<Rightarrow> history handled" where
  "app_n32f_forward E net s req_data resp_data resp_headers h =
     (case m_sepp_n32f_forward_inst s of
        None \<Rightarrow> (h, resp_data, resp_headers, Inr False)
      | Some f \<Rightarrow> handle_n32f_forward (ae_n32f E) net f req_data resp_data resp_headers h)"

definition app_n32f_process ::
  "app_env \<Rightarrow> net \<Rightarrow> sepp_app \<Rightarrow> json \<Rightarrow> json \<Rightarrow> headers \<Rightarrow> history \<Rightarrow> history handled" where
  "app_n32f_process E net s req_data resp_data resp_headers h =
     (case m_sepp_n32f_forward_inst s of
        None \<Rightarrow> (h, resp_data, resp_headers, Inr False)
      | Some f \<Rightarrow> handle_n32f_process_post (ae_n32f E) net f req_data resp_data resp_headers h)"

definition app_get_telescopic_mapping ::
  "sepp_app \<Rightarrow> string \<Rightarrow> string \<Rightarrow> telescopic_mapping \<Rightarrow> (bool \<times> telescopic_mapping) result" where
  "app_get_telescopic_mapping s foreignFqdn telescopicLabel mm =
     (case m_sepp_telescopic_fqdn_mapping s of
        None \<Rightarrow> Inr (False, mm)
      | Some partners \<Rightarrow> get_telescopic_mapping partners foreignFqdn telescopicLabel mm)"

definition app_get_telescopic_mapping_text ::
  "(telescopic_mapping \<Rightarrow> string) \<Rightarrow> sepp_app \<Rightarrow> string \<Rightarrow> string \<Rightarrow> string \<Rightarrow> (bool \<times> string) result" where
  "app_get_telescopic_mapping_text dump s foreignFqdn telescopicLabel out =
     (case m_sepp_telescopic_fqdn_mapping s of
        None \<Rightarrow> Inr (False, out)
      | Some partners \<Rightarrow> get_telescopic_mapping_text dump partners foreignFqdn telescopicLabel out)"

subsection \<open>Requests of local network functions\<close>

text \<open>
  What a PRINS response message turns the response into. Exceptions are caught, so every
  failure is \<^verbatim>\<open>false\<close>; the headers and the status are written before the last checks.
\<close>

definition unwrap_response ::
  "n32f_env \<Rightarrow> n32f \<Rightarrow> flat_jwe \<Rightarrow> nf_http_response \<Rightarrow> nf_http_response \<times> bool" where
  "unwrap_response F f jwe resp_data =
     (case payload_of F f jwe of
        None \<Rightarrow> (resp_data, False)
      | Some decrypted_body \<Rightarrow>
          (case parse_aad (base64url_decode (fe_jose F) (fj_aad jwe)) (np_headers resp_data) of
             None \<Rightarrow> (resp_data, False)
           | Some (status, response_path, response_authority, hs) \<Rightarrow>
               (let r1 = resp_data\<lparr>np_headers := hs\<rparr> in
                case stoi status of
                  Inl e \<Rightarrow> (r1, False)
                | Inr code \<Rightarrow>
                    (let r2 = r1\<lparr>np_status_code := code\<rparr> in
                     if code < 100 \<or> code > 599 then (r2, False)
                     else (r2\<lparr>np_body := decrypted_body\<rparr>, True)))))"

definition handle_nf_service_request_prins ::
  "app_env \<Rightarrow> net \<Rightarrow> n32f \<Rightarrow> string \<Rightarrow> string \<Rightarrow> string \<Rightarrow> string \<Rightarrow> string \<Rightarrow>
     nf_http_response \<Rightarrow> history \<Rightarrow> nf_http_response \<times> history \<times> bool result" where
  "handle_nf_service_request_prins E net f url authority path method body resp_data h =
     (let F = ae_n32f E in
      case create_n32f_process_request F f authority path method body JNull of
        Inl e \<Rightarrow> (resp_data, h, Inl e)
      | Inr None \<Rightarrow> (resp_data, h, Inr False)
      | Inr (Some req_body) \<Rightarrow>
          (case nbi_post E net (url @ ''/n32f-forward/v1/n32f-process'') req_body h of
             None \<Rightarrow> (resp_data, h, Inl TypeError)
           | Some (rsp, h') \<Rightarrow>
               (if rp_status rsp \<noteq> 200 \<and> rp_status rsp \<noteq> 201 then (resp_data, h', Inr False)
                else (case fe_parse F (rp_body rsp) of
                        None \<Rightarrow> (resp_data, h', Inr False)
                      | Some http_resp_json \<Rightarrow>
                          (case fe_rsp_from F http_resp_json of
                             None \<Rightarrow> (resp_data, h', Inr False)
                           | Some jwe \<Rightarrow>
                               (case unwrap_response F f jwe resp_data of
                                  (r, ok) \<Rightarrow> (r, h', Inr ok)))))))"

definition tls_request ::
  "app_env \<Rightarrow> string \<Rightarrow> string \<Rightarrow> string \<Rightarrow> string \<Rightarrow> http_request" where
  "tls_request E url authority path body =
     (let target_uri = url @ path;
          req = (if body \<noteq> [] then fe_prepare (ae_n32f E) target_uri body
                 else \<lparr>rq_uri = target_uri, rq_headers = [], rq_body = []\<rparr>);
          hs = hput ''Accept'' ''application/json''
                 (hput ''Content-Type'' ''application/json'' (rq_headers req));
          default_scheme = (if ae_tls_enabled E then ''https://'' else ''http://'');
          api_root = (if \<not> starts_with ''http://'' authority \<and> \<not> starts_with ''https://'' authority
                      then default_scheme @ authority else authority)
      in req\<lparr>rq_headers :=
           (if authority \<noteq> [] then hput ''3gpp-Sbi-Target-apiRoot'' api_root (hput ''Authority'' authority hs)
            else hs)\<rparr>)"

definition handle_nf_service_request_tls ::
  "app_env \<Rightarrow> net \<Rightarrow> string \<Rightarrow> string \<Rightarrow> string \<Rightarrow> string \<Rightarrow> string \<Rightarrow>
     nf_http_response \<Rightarrow> history \<Rightarrow> nf_http_response \<times> history \<times> bool result" where
  "handle_nf_service_request_tls E net url authority path method body resp_data h =
     (case send_http_request net NbiClient (method_of_string method)
             (tls_request E url authority path body) h of
        (rsp, h') \<Rightarrow>
          (if rp_status rsp = 0 then (resp_data, h', Inr False)
           else (resp_data\<lparr>np_status_code := rp_status rsp, np_body := rp_body rsp,
                   np_headers := fold (\<lambda>(k, v). hput k v) (fe_order (ae_n32f E) (rp_headers rsp))
                                   (np_headers resp_data)\<rparr>, h', Inr True)))"

definition handle_nf_service_request ::
  "app_env \<Rightarrow> net \<Rightarrow> sepp_app \<Rightarrow> string \<Rightarrow> string \<Rightarrow> string \<Rightarrow> string \<Rightarrow>
     nf_http_response \<Rightarrow> history \<Rightarrow> nf_http_response \<times> history \<times> bool result" where
  "handle_nf_service_request E net s authority path method body resp_data h =
     (case (m_sepp_n32f_forward_inst s, m_remote_sepp_url s) of
        (Some f, Some url) \<Rightarrow>
          (if (case m_sepp_n32c_handshake_inst s of
                 Some c \<Rightarrow> m_selected_sec_capability c = ''PRINS'' | None \<Rightarrow> False)
           then handle_nf_service_request_prins E net f url authority path method body resp_data h
           else handle_nf_service_request_tls E net url authority path method body resp_data h)
      | _ \<Rightarrow> (resp_data, h, Inr False))"

subsection \<open>What stays as configured\<close>

text \<open>
  The capability of both components is the configured one and no key was ever set: this is
  how the constructor leaves them, and no operation of the application changes it.
\<close>

definition app_config :: "string \<Rightarrow> sepp_app \<Rightarrow> bool" where
  "app_config cap s \<longleftrightarrow>
     (\<forall>c. m_sepp_n32c_handshake_inst s = Some c \<longrightarrow> m_selected_sec_capability c = cap) \<and>
     (\<forall>f. m_sepp_n32f_forward_inst s = Some f \<longrightarrow> m_security_capability f = cap \<and> m_enc_key f = [])"

lemma app_config_empty [simp]: "app_config cap sepp_app_empty"
  by (simp add: app_config_def sepp_app_empty_def)

lemma app_config_n32c:
  "app_config cap s \<Longrightarrow> m_sepp_n32c_handshake_inst s = Some c \<Longrightarrow> same_config c c' \<Longrightarrow>
     app_config cap (s\<lparr>m_sepp_n32c_handshake_inst := Some c'\<rparr>)"
  by (simp add: app_config_def same_config_def)

lemma with_n32c_config:
  assumes "app_config cap s"
    and "\<And>c c' r' hs' b. f c = (c', r', hs', b) \<Longrightarrow> same_config c c'"
    and "with_n32c f r hs s = (s', r1, hs1, b1)"
  shows "app_config cap s'"
  using assms by (auto simp: with_n32c_def split: option.splits prod.splits intro: app_config_n32c)

lemma same_config_refl [simp]: "same_config c c"
  by (simp add: same_config_def)

lemma same_config_trans: "same_config a b \<Longrightarrow> same_config b c \<Longrightarrow> same_config a c"
  by (simp add: same_config_def)

lemma params_request_same_config:
  "handle_exchange_params E u d r hs s = (s', r', hs', b) \<Longrightarrow> same_config s s'"
  by (auto simp: handle_exchange_params_def same_config_def Let_def split: option.splits if_splits)

lemma create_params_same_config:
  "create_exchange_params_req E u s = (s', q) \<Longrightarrow> same_config s s'"
  by (auto simp: create_exchange_params_req_def create_exchange_params_obj_def same_config_def
      Let_def split: if_splits)

lemma app_exchange_capability_request_config:
  assumes "app_config cap s" and "app_exchange_capability_request E d r hs s = (s', r', hs', b)"
  shows "app_config cap s'"
  using assms(2) unfolding app_exchange_capability_request_def
  by (rule with_n32c_config[OF assms(1), rotated]) (auto dest: capability_request_frame)

lemma app_exchange_params_config:
  assumes "app_config cap s" and "app_exchange_params E u d r hs s = (s', r', hs', b)"
  shows "app_config cap s'"
  using assms(2) unfolding app_exchange_params_def
  by (rule with_n32c_config[OF assms(1), rotated]) (auto dest: params_request_same_config)

lemma app_n32f_terminate_req_config:
  assumes "app_config cap s" and "app_n32f_terminate_req E d r hs s = (s', r', hs', b)"
  shows "app_config cap s'"
  using assms(2) unfolding app_n32f_terminate_req_def
  by (rule with_n32c_config[OF assms(1), rotated]) (auto dest: terminate_request_frame)

lemma app_n32f_error_config:
  assumes "app_config cap s" and "app_n32f_error d r hs s = (s', r', hs', b)"
  shows "app_config cap s'"
  using assms(2) unfolding app_n32f_error_def
  by (rule with_n32c_config[OF assms(1), rotated]) (auto dest: error_frame)

lemmas app_handlers_config = app_exchange_capability_request_config app_exchange_params_config
  app_n32f_terminate_req_config app_n32f_error_config

lemma create_exchange_params_config:
  assumes "app_config cap s" and "create_exchange_params E net u s h = (s', h', r)"
  shows "app_config cap s'"
proof (cases "m_sepp_n32c_handshake_inst s")
  case None
  with assms show ?thesis by (simp add: create_exchange_params_def)
next
  case (Some c)
  obtain c1 q where q: "create_exchange_params_req (ae_n32c E) u c = (c1, q)" by force
  define s1 where "s1 = s\<lparr>m_sepp_n32c_handshake_inst := Some c1\<rparr>"
  have 1: "app_config cap s1"
    unfolding s1_def using app_config_n32c[OF assms(1) Some create_params_same_config[OF q]] .
  have 2: "app_config cap (s1\<lparr>m_sepp_n32c_handshake_inst := Some c2\<rparr>)"
    and 3: "app_config cap (set_n32f_context c2 (s1\<lparr>m_sepp_n32c_handshake_inst := Some c2\<rparr>))"
    if "handle_exchange_params_response (ae_n32c E) d c1 = (c2, ok)" for d c2 ok
    using that 1 params_response_frame[of "ae_n32c E" d c1 c2 ok]
    by (auto simp: app_config_def same_config_def s1_def set_n32f_context_def)
  show ?thesis
    using assms Some q 1 2 3
    unfolding create_exchange_params_def Let_def
    by (auto simp: s1_def[symmetric] split: option.splits if_splits prod.splits)
qed

lemma create_exchange_capability_config:
  assumes "app_config cap s" and "create_exchange_capability E net u s h = (s', h', r)"
  shows "app_config cap s'"
proof (cases "m_sepp_n32c_handshake_inst s")
  case None
  with assms show ?thesis by (simp add: create_exchange_capability_def)
next
  case (Some c)
  have 1: "app_config cap (s\<lparr>m_sepp_n32c_handshake_inst := Some c1\<rparr>)"
    if "handle_exchange_capability_response d c = (c1, ok)" for d c1 ok
    using capability_response_frame[OF that] by (intro app_config_n32c[OF assms(1) Some]) simp
  then have 2: "app_config cap s2"
    if "handle_exchange_capability_response d c = (c1, ok)"
      "swallow (create_exchange_params E net u (s\<lparr>m_sepp_n32c_handshake_inst := Some c1\<rparr>) h1) = (s2, h2, r2)"
    for d c1 ok h1 s2 h2 r2
  proof -
    from that(2) obtain r' where "create_exchange_params E net u
        (s\<lparr>m_sepp_n32c_handshake_inst := Some c1\<rparr>) h1 = (s2, h2, r')"
      by (auto simp: swallow_def split: prod.splits)
    then show ?thesis by (rule create_exchange_params_config[OF 1[OF that(1)]])
  qed
  show ?thesis
    using assms Some 1 2
    unfolding create_exchange_capability_def Let_def
    by (auto split: option.splits if_splits prod.splits sum.splits)
qed

lemma send_n32f_terminate_config:
  assumes "app_config cap s" and "send_n32f_terminate E net s h = (s', h', r)"
  shows "app_config cap s'"
proof (cases "m_sepp_n32c_handshake_inst s")
  case None
  with assms show ?thesis by (simp add: send_n32f_terminate_def)
next
  case (Some c)
  have 1: "app_config cap (s\<lparr>m_sepp_n32c_handshake_inst :=
      Some (fst (handle_n32f_terminate_response (ae_n32c E) d c))\<rparr>)" for d
    using terminate_response_frame[of "ae_n32c E" d c]
    by (intro app_config_n32c[OF assms(1) Some]) (metis prod.collapse)
  show ?thesis
    using assms Some 1
    unfolding send_n32f_terminate_def Let_def
    by (auto split: option.splits if_splits prod.splits)
qed

lemma app_instances_config [simp]:
  "app_config (ae_security E) (app_instances E n)"
  "app_config (ae_security E) ((app_instances E n)\<lparr>m_remote_sepp_url := url\<rparr>)"
  by (simp_all add: app_config_def app_instances_def n32f_init_def)

lemma sepp_app_new_config:
  assumes "sepp_app_new E net ms uuid uuid' ev h = Inr (s, ev', h')"
  shows "app_config (ae_security E) s"
proof -
  have *: "app_config (ae_security E) s'"
    if "create_exchange_capability E net u ((app_instances E n)\<lparr>m_remote_sepp_url := url\<rparr>) h1 = (s', h2, r)"
    for s' u url h1 h2 r n
    by (rule create_exchange_capability_config[OF _ that]) simp
  show ?thesis
    using assms *
    unfolding sepp_app_new_def Let_def
    by (auto split: if_splits sum.splits prod.splits)
qed

lemma stop_config:
  assumes "app_config cap s" and "stop E net s h = (s', h', r)"
  shows "app_config cap s'"
proof -
  have 1: "app_config cap s1" if "send_n32f_terminate E net s h = (s1, h1, r1)" for s1 h1 r1
    using send_n32f_terminate_config[OF assms(1) that] .
  show ?thesis
    using assms 1 unfolding stop_def
    by (auto split: if_splits prod.splits sum.splits)
qed

subsection \<open>Properties\<close>

lemma nbi_post_some:
  "nbi_post E net url d h = Some (rsp, h') \<Longrightarrow>
     \<exists>t. fe_dump (ae_n32f E) d = Some t \<and> h' = h @ [HttpCall NbiClient POST (fe_prepare (ae_n32f E) url t)] \<and>
       rsp = net h'"
  by (auto simp: nbi_post_def send_http_request_def Let_def split: option.splits)

lemma unwrap_response_wrapped:
  assumes ok: "n32f_env_ok F" and key: "m_enc_key b = m_enc_key a"
    and build: "build_reformatted_data F b (to_string code) path authority body ctx hs = Inr (Some jwe)"
    and small: "b64_small (aad_raw (to_string code) path authority (fe_order F hs))" "b64_small body"
    and shape: "token path" "\<not> has_crlf authority" "header_names_ok hs"
    and code: "100 \<le> code" "code \<le> 599"
  shows "unwrap_response F a jwe r =
     (r\<lparr>np_headers := aad_headers authority (fe_order F hs) (np_headers r),
        np_status_code := code, np_body := body\<rparr>, True)"
proof -
  have t: "token (to_string code)" by (simp add: token_def to_string_plain)
  have s: "stoi (to_string code) = Inr code" using code by (intro stoi_to_string) simp_all
  show ?thesis
    using build_parts(1,2)[OF ok key build small] code
      parse_aad_raw[OF t shape(1,2), of "fe_order F hs" "np_headers r"] shape(3)
      header_names_ok_order[OF ok] s
    by (simp add: unwrap_response_def)
qed

text \<open>
  An application for the witnesses, and a peer that answers every request with a given
  PRINS message.
\<close>

definition demo_app_env :: app_env where
  "demo_app_env = \<lparr>ae_n32f = demo_wire_env, ae_nrf = demo_nrf_env,
     ae_negotiate_rsp_from = (\<lambda>d. True), ae_register_nrf = True,
     ae_roaming_partners = [\<lparr>pc_mcc = ''262'', pc_mnc = ''10''\<rparr>], ae_security = ''PRINS'',
     ae_is_c_sepp = True, ae_tls_enabled = False, ae_nbi_port = 8443\<rparr>"

definition peer_answer :: "flat_jwe \<Rightarrow> net" where
  "peer_answer jwe h = \<lparr>rp_status = 200, rp_body = wr (demo_jwe_to jwe), rp_headers = []\<rparr>"

lemma demo_small: "b64_small (aad_raw (to_string 404) ''/p'' ''udm'' [])"
proof -
  have "length (to_string 404) = 3" by code_simp
  then show ?thesis
    by (intro demo_jose_small) (simp add: aad_raw_def header_line_def crlf_def force_http_def starts_with_def)
qed

lemma demo_answer:
  "\<exists>jwe. build_reformatted_data demo_wire_env n32f_init (to_string 404) ''/p'' ''udm'' [] ''c'' [] =
       Inr (Some jwe) \<and>
     unwrap_response demo_wire_env n32f_init jwe nf_http_response_init =
       (nf_http_response_init\<lparr>np_headers := aad_headers ''udm'' [] [], np_status_code := 404\<rparr>, True)"
proof -
  have key: "m_enc_key n32f_init = []" by (simp add: n32f_init_def)
  from build_without_key[OF demo_wire_env_ok(1) key] obtain jwe where
    b: "build_reformatted_data demo_wire_env n32f_init (to_string 404) ''/p'' ''udm'' [] ''c'' [] =
       Inr (Some jwe)" by blast
  have "b64_small (aad_raw (to_string 404) ''/p'' ''udm'' (fe_order demo_wire_env []))"
    using demo_small demo_wire_env_ok by simp
  from unwrap_response_wrapped[OF demo_wire_env_ok(1) refl b this, of nf_http_response_init]
    demo_wire_env_ok b show ?thesis
    by (simp add: b64_small_def token_def is_space_def header_names_ok_def nf_http_response_init_def)
qed

text \<open>
  C21: when the PRINS path reports success, the status it hands to the local network function
  is one HTTP knows, whatever the peer put into its message.
\<close>

theorem prins_status_range:
  assumes "handle_nf_service_request_prins E net f url authority path method body r h = (r', h', Inr True)"
  shows "100 \<le> np_status_code r' \<and> np_status_code r' \<le> 599"
proof -
  have "unwrap_response (ae_n32f E) f jwe r0 = (r', True) \<Longrightarrow> 100 \<le> np_status_code r' \<and> np_status_code r' \<le> 599"
    for jwe r0
    by (auto simp: unwrap_response_def Let_def split: option.splits sum.splits if_splits)
  with assms show ?thesis
    unfolding handle_nf_service_request_prins_def Let_def
    by (fastforce split: sum.splits option.splits if_splits prod.splits)
qed

theorem prins_status_range_witness:
  "\<exists>jwe r h. handle_nf_service_request_prins demo_app_env (peer_answer jwe) n32f_init ''http://peer''
     ''udm'' ''/p'' ''GET'' [] nf_http_response_init [] = (r, h, Inr True) \<and>
     np_status_code r \<le> 599"
proof -
  obtain jwe where u: "unwrap_response demo_wire_env n32f_init jwe nf_http_response_init =
       (nf_http_response_init\<lparr>np_headers := aad_headers ''udm'' [] [], np_status_code := 404\<rparr>, True)"
    using demo_answer by blast
  have key: "m_enc_key n32f_init = []" by (simp add: n32f_init_def)
  from build_without_key[OF demo_wire_env_ok(1) key] obtain q where
    "build_reformatted_data demo_wire_env n32f_init ''GET'' ''/p'' ''udm'' [] ''dummy_context_id'' [] =
       Inr (Some q)" by blast
  then have c: "create_n32f_process_request demo_wire_env n32f_init ''udm'' ''/p'' ''GET'' [] JNull =
      Inr (Some (demo_jwe_to q))"
    by (simp add: create_n32f_process_request_def n32f_init_def)
      (simp add: demo_wire_env_def demo_n32f_env_def)
  have "\<exists>r h. handle_nf_service_request_prins demo_app_env (peer_answer jwe) n32f_init ''http://peer''
     ''udm'' ''/p'' ''GET'' [] nf_http_response_init [] = (r, h, Inr True)"
    using c u by (simp add: handle_nf_service_request_prins_def demo_app_env_def nbi_post_def
        send_http_request_def Let_def peer_answer_def demo_wire_env_def demo_n32f_env_def)
  with prins_status_range show ?thesis by blast
qed

text \<open>Without a key, a wrapped body is only encoded.\<close>

lemma body_only_encoded:
  assumes "app_config cap s" and "m_sepp_n32f_forward_inst s = Some f"
    and "n32f_env_ok (ae_n32f E)" and "b64_small body"
    and "build_reformatted_data (ae_n32f E) f method path authority body ctx hs = Inr (Some jwe)"
  shows "fj_iv jwe = [] \<and> fj_tag jwe = [] \<and>
     base64url_decode (fe_jose (ae_n32f E)) (fj_ciphertext jwe) = body"
proof -
  have key: "m_enc_key f = []"
    using assms(1,2) by (simp add: app_config_def)
  obtain t where t: "fe_dump (ae_n32f E) (protected_hdr f) = Some t"
    using n32f_env_okD(7)[OF assms(3)] by blast
  note b = assms(5)[unfolded build_reformatted_data_def Let_def t option.case]
  note bio = n32f_env_okD(1)[OF assms(3)]
  show ?thesis
  proof (cases "body = []")
    case True
    have "base64url_decode J [] = []" if "bio_ok J" for J :: jose_env
      using base64url_decode_encode[OF that, of "[]"] base64url_encode_bio[of "[]" J]
        base64_codec.enc_Nil[of "bio_encode J" "bio_decode J"] that
      by (simp add: bio_ok_def b64_small_short)
    with True b bio show ?thesis by auto
  next
    case False
    with b key base64url_decode_encode[OF bio assms(4)] show ?thesis by auto
  qed
qed

subsection \<open>What the network can do to the start\<close>

text \<open>
  Whether the constructor fails does not depend on the network: an answer is looked at, but
  what goes wrong with it is caught.
\<close>

lemma register_net:
  "sum.isl (register_to_nrf N net ms ne h) = sum.isl (register_to_nrf N net' ms ne h') \<and>
     (register_to_nrf N net ms ne h = Inl e \<longrightarrow> register_to_nrf N net' ms ne h' = Inl e)"
  by (simp add: register_to_nrf_def send_http_request_def Let_def split: sum.split option.split)

lemma create_exchange_capability_net:
  assumes "m_sepp_n32c_handshake_inst s = m_sepp_n32c_handshake_inst s'"
    and "m_remote_sepp_url s = m_remote_sepp_url s'"
  shows "snd (snd (create_exchange_capability E net u s h)) = snd (snd (create_exchange_capability E net' u s' h'))"
proof -
  have sw: "snd (snd (swallow x)) = Inr ()" for x by (simp add: swallow_def split: prod.split)
  have post: "nbi_post E net x q h = None \<longleftrightarrow> nbi_post E net' x q h' = None" for x q
    by (simp add: nbi_post_def send_http_request_def Let_def split: option.split)
  show ?thesis
  proof (cases "m_sepp_n32c_handshake_inst s'")
    case (Some c)
    have "snd (snd (create_exchange_capability E n u t k)) =
        (case create_exchange_capability_req (ae_n32c E) c of Inl e \<Rightarrow> Inl e
         | Inr q \<Rightarrow> (case m_remote_sepp_url s' of None \<Rightarrow> Inr ()
            | Some url \<Rightarrow> if nbi_post E n (url @ ''/n32c-handshake/v1/exchange-capability'') q k = None
                then Inl TypeError else Inr ()))"
      if "m_sepp_n32c_handshake_inst t = Some c" "m_remote_sepp_url t = m_remote_sepp_url s'" for n t k
      using that sw by (simp add: create_exchange_capability_def Let_def split: sum.split option.split prod.split)
    from this[of s net h] this[of s' net' h'] Some assms post show ?thesis by (simp split: sum.split option.split)
  qed (use assms in \<open>simp add: create_exchange_capability_def\<close>)
qed

lemma sepp_app_new_net:
  "(case sepp_app_new E net ms uuid uuid' ev h of
      Inl e \<Rightarrow> sepp_app_new E net' ms uuid uuid' ev h' = Inl e
    | Inr x \<Rightarrow> \<exists>y. sepp_app_new E net' ms uuid uuid' ev h' = Inr y)"
proof (cases "ae_register_nrf E")
  case True
  let ?ne = "(sepp_nrf_new (ae_nrf E) uuid, ev)"
  let ?R = "\<lambda>net h. register_to_nrf (ae_nrf E) net ms ?ne h"
  show ?thesis
  proof (cases "?R net h")
    case (Inl e)
    with register_net[of "ae_nrf E" net ms ?ne h net' h' e] show ?thesis
      by (simp add: sepp_app_new_def True)
  next
    case (Inr x)
    then obtain y where y: "?R net' h' = Inr y"
      using register_net[of "ae_nrf E" net ms ?ne h net' h'] by (cases "?R net' h'") auto
    obtain n ev1 h1 n' ev1' h1' where xy: "x = ((n, ev1), h1)" "y = ((n', ev1'), h1')"
      by (metis prod.collapse)
    let ?s = "\<lambda>n. (app_instances E n)\<lparr>m_remote_sepp_url := Some (remote_url E (hd (ae_roaming_partners E)))\<rparr>"
    have "m_sepp_n32c_handshake_inst (?s n) = m_sepp_n32c_handshake_inst (?s n')"
      "m_remote_sepp_url (?s n) = m_remote_sepp_url (?s n')"
      by (simp_all add: app_instances_def)
    from create_exchange_capability_net[OF this, of E net uuid' h1 net' h1']
    show ?thesis using Inr y xy
      by (auto simp: sepp_app_new_def True Let_def split: sum.splits prod.splits)
  qed
qed (simp add: sepp_app_new_def)

end
