(* ===== verification/Sepp_Nbi.thy ===== *)
theory Sepp_Nbi
  imports Sepp_App
begin

text \<open>
  \<^verbatim>\<open>sepp_http2_nbi_server\<close> (src/api-server): the HTTP/2 server the peer SEPP talks to. It
  collects the body of a request, hands it to the handler of the endpoint and turns the
  result into an answer. The contract the server relies on of every handler is a locale,
  and each endpoint is an interpretation of it.
\<close>

subsection \<open>Requests, answers and the world\<close>

text \<open>
  A request is its method, path, query and headers, and the data callbacks nghttp2 makes:
  one per chunk, and one with no data at the end. A \<^verbatim>\<open>header_map\<close> is a multimap, so it is a
  list in which \<^verbatim>\<open>emplace\<close> appends and \<^verbatim>\<open>find\<close> takes the first.
\<close>

record server_request =
  sr_method :: string
  sr_path :: string
  sr_raw_query :: string
  sr_header :: "(string \<times> string) list"
  sr_chunks :: "string list"

text \<open>
  What the server does to the response object, in order. nghttp2 sends the head of the first
  \<^verbatim>\<open>write_head\<close>.
\<close>

datatype resp_call = WriteHead int "(string \<times> string) list" | EndBody string

type_synonym answer = "resp_call list \<times> unit result"

fun status_of :: "resp_call list \<Rightarrow> int option" where
  "status_of [] = None"
| "status_of (WriteHead c hs # cs) = Some c"
| "status_of (EndBody b # cs) = status_of cs"

fun body_of :: "resp_call list \<Rightarrow> string option" where
  "body_of [] = None"
| "body_of (EndBody b # cs) = Some b"
| "body_of (WriteHead c hs # cs) = body_of cs"

fun header_of :: "resp_call list \<Rightarrow> (string \<times> string) list" where
  "header_of [] = []"
| "header_of (WriteHead c hs # cs) = hs"
| "header_of (EndBody b # cs) = header_of cs"

record world =
  w_app :: "sepp_app option"
  w_history :: history

text \<open>
  Besides the environment of the application: the network, the identifier a new context
  would get, the text of an exception, and \<^verbatim>\<open>validate\<close> of the models whose result matters.
\<close>

record server_env =
  ve_app :: app_env
  ve_net :: net
  ve_uuid :: string
  ve_what :: "exn \<Rightarrow> string"
  ve_context_valid :: "context_info \<Rightarrow> bool"
  ve_req_msg_valid :: "flat_jwe \<Rightarrow> bool"

abbreviation ve_n32f :: "server_env \<Rightarrow> n32f_env" where
  "ve_n32f V \<equiv> ae_n32f (ve_app V)"

definition JSON_HEADERS :: "(string \<times> string) list" where
  "JSON_HEADERS = [(''content-type'', ''application/json'')]"

definition PROBLEM_HEADERS :: "(string \<times> string) list" where
  "PROBLEM_HEADERS = [(''content-type'', ''application/problem+json'')]"

fun collect_body :: "string list \<Rightarrow> string \<Rightarrow> string option" where
  "collect_body [] body = None"
| "collect_body (data # chunks) body =
     (if data = [] then Some body else collect_body chunks (body @ data))"

subsection \<open>Answering\<close>

definition problem_doc :: "int \<Rightarrow> string \<Rightarrow> string \<Rightarrow> string \<Rightarrow> json" where
  "problem_doc status_code title cause detail = JObj
     [(''status'', JInt status_code), (''title'', JStr title), (''cause'', JStr cause),
      (''detail'', JStr detail)]"

definition end_dump :: "n32f_env \<Rightarrow> json \<Rightarrow> answer" where
  "end_dump F j = (case fe_dump F j of None \<Rightarrow> ([], Inl TypeError) | Some b \<Rightarrow> ([EndBody b], Inr ()))"

definition after_calls :: "resp_call list \<Rightarrow> answer \<Rightarrow> answer" where
  "after_calls cs a = (cs @ fst a, snd a)"

definition send_problem_details ::
  "server_env \<Rightarrow> int \<Rightarrow> string \<Rightarrow> string \<Rightarrow> string \<Rightarrow> answer" where
  "send_problem_details V status_code title cause detail =
     after_calls [WriteHead status_code PROBLEM_HEADERS]
       (end_dump (ve_n32f V) (problem_doc status_code title cause detail))"

text \<open>
  An application handler works on the world. \<open>post_answer\<close> is what the data callback does at
  the end of the body, for an application that exists: the answer, and the world with what
  the handler did to it, also when it threw. An exception of the last \<^verbatim>\<open>dump\<close> comes after
  the head was written.
\<close>

type_synonym app_handler = "json \<Rightarrow> json \<Rightarrow> headers \<Rightarrow> world \<Rightarrow> world handled"

definition malformed :: "server_env \<Rightarrow> exn \<Rightarrow> answer" where
  "malformed V e = send_problem_details V 400 ''400: Bad Request'' ''MALFORMED_JSON'' (ve_what V e)"

definition ok_answer :: "server_env \<Rightarrow> bool \<Rightarrow> json \<Rightarrow> headers \<Rightarrow> answer" where
  "ok_answer V allow_no_content resp_json resp_headers =
     (if allow_no_content \<and> json_empty resp_json
      then ([WriteHead 204 JSON_HEADERS, EndBody []], Inr ())
      else
        (let head = WriteHead 200 (JSON_HEADERS @ fe_order (ve_n32f V) resp_headers) in
         case end_dump (ve_n32f V) resp_json of
           (cs, Inl e) \<Rightarrow> after_calls (head # cs) (malformed V e)
         | (cs, Inr u) \<Rightarrow> (head # cs, Inr ())))"

definition post_answer ::
  "server_env \<Rightarrow> app_handler \<Rightarrow> string \<Rightarrow> string \<Rightarrow> bool \<Rightarrow> string \<Rightarrow> world \<Rightarrow> world \<times> answer" where
  "post_answer V app_handler failure_cause failure_detail allow_no_content body w =
     (case fe_parse (ve_n32f V) body of
        None \<Rightarrow> (w, malformed V ParseError)
      | Some req_json \<Rightarrow>
          (case app_handler req_json JNull [] w of
             (w', resp_json, resp_headers, r) \<Rightarrow>
               (w', case r of
                      Inl e \<Rightarrow> malformed V e
                    | Inr ok \<Rightarrow>
                        (if ok then ok_answer V allow_no_content resp_json resp_headers
                         else send_problem_details V 400 ''400: Bad Request''
                                failure_cause failure_detail))))"

text \<open>A request whose end has not arrived has no call yet.\<close>

definition process_post_request ::
  "server_env \<Rightarrow> app_handler \<Rightarrow> string \<Rightarrow> string \<Rightarrow> bool \<Rightarrow> server_request \<Rightarrow> world \<Rightarrow>
     world \<times> answer" where
  "process_post_request V app_handler failure_cause failure_detail allow_no_content req w =
     (if sr_method req \<noteq> ''POST'' then
        (w, send_problem_details V 405 ''Method Not Allowed'' ''ONLY_POST_SUPPORTED''
              ''Endpoint supports HTTP POST only'')
      else (case collect_body (sr_chunks req) [] of
              None \<Rightarrow> (w, ([], Inr ()))
            | Some body \<Rightarrow>
                (if w_app w = None then
                   (w, send_problem_details V 503 ''503: Service Unavailable''
                         ''SYSTEM_UNAVAILABLE'' ''SEPP instance uninitialized'')
                 else post_answer V app_handler failure_cause failure_detail allow_no_content body w)))"

subsection \<open>The handlers of the endpoints\<close>

text \<open>
  \<open>on_app\<close> runs a handler of the application object, \<open>on_history\<close> one that only makes calls.
\<close>

definition on_app :: "(sepp_app \<Rightarrow> sepp_app handled) \<Rightarrow> json \<Rightarrow> headers \<Rightarrow> world \<Rightarrow> world handled" where
  "on_app f resp_data resp_headers w =
     (case w_app w of
        None \<Rightarrow> (w, resp_data, resp_headers, Inr False)
      | Some s \<Rightarrow> (case f s of (s', r, hs, b) \<Rightarrow> (w\<lparr>w_app := Some s'\<rparr>, r, hs, b)))"

definition on_history ::
  "(sepp_app \<Rightarrow> history \<Rightarrow> history handled) \<Rightarrow> json \<Rightarrow> headers \<Rightarrow> world \<Rightarrow> world handled" where
  "on_history f resp_data resp_headers w =
     (case w_app w of
        None \<Rightarrow> (w, resp_data, resp_headers, Inr False)
      | Some s \<Rightarrow> (case f s (w_history w) of (h', r, hs, b) \<Rightarrow> (w\<lparr>w_history := h'\<rparr>, r, hs, b)))"

definition nbi_exchange_capability :: "server_env \<Rightarrow> app_handler" where
  "nbi_exchange_capability V inp out hs =
     on_app (app_exchange_capability_request (ve_app V) inp out hs) out hs"

definition nbi_exchange_params :: "server_env \<Rightarrow> app_handler" where
  "nbi_exchange_params V inp out hs w =
     (case ne_param_req_from (ae_n32c (ve_app V)) inp of
        None \<Rightarrow> (w, out, hs, Inr False)
      | Some param_req \<Rightarrow> on_app (app_exchange_params (ve_app V) (ve_uuid V) inp out hs) out hs w)"

definition nbi_n32f_terminate :: "server_env \<Rightarrow> app_handler" where
  "nbi_n32f_terminate V inp out hs w =
     (case ne_context_from (ae_n32c (ve_app V)) inp of
        None \<Rightarrow> (w, out, hs, Inr False)
      | Some context \<Rightarrow>
          if \<not> ve_context_valid V context then (w, out, hs, Inr False)
          else on_app (app_n32f_terminate_req (ve_app V) inp out hs) out hs w)"

definition nbi_n32f_error :: app_handler where
  "nbi_n32f_error inp out hs = on_app (app_n32f_error inp out hs) out hs"

definition nbi_n32f_forward :: "server_env \<Rightarrow> app_handler" where
  "nbi_n32f_forward V inp out hs =
     on_history (\<lambda>s. app_n32f_forward (ve_app V) (ve_net V) s inp out hs) out hs"

definition nbi_n32f_process :: "server_env \<Rightarrow> app_handler" where
  "nbi_n32f_process V inp out hs w =
     (case fe_req_from (ve_n32f V) inp of
        None \<Rightarrow> (w, out, hs, Inr False)
      | Some req_msg \<Rightarrow>
          if \<not> ve_req_msg_valid V req_msg then (w, out, hs, Inr False)
          else on_history (\<lambda>s. app_n32f_process (ve_app V) (ve_net V) s inp out hs) out hs w)"

subsection \<open>Routing\<close>

text \<open>
  The endpoint for \<^verbatim>\<open>/\<close> serves GET itself: it makes a message of the request line and the
  headers. With another method it behaves like the other endpoints.
\<close>

definition get_authority :: "(string \<times> string) list \<Rightarrow> string" where
  "get_authority hdr =
     (case map_of hdr ''authority'' of
        Some v \<Rightarrow> v
      | None \<Rightarrow> (case map_of hdr ''host'' of Some v \<Rightarrow> v | None \<Rightarrow> []))"

definition forward_message :: "server_request \<Rightarrow> json" where
  "forward_message req = JObj
     [(''path'', JStr (sr_path req)), (''query'', JStr (sr_raw_query req)),
      (''authority'', JStr (get_authority (sr_header req))),
      (''headers'', JObj (map (\<lambda>(k, v). (k, JStr v))
         (fold (\<lambda>(k, v). hput k v) (sr_header req) [])))]"

definition forward_get :: "server_env \<Rightarrow> server_request \<Rightarrow> world \<Rightarrow> world \<times> answer" where
  "forward_get V req w =
     (if w_app w = None then
        (w, send_problem_details V 503 ''503: Service Unavailable'' ''SYSTEM_UNAVAILABLE''
              ''SEPP instance uninitialized'')
      else (case nbi_n32f_forward V (forward_message req) JNull [] w of
              (w', resp_json, resp_headers, r) \<Rightarrow>
                (w', case r of
                       Inl e \<Rightarrow> send_problem_details V 400 ''400: Bad Request'' ''MALFORMED_REQUEST''
                                  (ve_what V e)
                     | Inr ok \<Rightarrow>
                         (if ok then
                            (let head = WriteHead 200 (JSON_HEADERS @ fe_order (ve_n32f V) resp_headers) in
                             case end_dump (ve_n32f V) resp_json of
                               (cs, Inl e) \<Rightarrow> after_calls (head # cs)
                                  (send_problem_details V 400 ''400: Bad Request'' ''MALFORMED_REQUEST''
                                    (ve_what V e))
                             | (cs, Inr u) \<Rightarrow> (head # cs, Inr ()))
                          else send_problem_details V 400 ''400: Bad Request'' ''FORWARDING_FAILED''
                                 ''N32-F GET forwarding failed''))))"

definition nbi_forward_endpoint :: "server_env \<Rightarrow> server_request \<Rightarrow> world \<Rightarrow> world \<times> answer" where
  "nbi_forward_endpoint V req w =
     (if sr_method req = ''GET'' then forward_get V req w
      else process_post_request V (nbi_n32f_forward V) ''FORWARDING_FAILED''
             ''N32-F message forwarding failed'' False req w)"

text \<open>The handlers \<^verbatim>\<open>start\<close> registers; nghttp2 sends every other path to \<^verbatim>\<open>/\<close>.\<close>

definition nbi_serve :: "server_env \<Rightarrow> server_request \<Rightarrow> world \<Rightarrow> world \<times> answer" where
  "nbi_serve V req w =
     (let path = sr_path req in
      if path = ''/n32c-handshake/v1/exchange-capability'' then
        process_post_request V (nbi_exchange_capability V) ''HANDSHAKE_FAILED''
          ''Capability exchange failed'' False req w
      else if path = ''/n32c-handshake/v1/exchange-params'' then
        process_post_request V (nbi_exchange_params V) ''PARAMETER_EXCHANGE_FAILED''
          ''Parameter exchange failed'' False req w
      else if path = ''/n32c-handshake/v1/n32f-terminate'' then
        process_post_request V (nbi_n32f_terminate V) ''TERMINATION_FAILED''
          ''N32-F termination processing failed'' False req w
      else if path = ''/n32c-handshake/v1/n32f-error'' then
        process_post_request V nbi_n32f_error ''ERROR_PROCESSING_FAILED''
          ''N32-F error processing failed'' True req w
      else if path = ''/n32f-forward/v1/n32f-process'' then
        process_post_request V (nbi_n32f_process V) ''N32F_PROCESSING_FAILED''
          ''N32-F message processing failed'' False req w
      else nbi_forward_endpoint V req w)"

subsection \<open>The contract of the handlers\<close>

text \<open>
  What the server may rely on of the handler of an endpoint: a document that is no object is
  refused without a trace, and an invariant of the world is kept, also when the handler
  throws.
\<close>

locale endpoint =
  fixes handler :: "json \<Rightarrow> json \<Rightarrow> headers \<Rightarrow> world \<Rightarrow> world handled"
    and inv :: "world \<Rightarrow> bool"
  assumes non_object: "\<not> is_object d \<Longrightarrow> handler d r hs w = (w, r, hs, Inr False)"
    and keeps: "inv w \<Longrightarrow> handler d r hs w = (w', r', hs', b) \<Longrightarrow> inv w'"
begin

lemma post_answer_keeps: "inv w \<Longrightarrow> inv (fst (post_answer V handler c t a body w))"
  by (auto simp: post_answer_def split: option.split prod.split dest: keeps)

lemma process_keeps: "inv w \<Longrightarrow> inv (fst (process_post_request V handler c t a req w))"
  using post_answer_keeps by (simp add: process_post_request_def split: option.split)

text \<open>Text that is no JSON object is answered with 400 and changes nothing.\<close>

lemma process_non_object:
  assumes "sr_method req = ''POST''" and "collect_body (sr_chunks req) [] = Some body"
    and "w_app w \<noteq> None" and "\<And>d. fe_parse (ve_n32f V) body = Some d \<Longrightarrow> \<not> is_object d"
  shows "fst (process_post_request V handler c t a req w) = w \<and>
     status_of (fst (snd (process_post_request V handler c t a req w))) = Some 400"
  using assms non_object
  by (auto simp: process_post_request_def post_answer_def malformed_def send_problem_details_def
      after_calls_def split: option.split)

end

definition world_config :: "string \<Rightarrow> world \<Rightarrow> bool" where
  "world_config cap w \<longleftrightarrow> (\<forall>s. w_app w = Some s \<longrightarrow> app_config cap s)"

lemma on_app_config:
  assumes "world_config cap w" and "on_app f r hs w = (w', r', hs', b)"
    and "\<And>s s' r' hs' b. app_config cap s \<Longrightarrow> f s = (s', r', hs', b) \<Longrightarrow> app_config cap s'"
  shows "world_config cap w'"
  using assms by (auto simp: on_app_def world_config_def split: option.splits prod.splits)

lemma on_history_config:
  "world_config cap w \<Longrightarrow> on_history f r hs w = (w', r', hs', b) \<Longrightarrow> world_config cap w'"
  by (auto simp: on_history_def world_config_def split: option.splits prod.splits)

text \<open>Every component refuses what is no object.\<close>

lemma not_validated: "\<not> is_object d \<Longrightarrow> \<not> validate_n32f_message d"
  by (simp add: validate_n32f_message_def)

lemma app_record_same [simp]: "s\<lparr>m_sepp_n32c_handshake_inst := m_sepp_n32c_handshake_inst s\<rparr> = s"
  by simp

lemma with_n32c_refuses:
  assumes "\<And>c. f c = (c, r, hs, Inr False)"
  shows "with_n32c f r hs s = (s, r, hs, Inr False)"
proof (cases "m_sepp_n32c_handshake_inst s")
  case (Some c)
  then show ?thesis using assms app_record_same[of s] by (simp add: with_n32c_def)
qed (simp add: with_n32c_def)

lemma on_app_refuses:
  assumes "\<And>s. f s = (s, r, hs, Inr False)"
  shows "on_app f r hs w = (w, r, hs, Inr False)"
  using assms by (cases w) (simp add: on_app_def split: option.split)

lemma on_history_refuses:
  assumes "\<And>s h. f s h = (h, r, hs, Inr False)"
  shows "on_history f r hs w = (w, r, hs, Inr False)"
  using assms by (cases w) (simp add: on_history_def split: option.split)

lemma non_object_refused:
  assumes "\<not> is_object d"
  shows "app_exchange_capability_request E d r hs s = (s, r, hs, Inr False)"
    "app_exchange_params E u d r hs s = (s, r, hs, Inr False)"
    "app_n32f_terminate_req E d r hs s = (s, r, hs, Inr False)"
    "app_n32f_error d r hs s = (s, r, hs, Inr False)"
    "app_n32f_forward E net s d r hs h = (h, r, hs, Inr False)"
    "app_n32f_process E net s d r hs h = (h, r, hs, Inr False)"
proof -
  show "app_exchange_capability_request E d r hs s = (s, r, hs, Inr False)"
    unfolding app_exchange_capability_request_def
    by (rule with_n32c_refuses) (simp add: handle_exchange_capability_request_def assms)
  show "app_exchange_params E u d r hs s = (s, r, hs, Inr False)"
    unfolding app_exchange_params_def
    by (rule with_n32c_refuses) (simp add: handle_exchange_params_def assms)
  show "app_n32f_terminate_req E d r hs s = (s, r, hs, Inr False)"
    unfolding app_n32f_terminate_req_def
    by (rule with_n32c_refuses) (simp add: handle_n32f_terminate_req_def assms)
  show "app_n32f_error d r hs s = (s, r, hs, Inr False)"
    unfolding app_n32f_error_def
    by (rule with_n32c_refuses) (simp add: handle_n32f_error_def assms)
  show "app_n32f_forward E net s d r hs h = (h, r, hs, Inr False)"
    by (simp add: app_n32f_forward_def handle_n32f_forward_def not_validated[OF assms] split: option.split)
  show "app_n32f_process E net s d r hs h = (h, r, hs, Inr False)"
    by (simp add: app_n32f_process_def handle_n32f_process_post_def not_validated[OF assms] split: option.split)
qed

interpretation ep_capability: endpoint "nbi_exchange_capability V" "world_config cap" for V cap
proof
  show "nbi_exchange_capability V d r hs w = (w, r, hs, Inr False)" if "\<not> is_object d" for d r hs w
    unfolding nbi_exchange_capability_def by (rule on_app_refuses) (rule non_object_refused(1)[OF that])
  show "world_config cap w'" if "world_config cap w" "nbi_exchange_capability V d r hs w = (w', r', hs', b)"
    for d r hs w w' r' hs' b
    using that(2) unfolding nbi_exchange_capability_def
    by (rule on_app_config[OF that(1)]) (rule app_exchange_capability_request_config)
qed

interpretation ep_params: endpoint "nbi_exchange_params V" "world_config cap" for V cap
proof
  show "nbi_exchange_params V d r hs w = (w, r, hs, Inr False)" if "\<not> is_object d" for d r hs w
    using on_app_refuses[of "app_exchange_params (ve_app V) (ve_uuid V) d r hs" r hs w]
      non_object_refused(2)[OF that]
    by (simp add: nbi_exchange_params_def split: option.split)
  show "world_config cap w'" if "world_config cap w" "nbi_exchange_params V d r hs w = (w', r', hs', b)"
    for d r hs w w' r' hs' b
    using that on_app_config[OF that(1) _ app_exchange_params_config]
    by (auto simp: nbi_exchange_params_def split: option.splits)
qed

interpretation ep_terminate: endpoint "nbi_n32f_terminate V" "world_config cap" for V cap
proof
  show "nbi_n32f_terminate V d r hs w = (w, r, hs, Inr False)" if "\<not> is_object d" for d r hs w
    using on_app_refuses[of "app_n32f_terminate_req (ve_app V) d r hs" r hs w]
      non_object_refused(3)[OF that]
    by (simp add: nbi_n32f_terminate_def split: option.split)
  show "world_config cap w'" if "world_config cap w" "nbi_n32f_terminate V d r hs w = (w', r', hs', b)"
    for d r hs w w' r' hs' b
    using that on_app_config[OF that(1) _ app_n32f_terminate_req_config]
    by (auto simp: nbi_n32f_terminate_def split: option.splits if_splits)
qed

interpretation ep_error: endpoint nbi_n32f_error "world_config cap" for cap
proof
  show "nbi_n32f_error d r hs w = (w, r, hs, Inr False)" if "\<not> is_object d" for d r hs w
    unfolding nbi_n32f_error_def by (rule on_app_refuses) (rule non_object_refused(4)[OF that])
  show "world_config cap w'" if "world_config cap w" "nbi_n32f_error d r hs w = (w', r', hs', b)"
    for d r hs w w' r' hs' b
    using that(2) unfolding nbi_n32f_error_def
    by (rule on_app_config[OF that(1)]) (rule app_n32f_error_config)
qed

interpretation ep_forward: endpoint "nbi_n32f_forward V" "world_config cap" for V cap
proof
  show "nbi_n32f_forward V d r hs w = (w, r, hs, Inr False)" if "\<not> is_object d" for d r hs w
    unfolding nbi_n32f_forward_def by (rule on_history_refuses) (rule non_object_refused(5)[OF that])
  show "world_config cap w'" if "world_config cap w" "nbi_n32f_forward V d r hs w = (w', r', hs', b)"
    for d r hs w w' r' hs' b
    using that unfolding nbi_n32f_forward_def by (rule on_history_config)
qed

interpretation ep_process: endpoint "nbi_n32f_process V" "world_config cap" for V cap
proof
  show "nbi_n32f_process V d r hs w = (w, r, hs, Inr False)" if "\<not> is_object d" for d r hs w
    using on_history_refuses[of "\<lambda>s. app_n32f_process (ve_app V) (ve_net V) s d r hs" r hs w]
      non_object_refused(6)[OF that]
    by (simp add: nbi_n32f_process_def split: option.split)
  show "world_config cap w'" if "world_config cap w" "nbi_n32f_process V d r hs w = (w', r', hs', b)"
    for d r hs w w' r' hs' b
    using that by (auto simp: nbi_n32f_process_def split: option.splits if_splits intro: on_history_config)
qed

subsection \<open>Properties of the server\<close>

lemma forward_get_keeps: "world_config cap w \<Longrightarrow> world_config cap (fst (forward_get V req w))"
  using ep_forward.keeps[of cap w V "forward_message req" JNull "[]"]
  by (auto simp: forward_get_def split: prod.split)

lemma nbi_serve_keeps: "world_config cap w \<Longrightarrow> world_config cap (fst (nbi_serve V req w))"
  by (simp add: nbi_serve_def Let_def nbi_forward_endpoint_def forward_get_keeps
      ep_capability.process_keeps ep_params.process_keeps ep_terminate.process_keeps
      ep_error.process_keeps ep_forward.process_keeps ep_process.process_keeps)

definition complete :: "server_request \<Rightarrow> bool" where
  "complete req \<longleftrightarrow> collect_body (sr_chunks req) [] \<noteq> None"

definition nbi_statuses :: "int set" where
  "nbi_statuses = {200, 204, 400, 405, 503}"

lemma problem_status [simp]: "status_of (fst (send_problem_details V c t ca d)) = Some c"
  by (simp add: send_problem_details_def after_calls_def)

lemma malformed_status [simp]: "status_of (fst (malformed V e)) = Some 400"
  by (simp add: malformed_def)

lemma ok_answer_status: "\<exists>c. status_of (fst (ok_answer V al j hs)) = Some c \<and> c \<in> {200, 204}"
  by (auto simp: ok_answer_def Let_def after_calls_def split: prod.split sum.split)

lemma post_answer_status: "\<exists>c. status_of (fst (snd (post_answer V f c1 t1 al b w))) = Some c \<and> c \<in> nbi_statuses"
proof -
  have "\<exists>c. status_of (fst (ok_answer V al j hs)) = Some c \<and> c \<in> nbi_statuses" for j hs
    using ok_answer_status[of V al j hs] by (auto simp: nbi_statuses_def)
  then show ?thesis
    by (auto simp: post_answer_def nbi_statuses_def split: option.split prod.split sum.split)
qed

lemma process_status:
  "complete req \<Longrightarrow>
     \<exists>c. status_of (fst (snd (process_post_request V f c1 t1 al req w))) = Some c \<and> c \<in> nbi_statuses"
  using post_answer_status[of V f c1 t1 al _ w]
  by (auto simp: process_post_request_def complete_def nbi_statuses_def)

lemma forward_get_status:
  "\<exists>c. status_of (fst (snd (forward_get V req w))) = Some c \<and> c \<in> nbi_statuses"
  by (auto simp: forward_get_def nbi_statuses_def Let_def after_calls_def split: prod.split sum.split)


definition demo_server_env :: "net \<Rightarrow> server_env" where
  "demo_server_env net = \<lparr>ve_app = demo_app_env, ve_net = net, ve_uuid = ''u0'',
     ve_what = (\<lambda>e. ''error''), ve_context_valid = (\<lambda>c. True), ve_req_msg_valid = (\<lambda>j. True)\<rparr>"

definition post :: "string \<Rightarrow> string \<Rightarrow> server_request" where
  "post path body = \<lparr>sr_method = ''POST'', sr_path = path, sr_raw_query = [], sr_header = [],
     sr_chunks = [body, []]\<rparr>"




text \<open>
  A successful answer to an N32-f message carries the header content-type twice, since
  the server adds the headers of the handler to a multimap that holds one already.
\<close>

lemma order_keeps_member: "n32f_env_ok F \<Longrightarrow> hget hs k = Some v \<Longrightarrow> k \<in> fst ` set (fe_order F hs)"
  using n32f_env_okD(11)[of F hs] by (force simp: hget_def dest: map_of_SomeD)

lemma ok_answer_duplicate:
  assumes "n32f_env_ok (ve_n32f V)" and "hget hs ''content-type'' = Some v"
    and "\<not> (al \<and> json_empty j)"
  shows "2 \<le> length (filter (\<lambda>(k, v). k = ''content-type'') (header_of (fst (ok_answer V al j hs))))"
proof -
  obtain x where x: "x \<in> set (fe_order (ve_n32f V) hs)" "fst x = ''content-type''"
    using order_keeps_member[OF assms(1,2)] by force
  then have "x \<in> set (filter (\<lambda>(k, v). k = ''content-type'') (fe_order (ve_n32f V) hs))"
    by (auto split: prod.split)
  then have "0 < length (filter (\<lambda>(k, v). k = ''content-type'') (fe_order (ve_n32f V) hs))"
    by (rule length_pos_if_in_set)
  then show ?thesis
    using assms(3)
    by (auto simp: ok_answer_def Let_def after_calls_def JSON_HEADERS_def Suc_le_eq split: prod.split sum.split)
qed

end
