(* ===== verification/Sepp_Sbi.thy ===== *)
theory Sepp_Sbi
  imports Sepp_Nbi
begin

text \<open>
  \<^verbatim>\<open>sepp_http2_sbi_server\<close> (src/api-server): the HTTP/2 server for the network functions of the
  SEPP's own network. It answers mapping queries and takes in every other request for
  forwarding to the peer.
\<close>

subsection \<open>Mapping queries\<close>

text \<open>
  \<open>get_param\<close> is \<^verbatim>\<open>oai::utils::get_query_param\<close>, \<open>mapping_json\<close> the \<^verbatim>\<open>to_json\<close> of the model. The
  text the application computes is dropped: the model is filled from the query.
\<close>

record sbi_env =
  be_server :: server_env
  be_get_param :: "string \<Rightarrow> string \<Rightarrow> string"
  be_mapping_json :: "telescopic_mapping \<Rightarrow> json"
  be_mapping_dump :: "telescopic_mapping \<Rightarrow> string"

definition handle_telescopic_mapping ::
  "sbi_env \<Rightarrow> world \<Rightarrow> string \<Rightarrow> string \<Rightarrow> telescopic_mapping \<Rightarrow> (bool \<times> telescopic_mapping) result" where
  "handle_telescopic_mapping B w foreignFqdn telescopicLabel mapping_model =
     (case w_app w of
        None \<Rightarrow> Inr (False, mapping_model)
      | Some s \<Rightarrow>
          (case app_get_telescopic_mapping_text (be_mapping_dump B) s foreignFqdn telescopicLabel [] of
             Inl e \<Rightarrow> Inl e
           | Inr (False, t) \<Rightarrow> Inr (False, mapping_model)
           | Inr (True, t) \<Rightarrow>
               Inr (True, mapping_model\<lparr>tm_label := Some telescopicLabel,
                                       tm_foreign_fqdn := Some foreignFqdn\<rparr>)))"

definition mapping_answer :: "sbi_env \<Rightarrow> server_request \<Rightarrow> world \<Rightarrow> answer" where
  "mapping_answer B req w =
     (let V = be_server B;
          foreignFqdn = be_get_param B (sr_raw_query req) ''foreign-fqdn'';
          telescopicLabel = be_get_param B (sr_raw_query req) ''telescopic-label''
      in if foreignFqdn \<noteq> [] \<and> telescopicLabel \<noteq> [] then
           send_problem_details V 400 ''400: Bad Request'' ''INVALID_QUERY_PARAM''
             ''foreign-fqdn and telescopic-label shall not be supplied together''
         else if foreignFqdn = [] \<and> telescopicLabel = [] then
           send_problem_details V 400 ''400: Bad Request'' ''MISSING_QUERY_PARAM''
             ''Either foreign-fqdn or telescopic-label shall be supplied''
         else if w_app w = None then
           send_problem_details V 503 ''503: Service Unavailable'' ''SYSTEM_UNAVAILABLE''
             ''SEPP Application instance is not available''
         else
           (case handle_telescopic_mapping B w foreignFqdn telescopicLabel empty_mapping of
              Inl e \<Rightarrow> send_problem_details V 500 ''500: Internal Server Error''
                         ''UNEXPECTED_SYSTEM_ERROR'' (ve_what V e)
            | Inr (True, mapping_model) \<Rightarrow>
                (case end_dump (ve_n32f V) (be_mapping_json B mapping_model) of
                   (cs, Inl e) \<Rightarrow> after_calls (WriteHead 200 JSON_HEADERS # cs)
                      (send_problem_details V 500 ''500: Internal Server Error''
                         ''UNEXPECTED_SYSTEM_ERROR'' (ve_what V e))
                 | (cs, Inr u) \<Rightarrow> (WriteHead 200 JSON_HEADERS # cs, Inr ()))
            | Inr (False, mapping_model) \<Rightarrow>
                send_problem_details V 404 ''404: Not Found'' ''MAPPING_NOT_FOUND''
                  ''Telescopic Mapping NOT found''))"

definition sbi_mapping_endpoint :: "sbi_env \<Rightarrow> server_request \<Rightarrow> world \<Rightarrow> answer" where
  "sbi_mapping_endpoint B req w =
     (if sr_method req \<noteq> ''GET'' then
        send_problem_details (be_server B) 405 ''Method Not Allowed'' ''ONLY_GET_SUPPORTED''
          ''Only HTTP GET method is supported for this endpoint''
      else (case collect_body (sr_chunks req) [] of
              None \<Rightarrow> ([], Inr ())
            | Some body \<Rightarrow> mapping_answer B req w))"

subsection \<open>Requests to forward\<close>

definition strip_scheme :: "string \<Rightarrow> string" where
  "strip_scheme api_root =
     (if starts_with ''http://'' api_root then drop 7 api_root
      else if starts_with ''https://'' api_root then drop 8 api_root
      else api_root)"

definition sbi_authority :: "(string \<times> string) list \<Rightarrow> string" where
  "sbi_authority hdr =
     (let a = (case map_of hdr ''3gpp-sbi-target-apiroot'' of
                 Some v \<Rightarrow> if v \<noteq> [] then strip_scheme v else []
               | None \<Rightarrow> [])
      in if a = [] then get_authority hdr else a)"

definition full_path :: "server_request \<Rightarrow> string" where
  "full_path req = sr_path req @ (if sr_raw_query req \<noteq> [] then ''?'' @ sr_raw_query req else [])"

definition sbi_response_headers :: "headers \<Rightarrow> (string \<times> string) list" where
  "sbi_response_headers ordered =
     filter (\<lambda>(k, v). k = ''content-type'' \<or> k = ''location'' \<or> k = ''retry-after'') ordered"

text \<open>
  The handler uses the application object without a test; the model has it do nothing when
  there is none, which the program rules out by starting the server after the application.
  An exception leaves the callback without an answer.
\<close>

definition sbi_forward ::
  "sbi_env \<Rightarrow> server_request \<Rightarrow> string \<Rightarrow> world \<Rightarrow> world \<times> answer" where
  "sbi_forward B req body w =
     (let V = be_server B; authority = sbi_authority (sr_header req) in
      if authority = [] then (w, ([WriteHead 400 [], EndBody ''Missing authority header''], Inr ()))
      else
        (case w_app w of
           None \<Rightarrow> (w, ([], Inr ()))
         | Some s \<Rightarrow>
             (case handle_nf_service_request (ve_app V) (ve_net V) s authority (full_path req)
                     (sr_method req) body nf_http_response_init (w_history w) of
                (resp_data, h', r) \<Rightarrow>
                  (w\<lparr>w_history := h'\<rparr>,
                   case r of
                     Inl e \<Rightarrow> ([], Inl e)
                   | Inr ok \<Rightarrow>
                       (if ok then
                          ([WriteHead (np_status_code resp_data)
                              (sbi_response_headers (fe_order (ve_n32f V) (np_headers resp_data))),
                            EndBody (if np_status_code resp_data = 204 then [] else np_body resp_data)],
                           Inr ())
                        else ([WriteHead 502 [], EndBody ''NF service forwarding failed''], Inr ()))))))"

definition sbi_serve :: "sbi_env \<Rightarrow> server_request \<Rightarrow> world \<Rightarrow> world \<times> answer" where
  "sbi_serve B req w =
     (if sr_path req = ''/nsepp-telescopic/v1/mapping'' then (w, sbi_mapping_endpoint B req w)
      else (case collect_body (sr_chunks req) [] of
              None \<Rightarrow> (w, ([], Inr ()))
            | Some body \<Rightarrow> sbi_forward B req body w))"

definition get_api_list :: "(json \<Rightarrow> json \<times> bool) \<Rightarrow> n32f_env \<Rightarrow> answer" where
  "get_api_list api_list F =
     (case api_list JNull of
        (json_data, True) \<Rightarrow> after_calls [WriteHead 200 JSON_HEADERS] (end_dump F json_data)
      | (json_data, False) \<Rightarrow> ([WriteHead 503 JSON_HEADERS, EndBody []], Inr ()))"

end
