(* ===== verification/Sepp_World.thy ===== *)
theory Sepp_World
  imports Sepp_Sbi
begin

text \<open>
  A running SEPP as a state machine: requests arrive at its two servers in any order, until
  the application is stopped. What holds in every run rests on one frame fact per server:
  which calls a request can cause, and what of the application it can change.
\<close>

subsection \<open>Steps of a running SEPP\<close>

text \<open>
  A step of the NBI server carries the identifier a new context would get. \<open>Shutdown\<close> is
  \<^verbatim>\<open>sepp_app::stop\<close>, after which the signal handler of the program deletes the application.
\<close>

datatype world_event = NbiRequest string server_request | SbiRequest server_request | Shutdown

inductive world_step :: "sbi_env \<Rightarrow> world_event \<Rightarrow> world \<Rightarrow> world \<Rightarrow> bool" for B where
  nbi: "nbi_serve ((be_server B)\<lparr>ve_uuid := uuid\<rparr>) req w = (w', a) \<Longrightarrow>
     world_step B (NbiRequest uuid req) w w'"
| sbi: "sbi_serve B req w = (w', a) \<Longrightarrow> world_step B (SbiRequest req) w w'"
| stop: "w_app w = Some s \<Longrightarrow>
     stop (ve_app (be_server B)) (ve_net (be_server B)) s (w_history w) = (s', h', r) \<Longrightarrow>
     world_step B Shutdown w \<lparr>w_app = None, w_history = h'\<rparr>"

inductive_cases world_step_elims:
  "world_step B (NbiRequest u req) w w'" "world_step B (SbiRequest req) w w'"
  "world_step B Shutdown w w'"

subsection \<open>What a request of the peer can do\<close>

text \<open>
  \<open>local_calls cs\<close>: all calls are made with the client of the own network. A request of the
  peer only causes such calls, and it neither creates nor deletes the application or a
  component of it and does not touch the address of the peer, the NRF client or the state
  with which N32-f messages are made and accepted.
\<close>

definition local_calls :: "history \<Rightarrow> bool" where
  "local_calls cs \<longleftrightarrow> (\<forall>c \<in> set cs. \<exists>m r. c = HttpCall SbiClient m r)"

definition shape :: "sepp_app \<Rightarrow> string option \<times> bool \<times> bool" where
  "shape s = (m_remote_sepp_url s, m_sepp_n32c_handshake_inst s = None, m_sepp_n32f_forward_inst s = None)"

definition quiet :: "world \<Rightarrow> world \<Rightarrow> bool" where
  "quiet w w' \<longleftrightarrow>
     map_option shape (w_app w') = map_option shape (w_app w) \<and>
     map_option m_sepp_nrf_inst (w_app w') = map_option m_sepp_nrf_inst (w_app w) \<and>
     map_option m_sepp_n32f_forward_inst (w_app w') = map_option m_sepp_n32f_forward_inst (w_app w) \<and>
     (\<exists>cs. w_history w' = w_history w @ cs \<and> local_calls cs)"

lemma local_calls_simps [simp]:
  "local_calls []" "local_calls (cs @ ds) \<longleftrightarrow> local_calls cs \<and> local_calls ds"
  "local_calls [HttpCall SbiClient m r]"
  by (auto simp: local_calls_def)

lemma quiet_refl [simp]: "quiet w w"
  by (simp add: quiet_def)

lemma quiet_trans: "quiet u v \<Longrightarrow> quiet v w \<Longrightarrow> quiet u w"
  by (auto simp: quiet_def)

lemma with_n32c_shape:
  "with_n32c f r hs s = (s', r', hs', b) \<Longrightarrow>
     shape s' = shape s \<and> m_sepp_nrf_inst s' = m_sepp_nrf_inst s \<and>
     m_sepp_n32f_forward_inst s' = m_sepp_n32f_forward_inst s"
  by (auto simp: with_n32c_def shape_def split: option.splits prod.splits)

lemmas handler_defs = app_exchange_capability_request_def app_exchange_params_def
  app_n32f_terminate_req_def app_n32f_error_def

lemma on_app_quiet:
  assumes "quiet w0 w" and "on_app (with_n32c f r hs) r hs w = (w', r', hs', b)"
  shows "quiet w0 w'"
  using assms
  by (auto simp: on_app_def quiet_def dest: with_n32c_shape split: option.splits prod.splits)

lemma on_history_quiet:
  assumes "quiet w0 w" and "on_history f r hs w = (w', r', hs', b)"
    and "\<And>s h h' r' hs' b. f s h = (h', r', hs', b) \<Longrightarrow> \<exists>cs. h' = h @ cs \<and> local_calls cs"
  shows "quiet w0 w'"
proof -
  have "quiet w w'"
    using assms(2,3) by (fastforce simp: on_history_def quiet_def split: option.splits prod.splits)
  with assms(1) show ?thesis by (rule quiet_trans)
qed

lemma process_local: "\<exists>cs. fst (app_n32f_process E net s d r hs h) = h @ cs \<and> local_calls cs"
  unfolding app_n32f_process_def
  using process_history[of "ae_n32f E" net _ d r hs h]
  by (auto split: option.split) (metis append.right_neutral local_calls_simps(1,3))

lemma forward_local: "\<exists>cs. fst (app_n32f_forward E net s d r hs h) = h @ cs \<and> local_calls cs"
  unfolding app_n32f_forward_def
  using forward_history[of "ae_n32f E" net _ d r hs h]
  by (auto split: option.split) (metis append.right_neutral local_calls_simps(1,3))

interpretation quiet_capability: endpoint "nbi_exchange_capability V" "quiet w0" for V w0
  by (rule endpoint.intro)
    (simp_all add: ep_capability.non_object, simp add: nbi_exchange_capability_def handler_defs on_app_quiet)

interpretation quiet_params: endpoint "nbi_exchange_params V" "quiet w0" for V w0
  by (rule endpoint.intro)
    (simp_all add: ep_params.non_object,
     auto simp: nbi_exchange_params_def handler_defs intro: on_app_quiet split: option.splits)

interpretation quiet_terminate: endpoint "nbi_n32f_terminate V" "quiet w0" for V w0
  by (rule endpoint.intro)
    (simp_all add: ep_terminate.non_object,
     auto simp: nbi_n32f_terminate_def handler_defs intro: on_app_quiet split: option.splits if_splits)

interpretation quiet_error: endpoint nbi_n32f_error "quiet w0" for w0
  by (rule endpoint.intro)
    (simp_all add: ep_error.non_object, simp add: nbi_n32f_error_def handler_defs on_app_quiet)

interpretation quiet_forward: endpoint "nbi_n32f_forward V" "quiet w0" for V w0
proof (rule endpoint.intro)
  show "quiet w0 w'" if "quiet w0 w" "nbi_n32f_forward V d r hs w = (w', r', hs', b)"
    for d r hs w w' r' hs' b
    using that(2) unfolding nbi_n32f_forward_def
    by (rule on_history_quiet[OF that(1)]) (metis forward_local fst_conv)
qed (rule ep_forward.non_object)

interpretation quiet_process: endpoint "nbi_n32f_process V" "quiet w0" for V w0
proof (rule endpoint.intro)
  have "quiet w0 w'" if "quiet w0 w"
    "on_history (\<lambda>s. app_n32f_process (ve_app V) (ve_net V) s d r hs) r hs w = (w', r', hs', b)"
    for d r hs w w' r' hs' b
    using that(2) by (rule on_history_quiet[OF that(1)]) (metis process_local fst_conv)
  then show "quiet w0 w'" if "quiet w0 w" "nbi_n32f_process V d r hs w = (w', r', hs', b)"
    for d r hs w w' r' hs' b
    using that by (auto simp: nbi_n32f_process_def split: option.splits if_splits)
qed (rule ep_process.non_object)

lemma nbi_serve_quiet: "quiet w (fst (nbi_serve V req w))"
proof -
  have "quiet w (fst (forward_get V req w))"
    using quiet_forward.keeps[OF quiet_refl, of V "forward_message req" JNull "[]" w]
    by (auto simp: forward_get_def split: prod.split)
  then show ?thesis
    by (simp add: nbi_serve_def Let_def nbi_forward_endpoint_def
        quiet_capability.process_keeps quiet_params.process_keeps quiet_terminate.process_keeps
        quiet_error.process_keeps quiet_forward.process_keeps quiet_process.process_keeps)
qed

subsection \<open>What a request of a local network function can do\<close>

text \<open>
  It causes at most one call, to the peer, and changes nothing else. Under PRINS every call
  to the peer is a POST to one of the endpoints of the N32 interfaces.
\<close>

definition n32_paths :: "string set" where
  "n32_paths = {''/n32c-handshake/v1/exchange-capability'', ''/n32c-handshake/v1/exchange-params'',
     ''/n32c-handshake/v1/n32f-terminate'', ''/n32f-forward/v1/n32f-process''}"

definition peer_call :: "string \<Rightarrow> string \<Rightarrow> http_call \<Rightarrow> bool" where
  "peer_call cap url c \<longleftrightarrow>
     (\<exists>m r p. c = HttpCall NbiClient m r \<and> rq_uri r = url @ p \<and>
        (cap = ''PRINS'' \<longrightarrow> m = POST \<and> p \<in> n32_paths))"

lemma tls_request_uri: "n32f_env_ok (ae_n32f E) \<Longrightarrow> rq_uri (tls_request E url a path body) = url @ path"
  by (simp add: tls_request_def Let_def n32f_env_okD(8))

lemma nbi_post_call:
  assumes "n32f_env_ok (ae_n32f E)" and "nbi_post E net (url @ p) d h = Some (rsp, h')"
    and "p \<in> n32_paths"
  shows "\<exists>c. h' = h @ [c] \<and> peer_call cap url c"
  using nbi_post_some[OF assms(2)] n32f_env_okD(8)[OF assms(1)] assms(3) by (auto simp: peer_call_def)

lemma prins_calls:
  assumes "n32f_env_ok (ae_n32f E)"
    and "handle_nf_service_request_prins E net f url a p m b r h = (r', h', x)"
  shows "h' = h \<or> (\<exists>c. h' = h @ [c] \<and> peer_call cap url c)"
proof -
  have "''/n32f-forward/v1/n32f-process'' \<in> n32_paths" by (simp add: n32_paths_def)
  with assms(2) nbi_post_call[OF assms(1)] show ?thesis
    unfolding handle_nf_service_request_prins_def Let_def
    by (fastforce split: sum.splits option.splits if_splits prod.splits)
qed

lemma tls_calls:
  assumes "n32f_env_ok (ae_n32f E)" and "cap \<noteq> ''PRINS''"
    and "handle_nf_service_request_tls E net url a p m b r h = (r', h', x)"
  shows "\<exists>c. h' = h @ [c] \<and> peer_call cap url c"
  using assms(2,3) tls_request_uri[OF assms(1), of url a p b]
  by (auto simp: handle_nf_service_request_tls_def send_http_request_def Let_def peer_call_def
      split: if_splits)

lemma service_request_calls:
  assumes ok: "n32f_env_ok (ae_n32f E)" and cfg: "app_config cap s" and sh: "shape s = (u, b, b)"
    and h: "handle_nf_service_request E net s a p m body r h = (r', h', x)"
  shows "h' = h \<or> (\<exists>url c. u = Some url \<and> h' = h @ [c] \<and> peer_call cap url c)"
proof (cases "m_sepp_n32f_forward_inst s")
  case None
  with h show ?thesis by (simp add: handle_nf_service_request_def)
next
  case (Some f)
  with sh obtain n where n: "m_sepp_n32c_handshake_inst s = Some n" and u: "m_remote_sepp_url s = u"
    by (auto simp: shape_def)
  with cfg have "m_selected_sec_capability n = cap" by (simp add: app_config_def)
  with h Some n u prins_calls[OF ok, of net f _ a p m body r h r' h' x cap]
    tls_calls[OF ok, of cap net _ a p m body r h r' h' x]
  show ?thesis by (auto simp: handle_nf_service_request_def split: option.splits if_splits)
qed

lemma sbi_serve_calls:
  assumes ok: "n32f_env_ok (ve_n32f (be_server B))" and sbi: "sbi_serve B req w = (w', a)"
    and w: "\<And>s. w_app w = Some s \<Longrightarrow> app_config cap s \<and> (\<exists>b. shape s = (u, b, b))"
  shows "w_app w' = w_app w \<and>
     (w_history w' = w_history w \<or>
      (\<exists>url c. u = Some url \<and> w_history w' = w_history w @ [c] \<and> peer_call cap url c))"
proof -
  have "w_app v = w_app w \<and>
     (w_history v = w_history w \<or>
      (\<exists>url c. u = Some url \<and> w_history v = w_history w @ [c] \<and> peer_call cap url c))"
    if f: "sbi_forward B req body w = (v, a)" for body v
  proof (cases "w_app w")
    case None
    with f show ?thesis by (auto simp: sbi_forward_def Let_def split: if_splits)
  next
    case (Some s)
    with w obtain b where s: "app_config cap s" "shape s = (u, b, b)" by blast
    from f Some service_request_calls[OF ok s] show ?thesis
      unfolding sbi_forward_def Let_def by (fastforce split: if_splits option.splits prod.splits)
  qed
  with sbi show ?thesis
    unfolding sbi_serve_def by (fastforce split: if_splits option.splits)
qed

subsection \<open>Start and stop\<close>

text \<open>
  The calls an application with the capability \<open>cap\<close> and the peer address \<open>u\<close> may have made.
\<close>

definition calls_ok :: "string \<Rightarrow> string option \<Rightarrow> history \<Rightarrow> bool" where
  "calls_ok cap u h \<longleftrightarrow>
     (\<forall>c \<in> set h. (\<exists>m r. c = HttpCall SbiClient m r) \<or> (\<exists>url. u = Some url \<and> peer_call cap url c))"

lemma calls_ok_simps [simp]:
  "calls_ok cap u []" "calls_ok cap u (h @ h') \<longleftrightarrow> calls_ok cap u h \<and> calls_ok cap u h'"
  "calls_ok cap u [HttpCall SbiClient m r]"
  by (auto simp: calls_ok_def)

lemma local_calls_ok: "local_calls cs \<Longrightarrow> calls_ok cap u cs"
  by (auto simp: local_calls_def calls_ok_def)

lemma peer_call_ok: "peer_call cap url c \<Longrightarrow> calls_ok cap (Some url) [c]"
  by (simp add: calls_ok_def)

lemma nbi_post_ok:
  "n32f_env_ok (ae_n32f E) \<Longrightarrow> nbi_post E net (url @ p) d h = Some (rsp, h') \<Longrightarrow> p \<in> n32_paths \<Longrightarrow>
     calls_ok cap (Some url) h \<Longrightarrow> calls_ok cap (Some url) h'"
  using nbi_post_call[of E net url p d h rsp h' cap] peer_call_ok by fastforce

lemma n32_paths_simps [simp]:
  "''/n32c-handshake/v1/exchange-capability'' \<in> n32_paths"
  "''/n32c-handshake/v1/exchange-params'' \<in> n32_paths"
  "''/n32c-handshake/v1/n32f-terminate'' \<in> n32_paths"
  by (simp_all add: n32_paths_def)

lemma create_exchange_params_calls:
  assumes "n32f_env_ok (ae_n32f E)" and "create_exchange_params E net u s h = (s', h', r)"
    and "calls_ok cap (m_remote_sepp_url s) h"
  shows "shape s' = shape s \<and> calls_ok cap (m_remote_sepp_url s) h'"
  using assms(2,3) nbi_post_ok[OF assms(1)]
  unfolding create_exchange_params_def Let_def
  by (auto simp: set_n32f_context_def shape_def split: option.splits prod.splits if_splits)

lemma create_exchange_capability_calls:
  assumes ok: "n32f_env_ok (ae_n32f E)" and h: "create_exchange_capability E net u s h = (s', h', r)"
    and c: "calls_ok cap (m_remote_sepp_url s) h"
  shows "shape s' = shape s \<and> calls_ok cap (m_remote_sepp_url s) h'"
proof -
  have sw: "shape s2 = shape s1 \<and> calls_ok cap (m_remote_sepp_url s1) h2"
    if "swallow (create_exchange_params E net u s1 h1) = (s2, h2, r2)" "calls_ok cap (m_remote_sepp_url s1) h1"
    for s1 h1 s2 h2 r2
    using that create_exchange_params_calls[OF ok]
    by (auto simp: swallow_def split: prod.splits)
  have sh: "m_sepp_n32c_handshake_inst s \<noteq> None \<Longrightarrow>
      shape (s\<lparr>m_sepp_n32c_handshake_inst := Some c1\<rparr>) = shape s" for c1
    by (simp add: shape_def)
  from h c nbi_post_ok[OF ok] sw sh show ?thesis
    unfolding create_exchange_capability_def Let_def
    by (fastforce split: option.splits sum.splits if_splits prod.splits)
qed

lemma send_n32f_terminate_calls:
  assumes "n32f_env_ok (ae_n32f E)" and "send_n32f_terminate E net s h = (s', h', r)"
    and "calls_ok cap (m_remote_sepp_url s) h"
  shows "calls_ok cap (m_remote_sepp_url s) h'"
  using assms(2,3) nbi_post_ok[OF assms(1)]
  unfolding send_n32f_terminate_def Let_def
  by (auto split: option.splits prod.splits if_splits)

lemma stop_calls:
  assumes ok: "n32f_env_ok (ae_n32f E)" and st: "stop E net s h = (s', h', r)"
    and c: "calls_ok cap (m_remote_sepp_url s) h"
  shows "calls_ok cap (m_remote_sepp_url s) h'"
  using st c send_n32f_terminate_calls[OF ok _ c]
  unfolding stop_def
  by (auto simp: deregister_to_nrf_def send_http_request_def Let_def
      split: option.splits prod.splits if_splits sum.splits)

definition peer_address :: "app_env \<Rightarrow> string option" where
  "peer_address E =
     (if ae_register_nrf E \<and> ae_is_c_sepp E \<and> ae_roaming_partners E \<noteq> []
      then Some (remote_url E (hd (ae_roaming_partners E))) else None)"

lemma register_calls:
  "register_to_nrf N net ms ne [] = Inr (ne', h') \<Longrightarrow> calls_ok cap u h'"
  by (auto simp: register_to_nrf_def send_http_request_def Let_def split: sum.splits option.splits if_splits)

lemma app_instances_shape [simp]:
  "shape (app_instances E n) = (None, False, False)"
  "shape ((app_instances E n)\<lparr>m_remote_sepp_url := u\<rparr>) = (u, False, False)"
  "shape sepp_app_empty = (None, True, True)"
  by (simp_all add: app_instances_def sepp_app_empty_def shape_def)

lemma sepp_app_new_calls:
  assumes ok: "n32f_env_ok (ae_n32f E)" and new: "sepp_app_new E net ms uuid uuid' ev [] = Inr (s, ev', h)"
  shows "shape s = (peer_address E, \<not> ae_register_nrf E, \<not> ae_register_nrf E) \<and>
     calls_ok cap (peer_address E) h"
proof -
  have "shape s' = (Some url, False, False) \<and> calls_ok cap (Some url) h2"
    if "create_exchange_capability E net u ((app_instances E n)\<lparr>m_remote_sepp_url := Some url\<rparr>) h1 = (s', h2, r)"
      "calls_ok cap (Some url) h1" for s' u url h1 h2 r n
    using create_exchange_capability_calls[OF ok that(1)] that(2) by simp
  with new register_calls show ?thesis
    unfolding sepp_app_new_def Let_def peer_address_def
    by (fastforce split: if_splits sum.splits prod.splits)
qed

subsection \<open>What holds in every run\<close>

definition started :: "sbi_env \<Rightarrow> world \<Rightarrow> bool" where
  "started B w \<longleftrightarrow>
     (\<exists>ms uuid uuid' s ev h. sepp_app_new (ve_app (be_server B)) (ve_net (be_server B))
         ms uuid uuid' sepp_event_init [] =
       Inr (s, ev, h) \<and> w = \<lparr>w_app = Some s, w_history = h\<rparr>)"

definition world_inv :: "app_env \<Rightarrow> world \<Rightarrow> bool" where
  "world_inv E w \<longleftrightarrow>
     world_config (ae_security E) w \<and>
     (\<forall>s. w_app w = Some s \<longrightarrow> shape s = (peer_address E, \<not> ae_register_nrf E, \<not> ae_register_nrf E)) \<and>
     calls_ok (ae_security E) (peer_address E) (w_history w)"

lemma quiet_inv:
  assumes "world_inv E w" and "quiet w w'" and "world_config (ae_security E) w'"
  shows "world_inv E w'"
  using assms by (cases "w_app w") (auto simp: world_inv_def quiet_def local_calls_ok)

lemma sbi_inv:
  assumes inv: "world_inv (ve_app (be_server B)) w" and ok: "n32f_env_ok (ve_n32f (be_server B))"
    and s: "sbi_serve B req w = (w', a)"
  shows "world_inv (ve_app (be_server B)) w'"
proof -
  let ?E = "ve_app (be_server B)"
  have "app_config (ae_security ?E) s \<and> (\<exists>b. shape s = (peer_address ?E, b, b))"
    if "w_app w = Some s" for s
    using inv that by (simp add: world_inv_def world_config_def)
  from sbi_serve_calls[OF ok s this] have "w_app w' = w_app w"
    "w_history w' = w_history w \<or> (\<exists>url c. peer_address ?E = Some url \<and>
       w_history w' = w_history w @ [c] \<and> peer_call (ae_security ?E) url c)"
    by blast+
  with inv peer_call_ok show ?thesis by (fastforce simp: world_inv_def world_config_def)
qed

lemma stop_inv:
  assumes "world_inv E w" and "n32f_env_ok (ae_n32f E)" and "w_app w = Some s"
    and "stop E net s (w_history w) = (s', h', r)"
  shows "world_inv E \<lparr>w_app = None, w_history = h'\<rparr>"
proof -
  have "m_remote_sepp_url s = peer_address E"
    using assms(1,3) by (auto simp: world_inv_def shape_def)
  with stop_calls[OF assms(2,4)] assms(1) show ?thesis
    by (simp add: world_inv_def world_config_def)
qed

interpretation world_machine: invariant_machine "world_step B"
  "\<lambda>w. n32f_env_ok (ve_n32f (be_server B)) \<longrightarrow> world_inv (ve_app (be_server B)) w" for B
proof
  fix e w w'
  let ?E = "ve_app (be_server B)"
  assume step: "world_step B e w w'" and inv: "n32f_env_ok (ve_n32f (be_server B)) \<longrightarrow> world_inv ?E w"
  show "n32f_env_ok (ve_n32f (be_server B)) \<longrightarrow> world_inv ?E w'"
  proof
    assume ok: "n32f_env_ok (ve_n32f (be_server B))"
    with inv have i: "world_inv ?E w" by blast
    from step show "world_inv ?E w'"
    proof cases
      case (nbi uuid req a)
      let ?V = "(be_server B)\<lparr>ve_uuid := uuid\<rparr>"
      from nbi have w': "w' = fst (nbi_serve ?V req w)" by simp
      show ?thesis
        unfolding w'
        using quiet_inv[OF i nbi_serve_quiet[of w ?V req]] nbi_serve_keeps[of _ w ?V req] i
        by (simp add: world_inv_def)
    next
      case (sbi req a)
      then show ?thesis using sbi_inv[OF i ok] by blast
    next
      case (stop s s' h' r)
      then show ?thesis using stop_inv[OF i ok] by blast
    qed
  qed
qed

lemma started_inv:
  "n32f_env_ok (ve_n32f (be_server B)) \<Longrightarrow> started B w \<Longrightarrow> world_inv (ve_app (be_server B)) w"
  unfolding started_def world_inv_def world_config_def
  using sepp_app_new_calls sepp_app_new_config by fastforce

lemma run_inv:
  assumes "n32f_env_ok (ve_n32f (be_server B))" and "started B w0" and "steps (world_step B) es w0 w"
  shows "world_inv (ve_app (be_server B)) w"
  using world_machine.inv_steps[OF assms(3)] started_inv[OF assms(1,2)] assms(1) by blast

lemma run_peer_call:
  assumes "n32f_env_ok (ve_n32f (be_server B))" and "started B w0" and "steps (world_step B) es w0 w"
    and "HttpCall NbiClient m r \<in> set (w_history w)"
  obtains url where "peer_address (ve_app (be_server B)) = Some url"
    and "peer_call (ae_security (ve_app (be_server B))) url (HttpCall NbiClient m r)"
  using run_inv[OF assms(1-3)] assms(4) by (auto simp: world_inv_def calls_ok_def)

text \<open>
  In every run, every request a SEPP sends to the other network goes to the SEPP of the
  first roaming partner of its configuration, and only a SEPP with the role c-sepp sends any.
\<close>

theorem n32_traffic_to_first_partner:
  assumes "n32f_env_ok (ve_n32f (be_server B))" and "started B w0" and "steps (world_step B) es w0 w"
    and "HttpCall NbiClient m r \<in> set (w_history w)"
  shows "ae_is_c_sepp (ve_app (be_server B)) \<and>
     (\<exists>p ps q. ae_roaming_partners (ve_app (be_server B)) = p # ps \<and>
        rq_uri r = remote_url (ve_app (be_server B)) p @ q)"
proof -
  obtain url where "peer_address (ve_app (be_server B)) = Some url"
    and "peer_call (ae_security (ve_app (be_server B))) url (HttpCall NbiClient m r)"
    using run_peer_call[OF assms] .
  then show ?thesis
    by (cases "ae_roaming_partners (ve_app (be_server B))")
      (auto simp: peer_address_def peer_call_def split: if_splits)
qed

text \<open>A SEPP for the witnesses, started on a network where nothing answers.\<close>

definition demo_sepp_env :: "app_env \<Rightarrow> net \<Rightarrow> sbi_env" where
  "demo_sepp_env E net = \<lparr>be_server = (demo_server_env net)\<lparr>ve_app := E\<rparr>,
     be_get_param = (\<lambda>q k. []), be_mapping_json = (\<lambda>m. JNull), be_mapping_dump = (\<lambda>m. [])\<rparr>"

lemma demo_sepp_env_ok: "ae_n32f E = demo_wire_env \<Longrightarrow> n32f_env_ok (ve_n32f (be_server (demo_sepp_env E net)))"
  using demo_wire_env_ok by (simp add: demo_sepp_env_def)

lemma demo_registers:
  "\<exists>h. register_to_nrf demo_nrf_env (answer 0) 0 (sepp_nrf_new demo_nrf_env ''i'', sepp_event_init) [] =
     Inr ((sepp_nrf_new demo_nrf_env ''i'', sepp_event_init), h)"
proof -
  have "isl (sepp_profile_to_json (nrf_profile (sepp_nrf_new demo_nrf_env ''i'')) JNull) = False"
    by code_simp
  then obtain d where "sepp_profile_to_json (nrf_profile (sepp_nrf_new demo_nrf_env ''i'')) JNull = Inr d"
    by (metis isl_def sum.exhaust)
  then show ?thesis
    by (simp add: register_to_nrf_def send_http_request_def Let_def answer_def demo_nrf_env_def)
qed

lemma demo_capability_req: "\<exists>q. create_exchange_capability_req demo_n32c_env c = Inr q"
  by (simp add: create_exchange_capability_req_def create_exchange_capability_obj_def demo_n32c_env_def)

definition demo_sepp :: "string option \<Rightarrow> sepp_app" where
  "demo_sepp url = (app_instances demo_app_env (sepp_nrf_new demo_nrf_env ''i''))\<lparr>m_remote_sepp_url := url\<rparr>"

definition demo_url :: string where
  "demo_url = remote_url demo_app_env \<lparr>pc_mcc = ''262'', pc_mnc = ''10''\<rparr>"

lemma demo_new:
  "\<exists>h r. sepp_app_new demo_app_env (answer 0) 0 ''i'' ''u'' sepp_event_init [] =
       Inr (demo_sepp (Some demo_url), sepp_event_init, h) \<and> HttpCall NbiClient POST r \<in> set h"
proof -
  let ?n = "sepp_nrf_new demo_nrf_env ''i''" and ?url = demo_url
  let ?s = "demo_sepp (Some demo_url)"
  obtain h where reg: "register_to_nrf demo_nrf_env (answer 0) 0 (?n, sepp_event_init) [] =
      Inr ((?n, sepp_event_init), h)"
    using demo_registers by blast
  obtain c where c: "m_sepp_n32c_handshake_inst ?s = Some c"
    by (simp add: demo_sepp_def app_instances_def)
  obtain q where q: "create_exchange_capability_req demo_n32c_env c = Inr q"
    using demo_capability_req by blast
  have "nbi_post demo_app_env (answer 0) (?url @ ''/n32c-handshake/v1/exchange-capability'') q h \<noteq> None"
    by (simp add: nbi_post_def demo_app_env_def demo_wire_env_def)
  then obtain rsp h' where p: "nbi_post demo_app_env (answer 0)
      (?url @ ''/n32c-handshake/v1/exchange-capability'') q h = Some (rsp, h')"
    by fastforce
  from nbi_post_some[OF p] obtain r where r: "h' = h @ [HttpCall NbiClient POST r]" "rp_status rsp = 0"
    by (auto simp: answer_def)
  have n: "ae_n32c demo_app_env = demo_n32c_env" "ae_nrf demo_app_env = demo_nrf_env"
    by (simp_all add: demo_app_env_def demo_wire_env_def demo_n32f_env_def)
  have u: "m_remote_sepp_url ?s = Some ?url" by (simp add: demo_sepp_def)
  have "create_exchange_capability demo_app_env (answer 0) ''u'' ?s h = (?s, h', Inr ())"
    unfolding create_exchange_capability_def n c u option.case q sum.case p prod.case Let_def
    using r(2) by simp
  then have "sepp_app_new demo_app_env (answer 0) 0 ''i'' ''u'' sepp_event_init [] =
      Inr (?s, sepp_event_init, h')"
    using reg n(2) by (simp add: sepp_app_new_def Let_def demo_sepp_def demo_url_def)
      (simp add: demo_app_env_def)
  with r(1) show ?thesis by auto
qed

lemma demo_started:
  "\<exists>h r. started (demo_sepp_env demo_app_env (answer 0))
       \<lparr>w_app = Some (demo_sepp (Some demo_url)), w_history = h\<rparr> \<and> HttpCall NbiClient POST r \<in> set h"
  using demo_new unfolding started_def by (simp add: demo_sepp_env_def demo_server_env_def) blast

theorem n32_traffic_to_first_partner_witness:
  "\<exists>w m r q. started (demo_sepp_env demo_app_env (answer 0)) w \<and>
     HttpCall NbiClient m r \<in> set (w_history w) \<and>
     rq_uri r = ''http://sepp.5gc.mnc10.mcc262.3gppnetwork.org:8443'' @ q"
proof -
  let ?B = "demo_sepp_env demo_app_env (answer 0)"
  obtain h r where s: "started ?B \<lparr>w_app = Some (demo_sepp (Some demo_url)), w_history = h\<rparr>" "HttpCall NbiClient POST r \<in> set h"
    using demo_started by blast
  have ok: "n32f_env_ok (ve_n32f (be_server ?B))"
    by (rule demo_sepp_env_ok) (simp add: demo_app_env_def)
  have e: "ve_app (be_server ?B) = demo_app_env" by (simp add: demo_sepp_env_def)
  have url: "remote_url demo_app_env \<lparr>pc_mcc = ''262'', pc_mnc = ''10''\<rparr> =
      ''http://sepp.5gc.mnc10.mcc262.3gppnetwork.org:8443''"
    by (simp add: remote_url_def demo_app_env_def nat_str.simps digit_char_def)
  have p: "ae_roaming_partners demo_app_env = [\<lparr>pc_mcc = ''262'', pc_mnc = ''10''\<rparr>]"
    by (simp add: demo_app_env_def)
  obtain q where "rq_uri r = remote_url demo_app_env \<lparr>pc_mcc = ''262'', pc_mnc = ''10''\<rparr> @ q"
    using n32_traffic_to_first_partner[OF ok s(1) steps_Nil, of POST r] s(2)
    unfolding e p by auto
  with s show ?thesis unfolding url by (metis world.select_convs(2))
qed

text \<open>
  A SEPP configured for PRINS never lets a message of its own network out by another way:
  in every run, every request to the other network is a POST to an endpoint of the N32
  interfaces, whatever methods and paths the local network functions asked for.
\<close>

theorem prins_no_bypass:
  assumes "n32f_env_ok (ve_n32f (be_server B))" and "started B w0" and "steps (world_step B) es w0 w"
    and "ae_security (ve_app (be_server B)) = ''PRINS''" and "HttpCall NbiClient m r \<in> set (w_history w)"
  shows "m = POST \<and>
     (\<exists>p ps q. ae_roaming_partners (ve_app (be_server B)) = p # ps \<and> q \<in> n32_paths \<and>
        rq_uri r = remote_url (ve_app (be_server B)) p @ q)"
proof -
  obtain url where "peer_address (ve_app (be_server B)) = Some url"
    and "peer_call (ae_security (ve_app (be_server B))) url (HttpCall NbiClient m r)"
    using run_peer_call[OF assms(1-3,5)] .
  with assms(4) show ?thesis
    by (cases "ae_roaming_partners (ve_app (be_server B))")
      (auto simp: peer_address_def peer_call_def split: if_splits)
qed

theorem prins_no_bypass_witness:
  "\<exists>w m r q. started (demo_sepp_env demo_app_env (answer 0)) w \<and>
     HttpCall NbiClient m r \<in> set (w_history w) \<and> m = POST \<and> q \<in> n32_paths \<and>
     rq_uri r = remote_url demo_app_env \<lparr>pc_mcc = ''262'', pc_mnc = ''10''\<rparr> @ q"
proof -
  let ?B = "demo_sepp_env demo_app_env (answer 0)"
  obtain h r where s: "started ?B \<lparr>w_app = Some (demo_sepp (Some demo_url)), w_history = h\<rparr>" "HttpCall NbiClient POST r \<in> set h"
    using demo_started by blast
  have ok: "n32f_env_ok (ve_n32f (be_server ?B))"
    by (rule demo_sepp_env_ok) (simp add: demo_app_env_def)
  have e: "ve_app (be_server ?B) = demo_app_env" by (simp add: demo_sepp_env_def)
  have p: "ae_roaming_partners demo_app_env = [\<lparr>pc_mcc = ''262'', pc_mnc = ''10''\<rparr>]"
    "ae_security demo_app_env = ''PRINS''"
    by (simp_all add: demo_app_env_def)
  obtain q where "q \<in> n32_paths" "rq_uri r = remote_url demo_app_env \<lparr>pc_mcc = ''262'', pc_mnc = ''10''\<rparr> @ q"
    using prins_no_bypass[OF ok s(1) steps_Nil, of POST r] s(2)
    unfolding e p by auto
  with s show ?thesis by (metis world.select_convs(2))
qed

text \<open>The SEPP of the witness with the other role.\<close>

definition demo_p_env :: app_env where
  "demo_p_env = demo_app_env\<lparr>ae_is_c_sepp := False\<rparr>"

lemma demo_p_started:
  "\<exists>h. started (demo_sepp_env demo_p_env (answer 0))
       \<lparr>w_app = Some (app_instances demo_p_env (sepp_nrf_new demo_nrf_env ''i'')), w_history = h\<rparr>"
proof -
  obtain h where reg: "register_to_nrf demo_nrf_env (answer 0) 0
      (sepp_nrf_new demo_nrf_env ''i'', sepp_event_init) [] =
      Inr ((sepp_nrf_new demo_nrf_env ''i'', sepp_event_init), h)"
    using demo_registers by blast
  have "ae_nrf demo_p_env = demo_nrf_env" "ae_register_nrf demo_p_env" "\<not> ae_is_c_sepp demo_p_env"
    by (simp_all add: demo_p_env_def demo_app_env_def)
  with reg have "sepp_app_new demo_p_env (answer 0) 0 ''i'' ''u'' sepp_event_init [] =
      Inr (app_instances demo_p_env (sepp_nrf_new demo_nrf_env ''i''), sepp_event_init, h)"
    by (simp add: sepp_app_new_def Let_def)
  then show ?thesis
    unfolding started_def by (simp add: demo_sepp_env_def demo_server_env_def) blast
qed

text \<open>Without an application the NBI server answers with an error and sends nothing.\<close>

lemma nbi_serve_without_app:
  assumes "w_app w = None" and "collect_body (sr_chunks req) [] \<noteq> None"
  shows "fst (nbi_serve V req w) = w \<and>
     status_of (fst (snd (nbi_serve V req w))) =
       Some (if sr_method req = ''POST'' \<or> sr_method req = ''GET'' \<and>
               sr_path req \<notin> insert ''/n32c-handshake/v1/n32f-error'' n32_paths
             then 503 else 405)"
  using assms
  by (auto simp: nbi_serve_def Let_def nbi_forward_endpoint_def forward_get_def process_post_request_def
      n32_paths_def)

text \<open>
  C28: stopping sends at most two requests, in this order: a c-sepp that holds a context asks
  its peer to terminate it, and the SEPP is de-registered at the NRF; a failed termination
  does not keep it from the second.
\<close>

theorem stop_sequence:
  assumes ok: "n32f_env_ok (ae_n32f E)" and st: "stop E net s h = (s', h', Inr u)"
  shows "\<exists>ts. h' = h @ ts @ (case m_sepp_nrf_inst s of
          Some n \<Rightarrow> [HttpCall SbiClient DELETE \<lparr>rq_uri = nrf_url n, rq_headers = [], rq_body = []\<rparr>]
        | None \<Rightarrow> []) \<and>
     (case (m_sepp_n32c_handshake_inst s, m_remote_sepp_url s) of
        (Some c, Some url) \<Rightarrow>
          (if ae_is_c_sepp E \<and> m_n32c_context_id c \<noteq> []
           then \<exists>r. ts = [HttpCall NbiClient POST r] \<and> rq_uri r = url @ ''/n32c-handshake/v1/n32f-terminate''
           else ts = [])
      | _ \<Rightarrow> ts = [])"
proof -
  have t: "m_sepp_nrf_inst s1 = m_sepp_nrf_inst s \<and>
      (\<exists>ts. h1 = h @ ts \<and>
        (case (m_sepp_n32c_handshake_inst s, m_remote_sepp_url s) of
          (Some c, Some url) \<Rightarrow>
            (m_n32c_context_id c \<noteq> [] \<longrightarrow>
             (\<exists>r. ts = [HttpCall NbiClient POST r] \<and> rq_uri r = url @ ''/n32c-handshake/v1/n32f-terminate''))
        | _ \<Rightarrow> ts = []))"
    if "send_n32f_terminate E net s h = (s1, h1, Inr u1)" for s1 h1 u1
    using that n32f_env_okD(8)[OF ok]
    unfolding send_n32f_terminate_def Let_def create_n32f_terminate_req_def create_n32f_terminate_obj_def
    by (fastforce dest: nbi_post_some split: option.splits prod.splits if_splits)
  show ?thesis
    using st t unfolding stop_def
    by (fastforce simp: deregister_to_nrf_def send_http_request_def Let_def
        split: option.splits prod.splits if_splits sum.splits)
qed

theorem stop_sequence_witness:
  "\<exists>s' r n. stop demo_app_env (answer 204)
       ((demo_sepp (Some ''http://b''))\<lparr>m_sepp_n32c_handshake_inst := Some (n32c_init\<lparr>m_n32c_context_id := ''c''\<rparr>)\<rparr>) [] =
       (s', [HttpCall NbiClient POST r, HttpCall SbiClient DELETE n], Inr ()) \<and>
     rq_uri r = ''http://b/n32c-handshake/v1/n32f-terminate''"
proof -
  let ?c = "n32c_init\<lparr>m_n32c_context_id := ''c''\<rparr>"
  let ?s = "(demo_sepp (Some ''http://b''))\<lparr>m_sepp_n32c_handshake_inst := Some ?c\<rparr>"
  have s: "m_sepp_n32c_handshake_inst ?s = Some ?c" "m_remote_sepp_url ?s = Some ''http://b''"
    "\<exists>n. m_sepp_nrf_inst ?s = Some n" "ae_is_c_sepp demo_app_env" "m_n32c_context_id ?c \<noteq> []"
    by (simp_all add: demo_sepp_def app_instances_def demo_app_env_def)
  have d: "fe_dump (ae_n32f demo_app_env) j = Some (wr j)" for j
    by (simp add: demo_app_env_def demo_wire_env_def)
  obtain s1 h1 x where x: "send_n32f_terminate demo_app_env (answer 204) ?s [] = (s1, h1, x)"
    by (metis prod_cases3)
  have "snd (snd (send_n32f_terminate demo_app_env (answer 204) ?s [])) = Inr ()"
    by (simp add: send_n32f_terminate_def s(1,2) create_n32f_terminate_req_def create_n32f_terminate_obj_def
        nbi_post_def d send_http_request_def Let_def answer_def)
  then obtain s' h' where st: "stop demo_app_env (answer 204) ?s [] = (s', h', Inr ())"
    unfolding stop_def using x s(1,4,5) by auto
  have ok: "n32f_env_ok (ae_n32f demo_app_env)"
    using demo_wire_env_ok by (simp add: demo_app_env_def)
  from stop_sequence[OF ok st] s obtain r n where "h' = [HttpCall NbiClient POST r, HttpCall SbiClient DELETE n]"
    "rq_uri r = ''http://b'' @ ''/n32c-handshake/v1/n32f-terminate''"
    by auto
  with st show ?thesis by auto
qed

end
