(* ===== verification/Sepp_System.thy ===== *)
theory Sepp_System
  imports Sepp_World
begin

text \<open>
  The running SEPP with the clock: besides the servers, the task manager's thread calls the
  subscribers of the tick, which outlive the application. The state machine of the servers
  becomes one of the whole process, with the heartbeat as an abstract automaton.
\<close>

subsection \<open>Steps of the process\<close>

text \<open>
  \<open>Tick t code\<close> is a round of the task manager at the time \<open>t\<close>; \<open>code\<close> is the status with which
  the NRF answered the heartbeat, \<open>None\<close> when none was sent. \<open>sy_dangling\<close> is set when a
  subscriber is called whose object, the NRF client, was deleted with the application.
\<close>

record system =
  sy_world :: world
  sy_event :: sepp_event
  sy_dangling :: bool

datatype system_event = Request world_event | Tick "64 word" "int option"

inductive system_step :: "sbi_env \<Rightarrow> system_event \<Rightarrow> system \<Rightarrow> system \<Rightarrow> bool" for B where
  request: "world_step B e (sy_world s) w' \<Longrightarrow> system_step B (Request e) s (s\<lparr>sy_world := w'\<rparr>)"
| tick: "w_app (sy_world s) = Some a \<Longrightarrow> m_sepp_nrf_inst a = Some n \<Longrightarrow>
     task_tick (ae_nrf (ve_app (be_server B))) (ve_net (be_server B)) n t
       (sy_event s, w_history (sy_world s)) = Inr (ev', h') \<Longrightarrow>
     code = (if h' = w_history (sy_world s) then None else Some (rp_status (ve_net (be_server B) h'))) \<Longrightarrow>
     system_step B (Tick t code) s (s\<lparr>sy_event := ev', sy_world := (sy_world s)\<lparr>w_history := h'\<rparr>\<rparr>)"
| tick_unregistered: "w_app (sy_world s) = Some a \<Longrightarrow> m_sepp_nrf_inst a = None \<Longrightarrow>
     \<not> (\<exists>sl \<in> set (ev_slots (sy_event s)). slot_fires sl t) \<Longrightarrow> system_step B (Tick t None) s s"
| tick_deleted: "w_app (sy_world s) = None \<Longrightarrow>
     system_step B (Tick t None) s (s\<lparr>sy_dangling :=
       (sy_dangling s \<or> (\<exists>sl \<in> set (ev_slots (sy_event s)). slot_fires sl t))\<rparr>)"

inductive_cases system_step_elims:
  "system_step B (Request e) s s'" "system_step B (Tick t code) s s'"

definition system_started :: "sbi_env \<Rightarrow> system \<Rightarrow> bool" where
  "system_started B sy \<longleftrightarrow>
     (\<exists>ms uuid uuid' s ev h. sepp_app_new (ve_app (be_server B)) (ve_net (be_server B)) ms uuid uuid'
         sepp_event_init [] = Inr (s, ev, h) \<and>
       sy = \<lparr>sy_world = \<lparr>w_app = Some s, w_history = h\<rparr>, sy_event = ev, sy_dangling = False\<rparr>)"

subsection \<open>The subscription\<close>

text \<open>
  There is at most one subscriber, the heartbeat, and while the application lives it is the
  connection its NRF client holds. A step of the servers does not touch any of this.
\<close>

definition heart_inv :: "system \<Rightarrow> bool" where
  "heart_inv sy \<longleftrightarrow>
     length (ev_slots (sy_event sy)) \<le> 1 \<and>
     (\<forall>a sl. w_app (sy_world sy) = Some a \<and> sl \<in> set (ev_slots (sy_event sy)) \<longrightarrow>
        (\<exists>n. m_sepp_nrf_inst a = Some n \<and> nrf_connection n = Some (slot_id sl)))"

lemma heart_invE:
  assumes "heart_inv sy"
  obtains "ev_slots (sy_event sy) = []" | sl where "ev_slots (sy_event sy) = [sl]"
    "\<And>a. w_app (sy_world sy) = Some a \<Longrightarrow> \<exists>n. m_sepp_nrf_inst a = Some n \<and> nrf_connection n = Some (slot_id sl)"
proof (cases "ev_slots (sy_event sy)")
  case Nil
  then show ?thesis by (rule that(1))
next
  case (Cons sl sls)
  with assms have "ev_slots (sy_event sy) = [sl]" by (simp add: heart_inv_def)
  then show ?thesis by (rule that(2)) (use assms Cons in \<open>simp add: heart_inv_def\<close>)
qed

lemma world_step_keeps:
  assumes "world_step B e w w'" and "w_app w' = Some a'"
  shows "\<exists>a. w_app w = Some a \<and> m_sepp_nrf_inst a' = m_sepp_nrf_inst a \<and>
     m_sepp_n32f_forward_inst a' = m_sepp_n32f_forward_inst a"
  using assms(1)
proof cases
  case (nbi uuid req ans)
  then have w': "w' = fst (nbi_serve ((be_server B)\<lparr>ve_uuid := uuid\<rparr>) req w)" by simp
  have "map_option m_sepp_nrf_inst (w_app w') = map_option m_sepp_nrf_inst (w_app w) \<and>
      map_option m_sepp_n32f_forward_inst (w_app w') = map_option m_sepp_n32f_forward_inst (w_app w)"
    using nbi_serve_quiet[of w "(be_server B)\<lparr>ve_uuid := uuid\<rparr>" req] unfolding w' quiet_def by blast
  with assms(2) show ?thesis by (cases "w_app w") auto
next
  case (sbi req ans)
  then have "w_app w' = w_app w"
    by (auto simp: sbi_serve_def sbi_forward_def Let_def split: if_splits option.splits prod.splits)
  with assms(2) show ?thesis by simp
next
  case stop
  with assms(2) show ?thesis by simp
qed

lemma task_tick_single:
  assumes "ev_slots ev = [sl]" and "nrf_connection n = Some (slot_id sl)"
    and "task_tick N net n t (ev, h) = Inr (ev', h')"
  shows "(if slot_fires sl t
     then (\<exists>b. h' = h @ [heartbeat_call N n b]) \<and>
       ev_slots ev' = (if rp_status (net h') = 200 \<or> rp_status (net h') = 204 then [sl] else [])
     else ev' = ev \<and> h' = h)"
  using assms
  by (auto simp: task_tick_def trigger_nf_heartbeat_procedure_def send_http_request_def Let_def
      heartbeat_call_def disconnect_def split: option.splits if_splits)

lemma task_tick_none: "ev_slots ev = [] \<Longrightarrow> task_tick N net n t (ev, h) = Inr (ev, h)"
  by (simp add: task_tick_def)

text \<open>
  What a tick of the living application does: nothing, or one heartbeat, after which the
  subscription is there exactly when the answer was good.
\<close>

lemma tick_effect:
  assumes "heart_inv sy" and "w_app (sy_world sy) = Some a" and "m_sepp_nrf_inst a = Some n"
    and "task_tick N net n t (sy_event sy, w_history (sy_world sy)) = Inr (ev', h')"
  shows "ev' = sy_event sy \<and> h' = w_history (sy_world sy) \<or>
     (\<exists>sl b. ev_slots (sy_event sy) = [sl] \<and> nrf_connection n = Some (slot_id sl) \<and> slot_fires sl t \<and>
        h' = w_history (sy_world sy) @ [heartbeat_call N n b] \<and>
        ev_slots ev' = (if rp_status (net h') \<in> {200, 204} then [sl] else []))"
  using assms(1)
proof (cases rule: heart_invE)
  case 1
  with assms(4) show ?thesis by (simp add: task_tick_none)
next
  case (2 sl)
  then have "nrf_connection n = Some (slot_id sl)" using assms(2,3) by auto
  with task_tick_single[OF 2(1) this assms(4)] 2(1) show ?thesis by (auto split: if_splits)
qed

lemma heart_inv_step:
  assumes "system_step B e sy sy'" and inv: "heart_inv sy"
  shows "heart_inv sy'"
  using assms(1)
proof cases
  case (request e' w')
  then show ?thesis using inv world_step_keeps[OF request(3)] unfolding heart_inv_def by fastforce
next
  case (tick a n t ev' h' code)
  from tick_effect[OF inv tick(3,4,5)] tick(2,3,4) inv show ?thesis
    by (auto simp: heart_inv_def split: if_splits)
next
  case tick_unregistered
  with inv show ?thesis by simp
next
  case tick_deleted
  with inv show ?thesis by (simp add: heart_inv_def)
qed

subsection \<open>The heartbeat as an automaton\<close>

text \<open>The abstract state is whether the heartbeat is on; only its own failure turns it off.\<close>

fun heartbeat_spec :: "system_event \<Rightarrow> bool \<Rightarrow> bool" where
  "heartbeat_spec (Tick t (Some code)) beating \<longleftrightarrow> beating \<and> code \<in> {200, 204}"
| "heartbeat_spec e beating \<longleftrightarrow> beating"

definition beating :: "system \<Rightarrow> bool" where
  "beating sy \<longleftrightarrow> ev_slots (sy_event sy) \<noteq> []"

definition system_inv :: "sbi_env \<Rightarrow> system \<Rightarrow> bool" where
  "system_inv B sy \<longleftrightarrow>
     heart_inv sy \<and> (n32f_env_ok (ve_n32f (be_server B)) \<longrightarrow> world_inv (ve_app (be_server B)) (sy_world sy))"

lemma tick_world_inv:
  assumes "world_inv E w" and "h' = w_history w \<or> (\<exists>b. h' = w_history w @ [heartbeat_call N n b])"
  shows "world_inv E (w\<lparr>w_history := h'\<rparr>)"
  using assms by (auto simp: world_inv_def world_config_def heartbeat_call_def)

lemma system_inv_step:
  assumes step: "system_step B e sy sy'" and inv: "system_inv B sy"
  shows "system_inv B sy'"
proof -
  have heart: "heart_inv sy" using inv by (simp add: system_inv_def)
  have "n32f_env_ok (ve_n32f (be_server B)) \<longrightarrow> world_inv (ve_app (be_server B)) (sy_world sy')"
    using step
  proof cases
    case (request e' w')
    then show ?thesis using world_machine.inv_step[OF request(3)] inv by (simp add: system_inv_def)
  next
    case (tick a n t ev' h' code)
    from tick_effect[OF heart tick(3,4,5)]
    have "h' = w_history (sy_world sy) \<or> (\<exists>b. h' = w_history (sy_world sy) @
        [heartbeat_call (ae_nrf (ve_app (be_server B))) n b])"
      by blast
    then show ?thesis
      using tick(2) tick_world_inv[of _ "sy_world sy" h'] inv by (simp add: system_inv_def)
  next
    case tick_unregistered
    then show ?thesis using inv by (simp add: system_inv_def)
  next
    case tick_deleted
    then show ?thesis using inv by (simp add: system_inv_def)
  qed
  with heart_inv_step[OF step heart] show ?thesis by (simp add: system_inv_def)
qed

lemma heartbeat_spec_step:
  assumes "system_step B e sy sy'" and inv: "heart_inv sy"
  shows "beating sy' = heartbeat_spec e (beating sy)"
  using assms(1)
proof cases
  case (request e' w')
  then show ?thesis by (simp add: beating_def)
next
  case (tick a n t ev' h' code)
  from tick_effect[OF inv tick(3,4,5)] tick show ?thesis by (auto simp: beating_def split: if_splits)
qed (simp_all add: beating_def)

interpretation system_machine: refined_machine "system_step B" "system_inv B" beating heartbeat_spec for B
proof
  show "system_inv B sy'" if "system_step B e sy sy'" "system_inv B sy" for e sy sy'
    using that by (rule system_inv_step)
  show "beating sy' = heartbeat_spec e (beating sy)" if "system_step B e sy sy'" "system_inv B sy" for e sy sy'
    using that heartbeat_spec_step by (simp add: system_inv_def)
qed

subsection \<open>Runs of the process\<close>

lemma create_exchange_params_nrf:
  "create_exchange_params E net u s h = (s', h', r) \<Longrightarrow> m_sepp_nrf_inst s' = m_sepp_nrf_inst s"
  unfolding create_exchange_params_def Let_def
  by (auto simp: set_n32f_context_def split: option.splits prod.splits if_splits)

lemma create_exchange_capability_nrf:
  "create_exchange_capability E net u s h = (s', h', r) \<Longrightarrow> m_sepp_nrf_inst s' = m_sepp_nrf_inst s"
  unfolding create_exchange_capability_def Let_def swallow_def
  by (auto dest: create_exchange_params_nrf split: option.splits sum.splits if_splits prod.splits)

lemma register_slots:
  "register_to_nrf N net ms (n, sepp_event_init) h = Inr ((n', ev'), h') \<Longrightarrow>
     ev_slots ev' = [] \<or> (\<exists>sl. ev_slots ev' = [sl] \<and> nrf_connection n' = Some (slot_id sl))"
  by (auto simp: register_to_nrf_def send_http_request_def Let_def start_event_nf_heartbeat_def
      subscribe_task_nf_heartbeat_def sepp_event_init_def split: sum.splits option.splits if_splits)

lemma sepp_app_new_heart:
  assumes "sepp_app_new E net ms uuid uuid' sepp_event_init [] = Inr (s, ev, h)"
  shows "heart_inv \<lparr>sy_world = \<lparr>w_app = Some s, w_history = h\<rparr>, sy_event = ev, sy_dangling = False\<rparr>"
proof (cases "ae_register_nrf E")
  case False
  with assms show ?thesis by (auto simp: sepp_app_new_def heart_inv_def sepp_event_init_def)
next
  case True
  then obtain n ev' h1 where reg: "register_to_nrf (ae_nrf E) net ms (sepp_nrf_new (ae_nrf E) uuid, sepp_event_init) [] =
      Inr ((n, ev'), h1)" and "ev = ev'" "m_sepp_nrf_inst s = Some n"
    using assms unfolding sepp_app_new_def Let_def
    by (auto simp: app_instances_def dest!: create_exchange_capability_nrf
        split: sum.splits prod.splits if_splits)
  with register_slots[OF reg] show ?thesis by (auto simp: heart_inv_def)
qed

lemma system_started_inv:
  assumes "system_started B sy"
  shows "system_inv B sy \<and> started B (sy_world sy)"
proof -
  from assms obtain ms uuid uuid' s ev h where
    new: "sepp_app_new (ve_app (be_server B)) (ve_net (be_server B)) ms uuid uuid' sepp_event_init [] =
      Inr (s, ev, h)"
    and sy: "sy = \<lparr>sy_world = \<lparr>w_app = Some s, w_history = h\<rparr>, sy_event = ev, sy_dangling = False\<rparr>"
    unfolding system_started_def by blast
  have st: "started B (sy_world sy)" unfolding started_def sy using new by simp blast
  with sepp_app_new_heart[OF new] started_inv show ?thesis by (auto simp: system_inv_def sy)
qed

lemma started_system:
  assumes "started B w"
  shows "\<exists>sy. system_started B sy \<and> sy_world sy = w"
proof -
  from assms obtain ms uuid uuid' s ev h where
    new: "sepp_app_new (ve_app (be_server B)) (ve_net (be_server B)) ms uuid uuid' sepp_event_init [] =
      Inr (s, ev, h)"
    and w: "w = \<lparr>w_app = Some s, w_history = h\<rparr>"
    unfolding started_def by blast
  then have "system_started B \<lparr>sy_world = w, sy_event = ev, sy_dangling = False\<rparr>"
    unfolding system_started_def by blast
  then show ?thesis by (metis system.select_convs(1))
qed

lemma system_run_inv:
  "system_started B s0 \<Longrightarrow> steps (system_step B) es s0 sy \<Longrightarrow> system_inv B sy"
  using system_machine.inv_steps system_started_inv by blast

lemma system_run_peer_call:
  assumes "n32f_env_ok (ve_n32f (be_server B))" and "system_started B s0"
    and "steps (system_step B) es s0 sy" and "HttpCall NbiClient m r \<in> set (w_history (sy_world sy))"
  obtains url where "peer_address (ve_app (be_server B)) = Some url"
    and "peer_call (ae_security (ve_app (be_server B))) url (HttpCall NbiClient m r)"
  using system_run_inv[OF assms(2,3)] assms(1,4)
  by (auto simp: system_inv_def world_inv_def calls_ok_def)

lemma request_steps:
  "steps (world_step B) es w w' \<Longrightarrow> w = sy_world sy \<Longrightarrow>
     steps (system_step B) (map Request es) sy (sy\<lparr>sy_world := w'\<rparr>)"
proof (induction arbitrary: sy rule: steps.induct)
  case (steps_Nil w)
  then show ?case by (simp add: steps.steps_Nil)
next
  case (steps_Cons e w v es w')
  from steps_Cons(1) have "system_step B (Request e) sy (sy\<lparr>sy_world := v\<rparr>)"
    unfolding steps_Cons(4) by (rule system_step.request)
  moreover from steps_Cons(3)[of "sy\<lparr>sy_world := v\<rparr>"]
  have "steps (system_step B) (map Request es) (sy\<lparr>sy_world := v\<rparr>) (sy\<lparr>sy_world := w'\<rparr>)" by simp
  ultimately show ?case by (auto intro: steps.steps_Cons)
qed

text \<open>While the application lives, the instance that makes and accepts messages never changes.\<close>

lemma system_step_n32f:
  assumes "system_step B e sy sy'" and "w_app (sy_world sy') = Some a'"
  shows "\<exists>a. w_app (sy_world sy) = Some a \<and> m_sepp_n32f_forward_inst a' = m_sepp_n32f_forward_inst a"
  using assms(1)
proof cases
  case (request e' w')
  with world_step_keeps[OF request(3)] assms(2) show ?thesis by auto
qed (use assms(2) in simp_all)

lemma system_steps_n32f:
  "steps (system_step B) es sy sy' \<Longrightarrow> w_app (sy_world sy') = Some a' \<Longrightarrow>
     \<exists>a. w_app (sy_world sy) = Some a \<and> m_sepp_n32f_forward_inst a' = m_sepp_n32f_forward_inst a"
proof (induction rule: steps.induct)
  case (steps_Cons e s s1 es s')
  then obtain a1 where "w_app (sy_world s1) = Some a1"
    "m_sepp_n32f_forward_inst a' = m_sepp_n32f_forward_inst a1"
    by blast
  with system_step_n32f[OF steps_Cons(1)] show ?case by auto
qed simp

subsection \<open>Properties\<close>

text \<open>A process for the witnesses: a p-sepp whose NRF accepts everything.\<close>

definition demo_beat_env :: sbi_env where
  "demo_beat_env = demo_sepp_env demo_p_env (answer 200)"

lemma demo_beat_simps:
  "ve_app (be_server demo_beat_env) = demo_p_env" "ve_net (be_server demo_beat_env) = answer 200"
  "ae_nrf demo_p_env = demo_nrf_env" "ae_register_nrf demo_p_env" "\<not> ae_is_c_sepp demo_p_env"
  by (simp_all add: demo_beat_env_def demo_sepp_env_def demo_server_env_def demo_p_env_def demo_app_env_def)

lemma demo_beats:
  "\<exists>s0 n. system_started demo_beat_env s0 \<and> w_app (sy_world s0) = Some (app_instances demo_p_env n) \<and>
     nrf_connection n = Some 0 \<and>
     ev_slots (sy_event s0) = [\<lparr>slot_id = 0, slot_period = 10000, slot_start = 10000\<rparr>]"
proof -
  let ?n = "sepp_nrf_new demo_nrf_env ''i''"
  have "isl (sepp_profile_to_json (nrf_profile ?n) JNull) = False" by code_simp
  then obtain d where "sepp_profile_to_json (nrf_profile ?n) JNull = Inr d"
    by (metis isl_def sum.exhaust)
  then obtain n ev h where reg: "register_to_nrf demo_nrf_env (answer 200) 0 (?n, sepp_event_init) [] = Inr ((n, ev), h)"
    and n: "nrf_connection n = Some 0" "ev_slots ev = [\<lparr>slot_id = 0, slot_period = 10000, slot_start = 10000\<rparr>]"
    by (auto simp: register_to_nrf_def send_http_request_def Let_def answer_def demo_nrf_env_def
        start_event_nf_heartbeat_def subscribe_task_nf_heartbeat_def sepp_event_init_def heartbeat_interval_value)
  then have "sepp_app_new demo_p_env (answer 200) 0 ''i'' ''u'' sepp_event_init [] =
      Inr (app_instances demo_p_env n, ev, h)"
    using demo_beat_simps(3-5) by (simp add: sepp_app_new_def Let_def)
  then have "system_started demo_beat_env \<lparr>sy_world = \<lparr>w_app = Some (app_instances demo_p_env n),
      w_history = h\<rparr>, sy_event = ev, sy_dangling = False\<rparr>"
    unfolding system_started_def demo_beat_simps by blast
  with n show ?thesis by (intro exI conjI) (assumption, simp_all)
qed

text \<open>
  C15: the heartbeat is an automaton with two states in every run of the process, whatever
  requests the servers answer in between: it stays on while the NRF answers with 200 or 204,
  goes off with the first other answer, and nothing ever turns it on again, so a SEPP whose
  registration was lost stays unregistered.
\<close>

theorem heartbeat_refines:
  assumes "system_started B s0" and "steps (system_step B) es s0 sy"
  shows "beating sy \<longleftrightarrow>
     beating s0 \<and> (\<forall>e \<in> set es. \<forall>t code. e = Tick t (Some code) \<longrightarrow> code \<in> {200, 204})"
proof -
  have "beating sy = fold heartbeat_spec es (beating s0)"
    using system_machine.spec_steps[OF assms(2)] system_started_inv[OF assms(1)] by blast
  moreover have "fold heartbeat_spec es b \<longleftrightarrow>
      b \<and> (\<forall>e \<in> set es. \<forall>t code. e = Tick t (Some code) \<longrightarrow> code \<in> {200, 204})" for b
  proof (induction es arbitrary: b)
    case (Cons e es)
    then show ?case by (cases "(e, b)" rule: heartbeat_spec.cases) auto
  qed simp
  ultimately show ?thesis by simp
qed

theorem heartbeat_refines_witness:
  "\<exists>s0 s1. system_started demo_beat_env s0 \<and> beating s0 \<and>
     steps (system_step demo_beat_env) [Tick 10000 (Some 200)] s0 s1 \<and> beating s1"
proof -
  obtain s0 n where s0: "system_started demo_beat_env s0"
    "w_app (sy_world s0) = Some (app_instances demo_p_env n)" "nrf_connection n = Some 0"
    "ev_slots (sy_event s0) = [\<lparr>slot_id = 0, slot_period = 10000, slot_start = 10000\<rparr>]"
    using demo_beats by blast
  have nrf: "m_sepp_nrf_inst (app_instances demo_p_env n) = Some n" by (simp add: app_instances_def)
  have due: "slot_fires \<lparr>slot_id = 0, slot_period = 10000, slot_start = 10000\<rparr> 10000"
    by (simp add: slot_fires_def)
  have dump: "re_dump demo_nrf_env (heartbeat_doc demo_nrf_env) = Some ''[]''" by (simp add: demo_nrf_env_def)
  let ?h = "w_history (sy_world s0) @ [heartbeat_call demo_nrf_env n ''[]'']"
  have "task_tick (ae_nrf (ve_app (be_server demo_beat_env))) (ve_net (be_server demo_beat_env)) n 10000
      (sy_event s0, w_history (sy_world s0)) = Inr (sy_event s0, ?h)"
    unfolding demo_beat_simps using tick_ok[OF dump _ s0(4), of "answer 200" n 10000] due
    by (simp add: answer_def)
  from tick[OF s0(2) nrf this refl]
  have run: "steps (system_step demo_beat_env) [Tick 10000 (Some 200)] s0
      (s0\<lparr>sy_event := sy_event s0, sy_world := (sy_world s0)\<lparr>w_history := ?h\<rparr>\<rparr>)"
    by (auto simp: demo_beat_simps answer_def)
  have on: "beating s0" using s0(4) by (simp add: beating_def)
  from heartbeat_refines[OF s0(1) run] on
  have "beating (s0\<lparr>sy_event := sy_event s0, sy_world := (sy_world s0)\<lparr>w_history := ?h\<rparr>\<rparr>)" by simp
  with run on s0(1) show ?thesis by blast
qed

text \<open>A termination request that the SEPP of the witnesses acknowledges.\<close>

definition demo_terminate :: server_request where
  "demo_terminate = post ''/n32c-handshake/v1/n32f-terminate'' (wr (JObj [(''n32fContextId'', JStr ''5e9b'')]))"

lemma demo_terminated:
  fixes h defines "w \<equiv> \<lparr>w_app = Some (demo_sepp (Some demo_url)), w_history = h\<rparr>"
  shows "\<exists>s1 head. nbi_serve (be_server (demo_sepp_env demo_app_env (answer 0))) demo_terminate w =
     (w\<lparr>w_app := Some s1\<rparr>, head) \<and> status_of (fst head) = Some 200"
proof -
  let ?B = "demo_sepp_env demo_app_env (answer 0)"
  have e: "ae_n32c demo_app_env = demo_n32c_env" "ve_n32f (be_server ?B) = demo_wire_env"
    "ve_app (be_server ?B) = demo_app_env" "ve_context_valid (be_server ?B) = (\<lambda>c. True)"
    by (simp_all add: demo_sepp_env_def demo_server_env_def demo_app_env_def demo_wire_env_def demo_n32f_env_def)
  obtain c where c: "m_sepp_n32c_handshake_inst (demo_sepp (Some demo_url)) = Some c"
    by (simp add: demo_sepp_def app_instances_def)
  have ctx: "ne_context_from demo_n32c_env (JObj [(''n32fContextId'', JStr ''5e9b'')]) =
      Some \<lparr>ci_context_id = ''5e9b''\<rparr>"
    by (simp add: demo_n32c_env_def)
  obtain s1 j hs where nbi: "nbi_n32f_terminate (be_server ?B) (JObj [(''n32fContextId'', JStr ''5e9b'')]) JNull [] w =
      (w\<lparr>w_app := Some s1\<rparr>, j, hs, Inr True)"
    unfolding nbi_n32f_terminate_def e ctx w_def
    by (simp add: on_app_def app_n32f_terminate_req_def with_n32c_def c e handle_n32f_terminate_req_def ctx Let_def)
  have served: "\<exists>head. nbi_serve (be_server ?B) (post ''/n32c-handshake/v1/n32f-terminate'' t) w =
        (w\<lparr>w_app := Some s1\<rparr>, head) \<and> status_of (fst head) = Some 200"
    if "fe_parse demo_wire_env t = Some (JObj [(''n32fContextId'', JStr ''5e9b'')])" for t
    using that nbi unfolding w_def
    by (cases "t = []") (auto simp: nbi_serve_def post_def process_post_request_def post_answer_def ok_answer_def
        end_dump_def e e(2)[unfolded e(3)] demo_wire_env_def Let_def)
  have "fe_parse demo_wire_env (wr d) = Some d" for d by (simp add: demo_wire_env_def)
  from served[OF this] show ?thesis unfolding demo_terminate_def by blast
qed

text \<open>
  C10: the instance that makes and accepts the messages of the other network is not changed by
  any request: in every run, as long as the application lives, it is the one of the start.
  A message is processed after a termination the peer asked for, and that was acknowledged,
  exactly as before, and the own messages keep the context identifier that was terminated.
\<close>

theorem termination_without_effect:
  assumes run: "system_started B s0" "steps (system_step B) es s0 sy" and app: "w_app (sy_world sy) = Some s"
  shows "\<exists>a. w_app (sy_world s0) = Some a \<and> m_sepp_n32f_forward_inst s = m_sepp_n32f_forward_inst a \<and>
     (\<forall>d r hs h. app_n32f_process (ve_app (be_server B)) (ve_net (be_server B)) s d r hs h =
          app_n32f_process (ve_app (be_server B)) (ve_net (be_server B)) a d r hs h \<and>
        app_n32f_forward (ve_app (be_server B)) (ve_net (be_server B)) s d r hs h =
          app_n32f_forward (ve_app (be_server B)) (ve_net (be_server B)) a d r hs h)"
  using system_steps_n32f[OF run(2) app] by (auto simp: app_n32f_process_def app_n32f_forward_def)

theorem termination_without_effect_witness:
  "\<exists>s0 s1 w' head. system_started (demo_sepp_env demo_app_env (answer 0)) s0 \<and>
     nbi_serve (be_server (demo_sepp_env demo_app_env (answer 0))) demo_terminate (sy_world s0) = (w', head) \<and>
     status_of (fst head) = Some 200 \<and>
     w_app w' = Some s1 \<and> m_sepp_n32f_forward_inst s1 = m_sepp_n32f_forward_inst (demo_sepp (Some demo_url))"
proof -
  let ?B = "demo_sepp_env demo_app_env (answer 0)"
  obtain h r where s: "started ?B \<lparr>w_app = Some (demo_sepp (Some demo_url)), w_history = h\<rparr>" "HttpCall NbiClient POST r \<in> set h"
    using demo_started by blast
  let ?w = "\<lparr>w_app = Some (demo_sepp (Some demo_url)), w_history = h\<rparr>"
  obtain sy where sy: "system_started ?B sy" "sy_world sy = ?w"
    using started_system[OF s(1)] by blast
  obtain s1 head where ans: "nbi_serve (be_server ?B) demo_terminate ?w = (?w\<lparr>w_app := Some s1\<rparr>, head)"
      "status_of (fst head) = Some 200"
    using demo_terminated by blast
  have v: "(be_server ?B)\<lparr>ve_uuid := ve_uuid (be_server ?B)\<rparr> = be_server ?B" by simp
  have "world_step ?B (NbiRequest (ve_uuid (be_server ?B)) demo_terminate) (sy_world sy) (?w\<lparr>w_app := Some s1\<rparr>)"
    by (rule world_step.nbi, unfold v sy(2)) (rule ans(1))
  from system_step.request[OF this]
  have "steps (system_step ?B) [Request (NbiRequest (ve_uuid (be_server ?B)) demo_terminate)] sy
      (sy\<lparr>sy_world := ?w\<lparr>w_app := Some s1\<rparr>\<rparr>)"
    by (rule steps.steps_Cons) (rule steps.steps_Nil)
  from termination_without_effect[OF sy(1) this, of s1]
  have "m_sepp_n32f_forward_inst s1 = m_sepp_n32f_forward_inst (demo_sepp (Some demo_url))" by (simp add: sy(2))
  with sy ans show ?thesis by (intro exI conjI) (assumption | simp)+
qed

text \<open>
  C8: the key of the N32-f instance is never set, so in every run the body of a message is
  only encoded: without a key, initialisation vector and tag are empty and anyone can read
  the payload.
\<close>

theorem prins_never_encrypts:
  assumes ok: "n32f_env_ok (ve_n32f (be_server B))" and run: "system_started B s0" "steps (system_step B) es s0 sy"
    and s: "w_app (sy_world sy) = Some s" "m_sepp_n32f_forward_inst s = Some f" and small: "b64_small body"
    and build: "build_reformatted_data (ve_n32f (be_server B)) f method path authority body ctx hs =
       Inr (Some jwe)"
  shows "fj_iv jwe = [] \<and> fj_tag jwe = [] \<and>
     base64url_decode (fe_jose (ve_n32f (be_server B))) (fj_ciphertext jwe) = body"
proof -
  have "app_config (ae_security (ve_app (be_server B))) s"
    using system_run_inv[OF run] ok s(1) by (simp add: system_inv_def world_inv_def world_config_def)
  from body_only_encoded[OF this s(2) ok small build] show ?thesis .
qed

theorem prins_never_encrypts_witness:
  "\<exists>w s f jwe. started (demo_sepp_env demo_app_env (answer 0)) w \<and> w_app w = Some s \<and>
     m_sepp_n32f_forward_inst s = Some f \<and>
     build_reformatted_data demo_wire_env f ''POST'' ''/p'' ''udm'' ''secret'' ''c'' [] = Inr (Some jwe) \<and>
     base64url_decode demo_jose_env (fj_ciphertext jwe) = ''secret''"
proof -
  let ?B = "demo_sepp_env demo_app_env (answer 0)"
  obtain h r where s: "started ?B \<lparr>w_app = Some (demo_sepp (Some demo_url)), w_history = h\<rparr>" "HttpCall NbiClient POST r \<in> set h"
    using demo_started by blast
  obtain sy where sy: "system_started ?B sy" "sy_world sy = \<lparr>w_app = Some (demo_sepp (Some demo_url)), w_history = h\<rparr>"
    using started_system[OF s(1)] by blast
  then have app: "w_app (sy_world sy) = Some (demo_sepp (Some demo_url))" by simp
  have ok: "n32f_env_ok (ve_n32f (be_server ?B))"
    by (rule demo_sepp_env_ok) (simp add: demo_app_env_def)
  have e: "ve_n32f (be_server ?B) = demo_wire_env" by (simp add: demo_sepp_env_def demo_app_env_def)
  obtain f where f: "m_sepp_n32f_forward_inst (demo_sepp (Some demo_url)) = Some f" "m_enc_key f = []"
    by (simp add: demo_sepp_def app_instances_def n32f_init_def)
  obtain jwe where b: "build_reformatted_data demo_wire_env f ''POST'' ''/p'' ''udm'' ''secret'' ''c'' [] =
      Inr (Some jwe)"
    using build_without_key[OF demo_wire_env_ok(1) f(2)] by blast
  have "base64url_decode (fe_jose demo_wire_env) (fj_ciphertext jwe) = ''secret''"
    using prins_never_encrypts[OF ok sy(1) steps_Nil app f(1) _ b[folded e]]
    by (simp add: e b64_small_short)
  moreover have "fe_jose demo_wire_env = demo_jose_env"
    by (simp add: demo_wire_env_def demo_n32f_env_def)
  ultimately show ?thesis using s(1) f(1) b by (metis world.select_convs(1))
qed

text \<open>
  C27: a SEPP with the role p-sepp cannot send requests of its own network functions: in every
  run, each of them is answered with 502, nothing is sent and nothing changes.
\<close>

theorem p_sepp_forwards_nothing:
  assumes ok: "n32f_env_ok (ve_n32f (be_server B))" and run: "system_started B s0" "steps (system_step B) es s0 sy"
    and role: "\<not> ae_is_c_sepp (ve_app (be_server B))" and app: "w_app (sy_world sy) \<noteq> None"
    and req: "sr_path req \<noteq> ''/nsepp-telescopic/v1/mapping''" "collect_body (sr_chunks req) [] \<noteq> None"
      "sbi_authority (sr_header req) \<noteq> []"
  shows "sbi_serve B req (sy_world sy) =
     (sy_world sy, ([WriteHead 502 [], EndBody ''NF service forwarding failed''], Inr ()))"
proof -
  obtain s body where s: "w_app (sy_world sy) = Some s" and b: "collect_body (sr_chunks req) [] = Some body"
    using app req(2) by auto
  have "m_remote_sepp_url s = None"
    using system_run_inv[OF run] ok s role by (auto simp: system_inv_def world_inv_def shape_def peer_address_def)
  then have "handle_nf_service_request E net s a p m bd r h = (r, h, Inr False)" for E net a p m bd r h
    by (simp add: handle_nf_service_request_def split: option.split)
  with s b req show ?thesis by (simp add: sbi_serve_def sbi_forward_def Let_def)
qed

theorem p_sepp_forwards_nothing_witness:
  "\<exists>w. started (demo_sepp_env demo_p_env (answer 0)) w \<and>
     sbi_serve (demo_sepp_env demo_p_env (answer 0))
       \<lparr>sr_method = ''GET'', sr_path = ''/x'', sr_raw_query = [], sr_header = [(''host'', ''udm'')],
        sr_chunks = [[]]\<rparr> w =
       (w, ([WriteHead 502 [], EndBody ''NF service forwarding failed''], Inr ()))"
proof -
  let ?B = "demo_sepp_env demo_p_env (answer 0)"
  obtain h where s: "started ?B \<lparr>w_app = Some (app_instances demo_p_env (sepp_nrf_new demo_nrf_env ''i'')),
      w_history = h\<rparr>"
    using demo_p_started by blast
  obtain sy where sy: "system_started ?B sy" "sy_world sy = \<lparr>w_app = Some (app_instances demo_p_env
      (sepp_nrf_new demo_nrf_env ''i'')), w_history = h\<rparr>"
    using started_system[OF s] by blast
  have ok: "n32f_env_ok (ve_n32f (be_server ?B))"
    by (rule demo_sepp_env_ok) (simp add: demo_p_env_def demo_app_env_def)
  have r: "\<not> ae_is_c_sepp (ve_app (be_server ?B))"
    by (simp add: demo_sepp_env_def demo_p_env_def)
  show ?thesis
    by (rule exI, rule conjI[OF s], rule p_sepp_forwards_nothing[OF ok sy(1) steps_Nil r, unfolded sy(2)])
      (simp_all add: sbi_authority_def get_authority_def Let_def)
qed

text \<open>
  The slot of the heartbeat is due again within one period, as long as the clock does not wrap.
\<close>

lemma slot_due:
  assumes "slot_period sl = of_nat P" and "slot_start sl = of_nat S" and "0 < P" and "P < 2 ^ 64"
    and "S \<le> T" and "T + P < 2 ^ 64"
  shows "\<exists>k < P. slot_fires sl (of_nat (T + k))"
proof -
  let ?r = "(T - S) mod P" and ?k = "(P - (T - S) mod P) mod P"
  have k: "?k < P" using assms(3) by simp
  have "(T + ?k - S) mod P = (?r + ?k) mod P"
    using assms(5) by (metis Nat.add_diff_assoc2 mod_add_left_eq)
  also have "\<dots> = (?r + (P - ?r)) mod P" by (simp add: mod_add_right_eq)
  also have "\<dots> = 0" using assms(3) by (simp add: less_imp_le)
  finally have "(T + ?k - S) mod P = 0" .
  moreover have "S < 2 ^ 64" "T + ?k < 2 ^ 64" using assms(5,6) k by linarith+
  ultimately have "slot_fires sl (of_nat (T + ?k))"
    by (subst slot_fires_nat[OF assms(1,2,4)]) (use assms(5) in simp_all)
  with k show ?thesis by blast
qed



end
