(* ===== verification/Sepp_Config.thy ===== *)
theory Sepp_Config
  imports Sepp_World
begin

text \<open>
  \<^verbatim>\<open>sepp_config\<close> (src/sepp_app): the part of the configuration that is the SEPP's own, read from
  the section of a YAML file, and the environment the application makes of it.
\<close>

subsection \<open>The configuration\<close>

datatype sepp_role = C_SEPP | P_SEPP

text \<open>With an enumeration, statements about all roles can be evaluated.\<close>

instantiation sepp_role :: enum
begin

definition enum_sepp_role :: "sepp_role list" where
  "enum_sepp_role = [C_SEPP, P_SEPP]"

definition enum_all_sepp_role :: "(sepp_role \<Rightarrow> bool) \<Rightarrow> bool" where
  "enum_all_sepp_role P \<longleftrightarrow> P C_SEPP \<and> P P_SEPP"

definition enum_ex_sepp_role :: "(sepp_role \<Rightarrow> bool) \<Rightarrow> bool" where
  "enum_ex_sepp_role P \<longleftrightarrow> P C_SEPP \<or> P P_SEPP"

instance
proof
  have u: "(UNIV :: sepp_role set) = {C_SEPP, P_SEPP}"
    by (auto intro: sepp_role.exhaust)
  then show "(UNIV :: sepp_role set) = set Enum.enum" by (simp add: enum_sepp_role_def)
  show "distinct (Enum.enum :: sepp_role list)" by (simp add: enum_sepp_role_def)
  show "Enum.enum_all P \<longleftrightarrow> Ball UNIV P" for P :: "sepp_role \<Rightarrow> bool"
    by (simp add: enum_all_sepp_role_def u)
  show "Enum.enum_ex P \<longleftrightarrow> Bex UNIV P" for P :: "sepp_role \<Rightarrow> bool"
    by (simp add: enum_ex_sepp_role_def u)
qed

end

record sepp_config =
  c_role :: string
  c_sepp_role_enum :: sepp_role
  c_security :: string
  c_disable_tls :: bool
  c_server_private_key :: string
  c_server_cert :: string
  c_client_cacert :: string

definition sepp_config_init :: sepp_config where
  "sepp_config_init = \<lparr>c_role = ''c-sepp'', c_sepp_role_enum = C_SEPP, c_security = ''PRINS'',
     c_disable_tls = False, c_server_private_key = [], c_server_cert = [], c_client_cacert = []\<rparr>"

definition get_security :: "sepp_config \<Rightarrow> string" where "get_security c = c_security c"
definition is_tls_enabled :: "sepp_config \<Rightarrow> bool" where "is_tls_enabled c \<longleftrightarrow> \<not> c_disable_tls c"
definition is_tls_disabled :: "sepp_config \<Rightarrow> bool" where "is_tls_disabled c \<longleftrightarrow> c_disable_tls c"
definition get_role_enum :: "sepp_config \<Rightarrow> sepp_role" where "get_role_enum c = c_sepp_role_enum c"
definition is_c_sepp :: "sepp_config \<Rightarrow> bool" where "is_c_sepp c \<longleftrightarrow> c_sepp_role_enum c = C_SEPP"
definition is_p_sepp :: "sepp_config \<Rightarrow> bool" where "is_p_sepp c \<longleftrightarrow> c_sepp_role_enum c = P_SEPP"

subsection \<open>Reading the file\<close>

text \<open>
  The YAML library and the value classes of the common code are parameters, for any type of
  nodes. \<open>ye_get\<close> is the subscript: \<open>None\<close> where it throws, \<open>Some None\<close> for a node that is not
  there. \<open>ye_string\<close> and \<open>ye_bool\<close> are \<^verbatim>\<open>from_yaml\<close> of a string and of an option value, \<open>None\<close>
  where they throw a \<^verbatim>\<open>YAML::Exception\<close>, which is \<open>ParseError\<close> here. \<open>ye_base_read\<close> is
  \<^verbatim>\<open>config::read_from_file\<close>, which comes first.
\<close>

record 'y yaml_env =
  ye_base_read :: "string \<Rightarrow> exn option"
  ye_load :: "string \<Rightarrow> 'y option"
  ye_get :: "'y \<Rightarrow> string \<Rightarrow> 'y option option"
  ye_string :: "'y \<Rightarrow> string option"
  ye_bool :: "'y \<Rightarrow> bool option"
  ye_sepp_name :: string

type_synonym reader = "sepp_config \<Rightarrow> sepp_config \<times> exn option"

definition yaml_member :: "'y yaml_env \<Rightarrow> 'y \<Rightarrow> string \<Rightarrow> ('y \<Rightarrow> reader) \<Rightarrow> reader" where
  "yaml_member Y node key f cfg =
     (case ye_get Y node key of
        None \<Rightarrow> (cfg, Some ParseError)
      | Some None \<Rightarrow> (cfg, None)
      | Some (Some n) \<Rightarrow> f n cfg)"

definition from_yaml :: "('y \<Rightarrow> 'v option) \<Rightarrow> ('v \<Rightarrow> sepp_config \<Rightarrow> sepp_config) \<Rightarrow> 'y \<Rightarrow> reader" where
  "from_yaml get upd node cfg =
     (case get node of None \<Rightarrow> (cfg, Some ParseError) | Some v \<Rightarrow> (upd v cfg, None))"

definition parse_role :: reader where
  "parse_role cfg =
     (if c_role cfg = ''c-sepp'' then (cfg\<lparr>c_sepp_role_enum := C_SEPP\<rparr>, None)
      else if c_role cfg = ''p-sepp'' then (cfg\<lparr>c_sepp_role_enum := P_SEPP\<rparr>, None)
      else (cfg, Some InvalidArgument))"

definition read_tls :: "'y yaml_env \<Rightarrow> 'y \<Rightarrow> reader" where
  "read_tls Y tls_node = seq_reads
     [yaml_member Y tls_node ''server'' (\<lambda>server_node. seq_reads
        [yaml_member Y server_node ''private_key''
           (from_yaml (ye_string Y) (\<lambda>v c. c\<lparr>c_server_private_key := v\<rparr>)),
         yaml_member Y server_node ''cert'' (from_yaml (ye_string Y) (\<lambda>v c. c\<lparr>c_server_cert := v\<rparr>))]),
      yaml_member Y tls_node ''client'' (\<lambda>client_node.
        yaml_member Y client_node ''cacert''
          (from_yaml (ye_string Y) (\<lambda>v c. c\<lparr>c_client_cacert := v\<rparr>)))]"

definition read_sepp_node :: "'y yaml_env \<Rightarrow> 'y \<Rightarrow> reader" where
  "read_sepp_node Y sepp_node = seq_reads
     [yaml_member Y sepp_node ''role'' (\<lambda>n. seq_reads
        [from_yaml (ye_string Y) (\<lambda>v c. c\<lparr>c_role := v\<rparr>) n, parse_role]),
      yaml_member Y sepp_node ''security'' (from_yaml (ye_string Y) (\<lambda>v c. c\<lparr>c_security := v\<rparr>)),
      yaml_member Y sepp_node ''disable_tls'' (from_yaml (ye_bool Y) (\<lambda>v c. c\<lparr>c_disable_tls := v\<rparr>)),
      (\<lambda>cfg. if is_tls_enabled cfg then yaml_member Y sepp_node ''tls'' (read_tls Y) cfg else (cfg, None))]"

text \<open>Only YAML exceptions are caught, and turned into a \<^verbatim>\<open>std::runtime_error\<close>.\<close>

definition read_from_file :: "'y yaml_env \<Rightarrow> string \<Rightarrow> reader" where
  "read_from_file Y file_path cfg =
     (case ye_base_read Y file_path of
        Some e \<Rightarrow> (cfg, Some e)
      | None \<Rightarrow>
          (case (case ye_load Y file_path of
                   None \<Rightarrow> (cfg, Some ParseError)
                 | Some root_node \<Rightarrow> yaml_member Y root_node (ye_sepp_name Y) (read_sepp_node Y) cfg) of
             (cfg', Some e) \<Rightarrow> (cfg', Some (if e = ParseError then RuntimeError else e))
           | (cfg', None) \<Rightarrow> (cfg', None)))"

definition sepp_config_new :: "'y yaml_env \<Rightarrow> string \<Rightarrow> sepp_config result" where
  "sepp_config_new Y config_path =
     (case read_from_file Y config_path sepp_config_init of
        (cfg, None) \<Rightarrow> Inr cfg
      | (cfg, Some e) \<Rightarrow> Inl e)"

text \<open>The list of APIs the program describes itself with.\<close>

definition api_entry :: "string \<Rightarrow> string \<Rightarrow> string \<Rightarrow> string \<Rightarrow> json" where
  "api_entry api method path details = JObj
     [(''API'', JStr api), (''Method'', JStr method), (''URI Path'', JStr path), (''Details'', JStr details)]"

definition sepp_api_list :: json where
  "sepp_api_list = JObj
     [(''Organisation'', JStr ''Openairinterface Software Aliance''),
      (''Description'', JStr ''OAI-SEPP (Security Edge Protection Proxy) initial Release''),
      (''Version'', JStr ''1.0.0''),
      (''Supported APIs'', JArr
         [api_entry ''n32c: Security Capability Negotiation'' ''POST''
            ''/n32c-handshake/<api_version>/exchange-capability''
            ''Initiate the handshake procedure between two SEPPs'',
          api_entry ''n32c: Parameter Exchange'' ''POST''
            ''/n32c-handshake/<api_version>/exchange-params''
            ''Initiate the handshake procedure between two SEPPs'',
          api_entry ''n32c: N32-f Error Report'' ''POST''
            ''/n32c-handshake/<api_version>/n32f-error'' ''Report the error to the remote SEPP'',
          api_entry ''n32c: N32-f Context Terminate'' ''POST''
            ''/n32c-handshake/<api_version>/n32f-terminate''
            ''Terminate the PDU Session context at the remote SEPP'',
          api_entry ''n32f: Forwarding'' ''POST'' ''/n32f-forward/<api_version>/n32f-process''
            ''Forward the PDU Session data to the remote SEPP '',
          api_entry ''n32f: Forwarding'' ''OPTIONS'' ''/n32f-forward/<api_version>/n32f-process''
            ''Discover communication options supported by next hop (IPX or SEPP)''])]"

definition config_get_api_list :: "json \<Rightarrow> (json \<times> bool) result" where
  "config_get_api_list api_list =
     (case jset ''OAI-SEPP'' sepp_api_list api_list of Inl e \<Rightarrow> Inl e | Inr j \<Rightarrow> Inr (j, True))"

subsection \<open>What the application sees\<close>

text \<open>
  The rest of the environment, the roaming partners and the registration switch among it,
  comes from the common code.
\<close>

definition configured :: "sepp_config \<Rightarrow> app_env \<Rightarrow> app_env" where
  "configured cfg E = E\<lparr>ae_security := get_security cfg,
     ae_is_c_sepp := (get_role_enum cfg = C_SEPP), ae_tls_enabled := is_tls_enabled cfg\<rparr>"

subsection \<open>What a configuration that was read satisfies\<close>

text \<open>
  A configuration is consistent when the enumeration says what the string says, and when no
  TLS material is held while TLS is disabled.
\<close>

definition role_consistent :: "sepp_config \<Rightarrow> bool" where
  "role_consistent c \<longleftrightarrow>
     (c_role c = ''c-sepp'' \<and> c_sepp_role_enum c = C_SEPP) \<or>
     (c_role c = ''p-sepp'' \<and> c_sepp_role_enum c = P_SEPP)"

definition tls_material :: "sepp_config \<Rightarrow> string list" where
  "tls_material c = [c_server_private_key c, c_server_cert c, c_client_cacert c]"

lemma yaml_member_inv:
  assumes "yaml_member Y n k f c = (c', None)" and "P c"
    and "\<And>m c'. f m c = (c', None) \<Longrightarrow> P c'"
  shows "P c'"
  using assms by (auto simp: yaml_member_def split: option.splits)

lemma from_yaml_inv:
  assumes "from_yaml get upd n c = (c', None)" and "\<And>v. P (upd v c)"
  shows "P c'"
  using assms by (auto simp: from_yaml_def split: option.splits)

lemma seq_reads_inv:
  assumes "seq_reads fs c = (c', None)" and "P c"
    and "\<And>f c c'. f \<in> set fs \<Longrightarrow> P c \<Longrightarrow> f c = (c', None) \<Longrightarrow> P c'"
  shows "P c'"
  using assms
proof (induction fs arbitrary: c)
  case (Cons f fs)
  from Cons.prems(1) obtain d where d: "f c = (d, None)" "seq_reads fs d = (c', None)"
    by (auto split: prod.splits option.splits)
  have "P d" using Cons.prems(3)[where f = f and c = c, OF _ Cons.prems(2) d(1)] by simp
  with d(2) show ?case by (rule Cons.IH) (use Cons.prems(3) in auto)
qed simp

lemma parse_role_consistent: "parse_role c = (c', None) \<Longrightarrow> role_consistent c'"
  by (auto simp: parse_role_def role_consistent_def split: if_splits)

lemma role_reader:
  assumes "yaml_member Y n ''role''
      (\<lambda>n. seq_reads [from_yaml (ye_string Y) (\<lambda>v c. c\<lparr>c_role := v\<rparr>) n, parse_role]) c = (c', None)"
    and "role_consistent c"
  shows "role_consistent c' \<and> tls_material c' = tls_material c"
  using assms(1)
proof (rule yaml_member_inv)
  fix m c'
  assume "seq_reads [from_yaml (ye_string Y) (\<lambda>v c. c\<lparr>c_role := v\<rparr>) m, parse_role] c = (c', None)"
  then obtain d where d: "from_yaml (ye_string Y) (\<lambda>v c. c\<lparr>c_role := v\<rparr>) m c = (d, None)"
    "parse_role d = (c', None)"
    by (auto split: prod.splits option.splits)
  have "tls_material d = tls_material c"
    using d(1) by (rule from_yaml_inv) (simp add: tls_material_def)
  moreover have "tls_material c' = tls_material d"
    using d(2) by (auto simp: parse_role_def tls_material_def split: if_splits)
  ultimately show "role_consistent c' \<and> tls_material c' = tls_material c"
    using parse_role_consistent[OF d(2)] by simp
qed (use assms(2) in simp)

lemma read_tls_inv:
  assumes "read_tls Y n c = (c', None)" and P: "P c"
    and u: "\<And>v c. P c \<Longrightarrow> P (c\<lparr>c_server_private_key := v\<rparr>)" "\<And>v c. P c \<Longrightarrow> P (c\<lparr>c_server_cert := v\<rparr>)"
      "\<And>v c. P c \<Longrightarrow> P (c\<lparr>c_client_cacert := v\<rparr>)"
  shows "P c'"
proof -
  have m: "P d'" if "yaml_member Y k key (from_yaml (ye_string Y) upd) d = (d', None)" "P d"
    "\<And>v. P (upd v d)" for k key upd d d'
    using that(1,2) by (rule yaml_member_inv) (rule from_yaml_inv, assumption, rule that(3))
  have server: "P d'" if "seq_reads
      [yaml_member Y k ''private_key'' (from_yaml (ye_string Y) (\<lambda>v c. c\<lparr>c_server_private_key := v\<rparr>)),
       yaml_member Y k ''cert'' (from_yaml (ye_string Y) (\<lambda>v c. c\<lparr>c_server_cert := v\<rparr>))] d = (d', None)"
      "P d" for k d d'
    using that by (rule seq_reads_inv) (use m u in fastforce)
  from assms(1) P show ?thesis
    unfolding read_tls_def
  proof (rule seq_reads_inv)
    fix f d d'
    assume f: "f \<in> set [yaml_member Y n ''server'' (\<lambda>server_node. seq_reads
        [yaml_member Y server_node ''private_key''
           (from_yaml (ye_string Y) (\<lambda>v c. c\<lparr>c_server_private_key := v\<rparr>)),
         yaml_member Y server_node ''cert'' (from_yaml (ye_string Y) (\<lambda>v c. c\<lparr>c_server_cert := v\<rparr>))]),
      yaml_member Y n ''client'' (\<lambda>client_node.
        yaml_member Y client_node ''cacert''
          (from_yaml (ye_string Y) (\<lambda>v c. c\<lparr>c_client_cacert := v\<rparr>)))]"
      and d: "P d" "f d = (d', None)"
    from f d(2) consider
      "yaml_member Y n ''server'' (\<lambda>server_node. seq_reads
        [yaml_member Y server_node ''private_key''
           (from_yaml (ye_string Y) (\<lambda>v c. c\<lparr>c_server_private_key := v\<rparr>)),
         yaml_member Y server_node ''cert'' (from_yaml (ye_string Y) (\<lambda>v c. c\<lparr>c_server_cert := v\<rparr>))]) d = (d', None)"
      | "yaml_member Y n ''client'' (\<lambda>client_node.
        yaml_member Y client_node ''cacert''
          (from_yaml (ye_string Y) (\<lambda>v c. c\<lparr>c_client_cacert := v\<rparr>))) d = (d', None)"
      by auto
    then show "P d'"
      by cases (erule yaml_member_inv, rule d(1), erule server, rule d(1),
        erule yaml_member_inv, rule d(1), erule m, rule d(1), rule u(3), rule d(1))
  qed
qed

lemma read_sepp_node_consistent:
  assumes "read_sepp_node Y n c = (c', None)" and "role_consistent c" and "tls_material c = [[], [], []]"
  shows "role_consistent c' \<and> (is_tls_disabled c' \<longrightarrow> tls_material c' = [[], [], []])"
proof -
  let ?role = "yaml_member Y n ''role''
      (\<lambda>n. seq_reads [from_yaml (ye_string Y) (\<lambda>v c. c\<lparr>c_role := v\<rparr>) n, parse_role])"
  let ?sec = "yaml_member Y n ''security'' (from_yaml (ye_string Y) (\<lambda>v c. c\<lparr>c_security := v\<rparr>))"
  let ?dis = "yaml_member Y n ''disable_tls'' (from_yaml (ye_bool Y) (\<lambda>v c. c\<lparr>c_disable_tls := v\<rparr>))"
  let ?P = "\<lambda>c. role_consistent c \<and> tls_material c = [[], [], []]"
  obtain c1 where 1: "?role c = (c1, None)"
    and r1: "seq_reads [?sec, ?dis, (\<lambda>cfg. if is_tls_enabled cfg
        then yaml_member Y n ''tls'' (read_tls Y) cfg else (cfg, None))] c1 = (c', None)"
    using assms(1) unfolding read_sepp_node_def seq_reads.simps(2)[of ?role]
    by (auto simp del: seq_reads.simps split: prod.splits option.splits)
  obtain c2 c3 where 2: "?sec c1 = (c2, None)" and 3: "?dis c2 = (c3, None)"
    and t: "(if is_tls_enabled c3 then yaml_member Y n ''tls'' (read_tls Y) c3 else (c3, None)) = (c', None)"
    using r1 by (auto split: prod.splits option.splits)
  have "?P c1" using role_reader[OF 1] assms(2,3) by simp
  with 2 have "?P c2"
    by (elim yaml_member_inv from_yaml_inv) (simp_all add: role_consistent_def tls_material_def)
  with 3 have p3: "?P c3"
    by (elim yaml_member_inv from_yaml_inv) (simp_all add: role_consistent_def tls_material_def)
  show ?thesis
  proof (cases "is_tls_enabled c3")
    case True
    with t have "yaml_member Y n ''tls'' (read_tls Y) c3 = (c', None)" by simp
    then have "role_consistent c' \<and> is_tls_enabled c'"
      by (rule yaml_member_inv[where P = "\<lambda>c. role_consistent c \<and> is_tls_enabled c"])
        (use True p3 in simp,
         erule read_tls_inv, use True p3 in \<open>auto simp: role_consistent_def is_tls_enabled_def\<close>)
    then show ?thesis by (simp add: is_tls_enabled_def is_tls_disabled_def)
  next
    case False
    with t p3 show ?thesis by simp
  qed
qed

lemma config_read_consistent:
  assumes "sepp_config_new Y path = Inr cfg"
  shows "role_consistent cfg \<and> (is_tls_disabled cfg \<longrightarrow> tls_material cfg = [[], [], []])"
proof -
  have init: "role_consistent sepp_config_init" "tls_material sepp_config_init = [[], [], []]"
    by (simp_all add: role_consistent_def tls_material_def sepp_config_init_def)
  show ?thesis
    using assms init
    by (auto simp: sepp_config_new_def read_from_file_def yaml_member_def
        dest: read_sepp_node_consistent split: prod.splits option.splits if_splits)
qed

text \<open>
  C34: a configuration that was read without an exception has one of the two roles, the
  enumeration the rest of the program decides by agrees with the text of the file, and while
  TLS is disabled no certificate or key was taken over, whatever the file says.
\<close>

theorem config_consistent:
  assumes "sepp_config_new Y path = Inr cfg"
  shows "(c_role cfg = ''c-sepp'' \<and> is_c_sepp cfg \<or> c_role cfg = ''p-sepp'' \<and> is_p_sepp cfg) \<and>
     (is_tls_disabled cfg \<longrightarrow>
        c_server_private_key cfg = [] \<and> c_server_cert cfg = [] \<and> c_client_cacert cfg = [])"
  using config_read_consistent[OF assms]
  by (auto simp: role_consistent_def tls_material_def is_c_sepp_def is_p_sepp_def)

text \<open>A YAML library for the witnesses, whose nodes are documents.\<close>

definition demo_yaml :: "json option \<Rightarrow> json yaml_env" where
  "demo_yaml root = \<lparr>ye_base_read = (\<lambda>_. None), ye_load = (\<lambda>_. root),
     ye_get = (\<lambda>n k. if is_object n then Some (jfind n k) else None),
     ye_string = (\<lambda>n. case n of JStr s \<Rightarrow> Some s | _ \<Rightarrow> None),
     ye_bool = (\<lambda>n. case n of JBool b \<Rightarrow> Some b | _ \<Rightarrow> None), ye_sepp_name = ''sepp''\<rparr>"

definition demo_yaml_file :: "string \<Rightarrow> string \<Rightarrow> bool \<Rightarrow> json" where
  "demo_yaml_file role sec disable = JObj [(''sepp'', JObj
     [(''role'', JStr role), (''security'', JStr sec), (''disable_tls'', JBool disable),
      (''tls'', JObj [(''server'', JObj [(''cert'', JStr ''c.pem'')])])])]"

theorem config_consistent_witness:
  "\<exists>cfg. sepp_config_new (demo_yaml (Some (demo_yaml_file ''p-sepp'' ''PRINS'' True))) ''f'' = Inr cfg \<and>
     is_p_sepp cfg \<and> is_tls_disabled cfg \<and> c_server_cert cfg = []"
proof -
  let ?r = "sepp_config_new (demo_yaml (Some (demo_yaml_file ''p-sepp'' ''PRINS'' True))) ''f''"
  have e: "isl ?r = False" "is_p_sepp (projr ?r)" "is_tls_disabled (projr ?r)" by code_simp+
  then obtain cfg where cfg: "?r = Inr cfg" by (cases ?r) auto
  with config_consistent[OF cfg] e show ?thesis by auto
qed

text \<open>
  What reading the configuration can end with. A file without a section for the SEPP
  leaves the defaults; a role that is none of the two is refused with the exception of the
  code, a section the library cannot read with a runtime error, and any text is accepted as
  security mechanism.
\<close>

theorem config_outcomes:
  assumes base: "ye_base_read Y path = None" and load: "ye_load Y path = Some root"
    and sec: "ye_get Y root (ye_sepp_name Y) = Some sn"
  shows "(sn = None \<longrightarrow> sepp_config_new Y path = Inr sepp_config_init) \<and>
     (\<forall>node n role. sn = Some node \<and> ye_get Y node ''role'' = Some (Some n) \<and>
        ye_string Y n = Some role \<and> role \<notin> {''c-sepp'', ''p-sepp''} \<longrightarrow>
        sepp_config_new Y path = Inl InvalidArgument) \<and>
     (\<forall>node n. sn = Some node \<and> ye_get Y node ''role'' = Some (Some n) \<and> ye_string Y n = None \<longrightarrow>
        sepp_config_new Y path = Inl RuntimeError) \<and>
     (\<forall>node n mech. sn = Some node \<and> ye_get Y node ''role'' = Some None \<and>
        ye_get Y node ''security'' = Some (Some n) \<and> ye_string Y n = Some mech \<and>
        ye_get Y node ''disable_tls'' = Some None \<and> ye_get Y node ''tls'' = Some None \<longrightarrow>
        sepp_config_new Y path = Inr (sepp_config_init\<lparr>c_security := mech\<rparr>))"
proof -
  note d = sepp_config_new_def read_from_file_def yaml_member_def from_yaml_def parse_role_def
    read_sepp_node_def is_tls_enabled_def sepp_config_init_def
  show ?thesis
    using base load sec by (intro conjI allI impI) (simp_all add: d)
qed

theorem config_outcomes_witness:
  "sepp_config_new (demo_yaml (Some (demo_yaml_file ''sepp'' ''PRINS'' True))) ''f'' = Inl InvalidArgument \<and>
   sepp_config_new (demo_yaml (Some (JObj []))) ''f'' = Inr sepp_config_init"
  using config_outcomes[of "demo_yaml (Some (demo_yaml_file ''sepp'' ''PRINS'' True))" "''f''"]
    config_outcomes[of "demo_yaml (Some (JObj []))" "''f''"]
  by (simp add: demo_yaml_def demo_yaml_file_def)

end
