(* ===== verification/Sepp_Options.thy ===== *)
theory Sepp_Options
  imports Sepp_Prelude
begin

text \<open>
  \<^verbatim>\<open>Options\<close> (src/oai\_sepp/options.cpp): the command line. \<^verbatim>\<open>getopt_long\<close> is written out as the
  C library documents it for an option string that does not begin with a colon: arguments that
  are no options are skipped, two dashes end the options, a long name may be abbreviated as
  long as it stays unique.
\<close>

subsection \<open>getopt\_long\<close>

text \<open>
  \<open>go_next\<close> is what is left of a group of short options, \<open>go_args\<close> the arguments not looked at
  yet. \<open>GoError\<close> is the return value \<^verbatim>\<open>?\<close>, with \<^verbatim>\<open>optopt\<close>, which is zero for a long name
  that is not known.
\<close>

record getopt =
  go_next :: string
  go_args :: "string list"

datatype getopt_ret = GoOption char string | GoError char | GoEnd

definition short_options :: string where "short_options = ''horc:''"

definition long_options :: "(string \<times> bool \<times> char) list" where
  "long_options = [(''help'', False, CHR ''h''), (''libconfigcfg'', True, CHR ''f''),
     (''stdoutlog'', False, CHR ''o''), (''rotatelog'', False, CHR ''r'')]"

fun option_argument :: "string \<Rightarrow> char \<Rightarrow> bool option" where
  "option_argument [] c = None"
| "option_argument (x # xs) c =
     (if x = c \<and> c \<noteq> CHR '':'' \<and> c \<noteq> CHR '';'' then Some (take 1 xs = '':'') else option_argument xs c)"

definition getopt_argument :: "char \<Rightarrow> string list \<Rightarrow> getopt_ret \<times> getopt" where
  "getopt_argument c args =
     (case args of
        [] \<Rightarrow> (GoError c, \<lparr>go_next = [], go_args = []\<rparr>)
      | a # rest \<Rightarrow> (GoOption c a, \<lparr>go_next = [], go_args = rest\<rparr>))"

definition getopt_short :: "char \<Rightarrow> string \<Rightarrow> string list \<Rightarrow> getopt_ret \<times> getopt" where
  "getopt_short c cs args =
     (case option_argument short_options c of
        None \<Rightarrow> (GoError c, \<lparr>go_next = cs, go_args = args\<rparr>)
      | Some False \<Rightarrow> (GoOption c [], \<lparr>go_next = cs, go_args = args\<rparr>)
      | Some True \<Rightarrow>
          (if cs \<noteq> [] then (GoOption c cs, \<lparr>go_next = [], go_args = args\<rparr>) else getopt_argument c args))"

definition long_option :: "string \<Rightarrow> (string \<times> bool \<times> char) option" where
  "long_option name =
     (case filter (\<lambda>e. fst e = name) long_options of
        e # _ \<Rightarrow> Some e
      | [] \<Rightarrow> (case filter (\<lambda>e. take (length name) (fst e) = name) long_options of [e] \<Rightarrow> Some e | _ \<Rightarrow> None))"

definition getopt_word :: "string \<Rightarrow> string list \<Rightarrow> getopt_ret \<times> getopt" where
  "getopt_word w args =
     (let name = takeWhile (\<lambda>c. c \<noteq> CHR ''='') w; val = dropWhile (\<lambda>c. c \<noteq> CHR ''='') w;
          g = \<lparr>go_next = [], go_args = args\<rparr> in
      (case long_option name of
         None \<Rightarrow> (GoError (CHR 0x00), g)
       | Some (_, has_arg, c) \<Rightarrow>
           (if val \<noteq> [] then (if has_arg then (GoOption c (tl val), g) else (GoError c, g))
            else if has_arg then getopt_argument c args
            else (GoOption c [], g))))"

fun getopt_args :: "string list \<Rightarrow> getopt_ret \<times> getopt" where
  "getopt_args [] = (GoEnd, \<lparr>go_next = [], go_args = []\<rparr>)"
| "getopt_args (a # args) =
     (if a = ''--'' then (GoEnd, \<lparr>go_next = [], go_args = []\<rparr>)
      else if take 2 a = ''--'' then getopt_word (drop 2 a) args
      else if take 1 a = ''-'' \<and> a \<noteq> ''-'' then getopt_short (a ! 1) (drop 2 a) args
      else getopt_args args)"

definition getopt_long :: "getopt \<Rightarrow> getopt_ret \<times> getopt" where
  "getopt_long g =
     (case go_next g of c # cs \<Rightarrow> getopt_short c cs (go_args g) | [] \<Rightarrow> getopt_args (go_args g))"

text \<open>Every call that returns an option or an error consumes something.\<close>

definition getopt_size :: "getopt \<Rightarrow> nat" where
  "getopt_size g = length (go_next g) + sum_list (map (\<lambda>a. Suc (length a)) (go_args g))"

lemma getopt_argument_size: "getopt_argument c args = (r, g) \<Longrightarrow> r \<noteq> GoEnd \<and>
     getopt_size g \<le> sum_list (map (\<lambda>a. Suc (length a)) args)"
  by (auto simp: getopt_argument_def getopt_size_def split: list.splits)

lemma getopt_short_size: "getopt_short c cs args = (r, g) \<Longrightarrow>
     getopt_size g < Suc (length cs + sum_list (map (\<lambda>a. Suc (length a)) args))"
  unfolding getopt_short_def
  by (auto simp: getopt_size_def dest: getopt_argument_size split: option.splits bool.splits if_splits)

lemma getopt_word_size: "getopt_word w args = (r, g) \<Longrightarrow>
     getopt_size g \<le> sum_list (map (\<lambda>a. Suc (length a)) args)"
  unfolding getopt_word_def Let_def
  by (auto simp: getopt_size_def split: option.splits if_splits dest: getopt_argument_size)
    (fastforce simp: getopt_size_def dest: getopt_argument_size)+

lemma getopt_args_size: "getopt_args args = (r, g) \<Longrightarrow> r \<noteq> GoEnd \<Longrightarrow>
     getopt_size g < sum_list (map (\<lambda>a. Suc (length a)) args)"
proof (induction args)
  case (Cons a args)
  show ?case
  proof (cases "a = ''--'' \<or> take 2 a = ''--'' \<or> (take 1 a = ''-'' \<and> a \<noteq> ''-'')")
    case True
    then show ?thesis
      using Cons.prems getopt_word_size[of "drop 2 a" args r g] getopt_short_size[of "a ! 1" "drop 2 a" args r g]
      by (cases a) (auto split: if_splits)
  next
    case False
    with Cons have "getopt_size g < sum_list (map (\<lambda>a. Suc (length a)) args)" by auto
    then show ?thesis by simp
  qed
qed simp

lemma getopt_long_size: "getopt_long g = (r, g') \<Longrightarrow> r \<noteq> GoEnd \<Longrightarrow> getopt_size g' < getopt_size g"
  by (auto simp: getopt_long_def getopt_size_def[of g] split: list.splits
      dest: getopt_short_size getopt_args_size)

subsection \<open>Options\<close>

record options =
  o_options :: "32 word"
  m_libconfigcfg :: string
  m_log_rot_file_log :: bool
  m_log_stdout :: bool

definition options_init :: options where
  "options_init = \<lparr>o_options = 0, m_libconfigcfg = [], m_log_rot_file_log = False, m_log_stdout = False\<rparr>"

definition libconfigcfg :: "32 word" where "libconfigcfg = 0x01"
definition log_stdout :: "32 word" where "log_stdout = 0x02"
definition log_rot_file_log :: "32 word" where "log_rot_file_log = 0x04"

definition select_option :: "char \<Rightarrow> string \<Rightarrow> options \<times> bool \<Rightarrow> options \<times> bool" where
  "select_option c optarg = (\<lambda>(s, result).
     if c = CHR ''c'' then
       (s\<lparr>m_libconfigcfg := optarg, o_options := or (o_options s) libconfigcfg\<rparr>, result)
     else if c = CHR ''o'' then
       (s\<lparr>m_log_stdout := True, o_options := or (o_options s) log_stdout\<rparr>, result)
     else if c = CHR ''r'' then
       (s\<lparr>m_log_rot_file_log := True, o_options := or (o_options s) log_rot_file_log\<rparr>, result)
     else (s, False))"

text \<open>The loop of \<^verbatim>\<open>parseInputOptions\<close>; \<open>None\<close> is \<^verbatim>\<open>exit(0)\<close> after the help text.\<close>

function input_loop :: "getopt \<Rightarrow> options \<times> bool \<Rightarrow> options \<times> bool option" where
  "input_loop g sr =
     (case getopt_long g of
        (GoEnd, g') \<Rightarrow> (fst sr, Some (snd sr))
      | (GoOption c optarg, g') \<Rightarrow>
          (if c = CHR ''h'' then (fst sr, None) else input_loop g' (select_option c optarg sr))
      | (GoError c, g') \<Rightarrow> input_loop g' (fst sr, False))"
  by pat_completeness auto

termination
  by (relation "measure (\<lambda>(g, _). getopt_size g)") (auto intro: getopt_long_size[OF sym])

declare input_loop.simps [simp del]

definition parseInputOptions :: "string list \<Rightarrow> options \<Rightarrow> options \<times> bool option" where
  "parseInputOptions args s = input_loop \<lparr>go_next = [], go_args = args\<rparr> (s, True)"

definition validateOptions :: "options \<Rightarrow> bool" where
  "validateOptions s \<longleftrightarrow> and (o_options s) libconfigcfg \<noteq> 0"

definition parse_options :: "string list \<Rightarrow> options \<Rightarrow> options \<times> bool option" where
  "parse_options args s =
     (case parseInputOptions args s of
        (s', None) \<Rightarrow> (s', None)
      | (s', Some ret) \<Rightarrow> (s', Some (ret \<and> validateOptions s')))"

subsection \<open>What is accepted\<close>

text \<open>The results of all calls of \<^verbatim>\<open>getopt_long\<close>, as a specification of the loop.\<close>

function getopt_items :: "getopt \<Rightarrow> getopt_ret list" where
  "getopt_items g =
     (case getopt_long g of (GoEnd, g') \<Rightarrow> [] | (r, g') \<Rightarrow> r # getopt_items g')"
  by pat_completeness auto

termination
  by (relation "measure getopt_size") (auto intro: getopt_long_size[OF sym])

declare getopt_items.simps [simp del]

fun run_items :: "getopt_ret list \<Rightarrow> options \<times> bool \<Rightarrow> options \<times> bool option" where
  "run_items [] sr = (fst sr, Some (snd sr))"
| "run_items (GoOption c a # is) sr =
     (if c = CHR ''h'' then (fst sr, None) else run_items is (select_option c a sr))"
| "run_items (r # is) sr = run_items is (fst sr, False)"

lemma input_loop_items: "input_loop g sr = run_items (getopt_items g) sr"
proof (induction g sr rule: input_loop.induct)
  case (1 g sr)
  show ?case
    using 1 by (subst input_loop.simps, subst getopt_items.simps)
      (auto split: getopt_ret.splits prod.splits)
qed


text \<open>
  What the items ask for: the file of the last \<^verbatim>\<open>-c\<close>, and which options they know and name.
\<close>

definition given :: "char \<Rightarrow> getopt_ret list \<Rightarrow> bool" where
  "given c is \<longleftrightarrow> (\<exists>r \<in> set is. \<exists>a. r = GoOption c a)"

definition known :: "getopt_ret list \<Rightarrow> bool" where
  "known is \<longleftrightarrow> (\<forall>r \<in> set is. \<exists>c a. r = GoOption c a \<and> c \<in> set ''cor'')"

fun config_file :: "string \<Rightarrow> getopt_ret list \<Rightarrow> string" where
  "config_file f [] = f"
| "config_file f (r # is) =
     config_file (case r of GoOption c a \<Rightarrow> if c = CHR ''c'' then a else f | _ \<Rightarrow> f) is"

lemma given_simps [simp]:
  "\<not> given c []" "given c (r # is) \<longleftrightarrow> (\<exists>a. r = GoOption c a) \<or> given c is"
  by (auto simp: given_def)

lemma known_simps [simp]:
  "known []" "known (r # is) \<longleftrightarrow> (\<exists>c a. r = GoOption c a \<and> c \<in> set ''cor'') \<and> known is"
  by (auto simp: known_def)

lemma validate_odd: "validateOptions s \<longleftrightarrow> odd (o_options s)"
  by (simp add: validateOptions_def libconfigcfg_def and_one_eq odd_iff_mod_2_eq_one)

lemmas flag_defs = libconfigcfg_def log_stdout_def log_rot_file_log_def

lemma run_items_spec:
  "\<not> given (CHR ''h'') is \<Longrightarrow> run_items is (s, r) = (s', b) \<Longrightarrow>
     b = Some (r \<and> known is) \<and> m_libconfigcfg s' = config_file (m_libconfigcfg s) is \<and>
     (m_log_stdout s' \<longleftrightarrow> m_log_stdout s \<or> given (CHR ''o'') is) \<and>
     (m_log_rot_file_log s' \<longleftrightarrow> m_log_rot_file_log s \<or> given (CHR ''r'') is) \<and>
     (validateOptions s' \<longleftrightarrow> validateOptions s \<or> given (CHR ''c'') is)"
proof (induction "is" arbitrary: s r)
  case (Cons i "is")
  then show ?case
    by (cases i) (auto simp: select_option_def validate_odd flag_defs even_or_iff split: if_splits)
qed simp

lemma run_items_help: "given (CHR ''h'') is \<Longrightarrow> snd (run_items is sr) = None"
  by (induction "is" sr rule: run_items.induct) auto

text \<open>
  C31: the command line is accepted exactly when every option on it is one of \<^verbatim>\<open>-c\<close>, \<^verbatim>\<open>-o\<close> and
  \<^verbatim>\<open>-r\<close> or the long form of the last two, and \<^verbatim>\<open>-c\<close> is among them; then the configuration is
  read from the file of the last one, and the two kinds of logging are on as asked for. With
  the option for help nothing is decided: the program ends.
\<close>

theorem parse_options_accepts:
  "let is = getopt_items \<lparr>go_next = [], go_args = args\<rparr> in
     \<exists>s'. parse_options args options_init =
       (s', if given (CHR ''h'') is then None else Some (known is \<and> given (CHR ''c'') is)) \<and>
     (given (CHR ''h'') is \<or>
      m_libconfigcfg s' = config_file [] is \<and> m_log_stdout s' = given (CHR ''o'') is \<and>
      m_log_rot_file_log s' = given (CHR ''r'') is)"
proof -
  let ?is = "getopt_items \<lparr>go_next = [], go_args = args\<rparr>"
  obtain s' b where run: "parseInputOptions args options_init = (s', b)" by fastforce
  then have items: "run_items ?is (options_init, True) = (s', b)"
    by (simp add: parseInputOptions_def input_loop_items)
  show ?thesis
  proof (cases "given (CHR ''h'') ?is")
    case True
    with items run_items_help[OF True, of "(options_init, True)"] have "b = None" by simp
    with run True show ?thesis by (simp add: parse_options_def Let_def)
  next
    case False
    from run_items_spec[OF False items] run False show ?thesis
      by (auto simp: parse_options_def options_init_def validate_odd Let_def)
  qed
qed

text \<open>
  C33: \<^verbatim>\<open>-c file\<close> is accepted for every file, but the long form of the option that the help text
  offers is not: whatever follows \<^verbatim>\<open>--libconfigcfg\<close> and its file, the program does not start.
\<close>

theorem long_config_option_rejected:
  "snd (parse_options [''-c'', file] options_init) = Some True \<and>
   snd (parse_options (''--libconfigcfg'' # file # rest) s) \<noteq> Some True \<and>
   snd (parse_options ((''--libconfigcfg='' @ file) # rest) s) \<noteq> Some True"
proof -
  have refused: "snd (parse_options args s) \<noteq> Some True"
    if "getopt_items \<lparr>go_next = [], go_args = args\<rparr> = GoOption (CHR ''f'') a # is" for args a "is" s
  proof -
    have "snd (run_items is (s, False)) \<noteq> Some True"
      by (cases "given (CHR ''h'') is", simp add: run_items_help,
        cases "run_items is (s, False)") (use run_items_spec in fastforce)
    with that show ?thesis
      by (auto simp: parse_options_def parseInputOptions_def input_loop_items select_option_def
          split: prod.splits option.splits)
  qed
  have long: "getopt_items \<lparr>go_next = [], go_args = ''--libconfigcfg'' # file # rest\<rparr> =
      GoOption (CHR ''f'') file # getopt_items \<lparr>go_next = [], go_args = rest\<rparr>"
    by (subst getopt_items.simps) (simp add: getopt_long_def getopt_word_def long_option_def long_options_def
        getopt_argument_def)
  have eq: "getopt_items \<lparr>go_next = [], go_args = (''--libconfigcfg='' @ file) # rest\<rparr> =
      GoOption (CHR ''f'') file # getopt_items \<lparr>go_next = [], go_args = rest\<rparr>"
    by (subst getopt_items.simps) (simp add: getopt_long_def getopt_word_def long_option_def long_options_def)
  have short: "getopt_items \<lparr>go_next = [], go_args = [''-c'', file]\<rparr> = [GoOption (CHR ''c'') file]"
    by (subst getopt_items.simps, simp add: getopt_long_def getopt_short_def short_options_def
        getopt_argument_def, subst getopt_items.simps, simp add: getopt_long_def)
  have "snd (parse_options [''-c'', file] options_init) = Some True"
    by (simp add: parse_options_def parseInputOptions_def input_loop_items short select_option_def
        validate_odd flag_defs options_init_def)
  with refused[OF long] refused[OF eq] show ?thesis by blast
qed

end
