(* ===== verification/Sepp_Main.thy ===== *)
theory Sepp_Main
  imports Sepp_System Sepp_Config Sepp_Options
begin

text \<open>
  The program (src/oai\_sepp/main.cpp): from the command line and the configuration to a running
  SEPP, the signal handler that ends it, and what the configuration means for every run.
\<close>

subsection \<open>Starting\<close>

datatype server = Http1Server | SbiServer | NbiServer

text \<open>
  The global objects of the program, with the main thread where it blocks: waiting for the
  servers, or in \<^verbatim>\<open>pause\<close>. \<open>pg_status\<close> is what was written to the status file.
\<close>

record program =
  pg_config :: "sepp_config option"
  pg_servers :: "server list"
  pg_world :: world
  pg_event :: sepp_event
  pg_status :: "string option"

text \<open>An exception nobody catches ends the program with \<^verbatim>\<open>std::terminate\<close>.\<close>

datatype outcome = Exited nat | Terminated exn | Running program

text \<open>
  \<open>me_config_init\<close> is \<^verbatim>\<open>config::init\<close> of the common code; \<open>me_env\<close> and \<open>me_http_version\<close> are
  the parts of the configuration that code reads, \<open>me_now\<close> and the two identifiers what the
  constructor of the application asks the system for.
\<close>

record 'y main_env =
  me_yaml :: "'y yaml_env"
  me_config_init :: "sepp_config \<Rightarrow> bool"
  me_env :: app_env
  me_http_version :: nat
  me_net :: net
  me_now :: "64 word"
  me_instance_id :: string
  me_context_id :: string

definition main_servers :: "nat \<Rightarrow> server list" where
  "main_servers http_version =
     (if http_version = 1 then [Http1Server]
      else if http_version = 2 then [SbiServer, NbiServer] else [])"

definition main_run :: "'y main_env \<Rightarrow> sepp_config \<Rightarrow> outcome" where
  "main_run M cfg =
     (case sepp_app_new (configured cfg (me_env M)) (me_net M) (me_now M) (me_instance_id M)
             (me_context_id M) sepp_event_init [] of
        Inl e \<Rightarrow> Terminated e
      | Inr (s, ev, h) \<Rightarrow>
          (let servers = main_servers (me_http_version M) in
           Running \<lparr>pg_config = Some cfg, pg_servers = servers,
             pg_world = \<lparr>w_app = Some s, w_history = h\<rparr>, pg_event = ev,
             pg_status = (if servers = [] then Some (''STARTED'' @ [CHR 0x0A]) else None)\<rparr>))"

definition main :: "'y main_env \<Rightarrow> string list \<Rightarrow> outcome" where
  "main M args =
     (case parse_options args options_init of
        (opts, None) \<Rightarrow> Exited 0
      | (opts, Some False) \<Rightarrow> Exited 1
      | (opts, Some True) \<Rightarrow>
          (case sepp_config_new (me_yaml M) (m_libconfigcfg opts) of
             Inl e \<Rightarrow> Terminated e
           | Inr cfg \<Rightarrow> if \<not> me_config_init M cfg then Exited 1 else main_run M cfg))"

subsection \<open>The signal handler\<close>

text \<open>
  It stops the HTTP/1 server, the SBI server and the application, deletes them and the
  configuration, and exits. \<open>E\<close> and \<open>net\<close> are what the application sees.
\<close>

definition my_app_signal_handler :: "app_env \<Rightarrow> net \<Rightarrow> program \<Rightarrow> program \<times> outcome" where
  "my_app_signal_handler E net p =
     (let q = p\<lparr>pg_servers := filter (\<lambda>s. s \<noteq> Http1Server \<and> s \<noteq> SbiServer) (pg_servers p)\<rparr> in
      case w_app (pg_world q) of
        None \<Rightarrow> (q\<lparr>pg_config := None\<rparr>, Exited 0)
      | Some s \<Rightarrow>
          (case stop E net s (w_history (pg_world q)) of
             (s', h', Inl e) \<Rightarrow> (q\<lparr>pg_world := \<lparr>w_app = Some s', w_history = h'\<rparr>\<rparr>, Terminated e)
           | (s', h', Inr u) \<Rightarrow>
               (q\<lparr>pg_world := \<lparr>w_app = None, w_history = h'\<rparr>, pg_config := None\<rparr>, Exited 0)))"

subsection \<open>How the NBI server listens\<close>

text \<open>
  \<open>tls_ctx\<close> is what the code sets of the \<^verbatim>\<open>ssl::context\<close> of Boost, whose verify mode is not to ask
  the peer for a certificate unless \<^verbatim>\<open>set_verify_mode\<close> is called. \<open>loadable\<close> tells which files the
  context can load; with another one the call throws, the exception is logged, and the server
  does not listen.
\<close>

datatype verify_mode = VerifyNone | VerifyPeer

record tls_ctx =
  tc_certificate_chain :: string
  tc_private_key :: string
  tc_verify_file :: "string option"
  tc_verify_mode :: verify_mode

datatype listener = PlainListener | TlsListener tls_ctx | NoListener

definition nbi_tls_ctx :: "sepp_config \<Rightarrow> tls_ctx" where
  "nbi_tls_ctx cfg = \<lparr>tc_certificate_chain = c_server_cert cfg, tc_private_key = c_server_private_key cfg,
     tc_verify_file = (if c_client_cacert cfg \<noteq> [] then Some (c_client_cacert cfg) else None),
     tc_verify_mode = VerifyNone\<rparr>"

definition nbi_listener :: "(string \<Rightarrow> bool) \<Rightarrow> sepp_config \<Rightarrow> listener" where
  "nbi_listener loadable cfg =
     (if is_tls_enabled cfg then
        (if \<not> loadable (c_server_cert cfg) then NoListener
         else if \<not> loadable (c_server_private_key cfg) then NoListener
         else if c_client_cacert cfg \<noteq> [] \<and> \<not> loadable (c_client_cacert cfg) then NoListener
         else TlsListener (nbi_tls_ctx cfg))
      else PlainListener)"

subsection \<open>A program that runs\<close>

text \<open>The environment of the servers once the configuration was read.\<close>

definition program_env :: "sbi_env \<Rightarrow> 'y main_env \<Rightarrow> sepp_config \<Rightarrow> sbi_env" where
  "program_env B M cfg =
     B\<lparr>be_server := (be_server B)\<lparr>ve_app := configured cfg (me_env M), ve_net := me_net M\<rparr>\<rparr>"

lemma program_env_simps [simp]:
  "ve_app (be_server (program_env B M cfg)) = configured cfg (me_env M)"
  "ve_net (be_server (program_env B M cfg)) = me_net M"
  by (simp_all add: program_env_def)

lemma configured_simps [simp]:
  "ae_n32f (configured cfg E) = ae_n32f E" "ae_security (configured cfg E) = c_security cfg"
  "ae_is_c_sepp (configured cfg E) \<longleftrightarrow> is_c_sepp cfg" "ae_tls_enabled (configured cfg E) \<longleftrightarrow> is_tls_enabled cfg"
  "ae_roaming_partners (configured cfg E) = ae_roaming_partners E"
  "ae_register_nrf (configured cfg E) = ae_register_nrf E"
  by (simp_all add: configured_def get_security_def get_role_enum_def is_c_sepp_def)

lemma main_runningE:
  assumes "main M args = Running p"
  obtains opts cfg where "parse_options args options_init = (opts, Some True)"
    and "sepp_config_new (me_yaml M) (m_libconfigcfg opts) = Inr cfg" and "me_config_init M cfg"
    and "main_run M cfg = Running p"
  using assms by (auto simp: main_def split: prod.splits option.splits bool.splits sum.splits if_splits)

definition program_system :: "program \<Rightarrow> system" where
  "program_system p = \<lparr>sy_world = pg_world p, sy_event = pg_event p, sy_dangling = False\<rparr>"

lemma main_run_started:
  assumes "main_run M cfg = Running p"
  shows "pg_config p = Some cfg \<and> pg_servers p = main_servers (me_http_version M) \<and>
     system_started (program_env B M cfg) (program_system p)"
  using assms unfolding main_run_def system_started_def Let_def program_env_simps program_system_def
  by (auto split: sum.splits prod.splits) blast

text \<open>A program for the witnesses.\<close>

definition demo_main :: "string \<Rightarrow> string \<Rightarrow> nat \<Rightarrow> json main_env" where
  "demo_main role sec v = \<lparr>me_yaml = demo_yaml (Some (demo_yaml_file role sec True)),
     me_config_init = (\<lambda>c. True), me_env = demo_app_env, me_http_version = v, me_net = answer 0,
     me_now = 0, me_instance_id = ''i'', me_context_id = ''u''\<rparr>"

definition demo_config :: "string \<Rightarrow> sepp_role \<Rightarrow> string \<Rightarrow> sepp_config" where
  "demo_config role r sec = \<lparr>c_role = role, c_sepp_role_enum = r, c_security = sec, c_disable_tls = True,
     c_server_private_key = [], c_server_cert = [], c_client_cacert = []\<rparr>"

lemma demo_parse: "\<exists>opts. parse_options [''-c'', ''f''] options_init = (opts, Some True)"
proof -
  have "snd (parse_options [''-c'', ''f''] options_init) = Some True" by code_simp
  then show ?thesis by (metis prod.collapse)
qed

lemma demo_read:
  "role = ''c-sepp'' \<and> r = C_SEPP \<or> role = ''p-sepp'' \<and> r = P_SEPP \<Longrightarrow>
     sepp_config_new (demo_yaml (Some (demo_yaml_file role sec True))) path = Inr (demo_config role r sec)"
  by (auto simp: sepp_config_new_def read_from_file_def yaml_member_def from_yaml_def parse_role_def
      read_sepp_node_def is_tls_enabled_def sepp_config_init_def demo_yaml_def demo_yaml_file_def demo_config_def)

lemma demo_main_runs:
  assumes "role = ''c-sepp'' \<and> r = C_SEPP \<or> role = ''p-sepp'' \<and> r = P_SEPP"
    and "main_run (demo_main role sec v) (demo_config role r sec) = Running p"
  shows "main (demo_main role sec v) [''-c'', ''f''] = Running p"
  using demo_parse demo_read[OF assms(1)] assms(2) by (auto simp: main_def demo_main_def)

lemma demo_program:
  "\<exists>p c. main (demo_main ''c-sepp'' ''PRINS'' 2) [''-c'', ''f''] = Running p \<and>
     pg_config p = Some (demo_config ''c-sepp'' C_SEPP ''PRINS'') \<and> pg_servers p = [SbiServer, NbiServer] \<and>
     w_app (pg_world p) = Some (demo_sepp (Some demo_url)) \<and>
     HttpCall NbiClient POST c \<in> set (w_history (pg_world p))"
proof -
  have e: "configured (demo_config ''c-sepp'' C_SEPP ''PRINS'') demo_app_env = demo_app_env"
    by (simp add: configured_def demo_config_def demo_app_env_def get_security_def get_role_enum_def
        is_tls_enabled_def)
  obtain h c where new: "sepp_app_new demo_app_env (answer 0) 0 ''i'' ''u'' sepp_event_init [] =
       Inr (demo_sepp (Some demo_url), sepp_event_init, h)" "HttpCall NbiClient POST c \<in> set h"
    using demo_new by blast
  then have "\<exists>p. main_run (demo_main ''c-sepp'' ''PRINS'' 2) (demo_config ''c-sepp'' C_SEPP ''PRINS'') = Running p \<and>
     pg_config p = Some (demo_config ''c-sepp'' C_SEPP ''PRINS'') \<and> pg_servers p = [SbiServer, NbiServer] \<and>
     w_app (pg_world p) = Some (demo_sepp (Some demo_url)) \<and>
     HttpCall NbiClient POST c \<in> set (w_history (pg_world p))"
    by (simp add: main_run_def demo_main_def e Let_def main_servers_def)
  then show ?thesis using demo_main_runs[of "''c-sepp''" C_SEPP] by blast
qed

subsection \<open>Mechanisms nobody knows\<close>

text \<open>
  A mechanism that is neither PRINS nor TLS: the two endpoints of the N32-f interface refuse
  what they are given and make no call, and what goes out takes the way of the TLS mechanism.
\<close>

lemma process_refused:
  assumes "app_config cap s" and "cap \<noteq> ''PRINS''" and "w_app w = Some s"
  shows "\<exists>r' hs'. nbi_n32f_process V d r hs w = (w, r', hs', Inr False)"
proof -
  have h: "\<exists>r' hs'. app_n32f_process E net s d r hs (w_history w) = (w_history w, r', hs', Inr False)" for E net
    using assms(1,2)
    by (auto simp: app_n32f_process_def app_config_def handle_n32f_process_post_def split: option.split)
  obtain r' hs' where "app_n32f_process (ve_app V) (ve_net V) s d r hs (w_history w) =
      (w_history w, r', hs', Inr False)"
    using h by blast
  with assms(3) show ?thesis
    by (cases w) (simp add: nbi_n32f_process_def on_history_def split: option.split)
qed

lemma forward_refused:
  assumes "app_config cap s" and "cap \<noteq> ''TLS''" and "w_app w = Some s"
  shows "\<exists>r' hs'. nbi_n32f_forward V d r hs w = (w, r', hs', Inr False)"
proof -
  have h: "\<exists>r' hs'. app_n32f_forward E net s d r hs (w_history w) = (w_history w, r', hs', Inr False)" for E net
    using assms(1,2)
    by (auto simp: app_n32f_forward_def app_config_def handle_n32f_forward_def split: option.split)
  obtain r' hs' where "app_n32f_forward (ve_app V) (ve_net V) s d r hs (w_history w) =
      (w_history w, r', hs', Inr False)"
    using h by blast
  with assms(3) show ?thesis
    by (cases w) (simp add: nbi_n32f_forward_def on_history_def)
qed

lemma post_refused:
  assumes "\<And>d. \<exists>r' hs'. f d JNull [] w = (w, r', hs', Inr False)" and "w_app w \<noteq> None"
    and "collect_body (sr_chunks req) [] \<noteq> None"
  shows "fst (process_post_request V f c t al req w) = w \<and>
     status_of (fst (snd (process_post_request V f c t al req w))) \<in> {Some 400, Some 405}"
proof -
  have p: "fst (post_answer V f c t al b w) = w \<and>
      status_of (fst (snd (post_answer V f c t al b w))) = Some 400" for b
  proof (cases "fe_parse (ve_n32f V) b")
    case (Some d)
    obtain r' hs' where "f d JNull [] w = (w, r', hs', Inr False)" using assms(1) by blast
    with Some show ?thesis by (simp add: post_answer_def)
  qed (simp add: post_answer_def)
  show ?thesis
    using assms(2,3) p by (auto simp: process_post_request_def)
qed

lemma get_refused:
  assumes "\<exists>r' hs'. nbi_n32f_forward V (forward_message req) JNull [] w = (w, r', hs', Inr False)"
    and "w_app w \<noteq> None"
  shows "fst (forward_get V req w) = w \<and> status_of (fst (snd (forward_get V req w))) = Some 400"
  using assms by (auto simp: forward_get_def)

end
