(* ===== verification/Sepp_Tunnel.thy ===== *)
theory Sepp_Tunnel
  imports Sepp_World
begin

text \<open>
  Two SEPPs that talk to each other: the network of the first delivers the requests of its
  NBI client to the NBI server of the second. The theorems span all components, from the
  request a network function hands to its own SEPP to the request that reaches the network
  function on the other side, and back.
\<close>

subsection \<open>A peer as a network\<close>

text \<open>
  How nghttp2 presents a request that was sent is the parameter \<open>dl\<close>; for the paths of the
  N32 interfaces it keeps path and body. What the client sees is the first head and the
  body the server wrote.
\<close>

definition method_name :: "http_method \<Rightarrow> string" where
  "method_name m = (case m of GET \<Rightarrow> ''GET'' | POST \<Rightarrow> ''POST'' | PUT \<Rightarrow> ''PUT''
     | DELETE \<Rightarrow> ''DELETE'' | PATCH \<Rightarrow> ''PATCH'')"

type_synonym delivery = "http_method \<Rightarrow> http_request \<Rightarrow> server_request"

definition delivery_ok :: "string \<Rightarrow> delivery \<Rightarrow> bool" where
  "delivery_ok url dl \<longleftrightarrow>
     (\<forall>m r p. p \<in> n32_paths \<longrightarrow> rq_uri r = url @ p \<longrightarrow>
        sr_method (dl m r) = method_name m \<and> sr_path (dl m r) = p \<and>
        collect_body (sr_chunks (dl m r)) [] = Some (rq_body r))"

definition response_of :: "answer \<Rightarrow> http_response" where
  "response_of a =
     (case (status_of (fst a), body_of (fst a)) of
        (Some c, Some b) \<Rightarrow> \<lparr>rp_status = c, rp_body = b, rp_headers = header_of (fst a)\<rparr>
      | _ \<Rightarrow> \<lparr>rp_status = 0, rp_body = [], rp_headers = []\<rparr>)"

definition peer_step :: "server_env \<Rightarrow> delivery \<Rightarrow> http_call \<Rightarrow> world \<Rightarrow> world" where
  "peer_step V dl c w =
     (case c of
        HttpCall NbiClient m r \<Rightarrow> fst (nbi_serve V (dl m r) w)
      | HttpCall SbiClient m r \<Rightarrow> w)"

text \<open>
  The world of the peer after the calls of a history, and the network that has this peer
  behind the NBI client; \<open>base\<close> answers the requests of the SBI client.
\<close>

definition peer_world :: "server_env \<Rightarrow> delivery \<Rightarrow> world \<Rightarrow> history \<Rightarrow> world" where
  "peer_world V dl w h = fold (peer_step V dl) h w"

definition peer_net :: "server_env \<Rightarrow> delivery \<Rightarrow> world \<Rightarrow> net \<Rightarrow> net" where
  "peer_net V dl w base h =
     (case last h of
        HttpCall NbiClient m r \<Rightarrow>
          response_of (snd (nbi_serve V (dl m r) (peer_world V dl w (butlast h))))
      | HttpCall SbiClient m r \<Rightarrow> base h)"

lemma peer_net_nbi:
  "peer_net V dl w base (h @ [HttpCall NbiClient m r]) =
     response_of (snd (nbi_serve V (dl m r) (peer_world V dl w h)))"
  by (simp add: peer_net_def)

lemma peer_world_snoc:
  "peer_world V dl w (h @ [c]) = peer_step V dl c (peer_world V dl w h)"
  by (simp add: peer_world_def)

subsection \<open>One POST to an N32 endpoint\<close>

lemma served_post:
  assumes "sr_method req = ''POST''" and "collect_body (sr_chunks req) [] = Some body"
    and "w_app w \<noteq> None" and "fe_parse (ve_n32f V) body = Some d"
    and "handler d JNull [] w = (w', j, hs, Inr True)" and "fe_dump (ve_n32f V) j = Some t"
    and "\<not> al"
  shows "process_post_request V handler c e al req w =
     (w', ([WriteHead 200 (JSON_HEADERS @ fe_order (ve_n32f V) hs), EndBody t], Inr ()))"
  using assms
  by (auto simp: process_post_request_def post_answer_def ok_answer_def end_dump_def Let_def)

lemma response_of_ok:
  "response_of ([WriteHead c hs, EndBody t], r) = \<lparr>rp_status = c, rp_body = t, rp_headers = hs\<rparr>"
  by (simp add: response_of_def)

lemma delivered_post:
  assumes "delivery_ok url dl" and "n32f_env_ok F" and "p \<in> n32_paths"
  shows "sr_method (dl POST (fe_prepare F (url @ p) t)) = ''POST''"
    and "sr_path (dl POST (fe_prepare F (url @ p) t)) = p"
    and "collect_body (sr_chunks (dl POST (fe_prepare F (url @ p) t))) [] = Some t"
  using assms n32f_env_okD(8,9)[OF assms(2), of "url @ p" t]
  unfolding delivery_ok_def by (simp_all add: method_name_def)

subsection \<open>The answer of the peer to a PRINS message\<close>

text \<open>
  What the peer does with a wrapped request, in one equation: it sends the request to the
  local side and answers with the wrapped response.
\<close>

definition local_call :: "n32f_env \<Rightarrow> string \<Rightarrow> string \<Rightarrow> string \<Rightarrow> string \<Rightarrow> http_call" where
  "local_call F authority path method body =
     HttpCall SbiClient (method_of_string method)
       (target_request F authority path body (aad_headers authority [] []))"

definition producer_headers :: "n32f_env \<Rightarrow> http_response \<Rightarrow> headers" where
  "producer_headers F r = keep_response_headers (fe_order F (rp_headers r)) []"

lemma relay_ok:
  assumes ok: "n32f_env_ok F" and key: "m_enc_key b = []"
    and R: "R = net (h @ [local_call F authority path method body])" "rp_status R \<noteq> 0"
  shows "\<exists>jwe hs'. build_reformatted_data F b (to_string (rp_status R)) path authority (rp_body R) ctx
       (producer_headers F R) = Inr (Some jwe) \<and>
     relay_request F net b ctx
       \<lparr>nq_method = method, nq_path = path, nq_authority = authority, nq_body = body,
        nq_mcc = mcc, nq_mnc = mnc, nq_headers = aad_headers authority [] []\<rparr> JNull [] h =
       (h @ [local_call F authority path method body], fe_rsp_to F jwe, hs', Inr True)"
proof -
  from build_without_key[OF ok key] obtain jwe where
    j: "build_reformatted_data F b (to_string (rp_status R)) path authority (rp_body R) ctx
       (producer_headers F R) = Inr (Some jwe)" by blast
  then show ?thesis
    using R by (simp add: relay_request_def send_http_request_to_target_def send_http_request_def
        Let_def local_call_def producer_headers_def)
qed

lemma nbi_serve_process:
  "sr_path req = ''/n32f-forward/v1/n32f-process'' \<Longrightarrow>
     nbi_serve V req w = process_post_request V (nbi_n32f_process V) ''N32F_PROCESSING_FAILED''
       ''N32-F message processing failed'' False req w"
  by (simp add: nbi_serve_def)

lemma process_served:
  assumes ok: "n32f_env_ok F" "wire_ok F" and F: "ve_n32f V = F" and req: "sr_method req = ''POST''"
      "sr_path req = ''/n32f-forward/v1/n32f-process''" "collect_body (sr_chunks req) [] = Some t"
    and w: "w_app w = Some s" "m_sepp_n32f_forward_inst s = Some f"
      "m_security_capability f = ''PRINS''" "m_enc_key f = []"
    and valid: "\<And>j. ve_req_msg_valid V j"
    and t: "fe_dump F (fe_req_to F jwe) = Some t"
    and ctx: "\<And>d. process_context_id F d jwe = Inr ctx" "ctx \<noteq> []"
    and q: "unwrap_request F f jwe =
       Some \<lparr>nq_method = method, nq_path = path, nq_authority = authority, nq_body = body,
             nq_mcc = mcc, nq_mnc = mnc, nq_headers = aad_headers authority [] []\<rparr>"
    and R: "R = ve_net V (w_history w @ [local_call F authority path method body])" "rp_status R \<noteq> 0"
    and dumps: "\<And>j. fe_dump F (fe_rsp_to F j) \<noteq> None"
  shows "\<exists>jwe' t' hs.
     build_reformatted_data F f (to_string (rp_status R)) path authority (rp_body R) ctx
       (producer_headers F R) = Inr (Some jwe') \<and>
     fe_dump F (fe_rsp_to F jwe') = Some t' \<and>
     nbi_serve V req w =
       (w\<lparr>w_history := w_history w @ [local_call F authority path method body]\<rparr>,
        ([WriteHead 200 hs, EndBody t'], Inr ()))"
proof -
  let ?w = "w\<lparr>w_history := w_history w @ [local_call F authority path method body]\<rparr>"
  from wire_okD(1)[OF ok(2) t] obtain d where
    d: "fe_parse F t = Some d" "is_object d" "fe_req_from F d = Some jwe" by blast
  from relay_ok[where net = "ve_net V" and h = "w_history w", OF ok(1) w(4) R] obtain jwe' hs' where
    j: "build_reformatted_data F f (to_string (rp_status R)) path authority (rp_body R) ctx
       (producer_headers F R) = Inr (Some jwe')"
    and relay: "relay_request F (ve_net V) f ctx
       \<lparr>nq_method = method, nq_path = path, nq_authority = authority, nq_body = body,
        nq_mcc = mcc, nq_mnc = mnc, nq_headers = aad_headers authority [] []\<rparr> JNull [] (w_history w) =
       (w_history w @ [local_call F authority path method body], fe_rsp_to F jwe', hs', Inr True)"
    by blast
  have h: "nbi_n32f_process V d JNull [] w = (?w, fe_rsp_to F jwe', hs', Inr True)"
    using process_accepts[OF d(2) w(3) d(3) ctx(1) ctx(2) q, of "ve_net V" JNull "[]" "w_history w"]
      relay valid d F w
    by (simp add: nbi_n32f_process_def on_history_def app_n32f_process_def)
  obtain t' where t': "fe_dump F (fe_rsp_to F jwe') = Some t'" using dumps by blast
  have "process_post_request V (nbi_n32f_process V) ''N32F_PROCESSING_FAILED''
       ''N32-F message processing failed'' False req w =
     (?w, ([WriteHead 200 (JSON_HEADERS @ fe_order (ve_n32f V) hs'), EndBody t'], Inr ()))"
    by (rule served_post[OF req(1,3), where handler = "nbi_n32f_process V"])
      (use w d h t' F in simp_all)
  with j t' nbi_serve_process[OF req(2)] show ?thesis by auto
qed

subsection \<open>The request of a network function, end to end\<close>

text \<open>
  Two SEPPs run the same code with the same libraries; what differs in their environments is
  the URL they give as sender and the address of their NRF.
\<close>

definition site :: "n32f_env \<Rightarrow> string \<Rightarrow> string \<Rightarrow> n32f_env" where
  "site F nbi nrf = F\<lparr>fe_n32c := (fe_n32c F)\<lparr>ne_nbi_url := nbi\<rparr>, fe_nrf_url := nrf\<rparr>"

lemma site_simps [simp]:
  "fe_req_from (site F nbi nrf) = fe_req_from F" "fe_req_to (site F nbi nrf) = fe_req_to F"
  "fe_rsp_from (site F nbi nrf) = fe_rsp_from F" "fe_rsp_to (site F nbi nrf) = fe_rsp_to F"
  "fe_parse (site F nbi nrf) = fe_parse F" "fe_dump (site F nbi nrf) = fe_dump F"
  "fe_prepare (site F nbi nrf) = fe_prepare F" "fe_order (site F nbi nrf) = fe_order F"
  "fe_jose (site F nbi nrf) = fe_jose F" "fe_get_json (site F nbi nrf) = fe_get_json F"
  "fe_context_from (site F nbi nrf) = fe_context_from F"
  "fe_context_to (site F nbi nrf) = fe_context_to F"
  "fe_n32c (site F nbi nrf) = (fe_n32c F)\<lparr>ne_nbi_url := nbi\<rparr>"
  by (auto simp: site_def fe_context_from_def fe_context_to_def)

lemma site_build: "build_reformatted_data (site F nbi nrf) = build_reformatted_data F"
  by (intro ext) (simp add: build_reformatted_data_def)

lemma site_unwrap: "unwrap_request (site F nbi nrf) = unwrap_request F"
  by (intro ext) (simp only: unwrap_request_def payload_of_def site_simps)

lemma site_context: "process_context_id (site F nbi nrf) = process_context_id F"
  by (intro ext) (simp only: process_context_id_def site_simps)

lemma site_producer: "producer_headers (site F nbi nrf) = producer_headers F"
  by (intro ext) (simp add: producer_headers_def)

lemma site_ok: "n32f_env_ok F \<Longrightarrow> n32f_env_ok (site F nbi nrf)"
  by (simp add: n32f_env_ok_def params_dto_ok_def)

lemma site_wire: "wire_ok F \<Longrightarrow> wire_ok (site F nbi nrf)"
  by (simp add: wire_ok_def)

text \<open>
  The hypotheses about the two, collected: the peer is reached at the URL of the first, both
  were configured for PRINS, and the models accept and dump the messages the code makes.
\<close>

definition tunnel_ok :: "server_env \<Rightarrow> server_env \<Rightarrow> string \<Rightarrow> delivery \<Rightarrow> bool" where
  "tunnel_ok VA VB url dl \<longleftrightarrow>
     n32f_env_ok (ve_n32f VA) \<and> wire_ok (ve_n32f VA) \<and>
     (\<exists>nbi nrf. ve_n32f VB = site (ve_n32f VA) nbi nrf) \<and>
     delivery_ok url dl \<and> (\<forall>j. ve_req_msg_valid VB j) \<and>
     (\<forall>j. fe_dump (ve_n32f VA) (fe_req_to (ve_n32f VA) j) \<noteq> None) \<and>
     (\<forall>j. fe_dump (ve_n32f VA) (fe_rsp_to (ve_n32f VA) j) \<noteq> None)"

definition prins_pair :: "string \<Rightarrow> sepp_app \<Rightarrow> world \<Rightarrow> bool" where
  "prins_pair url sA wB \<longleftrightarrow>
     app_config ''PRINS'' sA \<and> m_sepp_n32c_handshake_inst sA \<noteq> None \<and>
     m_sepp_n32f_forward_inst sA \<noteq> None \<and> m_remote_sepp_url sA = Some url \<and>
     world_config ''PRINS'' wB \<and>
     (\<exists>sB. w_app wB = Some sB \<and> m_sepp_n32f_forward_inst sB \<noteq> None)"

text \<open>A request the tunnel can carry: its line has no white space and its parts fit OpenSSL.\<close>

definition carriable :: "string \<Rightarrow> string \<Rightarrow> string \<Rightarrow> string \<Rightarrow> bool" where
  "carriable method path authority body \<longleftrightarrow>
     token method \<and> token path \<and> \<not> has_crlf authority \<and>
     b64_small (aad_raw method path authority []) \<and> b64_small body"

definition carriable_response :: "n32f_env \<Rightarrow> string \<Rightarrow> string \<Rightarrow> http_response \<Rightarrow> bool" where
  "carriable_response F path authority R \<longleftrightarrow>
     100 \<le> rp_status R \<and> rp_status R \<le> 599 \<and> b64_small (rp_body R) \<and>
     b64_small (aad_raw (to_string (rp_status R)) path authority (fe_order F (producer_headers F R)))"

lemma keep_response_names:
  assumes "\<And>k. k \<in> fst ` set m0 \<Longrightarrow> k \<in> {''location'', ''content-type'', ''retry-after''}"
    and "k \<in> fst ` set (keep_response_headers hs m0)"
  shows "k \<in> {''location'', ''content-type'', ''retry-after''}"
proof -
  have "fst ` set (keep_response_headers hs m) \<subseteq> fst ` set m \<union> {''location'', ''content-type'', ''retry-after''}"
    for m
  proof (induction hs arbitrary: m)
    case (Cons kv hs)
    obtain k v where kv: "kv = (k, v)" by force
    have "fst ` set (hput k v m) = insert k (fst ` set m)" by (simp add: hput_def dom_update)
    with Cons[of "hput k v m"] Cons[of m] show ?case
      by (auto simp: keep_response_headers_def kv)
  qed (auto simp: keep_response_headers_def)
  with assms show ?thesis by blast
qed

lemma producer_headers_names_ok: "header_names_ok (producer_headers F R)"
proof -
  have "k \<in> {''location'', ''content-type'', ''retry-after''}" if "(k, v) \<in> set (producer_headers F R)" for k v
    using that keep_response_names[of "[]" k "fe_order F (rp_headers R)"]
    by (force simp: producer_headers_def)
  then show ?thesis by (force simp: header_names_ok_def)
qed

text \<open>
  What is written without a key is read without a key, whichever instance wrote it and
  whatever context it names.
\<close>

lemma wrapped_request:
  assumes ok: "n32f_env_ok F" and key: "m_enc_key f = []" and C: "carriable method path authority body"
    and "ctx \<noteq> []"
  obtains jwe where "build_reformatted_data F f method path authority body ctx [] = Inr (Some jwe)"
    and "\<And>d. process_context_id F d jwe = Inr ctx"
    and "\<And>f'. m_enc_key f' = [] \<Longrightarrow> \<exists>mcc mnc. unwrap_request F f' jwe =
       Some \<lparr>nq_method = method, nq_path = path, nq_authority = authority, nq_body = body,
             nq_mcc = mcc, nq_mnc = mnc, nq_headers = aad_headers authority [] []\<rparr>"
proof -
  note c = C[unfolded carriable_def]
  from build_without_key[OF ok key] obtain jwe where
    build: "build_reformatted_data F f method path authority body ctx [] = Inr (Some jwe)" by blast
  have small: "b64_small (aad_raw method path authority (fe_order F []))" "b64_small body"
    using c ok by simp_all
  have shape: "token method" "token path" "\<not> has_crlf authority" "header_names_ok []"
    using c by (simp_all add: header_names_ok_def)
  have "\<exists>mcc mnc. unwrap_request F f' jwe =
       Some \<lparr>nq_method = method, nq_path = path, nq_authority = authority, nq_body = body,
             nq_mcc = mcc, nq_mnc = mnc, nq_headers = aad_headers authority [] []\<rparr>" if "m_enc_key f' = []" for f'
  proof -
    have "m_enc_key f = m_enc_key f'" using key that by simp
    from unwrap_wrapped[OF ok this build small shape] ok show ?thesis by auto
  qed
  moreover have "process_context_id F d jwe = Inr ctx" for d
    using process_context_wrapped[OF ok build_parts(3)[OF ok refl build small]] assms(4) by simp
  ultimately show thesis using that build by blast
qed

text \<open>The second SEPP gets the wrapped request under the URL of the first.\<close>

lemma partner_serves:
  assumes T: "tunnel_ok VA VB url dl"
    and B: "w_app w = Some s" "m_sepp_n32f_forward_inst s = Some f" "m_security_capability f = ''PRINS''"
      "m_enc_key f = []"
    and q: "fe_dump (ve_n32f VA) (fe_req_to (ve_n32f VA) jwe) = Some q"
    and ctx: "\<And>d. process_context_id (ve_n32f VA) d jwe = Inr ctx" "ctx \<noteq> []"
    and u: "unwrap_request (ve_n32f VA) f jwe =
       Some \<lparr>nq_method = method, nq_path = path, nq_authority = authority, nq_body = body,
             nq_mcc = mcc, nq_mnc = mnc, nq_headers = aad_headers authority [] []\<rparr>"
    and R: "R = ve_net VB (w_history w @ [local_call (ve_n32f VB) authority path method body])" "rp_status R \<noteq> 0"
  shows "\<exists>jwe' t' hs.
     build_reformatted_data (ve_n32f VA) f (to_string (rp_status R)) path authority (rp_body R) ctx
       (producer_headers (ve_n32f VA) R) = Inr (Some jwe') \<and>
     fe_dump (ve_n32f VA) (fe_rsp_to (ve_n32f VA) jwe') = Some t' \<and>
     nbi_serve VB (dl POST (fe_prepare (ve_n32f VA) (url @ ''/n32f-forward/v1/n32f-process'') q)) w =
       (w\<lparr>w_history := w_history w @ [local_call (ve_n32f VB) authority path method body]\<rparr>,
        ([WriteHead 200 hs, EndBody t'], Inr ()))"
proof -
  let ?F = "ve_n32f VA" and ?G = "ve_n32f VB"
  note t = T[unfolded tunnel_ok_def]
  obtain nbi nrf where G: "?G = site ?F nbi nrf" using t by blast
  have okF: "n32f_env_ok ?F" "wire_ok ?F" and dl: "delivery_ok url dl" and valid: "\<And>j. ve_req_msg_valid VB j"
    and qG: "fe_dump ?G (fe_req_to ?G jwe) = Some q" and dumpsG: "\<And>j. fe_dump ?G (fe_rsp_to ?G j) \<noteq> None"
    using t q by (auto simp: G)
  have okG: "n32f_env_ok ?G" "wire_ok ?G" unfolding G by (rule site_ok[OF okF(1)], rule site_wire[OF okF(2)])
  have "''/n32f-forward/v1/n32f-process'' \<in> n32_paths" by (simp add: n32_paths_def)
  note req = delivered_post[OF dl okF(1) this, of q]
  note ctxG = ctx(1)[folded site_context[of ?F nbi nrf, folded G]] ctx(2)
  note uG = u[folded site_unwrap[of ?F nbi nrf, folded G]]
  show ?thesis
    using process_served[OF okG refl req B valid qG ctxG uG R dumpsG]
    unfolding G site_build site_producer site_simps .
qed

text \<open>The first SEPP wraps the request, and unwraps the answer that comes back.\<close>

lemma initiator_request:
  assumes A: "m_sepp_n32c_handshake_inst s = Some c" "m_sepp_n32f_forward_inst s = Some f"
      "m_remote_sepp_url s = Some url" "m_selected_sec_capability c = ''PRINS''" "m_security_capability f = ''PRINS''"
    and build: "build_reformatted_data (ae_n32f E) f method path authority body
       (if m_n32f_context_id f = [] then ''dummy_context_id'' else m_n32f_context_id f) [] = Inr (Some jwe)"
    and q: "fe_dump (ae_n32f E) (fe_req_to (ae_n32f E) jwe) = Some q"
    and r: "r = fe_prepare (ae_n32f E) (url @ ''/n32f-forward/v1/n32f-process'') q"
    and net: "net (h @ [HttpCall NbiClient POST r]) = \<lparr>rp_status = 200, rp_body = t', rp_headers = hs\<rparr>"
    and d: "fe_parse (ae_n32f E) t' = Some d" "fe_rsp_from (ae_n32f E) d = Some jwe'"
    and unwrap: "unwrap_response (ae_n32f E) f jwe' nf_http_response_init = (resp, True)"
  shows "handle_nf_service_request E net s authority path method body nf_http_response_init h =
     (resp, h @ [HttpCall NbiClient POST r], Inr True)"
  using assms
  by (simp add: handle_nf_service_request_def handle_nf_service_request_prins_def nbi_post_def
      create_n32f_process_request_def send_http_request_def Let_def)

text \<open>
  One exchange: the first SEPP sends the wrapped request to the world \<open>wB\<close> of the second,
  which sends it on, and the answer is unwrapped.
\<close>

lemma tunnel_exchange:
  assumes T: "tunnel_ok VA VB url dl" and P: "prins_pair url sA wB"
    and C: "carriable method path authority body"
    and net: "\<And>r. net (h @ [HttpCall NbiClient POST r]) = response_of (snd (nbi_serve VB (dl POST r) wB))"
    and R: "R = ve_net VB (w_history wB @ [local_call (ve_n32f VB) authority path method body])"
    and CR: "carriable_response (ve_n32f VA) path authority R"
  shows "\<exists>resp r. handle_nf_service_request (ve_app VA) net sA authority path
       method body nf_http_response_init h = (resp, h @ [HttpCall NbiClient POST r], Inr True) \<and>
     np_status_code resp = rp_status R \<and> np_body resp = rp_body R \<and>
     np_headers resp = aad_headers authority
       (fe_order (ve_n32f VA) (producer_headers (ve_n32f VA) R)) [] \<and>
     fst (nbi_serve VB (dl POST r) wB) = wB\<lparr>w_history :=
       w_history wB @ [local_call (ve_n32f VB) authority path method body]\<rparr>"
proof -
  let ?F = "ve_n32f VA"
  have ok: "n32f_env_ok ?F" "wire_ok ?F" using T by (simp_all add: tunnel_ok_def)
  obtain cA fA where A: "m_sepp_n32c_handshake_inst sA = Some cA" "m_sepp_n32f_forward_inst sA = Some fA"
    "m_remote_sepp_url sA = Some url" "m_selected_sec_capability cA = ''PRINS''"
    "m_security_capability fA = ''PRINS''" and keyA: "m_enc_key fA = []"
    using P unfolding prins_pair_def app_config_def by auto
  obtain sB fB where B: "w_app wB = Some sB" "m_sepp_n32f_forward_inst sB = Some fB"
    "m_security_capability fB = ''PRINS''" "m_enc_key fB = []"
    using P unfolding prins_pair_def world_config_def app_config_def by auto
  let ?ctx = "if m_n32f_context_id fA = [] then ''dummy_context_id'' else m_n32f_context_id fA"
  have nonempty: "?ctx \<noteq> []" by simp
  obtain jwe mcc mnc where build: "build_reformatted_data ?F fA method path authority body ?ctx [] = Inr (Some jwe)"
    and ctx: "\<And>d. process_context_id ?F d jwe = Inr ?ctx"
    and u: "unwrap_request ?F fB jwe =
       Some \<lparr>nq_method = method, nq_path = path, nq_authority = authority, nq_body = body,
             nq_mcc = mcc, nq_mnc = mnc, nq_headers = aad_headers authority [] []\<rparr>"
    using wrapped_request[OF ok(1) keyA C nonempty] B(4) by metis
  obtain q where q: "fe_dump ?F (fe_req_to ?F jwe) = Some q" using T unfolding tunnel_ok_def by blast
  have "rp_status R \<noteq> 0" using CR by (simp add: carriable_response_def)
  from partner_serves[OF T B q ctx nonempty u R this] obtain jwe' t' hs where
    j: "build_reformatted_data ?F fB (to_string (rp_status R)) path authority (rp_body R) ?ctx
       (producer_headers ?F R) = Inr (Some jwe')"
    and t': "fe_dump ?F (fe_rsp_to ?F jwe') = Some t'"
    and served: "nbi_serve VB (dl POST (fe_prepare ?F (url @ ''/n32f-forward/v1/n32f-process'') q)) wB =
       (wB\<lparr>w_history := w_history wB @ [local_call (ve_n32f VB) authority path method body]\<rparr>,
        ([WriteHead 200 hs, EndBody t'], Inr ()))"
    by blast
  from wire_okD(2)[OF ok(2) t'] obtain d' where
    d': "fe_parse ?F t' = Some d'" "fe_rsp_from ?F d' = Some jwe'" by blast
  have key: "m_enc_key fB = m_enc_key fA" using keyA B(4) by simp
  have "unwrap_response ?F fA jwe' nf_http_response_init =
     (nf_http_response_init\<lparr>np_headers := aad_headers authority (fe_order ?F (producer_headers ?F R))
          (np_headers nf_http_response_init), np_status_code := rp_status R, np_body := rp_body R\<rparr>, True)"
    using C CR by (intro unwrap_response_wrapped[OF ok(1) key j _ _ _ _ producer_headers_names_ok])
      (simp_all add: carriable_response_def carriable_def)
  from initiator_request[OF A build q refl _ d' this, of net h hs] served net show ?thesis
    by (auto simp: response_of_ok nf_http_response_init_def)
qed

subsection \<open>The headers that come back\<close>

lemma distinct_fold_hput: "distinct (map fst m) \<Longrightarrow> distinct (map fst (fold (\<lambda>(k, v). hput k v) kvs m))"
  by (induction kvs arbitrary: m) auto

lemma distinct_keep: "distinct (map fst m) \<Longrightarrow> distinct (map fst (keep_response_headers hs m))"
  by (induction hs arbitrary: m) (auto simp: keep_response_headers_def)

lemma distinct_order:
  assumes "n32f_env_ok F" and "distinct (map fst hs)"
  shows "distinct (map fst (fe_order F hs))"
proof -
  have "mset (map fst (fe_order F hs)) = mset (map fst hs)"
    using n32f_env_okD(10)[OF assms(1), of hs] by (metis mset_map)
  with assms(2) show ?thesis by (metis mset_eq_imp_distinct_iff)
qed

lemma hget_mem: "distinct (map fst hs) \<Longrightarrow> hget hs k = Some v \<longleftrightarrow> (k, v) \<in> set hs"
  by (simp add: hget_def)

lemma aad_headers_mem:
  assumes "distinct (map fst hs)" and "k \<in> {''content-type'', ''location'', ''retry-after''}"
  shows "(k, v) \<in> set (aad_headers authority hs []) \<longleftrightarrow> (k, v) \<in> set hs \<and> \<not> has_crlf k \<and> \<not> has_crlf v"
proof -
  let ?m = "if authority \<noteq> [] then hput ''3gpp-sbi-target-apiroot'' (force_http authority)
      (hput ''authority'' authority []) else []"
  have dc: "distinct (map fst (carried hs))"
    using assms(1) by (simp add: carried_def distinct_map_filter)
  have dm: "distinct (map fst ?m)" by simp
  have none: "hget ?m k = None" using assms(2) by auto
  have get: "hget (aad_headers authority hs []) k =
      (case map_of (carried hs) k of Some v \<Rightarrow> Some v | None \<Rightarrow> hget ?m k)"
    unfolding aad_headers_def by (rule hdr.get_fold_put_distinct[OF dc])
  have "hget (aad_headers authority hs []) k = Some v \<longleftrightarrow> map_of (carried hs) k = Some v"
    unfolding get none by (simp split: option.split)
  moreover have "map_of (carried hs) k = Some v \<longleftrightarrow> (k, v) \<in> set (carried hs)"
    using dc by simp
  moreover have "distinct (map fst (aad_headers authority hs []))"
    unfolding aad_headers_def by (rule distinct_fold_hput[OF dm])
  ultimately show ?thesis by (simp add: hget_mem carried_def)
qed

lemma tunnel_headers:
  assumes "n32f_env_ok F"
  shows "(k, v) \<in> set (sbi_response_headers (fe_order F (aad_headers authority
      (fe_order F (producer_headers F R)) []))) \<longleftrightarrow>
    k \<in> {''content-type'', ''location'', ''retry-after''} \<and>
    hget (producer_headers F R) k = Some v \<and> \<not> has_crlf v"
proof (cases "k \<in> {''content-type'', ''location'', ''retry-after''}")
  case True
  have d: "distinct (map fst (producer_headers F R))"
    by (simp add: producer_headers_def distinct_keep)
  have "\<not> has_crlf k" using True by auto
  then show ?thesis
    using True aad_headers_mem[OF distinct_order[OF assms d] True, of v authority] hget_mem[OF d, of k v]
    by (auto simp: sbi_response_headers_def n32f_env_okD(11)[OF assms])
qed (auto simp: sbi_response_headers_def)

lemma local_call_request:
  assumes "n32f_env_ok F" and "authority \<noteq> []"
  shows "\<exists>r. local_call F authority path method body = HttpCall SbiClient (method_of_string method) r \<and>
     rq_uri r = force_http authority @ path \<and> rq_body r = body"
  using assms target_request_uri[OF assms(1), of authority path body "aad_headers authority [] []"]
  by (simp add: local_call_def select_target_def)

text \<open>The request that reaches the network function on the other side.\<close>

definition relayed :: "n32f_env \<Rightarrow> server_request \<Rightarrow> http_call" where
  "relayed F req = local_call F (sbi_authority (sr_header req)) (full_path req) (sr_method req)
     (case collect_body (sr_chunks req) [] of Some body \<Rightarrow> body | None \<Rightarrow> [])"

lemma serve_exchange:
  assumes T: "tunnel_ok (be_server B) VB url dl"
    and net: "\<And>r. ve_net (be_server B) (w_history wA @ [HttpCall NbiClient POST r]) =
       response_of (snd (nbi_serve VB (dl POST r) wB))"
    and A: "w_app wA = Some sA" and P: "prins_pair url sA wB"
    and req: "sr_path req \<noteq> ''/nsepp-telescopic/v1/mapping''"
      "collect_body (sr_chunks req) [] = Some body" "sbi_authority (sr_header req) \<noteq> []"
    and C: "carriable (sr_method req) (full_path req) (sbi_authority (sr_header req)) body"
    and R: "R = ve_net VB (w_history wB @ [relayed (ve_n32f VB) req])"
    and CR: "carriable_response (ve_n32f (be_server B)) (full_path req) (sbi_authority (sr_header req)) R"
  shows "\<exists>r hs. sbi_serve B req wA = (wA\<lparr>w_history := w_history wA @ [HttpCall NbiClient POST r]\<rparr>,
       ([WriteHead (rp_status R) hs, EndBody (if rp_status R = 204 then [] else rp_body R)], Inr ())) \<and>
     (\<forall>k v. (k, v) \<in> set hs \<longleftrightarrow> k \<in> {''content-type'', ''location'', ''retry-after''} \<and>
        hget (producer_headers (ve_n32f (be_server B)) R) k = Some v \<and> \<not> has_crlf v) \<and>
     fst (nbi_serve VB (dl POST r) wB) = wB\<lparr>w_history := w_history wB @ [relayed (ve_n32f VB) req]\<rparr>"
proof -
  let ?V = "be_server B" and ?a = "sbi_authority (sr_header req)"
  have ok: "n32f_env_ok (ve_n32f ?V)" using T by (simp add: tunnel_ok_def)
  have rel: "relayed (ve_n32f VB) req = local_call (ve_n32f VB) ?a (full_path req) (sr_method req) body"
    by (simp add: relayed_def req(2))
  from tunnel_exchange[OF T P C net R[unfolded rel] CR] obtain resp r where
    h: "handle_nf_service_request (ve_app ?V) (ve_net ?V) sA ?a (full_path req) (sr_method req) body
       nf_http_response_init (w_history wA) = (resp, w_history wA @ [HttpCall NbiClient POST r], Inr True)"
    and resp: "np_status_code resp = rp_status R" "np_body resp = rp_body R"
      "np_headers resp = aad_headers ?a (fe_order (ve_n32f ?V) (producer_headers (ve_n32f ?V) R)) []"
    and peer: "fst (nbi_serve VB (dl POST r) wB) = wB\<lparr>w_history := w_history wB @
        [local_call (ve_n32f VB) ?a (full_path req) (sr_method req) body]\<rparr>"
    by blast
  have serve: "sbi_serve B req wA = (wA\<lparr>w_history := w_history wA @ [HttpCall NbiClient POST r]\<rparr>,
      ([WriteHead (rp_status R) (sbi_response_headers (fe_order (ve_n32f ?V) (np_headers resp))),
        EndBody (if rp_status R = 204 then [] else rp_body R)], Inr ()))"
    using req A h resp(1,2) by (simp add: sbi_serve_def sbi_forward_def Let_def)
  have headers: "\<forall>k v. (k, v) \<in> set (sbi_response_headers (fe_order (ve_n32f ?V) (np_headers resp))) \<longleftrightarrow>
      k \<in> {''content-type'', ''location'', ''retry-after''} \<and>
      hget (producer_headers (ve_n32f ?V) R) k = Some v \<and> \<not> has_crlf v"
    unfolding resp(3) by (intro allI tunnel_headers[OF ok])
  show ?thesis
    by (rule exI, rule exI, rule conjI[OF serve], rule conjI[OF headers]) (simp add: peer rel)
qed

lemma tunnel_serve:
  assumes T: "tunnel_ok (be_server B) VB url dl" and net: "ve_net (be_server B) = peer_net VB dl w0 base"
    and A: "w_app wA = Some sA" and P: "prins_pair url sA (peer_world VB dl w0 (w_history wA))"
    and req: "sr_path req \<noteq> ''/nsepp-telescopic/v1/mapping''"
      "collect_body (sr_chunks req) [] = Some body" "sbi_authority (sr_header req) \<noteq> []"
    and C: "carriable (sr_method req) (full_path req) (sbi_authority (sr_header req)) body"
    and R: "R = ve_net VB (w_history (peer_world VB dl w0 (w_history wA)) @ [relayed (ve_n32f VB) req])"
    and CR: "carriable_response (ve_n32f (be_server B)) (full_path req) (sbi_authority (sr_header req)) R"
  shows "\<exists>wA' hs. sbi_serve B req wA =
       (wA', ([WriteHead (rp_status R) hs, EndBody (if rp_status R = 204 then [] else rp_body R)], Inr ())) \<and>
     (\<forall>k v. (k, v) \<in> set hs \<longleftrightarrow> k \<in> {''content-type'', ''location'', ''retry-after''} \<and>
        hget (producer_headers (ve_n32f (be_server B)) R) k = Some v \<and> \<not> has_crlf v) \<and>
     w_app wA' = w_app wA \<and>
     peer_world VB dl w0 (w_history wA') = (peer_world VB dl w0 (w_history wA))\<lparr>w_history :=
       w_history (peer_world VB dl w0 (w_history wA)) @ [relayed (ve_n32f VB) req]\<rparr>"
proof -
  have "ve_net (be_server B) (w_history wA @ [HttpCall NbiClient POST r]) =
      response_of (snd (nbi_serve VB (dl POST r) (peer_world VB dl w0 (w_history wA))))" for r
    unfolding net by (rule peer_net_nbi)
  from serve_exchange[OF T this A P req C R CR] show ?thesis
    by (fastforce simp: peer_world_snoc peer_step_def)
qed


text \<open>Two SEPPs for the witnesses, each reached under a fixed URL.\<close>

definition demo_delivery :: "string \<Rightarrow> delivery" where
  "demo_delivery url m r = \<lparr>sr_method = method_name m, sr_path = drop (length url) (rq_uri r),
     sr_raw_query = [], sr_header = [],
     sr_chunks = (if rq_body r = [] then [[]] else [rq_body r, []])\<rparr>"

lemma demo_delivery_ok: "delivery_ok url (demo_delivery url)"
  by (simp add: delivery_ok_def demo_delivery_def)

definition demo_world :: "string option \<Rightarrow> world" where
  "demo_world url = \<lparr>w_app = Some (demo_sepp url), w_history = []\<rparr>"

definition demo_sbi_env :: "server_env \<Rightarrow> world \<Rightarrow> sbi_env" where
  "demo_sbi_env VB w0 = \<lparr>be_server = demo_server_env (peer_net VB (demo_delivery ''http://b'') w0 (answer 0)),
     be_get_param = (\<lambda>q k. []), be_mapping_json = (\<lambda>m. JNull), be_mapping_dump = (\<lambda>m. [])\<rparr>"

lemma demo_wire_simps:
  "fe_n32c demo_wire_env = demo_n32c_env" "fe_dump demo_wire_env j = Some (wr j)"
  "fe_parse demo_wire_env (wr j) = Some j" "ae_n32f demo_app_env = demo_wire_env"
  "ae_negotiate_rsp_from demo_app_env j"
  by (simp_all add: demo_wire_env_def demo_n32f_env_def demo_app_env_def)

lemma demo_site: "\<exists>nbi nrf. F = site F nbi nrf"
  by (rule exI[of _ "ne_nbi_url (fe_n32c F)"], rule exI[of _ "fe_nrf_url F"]) (simp add: site_def)

lemma demo_tunnel_ok:
  "tunnel_ok (be_server (demo_sbi_env (demo_server_env net) w0)) (demo_server_env net) ''http://b''
     (demo_delivery ''http://b'')"
  using demo_wire_env_ok demo_delivery_ok
  by (simp add: tunnel_ok_def demo_sbi_env_def demo_server_env_def demo_app_env_def demo_site) 
    (simp add: demo_wire_env_def)

lemma demo_app_config: "app_config ''PRINS'' (demo_sepp url)"
  by (simp add: app_config_def demo_sepp_def app_instances_def demo_app_env_def n32c_init_def n32f_init_def)

lemma demo_prins_pair: "prins_pair ''http://b'' (demo_sepp (Some ''http://b'')) (demo_world None)"
  using demo_app_config
  by (simp add: prins_pair_def world_config_def demo_world_def)
    (simp add: demo_sepp_def app_instances_def)

text \<open>A producer that answers every request with a problem document.\<close>

definition demo_producer :: net where
  "demo_producer h = \<lparr>rp_status = 404, rp_body = ''{}'',
     rp_headers = [(''content-type'', ''application/problem+json''), (''server'', ''udm'')]\<rparr>"

definition demo_request :: server_request where
  "demo_request = \<lparr>sr_method = ''DELETE'', sr_path = ''/nudm-uecm/v1/imsi-1'', sr_raw_query = ''a=b'',
     sr_header = [('':authority'', ''sepp''), (''3gpp-sbi-target-apiroot'', ''http://udm.b'')],
     sr_chunks = [[]]\<rparr>"

lemma demo_request_parts:
  "sbi_authority (sr_header demo_request) = ''udm.b''"
  "full_path demo_request = ''/nudm-uecm/v1/imsi-1?a=b''"
  "collect_body (sr_chunks demo_request) [] = Some []"
  by (simp_all add: demo_request_def full_path_def sbi_authority_def strip_scheme_def starts_with_def Let_def)

lemma demo_aad_small:
  assumes "length ms + length path + length authority \<le> 1000"
  shows "b64_small (aad_raw ms path authority [])"
proof -
  have "length (force_http authority) \<le> length authority + 7"
    by (simp add: force_http_def)
  with assms show ?thesis
    by (intro demo_jose_small) (simp add: aad_raw_def header_line_def crlf_def)
qed

lemma demo_producer_headers:
  "fe_order demo_wire_env (producer_headers demo_wire_env (demo_producer h)) =
     [(''content-type'', ''application/problem+json'')]"
  by code_simp

lemma demo_carriable:
  "carriable (sr_method demo_request) (full_path demo_request) (sbi_authority (sr_header demo_request)) []"
  "carriable_response demo_wire_env (full_path demo_request) (sbi_authority (sr_header demo_request))
     (demo_producer h)"
proof -
  show "carriable (sr_method demo_request) (full_path demo_request)
      (sbi_authority (sr_header demo_request)) []"
    unfolding carriable_def demo_request_parts
    using demo_aad_small[of "sr_method demo_request" "''/nudm-uecm/v1/imsi-1?a=b''" "''udm.b''"]
    by (simp add: demo_request_def b64_small_short token_def is_space_def has_crlf_def)
  have "to_string 404 = ''404''" by code_simp
  then show "carriable_response demo_wire_env (full_path demo_request)
      (sbi_authority (sr_header demo_request)) (demo_producer h)"
    unfolding carriable_response_def demo_request_parts demo_producer_headers
    by (simp add: demo_producer_def b64_small_short demo_jose_small aad_raw_def header_line_def
        crlf_def force_http_def has_crlf_def starts_with_def)
qed


subsection \<open>Many requests\<close>

fun serve_all :: "sbi_env \<Rightarrow> server_request list \<Rightarrow> world \<Rightarrow> world \<times> answer list" where
  "serve_all B [] w = (w, [])"
| "serve_all B (req # reqs) w =
     (case sbi_serve B req w of
        (w', a) \<Rightarrow> (case serve_all B reqs w' of (w'', as) \<Rightarrow> (w'', a # as)))"

text \<open>
  A request the tunnel carries together with any answer to it, and what the network function
  that asked sees of the answer.
\<close>

definition tunnelled :: "sbi_env \<Rightarrow> server_env \<Rightarrow> server_request \<Rightarrow> bool" where
  "tunnelled B VB req \<longleftrightarrow>
     sr_path req \<noteq> ''/nsepp-telescopic/v1/mapping'' \<and> sbi_authority (sr_header req) \<noteq> [] \<and>
     (\<exists>body. collect_body (sr_chunks req) [] = Some body \<and>
        carriable (sr_method req) (full_path req) (sbi_authority (sr_header req)) body) \<and>
     (\<forall>h. carriable_response (ve_n32f (be_server B)) (full_path req) (sbi_authority (sr_header req))
        (ve_net VB h))"

definition seen_answer :: "answer \<Rightarrow> int option \<times> string option" where
  "seen_answer a = (status_of (fst a), body_of (fst a))"

definition given_answer :: "http_response \<Rightarrow> int option \<times> string option" where
  "given_answer R = (Some (rp_status R), Some (if rp_status R = 204 then [] else rp_body R))"

fun given_answers :: "net \<Rightarrow> history \<Rightarrow> history \<Rightarrow> (int option \<times> string option) list" where
  "given_answers net h [] = []"
| "given_answers net h (c # cs) = given_answer (net (h @ [c])) # given_answers net (h @ [c]) cs"

text \<open>
  The requests arrive in the order in which they were handed over, each exactly once and none
  besides, and the answers come back in that order; neither SEPP keeps any trace of them.
\<close>

lemma serve_all_tunnelled:
  assumes T: "tunnel_ok (be_server B) VB url dl" and net: "ve_net (be_server B) = peer_net VB dl w0 base"
    and A: "w_app wA = Some sA" and P: "prins_pair url sA (peer_world VB dl w0 (w_history wA))"
    and reqs: "\<And>req. req \<in> set reqs \<Longrightarrow> tunnelled B VB req"
  shows "\<exists>wA' as. serve_all B reqs wA = (wA', as) \<and> w_app wA' = Some sA \<and>
     peer_world VB dl w0 (w_history wA') = (peer_world VB dl w0 (w_history wA))\<lparr>w_history :=
       w_history (peer_world VB dl w0 (w_history wA)) @ map (relayed (ve_n32f VB)) reqs\<rparr> \<and>
     map seen_answer as =
       given_answers (ve_net VB) (w_history (peer_world VB dl w0 (w_history wA)))
         (map (relayed (ve_n32f VB)) reqs)"
  using A P reqs
proof (induction reqs arbitrary: wA)
  case Nil
  then show ?case by simp
next
  case (Cons req reqs)
  let ?wB = "peer_world VB dl w0 (w_history wA)" and ?c = "relayed (ve_n32f VB) req"
  from Cons.prems(3)[of req] obtain body where
    t: "sr_path req \<noteq> ''/nsepp-telescopic/v1/mapping''" "collect_body (sr_chunks req) [] = Some body"
      "sbi_authority (sr_header req) \<noteq> []"
    and C: "carriable (sr_method req) (full_path req) (sbi_authority (sr_header req)) body"
    and CR: "carriable_response (ve_n32f (be_server B)) (full_path req) (sbi_authority (sr_header req))
        (ve_net VB (w_history ?wB @ [?c]))"
    by (auto simp: tunnelled_def)
  from tunnel_serve[OF T net Cons.prems(1,2) t C refl CR] obtain wA1 hs where
    s: "sbi_serve B req wA = (wA1, ([WriteHead (rp_status (ve_net VB (w_history ?wB @ [?c]))) hs,
        EndBody (if rp_status (ve_net VB (w_history ?wB @ [?c])) = 204 then []
          else rp_body (ve_net VB (w_history ?wB @ [?c])))], Inr ()))"
    and w: "w_app wA1 = Some sA" "peer_world VB dl w0 (w_history wA1) = ?wB\<lparr>w_history := w_history ?wB @ [?c]\<rparr>"
    using Cons.prems(1) by auto
  have "prins_pair url sA (peer_world VB dl w0 (w_history wA1))"
    using Cons.prems(2) unfolding w(2) by (simp add: prins_pair_def world_config_def)
  from Cons.IH[OF w(1) this] Cons.prems(3) obtain wA' as where
    IH: "serve_all B reqs wA1 = (wA', as)" "w_app wA' = Some sA"
      "peer_world VB dl w0 (w_history wA') = ?wB\<lparr>w_history := (w_history ?wB @ [?c]) @ map (relayed (ve_n32f VB)) reqs\<rparr>"
      "map seen_answer as = given_answers (ve_net VB) (w_history ?wB @ [?c]) (map (relayed (ve_n32f VB)) reqs)"
    unfolding w(2) by auto
  moreover have "seen_answer ([WriteHead (rp_status R) hs, EndBody (if rp_status R = 204 then [] else rp_body R)],
      Inr ()) = given_answer R" for R
    by (simp add: seen_answer_def given_answer_def)
  ultimately show ?case using s by simp
qed

end
