(* ===== verification/Sepp_Handshake.thy ===== *)
theory Sepp_Handshake
  imports Sepp_Tunnel
begin

text \<open>
  The handshake between two SEPPs over their servers: the initiator's procedures of
  \<^verbatim>\<open>sepp_app\<close> on one side, the NBI server on the other, and what both hold at the end.
\<close>

subsection \<open>The messages of the negotiation\<close>

text \<open>
  The answer to a capability request, and what is required of the text form of it and of the
  request: it is parsed into a document with the same members, the generated model accepts
  it, and everything that is sent can be dumped.
\<close>

definition negotiate_answer :: "string \<Rightarrow> string \<Rightarrow> json" where
  "negotiate_answer url cap = JObj
     [(''sender'', JStr url), (''selectedSecCapability'', JStr cap),
      (''3GppSbiTargetApiRootSupported'', JBool True),
      (''allowedUsagePurpose'', JArr [JObj [(''usagePurpose'', JStr ''ROAMING'')]])]"

definition negotiate_wire_ok :: "app_env \<Rightarrow> bool" where
  "negotiate_wire_ok E \<longleftrightarrow>
     (let F = ae_n32f E; N = fe_n32c F in
      ne_purpose_from N (JObj [(''usagePurpose'', JStr ''ROAMING'')]) \<noteq> None \<and>
      (\<forall>r. is_object (ne_negotiate_to N r)) \<and>
      (\<forall>r cap q. jset ''supportedSecCapabilityList'' (JArr [JStr cap]) (ne_negotiate_to N r) = Inr q \<longrightarrow>
         (\<exists>t d r'. fe_dump F q = Some t \<and> fe_parse F t = Some d \<and> is_object d \<and>
            jfind d ''supportedSecCapabilityList'' = Some (JArr [JStr cap]) \<and>
            ne_negotiate_from N d = Some r' \<and> ne_negotiate_valid N r' \<and>
            nr_sender r' = nr_sender r \<and> nr_target_api_root r' = nr_target_api_root r)) \<and>
      (\<forall>url cap. \<exists>t d. fe_dump F (negotiate_answer url cap) = Some t \<and> fe_parse F t = Some d \<and>
         is_object d \<and> (\<forall>k. jfind d k = jfind (negotiate_answer url cap) k) \<and>
         ae_negotiate_rsp_from E d) \<and>
      (\<forall>r. fe_dump F (ne_param_req_to N r) \<noteq> None) \<and> (\<forall>r. fe_dump F (ne_param_rsp_to N r) \<noteq> None))"

lemma negotiate_wire_okD:
  assumes "negotiate_wire_ok E"
  shows "jset ''supportedSecCapabilityList'' (JArr [JStr cap]) (ne_negotiate_to (ae_n32c E) r) = Inr q \<Longrightarrow>
      \<exists>t d r'. fe_dump (ae_n32f E) q = Some t \<and> fe_parse (ae_n32f E) t = Some d \<and> is_object d \<and>
        jfind d ''supportedSecCapabilityList'' = Some (JArr [JStr cap]) \<and>
        ne_negotiate_from (ae_n32c E) d = Some r' \<and> ne_negotiate_valid (ae_n32c E) r' \<and>
        nr_sender r' = nr_sender r \<and> nr_target_api_root r' = nr_target_api_root r"
    and "\<exists>t d. fe_dump (ae_n32f E) (negotiate_answer url cap') = Some t \<and> fe_parse (ae_n32f E) t = Some d \<and>
        is_object d \<and> (\<forall>k. jfind d k = jfind (negotiate_answer url cap') k) \<and> ae_negotiate_rsp_from E d"
    and "ne_purpose_from (ae_n32c E) (JObj [(''usagePurpose'', JStr ''ROAMING'')]) \<noteq> None"
    and "is_object (ne_negotiate_to (ae_n32c E) r)"
    and "\<exists>t. fe_dump (ae_n32f E) (ne_param_req_to (ae_n32c E) pq) = Some t"
    and "\<exists>t. fe_dump (ae_n32f E) (ne_param_rsp_to (ae_n32c E) pr) = Some t"
  using assms unfolding negotiate_wire_ok_def Let_def by blast+

subsection \<open>The responder\<close>

lemma served_app_post:
  assumes dl: "delivery_ok url dl" and ok: "n32f_env_ok F" and p: "p \<in> n32_paths"
    and route: "\<And>req. sr_path req = p \<Longrightarrow> nbi_serve V req w = process_post_request V h c e False req w"
    and w: "w_app w = Some s" and d: "fe_parse (ve_n32f V) t = Some d"
    and h: "h d JNull [] w = (w', j, hs, Inr True)" and t': "fe_dump (ve_n32f V) j = Some t'"
  shows "nbi_serve V (dl POST (fe_prepare F (url @ p) t)) w =
     (w', ([WriteHead 200 (JSON_HEADERS @ fe_order (ve_n32f V) hs), EndBody t'], Inr ()))"
  unfolding route[OF delivered_post(2)[OF dl ok p]]
  by (rule served_post[where handler = h, OF delivered_post(1,3)[OF dl ok p] _ d h t']) (simp_all add: w)

lemma responder_capability:
  assumes q: "is_object d" "jfind d ''supportedSecCapabilityList'' = Some (JArr [JStr cap])"
      "ne_negotiate_from N d = Some r'" "ne_negotiate_valid N r'" "nr_target_api_root r' = Some True"
  shows "handle_exchange_capability_request (N\<lparr>ne_nbi_url := url\<rparr>) d JNull [] b =
     (b\<lparr>m_peer_target_api_root_supported := True, m_peer_sepp_fqdn := nr_sender r'\<rparr>,
      negotiate_answer url (m_selected_sec_capability b),
      hput SBI_TARGET_API_ROOT_HEADER HEADER_VALUE_YES [], Inr True)"
  using q by (simp add: handle_exchange_capability_request_def Let_def negotiate_answer_def supported_caps_def)

lemma initiator_capability:
  assumes "is_object d" and "\<And>k. jfind d k = jfind (negotiate_answer url cap) k"
  shows "handle_exchange_capability_response d a =
     (a\<lparr>m_peer_sepp_fqdn := url, m_peer_target_api_root_supported := True,
        m_allowed_n32_purposes := [''ROAMING'']\<rparr>, Inr True)"
  using assms by (simp add: handle_exchange_capability_response_def negotiate_answer_def)

definition params_answer :: "string \<Rightarrow> sec_param_req \<Rightarrow> n32c_env \<Rightarrow> sec_param_rsp" where
  "params_answer url qo N =
     \<lparr>pr_context_id = pq_context_id qo, pr_sender = url,
      pr_jwe = Some (first_suite ''A128GCM'' (pq_jwe_suites qo)),
      pr_jws = Some (first_suite ''ES256'' (pq_jws_suites qo)),
      pr_policy = Some (case pq_policy qo of Some p \<Rightarrow> p | None \<Rightarrow> ne_empty_policy N)\<rparr>"

lemma responder_params:
  assumes "is_object d" and "ne_param_req_from N d = Some qo" and "pq_context_id qo \<noteq> []"
  shows "handle_exchange_params (N\<lparr>ne_nbi_url := url\<rparr>) uuid d JNull [] b =
     (b\<lparr>m_n32c_context_id := pq_context_id qo,
        m_selected_jwe_cipher := first_suite ''A128GCM'' (pq_jwe_suites qo),
        m_selected_jws_cipher := first_suite ''ES256'' (pq_jws_suites qo)\<rparr>,
      ne_param_rsp_to N (params_answer url qo N),
      hput SBI_TARGET_API_ROOT_HEADER HEADER_VALUE_YES [], Inr True)"
  using assms by (cases "pq_policy qo") (simp_all add: handle_exchange_params_def Let_def params_answer_def)

lemma initiator_params:
  assumes "is_object d" and "ne_param_rsp_from N d = Some (params_answer url qo N)"
    and "pq_context_id qo \<noteq> []"
  shows "handle_exchange_params_response N d a =
     (a\<lparr>m_n32c_context_id := pq_context_id qo,
        m_selected_jwe_cipher := first_suite ''A128GCM'' (pq_jwe_suites qo),
        m_selected_jws_cipher := first_suite ''ES256'' (pq_jws_suites qo)\<rparr>, True)"
  using assms by (simp add: handle_exchange_params_response_def params_answer_def Let_def)

text \<open>The two requests of the handshake as the responder's server answers them.\<close>

lemma serve_capability:
  assumes N: "negotiate_wire_ok E" and ok: "n32f_env_ok (ae_n32f E)" and dl: "delivery_ok url dl"
    and V: "ve_n32f V = site (ae_n32f E) nbi nrf"
    and w: "w_app w = Some s" "m_sepp_n32c_handshake_inst s = Some b"
    and q: "create_exchange_capability_req (ae_n32c E) a = Inr q"
  shows "\<exists>t t' d' hs. fe_dump (ae_n32f E) q = Some t \<and>
     nbi_serve V (dl POST (fe_prepare (ae_n32f E) (url @ ''/n32c-handshake/v1/exchange-capability'') t)) w =
       (w\<lparr>w_app := Some (s\<lparr>m_sepp_n32c_handshake_inst := Some (b\<lparr>m_peer_target_api_root_supported := True,
            m_peer_sepp_fqdn := m_sender_fqdn a\<rparr>)\<rparr>)\<rparr>, ([WriteHead 200 hs, EndBody t'], Inr ())) \<and>
     fe_parse (ae_n32f E) t' = Some d' \<and> is_object d' \<and>
     (\<forall>k. jfind d' k = jfind (negotiate_answer nbi (m_selected_sec_capability b)) k) \<and>
     ae_negotiate_rsp_from E d'"
proof -
  let ?F = "ae_n32f E"
  obtain purpose where j: "jset ''supportedSecCapabilityList'' (JArr [JStr (m_selected_sec_capability a)])
        (ne_negotiate_to (fe_n32c ?F) \<lparr>nr_sender = m_sender_fqdn a, nr_target_api_root = Some True,
           nr_purposes = [purpose]\<rparr>) = Inr q"
    using q by (auto simp: create_exchange_capability_req_def create_exchange_capability_obj_def
        split: sum.splits option.splits)
  from negotiate_wire_okD(1)[OF N j] obtain t d r' where t: "fe_dump ?F q = Some t" "fe_parse ?F t = Some d"
    and d: "is_object d" "jfind d ''supportedSecCapabilityList'' = Some (JArr [JStr (m_selected_sec_capability a)])"
      "ne_negotiate_from (fe_n32c ?F) d = Some r'" "ne_negotiate_valid (fe_n32c ?F) r'"
      "nr_sender r' = m_sender_fqdn a" "nr_target_api_root r' = Some True"
    by auto
  from negotiate_wire_okD(2)[OF N, of nbi "m_selected_sec_capability b"] obtain t' d' where t': "fe_dump ?F (negotiate_answer nbi (m_selected_sec_capability b)) = Some t'"
    "fe_parse ?F t' = Some d'" "is_object d'"
    "\<forall>k. jfind d' k = jfind (negotiate_answer nbi (m_selected_sec_capability b)) k" "ae_negotiate_rsp_from E d'"
    by blast
  have h: "nbi_exchange_capability V d JNull [] w =
      (w\<lparr>w_app := Some (s\<lparr>m_sepp_n32c_handshake_inst := Some (b\<lparr>m_peer_target_api_root_supported := True,
            m_peer_sepp_fqdn := m_sender_fqdn a\<rparr>)\<rparr>)\<rparr>,
       negotiate_answer nbi (m_selected_sec_capability b),
       hput SBI_TARGET_API_ROOT_HEADER HEADER_VALUE_YES [], Inr True)"
    using responder_capability[OF d(1-4,6), of nbi b] w
    by (simp add: nbi_exchange_capability_def on_app_def app_exchange_capability_request_def
        with_n32c_def V d(5))
  have "nbi_serve V (dl POST (fe_prepare ?F (url @ ''/n32c-handshake/v1/exchange-capability'') t)) w =
      (w\<lparr>w_app := Some (s\<lparr>m_sepp_n32c_handshake_inst := Some (b\<lparr>m_peer_target_api_root_supported := True,
            m_peer_sepp_fqdn := m_sender_fqdn a\<rparr>)\<rparr>)\<rparr>,
       ([WriteHead 200 (JSON_HEADERS @ fe_order (ve_n32f V)
           (hput SBI_TARGET_API_ROOT_HEADER HEADER_VALUE_YES [])), EndBody t'], Inr ()))"
    by (rule served_app_post[where h = "nbi_exchange_capability V", OF dl ok _ _ w(1) _ h])
      (simp_all add: nbi_serve_def V t t')
  with t t' show ?thesis by blast
qed

lemma serve_params:
  assumes N: "negotiate_wire_ok E" and ok: "n32f_env_ok (ae_n32f E)" "wire_ok (ae_n32f E)"
    and dl: "delivery_ok url dl" and V: "ve_n32f V = site (ae_n32f E) nbi nrf"
    and w: "w_app w = Some s" "m_sepp_n32c_handshake_inst s = Some b" and qo: "pq_context_id qo \<noteq> []"
  shows "\<exists>t t' d' hs. fe_dump (ae_n32f E) (ne_param_req_to (ae_n32c E) qo) = Some t \<and>
     nbi_serve V (dl POST (fe_prepare (ae_n32f E) (url @ ''/n32c-handshake/v1/exchange-params'') t)) w =
       (w\<lparr>w_app := Some (s\<lparr>m_sepp_n32c_handshake_inst := Some (b\<lparr>m_n32c_context_id := pq_context_id qo,
            m_selected_jwe_cipher := first_suite ''A128GCM'' (pq_jwe_suites qo),
            m_selected_jws_cipher := first_suite ''ES256'' (pq_jws_suites qo)\<rparr>)\<rparr>)\<rparr>,
        ([WriteHead 200 hs, EndBody t'], Inr ())) \<and>
     fe_parse (ae_n32f E) t' = Some d' \<and> is_object d' \<and>
     ne_param_rsp_from (ae_n32c E) d' = Some (params_answer nbi qo (ae_n32c E))"
proof -
  let ?F = "ae_n32f E" and ?N = "ae_n32c E"
  let ?w' = "w\<lparr>w_app := Some (s\<lparr>m_sepp_n32c_handshake_inst := Some (b\<lparr>m_n32c_context_id := pq_context_id qo,
            m_selected_jwe_cipher := first_suite ''A128GCM'' (pq_jwe_suites qo),
            m_selected_jws_cipher := first_suite ''ES256'' (pq_jws_suites qo)\<rparr>)\<rparr>)\<rparr>"
  obtain t where t: "fe_dump ?F (ne_param_req_to ?N qo) = Some t"
    using negotiate_wire_okD(5)[OF N] by blast
  from wire_okD(3)[OF ok(2) t] obtain d where
    d: "fe_parse ?F t = Some d" "is_object d" "ne_param_req_from ?N d = Some qo" by blast
  obtain t' where t': "fe_dump ?F (ne_param_rsp_to ?N (params_answer nbi qo ?N)) = Some t'"
    using negotiate_wire_okD(6)[OF N] by blast
  from wire_okD(4)[OF ok(2) t'] obtain d' where
    d': "fe_parse ?F t' = Some d'" "is_object d'" "ne_param_rsp_from ?N d' = Some (params_answer nbi qo ?N)"
    by blast
  have h: "nbi_exchange_params V d JNull [] w =
      (?w', ne_param_rsp_to ?N (params_answer nbi qo ?N),
       hput SBI_TARGET_API_ROOT_HEADER HEADER_VALUE_YES [], Inr True)"
    using responder_params[OF d(2,3) qo, of nbi "ve_uuid V" b] w d(3)
    by (simp add: nbi_exchange_params_def on_app_def app_exchange_params_def with_n32c_def V)
  have "nbi_serve V (dl POST (fe_prepare ?F (url @ ''/n32c-handshake/v1/exchange-params'') t)) w =
      (?w', ([WriteHead 200 (JSON_HEADERS @ fe_order (ve_n32f V)
           (hput SBI_TARGET_API_ROOT_HEADER HEADER_VALUE_YES [])), EndBody t'], Inr ()))"
    by (rule served_app_post[where h = "nbi_exchange_params V", OF dl ok(1) _ _ w(1) _ h])
      (simp_all add: nbi_serve_def V d t')
  with t d' show ?thesis by blast
qed

subsection \<open>The initiator\<close>

lemma peer_net_ok:
  "nbi_serve V (dl m r) (peer_world V dl w0 h) = (w', ([WriteHead c hs, EndBody t], Inr ())) \<Longrightarrow>
     peer_net V dl w0 base (h @ [HttpCall NbiClient m r]) = \<lparr>rp_status = c, rp_body = t, rp_headers = hs\<rparr> \<and>
     peer_world V dl w0 (h @ [HttpCall NbiClient m r]) = w'"
  by (simp add: peer_net_nbi response_of_ok peer_world_snoc peer_step_def)

lemma run_params:
  assumes N: "negotiate_wire_ok E" and ok: "n32f_env_ok (ae_n32f E)" "wire_ok (ae_n32f E)"
    and dl: "delivery_ok url dl" and V: "ve_n32f V = site (ae_n32f E) nbi nrf" and uuid: "uuid \<noteq> []"
    and A: "m_sepp_n32c_handshake_inst sA = Some a" "m_sepp_n32f_forward_inst sA = Some f"
      "m_remote_sepp_url sA = Some url"
    and B: "w_app (peer_world V dl w0 h) = Some sB" "m_sepp_n32c_handshake_inst sB = Some b"
  shows "\<exists>sA' h' a' f' sB' b' c.
     create_exchange_params E (peer_net V dl w0 base) uuid sA h = (sA', h', Inr ()) \<and>
     m_sepp_n32c_handshake_inst sA' = Some a' \<and> m_sepp_n32f_forward_inst sA' = Some f' \<and>
     w_app (peer_world V dl w0 h') = Some sB' \<and> m_sepp_n32c_handshake_inst sB' = Some b' \<and> c \<noteq> [] \<and>
     m_n32c_context_id a' = c \<and> m_n32f_context_id f' = c \<and> m_n32c_context_id b' = c \<and>
     m_selected_jwe_cipher a' = m_selected_jwe_cipher b' \<and>
     m_selected_jws_cipher a' = m_selected_jws_cipher b' \<and>
     m_peer_sepp_fqdn a' = m_peer_sepp_fqdn a \<and> m_peer_sepp_fqdn b' = m_peer_sepp_fqdn b \<and>
     m_sepp_n32f_forward_inst sB' = m_sepp_n32f_forward_inst sB"
proof -
  let ?F = "ae_n32f E" and ?N = "ae_n32c E"
  obtain a1 qo where req: "create_exchange_params_req ?N uuid a = (a1, ne_param_req_to ?N qo)"
    and q: "pq_context_id qo \<noteq> []" "m_peer_sepp_fqdn a1 = m_peer_sepp_fqdn a"
    using uuid by (auto simp: create_exchange_params_req_def create_exchange_params_obj_def Let_def)
  from serve_params[OF N ok dl V B q(1)] obtain t t' d' hs where
    t: "fe_dump ?F (ne_param_req_to ?N qo) = Some t"
    and served: "nbi_serve V (dl POST (fe_prepare ?F (url @ ''/n32c-handshake/v1/exchange-params'') t))
        (peer_world V dl w0 h) =
       ((peer_world V dl w0 h)\<lparr>w_app := Some (sB\<lparr>m_sepp_n32c_handshake_inst :=
          Some (b\<lparr>m_n32c_context_id := pq_context_id qo,
            m_selected_jwe_cipher := first_suite ''A128GCM'' (pq_jwe_suites qo),
            m_selected_jws_cipher := first_suite ''ES256'' (pq_jws_suites qo)\<rparr>)\<rparr>)\<rparr>,
        ([WriteHead 200 hs, EndBody t'], Inr ()))"
    and d': "fe_parse ?F t' = Some d'" "is_object d'"
      "ne_param_rsp_from ?N d' = Some (params_answer nbi qo ?N)"
    by blast
  let ?call = "HttpCall NbiClient POST (fe_prepare ?F (url @ ''/n32c-handshake/v1/exchange-params'') t)"
  note net = conjunct1[OF peer_net_ok[OF served, of base]] conjunct2[OF peer_net_ok[OF served, of base]]
  have post: "nbi_post E (peer_net V dl w0 base) (url @ ''/n32c-handshake/v1/exchange-params'')
      (ne_param_req_to ?N qo) h = Some (\<lparr>rp_status = 200, rp_body = t', rp_headers = hs\<rparr>, h @ [?call])"
    by (simp add: nbi_post_def t send_http_request_def Let_def net(1))
  note fin = initiator_params[OF d'(2,3) q(1), of a1]
  have "create_exchange_params E (peer_net V dl w0 base) uuid sA h =
     (set_n32f_context (a1\<lparr>m_n32c_context_id := pq_context_id qo,
         m_selected_jwe_cipher := first_suite ''A128GCM'' (pq_jwe_suites qo),
         m_selected_jws_cipher := first_suite ''ES256'' (pq_jws_suites qo)\<rparr>)
       (sA\<lparr>m_sepp_n32c_handshake_inst := Some (a1\<lparr>m_n32c_context_id := pq_context_id qo,
         m_selected_jwe_cipher := first_suite ''A128GCM'' (pq_jwe_suites qo),
         m_selected_jws_cipher := first_suite ''ES256'' (pq_jws_suites qo)\<rparr>)\<rparr>), h @ [?call], Inr ())"
    unfolding create_exchange_params_def A option.case prod.case req Let_def post
    using d' fin by simp
  then show ?thesis
    using q A(2) by (simp add: set_n32f_context_def net(2))
qed

text \<open>
  Both messages in a row, from any state of the two.
\<close>

lemma handshake_completes:
  assumes N: "negotiate_wire_ok E" and ok: "n32f_env_ok (ae_n32f E)" "wire_ok (ae_n32f E)"
    and dl: "delivery_ok url dl" and V: "ve_n32f V = site (ae_n32f E) nbi nrf" and uuid: "uuid \<noteq> []"
    and A: "m_sepp_n32c_handshake_inst sA = Some a" "m_sepp_n32f_forward_inst sA = Some f"
      "m_remote_sepp_url sA = Some url" "m_selected_sec_capability a = ''PRINS''"
    and B: "w_app (peer_world V dl w0 h) = Some sB" "m_sepp_n32c_handshake_inst sB = Some b"
  shows "\<exists>sA' h' a' f' sB' b' c.
     create_exchange_capability E (peer_net V dl w0 base) uuid sA h = (sA', h', Inr ()) \<and>
     m_sepp_n32c_handshake_inst sA' = Some a' \<and> m_sepp_n32f_forward_inst sA' = Some f' \<and>
     w_app (peer_world V dl w0 h') = Some sB' \<and> m_sepp_n32c_handshake_inst sB' = Some b' \<and> c \<noteq> [] \<and>
     m_n32c_context_id a' = c \<and> m_n32f_context_id f' = c \<and> m_n32c_context_id b' = c \<and>
     m_selected_jwe_cipher a' = m_selected_jwe_cipher b' \<and>
     m_selected_jws_cipher a' = m_selected_jws_cipher b' \<and>
     m_peer_sepp_fqdn a' = nbi \<and> m_peer_sepp_fqdn b' = m_sender_fqdn a \<and>
     m_sepp_n32f_forward_inst sB' = m_sepp_n32f_forward_inst sB"
proof -
  let ?F = "ae_n32f E"
  obtain q where q: "create_exchange_capability_req (ae_n32c E) a = Inr q"
  proof -
    obtain purpose where p: "ne_purpose_from (ae_n32c E) (JObj [(''usagePurpose'', JStr ''ROAMING'')]) = Some purpose"
      using negotiate_wire_okD(3)[OF N] by blast
    obtain m where "ne_negotiate_to (ae_n32c E) \<lparr>nr_sender = m_sender_fqdn a, nr_target_api_root = Some True,
        nr_purposes = [purpose]\<rparr> = JObj m"
      using negotiate_wire_okD(4)[OF N] by (metis is_object.elims(2))
    with p that show thesis
      by (auto simp: create_exchange_capability_req_def create_exchange_capability_obj_def)
  qed
  from serve_capability[OF N ok(1) dl V B q] obtain t t' d' hs where
    t: "fe_dump ?F q = Some t"
    and served: "nbi_serve V (dl POST (fe_prepare ?F (url @ ''/n32c-handshake/v1/exchange-capability'') t))
        (peer_world V dl w0 h) =
       ((peer_world V dl w0 h)\<lparr>w_app := Some (sB\<lparr>m_sepp_n32c_handshake_inst :=
          Some (b\<lparr>m_peer_target_api_root_supported := True, m_peer_sepp_fqdn := m_sender_fqdn a\<rparr>)\<rparr>)\<rparr>,
        ([WriteHead 200 hs, EndBody t'], Inr ()))"
    and d': "fe_parse ?F t' = Some d'" "is_object d'"
      "\<forall>k. jfind d' k = jfind (negotiate_answer nbi (m_selected_sec_capability b)) k"
      "ae_negotiate_rsp_from E d'"
    by blast
  let ?call = "HttpCall NbiClient POST (fe_prepare ?F (url @ ''/n32c-handshake/v1/exchange-capability'') t)"
  let ?a1 = "a\<lparr>m_peer_sepp_fqdn := nbi, m_peer_target_api_root_supported := True,
        m_allowed_n32_purposes := [''ROAMING'']\<rparr>"
  let ?s1 = "sA\<lparr>m_sepp_n32c_handshake_inst := Some ?a1\<rparr>"
  let ?b1 = "b\<lparr>m_peer_target_api_root_supported := True, m_peer_sepp_fqdn := m_sender_fqdn a\<rparr>"
  note net = conjunct1[OF peer_net_ok[OF served, of base]] conjunct2[OF peer_net_ok[OF served, of base]]
  have post: "nbi_post E (peer_net V dl w0 base) (url @ ''/n32c-handshake/v1/exchange-capability'') q h =
      Some (\<lparr>rp_status = 200, rp_body = t', rp_headers = hs\<rparr>, h @ [?call])"
    by (simp add: nbi_post_def t send_http_request_def Let_def net(1))
  have step: "create_exchange_capability E (peer_net V dl w0 base) uuid sA h =
      swallow (create_exchange_params E (peer_net V dl w0 base) uuid ?s1 (h @ [?call]))"
    unfolding create_exchange_capability_def A(1,3) option.case q sum.case post prod.case Let_def
    using d' initiator_capability[OF d'(2), of nbi "m_selected_sec_capability b" a] A(4) by simp
  have B1: "w_app (peer_world V dl w0 (h @ [?call])) = Some (sB\<lparr>m_sepp_n32c_handshake_inst := Some ?b1\<rparr>)"
    by (simp add: net(2))
  have "m_sepp_n32c_handshake_inst ?s1 = Some ?a1" "m_sepp_n32f_forward_inst ?s1 = Some f"
    "m_remote_sepp_url ?s1 = Some url"
    "m_sepp_n32c_handshake_inst (sB\<lparr>m_sepp_n32c_handshake_inst := Some ?b1\<rparr>) = Some ?b1"
    using A by simp_all
  from run_params[OF N ok dl V uuid this(1-3) B1 this(4), of base] show ?thesis
    unfolding step swallow_def by fastforce
qed

lemma demo_negotiate_wire_ok: "negotiate_wire_ok demo_app_env"
proof -
  note n = demo_negotiate_dto_ok[unfolded negotiate_dto_ok_def]
  have 1: "ne_purpose_from demo_n32c_env (JObj [(''usagePurpose'', JStr ''ROAMING'')]) \<noteq> None"
    and 2: "\<And>r. is_object (ne_negotiate_to demo_n32c_env r)"
    and 3: "\<And>r cap q. jset ''supportedSecCapabilityList'' (JArr [JStr cap]) (ne_negotiate_to demo_n32c_env r) =
        Inr q \<Longrightarrow> \<exists>r'. ne_negotiate_from demo_n32c_env q = Some r' \<and> ne_negotiate_valid demo_n32c_env r' \<and>
        nr_sender r' = nr_sender r \<and> nr_target_api_root r' = nr_target_api_root r"
    using n by blast+
  have 4: "is_object q \<and> jfind q ''supportedSecCapabilityList'' = Some (JArr [JStr cap])"
    if "jset ''supportedSecCapabilityList'' (JArr [JStr cap]) d = Inr q" for cap d q
    using that jset_object[OF that] by (simp add: jfind_jset[OF that])
  have 5: "is_object (negotiate_answer url cap)" for url cap by (simp add: negotiate_answer_def)
  show ?thesis
    unfolding negotiate_wire_ok_def Let_def demo_wire_simps
    using 1 2 3 4 5 by (auto simp: demo_wire_simps)
qed

end
