(* ===== verification/Sepp_Deployment.thy ===== *)
theory Sepp_Deployment
  imports Sepp_Main Sepp_Handshake
begin

text \<open>
  Two programs, each started from its own command line and configuration file, the network
  of the first being the NBI server of the second: what the handshake at the start leaves
  behind, and what happens to requests in every later run of the first.
\<close>

subsection \<open>The peer keeps what it was configured with\<close>

lemma peer_step_inv:
  assumes "world_inv E w"
  shows "world_inv E (peer_step V dl c w)"
proof (cases c)
  case (HttpCall cl m r)
  have "world_config (ae_security E) (fst (nbi_serve V (dl m r) w))"
    using assms nbi_serve_keeps by (simp add: world_inv_def)
  with HttpCall assms quiet_inv[OF assms nbi_serve_quiet] show ?thesis
    by (simp add: peer_step_def split: http_client.split)
qed

lemma peer_world_inv: "world_inv E w \<Longrightarrow> world_inv E (peer_world V dl w h)"
proof (induction h rule: rev_induct)
  case (snoc c h)
  then show ?case by (simp add: peer_world_snoc peer_step_inv)
qed (simp add: peer_world_def)

text \<open>An application that registers has both components.\<close>

lemma world_inv_instances:
  assumes "world_inv E w" and "w_app w = Some s" and "ae_register_nrf E"
  shows "m_remote_sepp_url s = peer_address E \<and> (\<exists>c. m_sepp_n32c_handshake_inst s = Some c) \<and>
     (\<exists>f. m_sepp_n32f_forward_inst s = Some f) \<and> app_config (ae_security E) s"
  using assms by (auto simp: world_inv_def world_config_def shape_def)

lemma peer_world_app:
  "w_app w \<noteq> None \<Longrightarrow> w_app (peer_world V dl w h) \<noteq> None"
proof (induction h rule: rev_induct)
  case (snoc c h)
  obtain cl m r where c: "c = HttpCall cl m r" by (cases c)
  have "w_app (fst (nbi_serve V req v)) \<noteq> None" if "w_app v \<noteq> None" for req v
    using nbi_serve_quiet[of v V req] that by (auto simp: quiet_def)
  with snoc c show ?case by (simp add: peer_world_snoc peer_step_def split: http_client.split)
qed (simp add: peer_world_def)

subsection \<open>Two programs\<close>

text \<open>
  Both register and are configured for PRINS; the first has the role c-sepp and its first
  roaming partner is reached at \<open>url\<close>, where the server of the second listens.
\<close>

definition partner_programs ::
  "sbi_env \<Rightarrow> 'y main_env \<Rightarrow> sepp_config \<Rightarrow> program \<Rightarrow> sbi_env \<Rightarrow> 'z main_env \<Rightarrow> sepp_config \<Rightarrow> program \<Rightarrow>
     string \<Rightarrow> delivery \<Rightarrow> bool" where
  "partner_programs BA MA cfgA pA BB MB cfgB pB url dl \<longleftrightarrow>
     (\<exists>args. main MA args = Running pA) \<and> pg_config pA = Some cfgA \<and>
     (\<exists>args. main MB args = Running pB) \<and> pg_config pB = Some cfgB \<and>
     ae_register_nrf (me_env MA) \<and> ae_register_nrf (me_env MB) \<and>
     c_security cfgA = ''PRINS'' \<and> c_security cfgB = ''PRINS'' \<and> c_role cfgA = ''c-sepp'' \<and>
     peer_address (configured cfgA (me_env MA)) = Some url \<and>
     (\<exists>base. me_net MA = peer_net (be_server (program_env BB MB cfgB)) dl (pg_world pB) base) \<and>
     tunnel_ok (be_server (program_env BA MA cfgA)) (be_server (program_env BB MB cfgB)) url dl"

text \<open>The second program, after any calls of the first.\<close>

definition partner_world :: "sbi_env \<Rightarrow> 'z main_env \<Rightarrow> sepp_config \<Rightarrow> program \<Rightarrow> delivery \<Rightarrow> history \<Rightarrow> world" where
  "partner_world BB MB cfgB pB dl h = peer_world (be_server (program_env BB MB cfgB)) dl (pg_world pB) h"

lemma main_new:
  assumes "main M args = Running p" and "pg_config p = Some cfg"
  obtains s ev h where "sepp_app_new (configured cfg (me_env M)) (me_net M) (me_now M) (me_instance_id M)
      (me_context_id M) sepp_event_init [] = Inr (s, ev, h)"
    and "pg_world p = \<lparr>w_app = Some s, w_history = h\<rparr>"
    and "system_started (program_env B M cfg) (program_system p)"
proof -
  obtain cfg' where run: "main_run M cfg' = Running p" by (rule main_runningE[OF assms(1)])
  note st = main_run_started[OF run, of B]
  have cfg: "cfg' = cfg" using st assms(2) by simp
  from run that st show thesis
    unfolding cfg main_run_def Let_def by (auto split: sum.splits prod.splits)
qed

lemma program_inv:
  assumes "main M args = Running p" and "pg_config p = Some cfg" and "n32f_env_ok (ae_n32f (me_env M))"
    and "steps (system_step (program_env B M cfg)) es (program_system p) sy"
  shows "world_inv (configured cfg (me_env M)) (sy_world sy)"
proof -
  have "system_started (program_env B M cfg) (program_system p)"
    by (rule main_new[OF assms(1,2)])
  from system_run_inv[OF this assms(4)] assms(3) show ?thesis by (simp add: system_inv_def)
qed

lemma partner_world_ok:
  assumes P: "partner_programs BA MA cfgA pA BB MB cfgB pB url dl"
  obtains sB b f where "w_app (partner_world BB MB cfgB pB dl h) = Some sB"
    and "m_sepp_n32c_handshake_inst sB = Some b" and "m_sepp_n32f_forward_inst sB = Some f"
    and "world_config ''PRINS'' (partner_world BB MB cfgB pB dl h)"
proof -
  obtain args where m: "main MB args = Running pB" "pg_config pB = Some cfgB"
    using P by (auto simp: partner_programs_def)
  have ok: "n32f_env_ok (ae_n32f (me_env MB))"
    using P site_ok by (fastforce simp: partner_programs_def tunnel_ok_def)
  have inv: "world_inv (configured cfgB (me_env MB)) (partner_world BB MB cfgB pB dl h)"
    using program_inv[OF m ok steps_Nil] peer_world_inv
    by (simp add: program_system_def partner_world_def)
  have "w_app (pg_world pB) \<noteq> None" by (rule main_new[OF m]) simp
  then obtain sB where sB: "w_app (partner_world BB MB cfgB pB dl h) = Some sB"
    using peer_world_app by (fastforce simp: partner_world_def)
  have c: "ae_register_nrf (configured cfgB (me_env MB))" "c_security cfgB = ''PRINS''"
    using P by (simp_all add: partner_programs_def)
  from world_inv_instances[OF inv sB c(1)] sB inv c(2) that show thesis
    by (auto simp: world_inv_def)
qed

text \<open>Two programs for the witnesses: the network functions of the second answer with 404.\<close>

definition demo_partner :: "string \<Rightarrow> net \<Rightarrow> json main_env" where
  "demo_partner role net = (demo_main role ''PRINS'' 2)\<lparr>me_net := net\<rparr>"

abbreviation demo_c_config :: sepp_config where "demo_c_config \<equiv> demo_config ''c-sepp'' C_SEPP ''PRINS''"
abbreviation demo_p_config :: sepp_config where "demo_p_config \<equiv> demo_config ''p-sepp'' P_SEPP ''PRINS''"
abbreviation demo_servers :: sbi_env where "demo_servers \<equiv> demo_sepp_env demo_app_env (answer 0)"

lemma demo_partner_main:
  assumes "role = ''c-sepp'' \<and> r = C_SEPP \<or> role = ''p-sepp'' \<and> r = P_SEPP"
    and "main_run (demo_partner role net) (demo_config role r ''PRINS'') = Running p"
  shows "main (demo_partner role net) [''-c'', ''f''] = Running p"
  using demo_parse demo_read[OF assms(1)] assms(2) by (auto simp: main_def demo_partner_def demo_main_def)

lemma demo_registers_always: "\<exists>r h'. register_to_nrf demo_nrf_env net ms (sepp_nrf_new demo_nrf_env ''i'', ev) h = Inr (r, h')"
proof -
  obtain d where "sepp_profile_to_json (nrf_profile (sepp_nrf_new demo_nrf_env ''i'')) JNull = Inr d"
    using sepp_profile_to_json_total by blast
  then show ?thesis
    by (simp add: register_to_nrf_def send_http_request_def Let_def demo_nrf_env_def)
qed

lemma demo_capability_total:
  assumes "ae_n32f E = demo_wire_env"
  shows "\<exists>s' h'. create_exchange_capability E net u s h = (s', h', Inr ())"
proof -
  have n: "ae_n32c E = demo_n32c_env"
    using assms by (simp add: demo_wire_env_def demo_n32f_env_def)
  obtain q where "create_exchange_capability_req demo_n32c_env c = Inr (q c)" for c
    using demo_capability_req by metis
  moreover have "\<exists>p. nbi_post E net x q h = Some p" for x q
    using assms by (simp add: nbi_post_def demo_wire_env_def split: prod.split)
  then obtain p where "nbi_post E net x q h = Some (p x q)" for x q by metis
  ultimately show ?thesis
    unfolding create_exchange_capability_def n swallow_def Let_def
    by (simp split: option.split prod.split)
qed

lemma demo_partner_runs:
  assumes "role = ''c-sepp'' \<and> r = C_SEPP \<or> role = ''p-sepp'' \<and> r = P_SEPP"
  shows "\<exists>p. main (demo_partner role net) [''-c'', ''f''] = Running p \<and>
     pg_config p = Some (demo_config role r ''PRINS'')"
proof -
  let ?cfg = "demo_config role r ''PRINS''"
  let ?E = "configured ?cfg demo_app_env"
  have E: "ae_nrf ?E = demo_nrf_env" "ae_n32f ?E = demo_wire_env"
    by (simp_all add: configured_def demo_app_env_def)
  obtain n ev h where reg: "register_to_nrf demo_nrf_env net 0 (sepp_nrf_new demo_nrf_env ''i'', sepp_event_init) [] =
      Inr ((n, ev), h)"
    using demo_registers_always[of net 0 sepp_event_init "[]"] by force
  obtain s' h' where "create_exchange_capability ?E net ''u'' ((app_instances ?E n)\<lparr>m_remote_sepp_url :=
      Some (remote_url ?E (hd (ae_roaming_partners ?E)))\<rparr>) h = (s', h', Inr ())"
    using demo_capability_total[OF E(2)] by blast
  with reg have "\<exists>x. sepp_app_new ?E net 0 ''i'' ''u'' sepp_event_init [] = Inr x"
    unfolding sepp_app_new_def E(1) by (simp add: Let_def)
  then have "\<exists>p. main_run (demo_partner role net) ?cfg = Running p"
    by (auto simp: main_run_def demo_partner_def demo_main_def Let_def)
  with demo_partner_main[OF assms] main_run_started show ?thesis by blast
qed

abbreviation demo_responder :: "json main_env" where
  "demo_responder \<equiv> demo_partner ''p-sepp'' demo_producer"

definition demo_initiator :: "program \<Rightarrow> json main_env" where
  "demo_initiator pB = demo_partner ''c-sepp'' (peer_net (be_server (program_env demo_servers demo_responder
     demo_p_config)) (demo_delivery demo_url) (pg_world pB) (answer 0))"

lemma demo_partners:
  "\<exists>pB pA. main (demo_initiator pB) [''-c'', ''f''] = Running pA \<and>
     partner_programs demo_servers (demo_initiator pB) demo_c_config pA demo_servers demo_responder demo_p_config pB
       demo_url (demo_delivery demo_url)"
proof -
  let ?MB = "demo_partner ''p-sepp'' demo_producer"
  obtain pB where pB: "main ?MB [''-c'', ''f''] = Running pB" "pg_config pB = Some demo_p_config"
    using demo_partner_runs[of "''p-sepp''" P_SEPP] by blast
  let ?V = "be_server (program_env demo_servers ?MB demo_p_config)"
  let ?MA = "demo_partner ''c-sepp'' (peer_net ?V (demo_delivery demo_url) (pg_world pB) (answer 0))"
  obtain pA where pA: "main ?MA [''-c'', ''f''] = Running pA" "pg_config pA = Some demo_c_config"
    using demo_partner_runs[of "''c-sepp''" C_SEPP] by blast
  have M: "me_env (demo_partner role net) = demo_app_env" "me_net (demo_partner role net) = net" for role net
    by (simp_all add: demo_partner_def demo_main_def)
  have c: "ae_register_nrf demo_app_env" "c_security demo_c_config = ''PRINS''" "c_security demo_p_config = ''PRINS''"
    "c_role demo_c_config = ''c-sepp''"
    by (simp_all add: demo_app_env_def demo_config_def)
  have u: "peer_address (configured demo_c_config demo_app_env) = Some demo_url"
    by (simp add: peer_address_def configured_def demo_app_env_def demo_config_def get_role_enum_def
        demo_url_def remote_url_def is_tls_enabled_def get_security_def)
  have v: "ve_n32f (be_server (program_env demo_servers (demo_partner role net) cfg)) = demo_wire_env"
    "ve_req_msg_valid (be_server (program_env demo_servers (demo_partner role net) cfg)) = (\<lambda>j. True)"
    for role net cfg
    by (simp_all add: M program_env_def demo_sepp_env_def demo_server_env_def demo_app_env_def configured_def)
  have t: "tunnel_ok (be_server (program_env demo_servers ?MA demo_c_config)) ?V demo_url (demo_delivery demo_url)"
    unfolding tunnel_ok_def v using demo_wire_env_ok demo_delivery_ok demo_site
    by (simp add: demo_wire_simps(2))
  from pA pB M c u t show ?thesis
    unfolding partner_programs_def demo_initiator_def by auto
qed

subsection \<open>The handshake at the start\<close>

lemma peer_world_local: "local_calls h \<Longrightarrow> peer_world V dl w h = w"
proof (induction h rule: rev_induct)
  case (snoc c h)
  then show ?case by (auto simp: peer_world_snoc peer_step_def local_calls_def)
qed (simp add: peer_world_def)

lemma register_local: "register_to_nrf N net ms ne [] = Inr (ne', h') \<Longrightarrow> local_calls h'"
  by (auto simp: register_to_nrf_def send_http_request_def Let_def split: sum.splits option.splits if_splits)

text \<open>The constructor of a SEPP with the role \<^verbatim>\<open>c-sepp\<close>: registration, then the handshake.\<close>

lemma sepp_app_new_initiates:
  assumes "sepp_app_new E net ms uuid uuid' ev [] = Inr (s, ev', h)" and "peer_address E = Some url"
  obtains n h1 u where "local_calls h1"
    and "create_exchange_capability E net uuid' ((app_instances E n)\<lparr>m_remote_sepp_url := Some url\<rparr>) h1 =
      (s, h, Inr u)"
proof -
  have E: "ae_register_nrf E" "ae_is_c_sepp E" "ae_roaming_partners E \<noteq> []"
    "url = remote_url E (hd (ae_roaming_partners E))"
    using assms(2) by (auto simp: peer_address_def split: if_splits)
  obtain n ev1 h1 where reg: "register_to_nrf (ae_nrf E) net ms (sepp_nrf_new (ae_nrf E) uuid, ev) [] =
      Inr ((n, ev1), h1)"
    using assms(1) E(1) by (auto simp: sepp_app_new_def split: sum.splits)
  then obtain u where "create_exchange_capability E net uuid'
      ((app_instances E n)\<lparr>m_remote_sepp_url := Some url\<rparr>) h1 = (s, h, Inr u)"
    using assms(1) E by (auto simp: sepp_app_new_def Let_def split: sum.splits prod.splits)
  with register_local[OF reg] that show thesis by blast
qed



subsection \<open>Requests in every later run\<close>

text \<open>Serving requests in a row is a run of the process.\<close>

lemma serve_all_steps:
  "serve_all B reqs (sy_world sy) = (w', as) \<Longrightarrow>
     steps (system_step B) (map (Request \<circ> SbiRequest) reqs) sy (sy\<lparr>sy_world := w'\<rparr>)"
proof (induction reqs arbitrary: sy as)
  case Nil
  then have "sy\<lparr>sy_world := w'\<rparr> = sy" by auto
  then show ?case by (simp add: steps_Nil)
next
  case (Cons req reqs)
  obtain v a where v: "sbi_serve B req (sy_world sy) = (v, a)" by (metis prod.collapse)
  obtain as' where "serve_all B reqs v = (w', as')"
    using Cons.prems v by (auto split: prod.splits)
  with Cons.IH[of "sy\<lparr>sy_world := v\<rparr>" as'] system_step.request[OF world_step.sbi[OF v]] show ?case
    by (auto intro: steps_Cons)
qed



end
