(* ===== verification/Sepp_Pair.thy ===== *)
theory Sepp_Pair
  imports Sepp_Deployment
begin

text \<open>
  Two processes that run at the same time, each the peer of the other: at every step one of
  them serves a request, from whomever, or its clock ticks, and what it sends to the other
  network is served by the process on the other side as that has become by then.
\<close>

subsection \<open>Steps of the pair\<close>

text \<open>
  The network of a process that has made the calls \<open>h0\<close> so far, while the peer has the world
  \<open>w\<close>. Its own network is the network of its environment.
\<close>

definition linked :: "sbi_env \<Rightarrow> server_env \<Rightarrow> delivery \<Rightarrow> world \<Rightarrow> history \<Rightarrow> sbi_env" where
  "linked B VB dl w h0 = B\<lparr>be_server := (be_server B)\<lparr>ve_net :=
     (\<lambda>h. peer_net VB dl w (\<lambda>cs. ve_net (be_server B) (h0 @ cs)) (drop (length h0) h))\<rparr>\<rparr>"

definition served :: "server_env \<Rightarrow> delivery \<Rightarrow> system \<Rightarrow> system \<Rightarrow> system \<Rightarrow> system" where
  "served V dl sy sy' peer = peer\<lparr>sy_world := peer_world V dl (sy_world peer)
     (drop (length (w_history (sy_world sy))) (w_history (sy_world sy')))\<rparr>"

datatype pair_event = First system_event | Second system_event

inductive pair_step ::
  "sbi_env \<Rightarrow> sbi_env \<Rightarrow> delivery \<Rightarrow> delivery \<Rightarrow> pair_event \<Rightarrow> system \<times> system \<Rightarrow> system \<times> system \<Rightarrow> bool"
  for BA BB dlA dlB where
  first: "system_step (linked BA (be_server BB) dlA (sy_world b) (w_history (sy_world a))) e a a' \<Longrightarrow>
     pair_step BA BB dlA dlB (First e) (a, b) (a', served (be_server BB) dlA a a' b)"
| second: "system_step (linked BB (be_server BA) dlB (sy_world a) (w_history (sy_world b))) e b b' \<Longrightarrow>
     pair_step BA BB dlA dlB (Second e) (a, b) (served (be_server BA) dlB b b' a, b')"

inductive_cases pair_step_elims:
  "pair_step BA BB dlA dlB (First e) s s'" "pair_step BA BB dlA dlB (Second e) s s'"

text \<open>Neither side is special.\<close>

fun other_side :: "pair_event \<Rightarrow> pair_event" where
  "other_side (First e) = Second e"
| "other_side (Second e) = First e"

lemma pair_step_swap:
  "pair_step BA BB dlA dlB e (a, b) (a', b') \<longleftrightarrow> pair_step BB BA dlB dlA (other_side e) (b, a) (b', a')"
  by (cases e) (auto intro: pair_step.intros elim!: pair_step_elims)

lemma pair_run_swap:
  "steps (pair_step BA BB dlA dlB) es s s' \<Longrightarrow>
     steps (pair_step BB BA dlB dlA) (map other_side es) (prod.swap s) (prod.swap s')"
proof (induction rule: steps.induct)
  case (steps_Cons e s t es u)
  moreover have "pair_step BB BA dlB dlA (other_side e) (prod.swap s) (prod.swap t)"
    using steps_Cons(1) pair_step_swap by (metis prod.collapse swap_simp)
  ultimately show ?case by (simp add: steps.steps_Cons)
qed (simp add: steps.steps_Nil)

lemma linked_simps [simp]:
  "ve_app (be_server (linked B V dl w h)) = ve_app (be_server B)"
  "ve_req_msg_valid (be_server (linked B V dl w h)) = ve_req_msg_valid (be_server B)"
  by (simp_all add: linked_def)

lemma linked_net:
  "ve_net (be_server (linked B V dl w h)) (h @ [HttpCall NbiClient m r]) =
     response_of (snd (nbi_serve V (dl m r) w))"
  by (simp add: linked_def peer_net_def peer_world_def)

lemma linked_net_local:
  "ve_net (be_server (linked B V dl w h)) (h @ [HttpCall SbiClient m r]) =
     ve_net (be_server B) (h @ [HttpCall SbiClient m r])"
  by (simp add: linked_def peer_net_def)

subsection \<open>What holds in every run of the pair\<close>

definition pair_inv :: "sbi_env \<Rightarrow> sbi_env \<Rightarrow> system \<times> system \<Rightarrow> bool" where
  "pair_inv BA BB s \<longleftrightarrow> system_inv BA (fst s) \<and> system_inv BB (snd s)"

lemma system_inv_linked [simp]: "system_inv (linked B V dl w h) = system_inv B"
  by (intro ext) (simp add: system_inv_def)

lemma peer_world_nrf:
  "map_option m_sepp_nrf_inst (w_app (peer_world V dl w h)) = map_option m_sepp_nrf_inst (w_app w)"
proof (induction h rule: rev_induct)
  case (snoc c h)
  obtain cl m r where c: "c = HttpCall cl m r" by (cases c)
  have "map_option m_sepp_nrf_inst (w_app (fst (nbi_serve V req v))) = map_option m_sepp_nrf_inst (w_app v)"
    for req v
    using nbi_serve_quiet[of v V req] by (simp add: quiet_def)
  with snoc c show ?case by (simp add: peer_world_snoc peer_step_def split: http_client.split)
qed (simp add: peer_world_def)

lemma served_inv:
  assumes "system_inv B peer"
  shows "system_inv B (served V dl sy sy' peer)"
proof -
  let ?w = "peer_world V dl (sy_world peer) (drop (length (w_history (sy_world sy))) (w_history (sy_world sy')))"
  have "heart_inv (peer\<lparr>sy_world := ?w\<rparr>)"
  proof -
    have "\<exists>a. w_app (sy_world peer) = Some a \<and> m_sepp_nrf_inst a = m_sepp_nrf_inst a'" if "w_app ?w = Some a'" for a'
      using peer_world_nrf[of V dl "sy_world peer"
          "drop (length (w_history (sy_world sy))) (w_history (sy_world sy'))"] that
      by (cases "w_app (sy_world peer)") auto
    with assms show ?thesis by (fastforce simp: system_inv_def heart_inv_def)
  qed
  with assms peer_world_inv show ?thesis by (simp add: system_inv_def served_def)
qed

lemma pair_inv_step:
  assumes "pair_step BA BB dlA dlB e s s'" and "pair_inv BA BB s"
  shows "pair_inv BA BB s'"
  using assms
proof cases
  case (first b a e a')
  then show ?thesis
    using system_inv_step[OF first(4)] served_inv assms(2) by (simp add: pair_inv_def)
next
  case (second a b e b')
  then show ?thesis
    using system_inv_step[OF second(4)] served_inv assms(2) by (simp add: pair_inv_def)
qed

interpretation pair_machine: invariant_machine "pair_step BA BB dlA dlB" "pair_inv BA BB" for BA BB dlA dlB
  by unfold_locales (rule pair_inv_step)

subsection \<open>A request at any moment\<close>

lemma tunnel_ok_linked [simp]: "tunnel_ok (be_server (linked B W d w h)) V url dl = tunnel_ok (be_server B) V url dl"
  by (simp add: tunnel_ok_def)

lemma sbi_step_unique:
  assumes "sbi_serve B req (sy_world a) = (w', ans)"
  shows "system_step B (Request (SbiRequest req)) a a' \<longleftrightarrow> a' = a\<lparr>sy_world := w'\<rparr>"
  using assms by (auto intro!: system_step.request world_step.sbi elim!: system_step_elims(1) world_step_elims(2))

lemma pair_serves:
  assumes T: "tunnel_ok (be_server BA) (be_server BB) url dlA" and P: "prins_pair url sA (sy_world b)"
    and A: "w_app (sy_world a) = Some sA" and t: "tunnelled BA (be_server BB) req"
    and R: "R = ve_net (be_server BB) (w_history (sy_world b) @ [relayed (ve_n32f (be_server BB)) req])"
  shows "\<exists>w' hs. sbi_serve (linked BA (be_server BB) dlA (sy_world b) (w_history (sy_world a))) req (sy_world a) =
       (w', ([WriteHead (rp_status R) hs, EndBody (if rp_status R = 204 then [] else rp_body R)], Inr ())) \<and>
     w_app w' = Some sA \<and>
     (\<forall>s'. pair_step BA BB dlA dlB (First (Request (SbiRequest req))) (a, b) s' \<longleftrightarrow>
        s' = (a\<lparr>sy_world := w'\<rparr>, b\<lparr>sy_world := (sy_world b)\<lparr>w_history :=
          w_history (sy_world b) @ [relayed (ve_n32f (be_server BB)) req]\<rparr>\<rparr>))"
proof -
  let ?B = "linked BA (be_server BB) dlA (sy_world b) (w_history (sy_world a))"
  obtain body where req: "sr_path req \<noteq> ''/nsepp-telescopic/v1/mapping''"
      "collect_body (sr_chunks req) [] = Some body" "sbi_authority (sr_header req) \<noteq> []"
    and C: "carriable (sr_method req) (full_path req) (sbi_authority (sr_header req)) body"
    and CR: "carriable_response (ve_n32f (be_server BA)) (full_path req) (sbi_authority (sr_header req)) R"
    using t unfolding tunnelled_def R by blast
  have T': "tunnel_ok (be_server ?B) (be_server BB) url dlA" using T by simp
  have CR': "carriable_response (ve_n32f (be_server ?B)) (full_path req) (sbi_authority (sr_header req)) R"
    using CR by simp
  obtain r hs where s: "sbi_serve ?B req (sy_world a) =
      ((sy_world a)\<lparr>w_history := w_history (sy_world a) @ [HttpCall NbiClient POST r]\<rparr>,
       ([WriteHead (rp_status R) hs, EndBody (if rp_status R = 204 then [] else rp_body R)], Inr ()))"
    and b: "fst (nbi_serve (be_server BB) (dlA POST r) (sy_world b)) = (sy_world b)\<lparr>w_history :=
       w_history (sy_world b) @ [relayed (ve_n32f (be_server BB)) req]\<rparr>"
    using serve_exchange[OF T' linked_net A P req C R CR'] by blast
  have "served (be_server BB) dlA a (a\<lparr>sy_world := (sy_world a)\<lparr>w_history := w_history (sy_world a) @
      [HttpCall NbiClient POST r]\<rparr>\<rparr>) b = b\<lparr>sy_world := (sy_world b)\<lparr>w_history :=
       w_history (sy_world b) @ [relayed (ve_n32f (be_server BB)) req]\<rparr>\<rparr>"
    using b by (simp add: served_def peer_world_def peer_step_def)
  then have "pair_step BA BB dlA dlB (First (Request (SbiRequest req))) (a, b) s' \<longleftrightarrow>
      s' = (a\<lparr>sy_world := (sy_world a)\<lparr>w_history := w_history (sy_world a) @ [HttpCall NbiClient POST r]\<rparr>\<rparr>,
        b\<lparr>sy_world := (sy_world b)\<lparr>w_history :=
          w_history (sy_world b) @ [relayed (ve_n32f (be_server BB)) req]\<rparr>\<rparr>)" for s'
    using sbi_step_unique[OF s] by (auto elim!: pair_step_elims intro: pair_step.first) (metis pair_step.first)
  with s A show ?thesis by (intro exI conjI allI) (assumption | simp)+
qed

text \<open>Both processes when they have been started: the second has served the handshake of the first.\<close>

definition pair_started ::
  "program \<Rightarrow> sbi_env \<Rightarrow> 'z main_env \<Rightarrow> sepp_config \<Rightarrow> program \<Rightarrow> delivery \<Rightarrow> system \<times> system" where
  "pair_started pA BB MB cfgB pB dl =
     (program_system pA, (program_system pB)\<lparr>sy_world := partner_world BB MB cfgB pB dl (w_history (pg_world pA))\<rparr>)"

lemma pair_started_inv:
  assumes "partner_programs BA MA cfgA pA BB MB cfgB pB url dl"
  shows "pair_inv (program_env BA MA cfgA) (program_env BB MB cfgB) (pair_started pA BB MB cfgB pB dl)"
proof -
  obtain args args' where m: "main MA args = Running pA" "pg_config pA = Some cfgA"
    "main MB args' = Running pB" "pg_config pB = Some cfgB"
    using assms unfolding partner_programs_def by blast
  have "system_inv (program_env BA MA cfgA) (program_system pA)"
    using main_new[OF m(1,2)] system_started_inv by blast
  moreover have "system_inv (program_env BB MB cfgB) (program_system pB)"
    using main_new[OF m(3,4)] system_started_inv by blast
  from served_inv[OF this, of _ dl "program_system pA\<lparr>sy_world := \<lparr>w_app = None, w_history = []\<rparr>\<rparr>" "program_system pA"]
  have "system_inv (program_env BB MB cfgB) ((program_system pB)\<lparr>sy_world :=
      partner_world BB MB cfgB pB dl (w_history (pg_world pA))\<rparr>)"
    by (simp add: served_def partner_world_def program_system_def)
  ultimately show ?thesis by (simp add: pair_inv_def pair_started_def)
qed



end
