(* ===== verification/Sepp_Serve.thy ===== *)
theory Sepp_Serve
  imports Sepp_World
begin

text \<open>
  What single endpoints of the running servers do with a request: forwarding with the TLS
  mechanism, methods the N32 endpoints do not serve, and mapping queries.
\<close>

subsection \<open>Forwarding without message protection\<close>

text \<open>
  C38: the endpoint for messages forwarded over plain TLS only ever passes on GET requests
  without a body: whatever method and body the peer's network function used, nothing else
  reaches the network functions behind the SEPP, and with a method other than GET and POST
  nothing does.
\<close>

theorem tls_forward_get_only:
  assumes "sr_path req \<notin> insert ''/n32c-handshake/v1/n32f-error'' n32_paths"
    and ok: "n32f_env_ok (ve_n32f V)"
  shows "fst (nbi_serve V req w) = w \<or>
     sr_method req \<in> {''GET'', ''POST''} \<and>
     (\<exists>r. fst (nbi_serve V req w) = w\<lparr>w_history := w_history w @ [HttpCall SbiClient GET r]\<rparr> \<and> rq_body r = [])"
proof -
  have f: "w' = w \<or> (\<exists>r. w' = w\<lparr>w_history := w_history w @ [HttpCall SbiClient GET r]\<rparr> \<and> rq_body r = [])"
    if "nbi_n32f_forward V d j hs w = (w', j', hs', b)" for d j hs w' j' hs' b
  proof -
    have c: "fst (app_n32f_forward E net s d j hs h) = h \<or>
        (\<exists>a p. fst (app_n32f_forward E net s d j hs h) = h @
          [HttpCall SbiClient GET (target_request (ae_n32f E) a p [] (forward_headers_of d))])" for E net s h
      using forward_history[of "ae_n32f E" net _ d j hs h]
      by (simp add: app_n32f_forward_def split: option.split)
    show ?thesis
    proof (cases "w_app w")
      case None
      with that show ?thesis by (simp add: nbi_n32f_forward_def on_history_def)
    next
      case (Some s)
      obtain h1 j1 hs1 b1 where h: "app_n32f_forward (ve_app V) (ve_net V) s d j hs (w_history w) = (h1, j1, hs1, b1)"
        by (metis prod_cases4)
      have same: "w\<lparr>w_history := w_history w\<rparr> = w" by simp
      have "h1 = w_history w \<or> (\<exists>r. h1 = w_history w @ [HttpCall SbiClient GET r] \<and> rq_body r = [])"
        using c[of "ve_app V" "ve_net V" s "w_history w"] h target_request_uri(2)[OF ok] by fastforce
      moreover have "w' = w\<lparr>w_history := h1\<rparr>"
        using that h Some by (simp add: nbi_n32f_forward_def on_history_def)
      ultimately show ?thesis using same by metis
    qed
  qed
  have "nbi_serve V req w = nbi_forward_endpoint V req w"
    using assms(1) by (simp add: nbi_serve_def Let_def n32_paths_def)
  then show ?thesis
    using f unfolding nbi_forward_endpoint_def forward_get_def process_post_request_def post_answer_def
    by (fastforce split: if_splits option.splits prod.splits)
qed

lemma method_of_string_simps [simp]:
  "method_of_string ''GET'' = GET" "method_of_string ''POST'' = POST" "method_of_string ''PUT'' = PUT"
  "method_of_string ''DELETE'' = DELETE" "method_of_string ''PATCH'' = PATCH"
  by (simp_all add: method_of_string_def)

text \<open>A server with the TLS mechanism.\<close>

definition demo_tls_world :: world where
  "demo_tls_world = \<lparr>w_app = Some (sepp_app_empty\<lparr>m_sepp_n32f_forward_inst :=
       Some (n32f_init\<lparr>m_security_capability := ''TLS''\<rparr>)\<rparr>), w_history = []\<rparr>"

lemma demo_server_ok: "n32f_env_ok (ve_n32f (demo_server_env net))"
  using demo_wire_env_ok by (simp add: demo_server_env_def demo_app_env_def)

theorem tls_forward_get_only_witness:
  "fst (nbi_serve (demo_server_env (answer 200))
     \<lparr>sr_method = ''DELETE'', sr_path = ''/nudm-uecm/v1/x'', sr_raw_query = [], sr_header = [], sr_chunks = [[]]\<rparr>
     demo_tls_world) = demo_tls_world"
  using tls_forward_get_only[of "\<lparr>sr_method = ''DELETE'', sr_path = ''/nudm-uecm/v1/x'', sr_raw_query = [],
       sr_header = [], sr_chunks = [[]]\<rparr>" "demo_server_env (answer 200)" demo_tls_world] demo_server_ok
  by (simp add: n32_paths_def)

text \<open>
  With the TLS mechanism, a GET request of the peer is passed on to the network function it
  names, once, with the path and a question mark before the query, also when there is no
  query. The answer is the document made of the body, always with the status 200.
\<close>

definition forwarded_json :: "n32f_env \<Rightarrow> http_response \<Rightarrow> json" where
  "forwarded_json F R =
     (let j = (if rp_body R \<noteq> [] then
                 (case fe_get_json F R of Some j \<Rightarrow> j | None \<Rightarrow> JObj [(''body'', JStr (rp_body R))])
               else JObj [])
      in if json_empty j \<and> rp_status R = 200 then JObj [(''status'', JStr ''OK'')] else j)"

definition forwarded_request :: "n32f_env \<Rightarrow> server_request \<Rightarrow> http_request" where
  "forwarded_request F req = target_request F (get_authority (sr_header req))
     (sr_path req @ ''?'' @ sr_raw_query req) [] (forward_headers_of (forward_message req))"

lemma handle_n32f_forward_get:
  assumes "m_security_capability f = ''TLS''"
    and R: "R = net (h @ [HttpCall SbiClient GET (forwarded_request F req)])" "rp_status R \<noteq> 0"
  shows "handle_n32f_forward F net f (forward_message req) JNull [] h =
     (h @ [HttpCall SbiClient GET (forwarded_request F req)], forwarded_json F R,
      [(''content-type'', ''application/json'')], Inr True)"
proof -
  have m: "validate_n32f_message (forward_message req)"
    "value_string (forward_message req) ''authority'' [] = Inr (get_authority (sr_header req))"
    "value_string (forward_message req) ''path'' [] = Inr (sr_path req)"
    "value_string (forward_message req) ''query'' [] = Inr (sr_raw_query req)"
    by (simp_all add: forward_message_def validate_n32f_message_def)
  show ?thesis
    unfolding handle_n32f_forward_def m using assms m(1)
    by (simp add: send_http_request_to_target_def send_http_request_def Let_def forwarded_request_def
        forwarded_json_def hput_def)
qed

lemma tls_get_served:
  assumes req: "sr_path req \<notin> insert ''/n32c-handshake/v1/n32f-error'' n32_paths" "sr_method req = ''GET''"
    and app: "w_app w = Some s" "m_sepp_n32f_forward_inst s = Some f" "m_security_capability f = ''TLS''"
    and R: "R = ve_net V (w_history w @ [HttpCall SbiClient GET (forwarded_request (ve_n32f V) req)])"
      "rp_status R \<noteq> 0"
    and t: "fe_dump (ve_n32f V) (forwarded_json (ve_n32f V) R) = Some t"
  shows "nbi_serve V req w =
     (w\<lparr>w_history := w_history w @ [HttpCall SbiClient GET (forwarded_request (ve_n32f V) req)]\<rparr>,
      ([WriteHead 200 (JSON_HEADERS @ fe_order (ve_n32f V) [(''content-type'', ''application/json'')]),
        EndBody t], Inr ()))"
  using req app t
    handle_n32f_forward_get[where net = "ve_net V" and h = "w_history w" and F = "ve_n32f V" and req = req, OF app(3) R]
  by (auto simp: nbi_serve_def Let_def nbi_forward_endpoint_def forward_get_def nbi_n32f_forward_def
      on_history_def app_n32f_forward_def n32_paths_def end_dump_def)

text \<open>
  The endpoints of the N32 interfaces serve POST only: any other method is answered with
  405 and changes nothing. That includes OPTIONS on the process endpoint, for which the
  component has an operation and the list of APIs an entry.
\<close>

theorem n32_endpoints_post_only:
  assumes "sr_path req \<in> insert ''/n32c-handshake/v1/n32f-error'' n32_paths" and "sr_method req \<noteq> ''POST''"
  shows "fst (nbi_serve V req w) = w \<and> status_of (fst (snd (nbi_serve V req w))) = Some 405"
  using assms by (auto simp: nbi_serve_def Let_def process_post_request_def n32_paths_def)

theorem n32_endpoints_post_only_witness:
  "status_of (fst (snd (nbi_serve (demo_server_env (answer 200))
     ((post ''/n32f-forward/v1/n32f-process'' [])\<lparr>sr_method := ''OPTIONS''\<rparr>) demo_tls_world))) = Some 405"
  using n32_endpoints_post_only[of "(post ''/n32f-forward/v1/n32f-process'' [])\<lparr>sr_method := ''OPTIONS''\<rparr>"]
  by (simp add: post_def n32_paths_def)

subsection \<open>Mapping queries\<close>

text \<open>
  C39: a successful mapping query is answered with the query itself: the answer holds the label
  and the FQDN as they were asked for, one of them empty, and nothing of what the application
  found.
\<close>

theorem mapping_query_echoed:
  assumes req: "sr_path req = ''/nsepp-telescopic/v1/mapping''" "sr_method req = ''GET''"
      "collect_body (sr_chunks req) [] \<noteq> None" and app: "w_app w = Some s"
    and q: "foreignFqdn = be_get_param B (sr_raw_query req) ''foreign-fqdn''"
      "telescopicLabel = be_get_param B (sr_raw_query req) ''telescopic-label''"
    and found: "app_get_telescopic_mapping_text (be_mapping_dump B) s foreignFqdn telescopicLabel [] =
       Inr (True, t)"
    and dump: "fe_dump (ve_n32f (be_server B)) (be_mapping_json B
       (empty_mapping\<lparr>tm_label := Some telescopicLabel, tm_foreign_fqdn := Some foreignFqdn\<rparr>)) = Some d"
  shows "sbi_serve B req w = (w, ([WriteHead 200 JSON_HEADERS, EndBody d], Inr ())) \<and>
     (foreignFqdn = [] \<or> telescopicLabel = [])"
proof -
  have one: "(foreignFqdn = []) \<noteq> (telescopicLabel = [])"
    using found
    by (auto simp: app_get_telescopic_mapping_text_def get_telescopic_mapping_text_def
        get_telescopic_mapping_def split: option.splits if_splits)
  with req app found dump show ?thesis
    by (auto simp: sbi_serve_def sbi_mapping_endpoint_def mapping_answer_def Let_def q[symmetric]
        handle_telescopic_mapping_def end_dump_def)
qed

definition demo_mapping_env :: sbi_env where
  "demo_mapping_env = (demo_sepp_env demo_app_env (answer 0))\<lparr>
     be_get_param := (\<lambda>q k. if k = ''foreign-fqdn'' then q else []),
     be_mapping_json := (\<lambda>m. JObj [(''telescopicLabel'', JStr (case tm_label m of Some l \<Rightarrow> l | None \<Rightarrow> ''none''))])\<rparr>"

theorem mapping_query_echoed_witness:
  "\<exists>d. sbi_serve demo_mapping_env
       \<lparr>sr_method = ''GET'', sr_path = ''/nsepp-telescopic/v1/mapping'',
        sr_raw_query = ''smf.5gc.mnc10.mcc262.3gppnetwork.org'', sr_header = [], sr_chunks = [[]]\<rparr>
       \<lparr>w_app = Some (demo_sepp None), w_history = []\<rparr> =
     (\<lparr>w_app = Some (demo_sepp None), w_history = []\<rparr>, ([WriteHead 200 JSON_HEADERS, EndBody d], Inr ())) \<and>
     demo_parse d = Some (JObj [(''telescopicLabel'', JStr [])])"
proof -
  let ?req = "\<lparr>sr_method = ''GET'', sr_path = ''/nsepp-telescopic/v1/mapping'',
      sr_raw_query = ''smf.5gc.mnc10.mcc262.3gppnetwork.org'', sr_header = [], sr_chunks = [[]]\<rparr>"
  let ?w = "\<lparr>w_app = Some (demo_sepp None), w_history = []\<rparr>"
  let ?m = "empty_mapping\<lparr>tm_label := Some [], tm_foreign_fqdn := Some ''smf.5gc.mnc10.mcc262.3gppnetwork.org''\<rparr>"
  have q: "''smf.5gc.mnc10.mcc262.3gppnetwork.org'' = be_get_param demo_mapping_env (sr_raw_query ?req) ''foreign-fqdn''"
    "[] = be_get_param demo_mapping_env (sr_raw_query ?req) ''telescopic-label''"
    by (simp_all add: demo_mapping_env_def)
  have "get_telescopic_mapping [\<lparr>pc_mcc = ''262'', pc_mnc = ''10''\<rparr>]
       ''smf.5gc.mnc10.mcc262.3gppnetwork.org'' [] empty_mapping =
       Inr (True, empty_mapping\<lparr>tm_label := Some ''smfplmn26210'', tm_sepp_domain := Some m_sepp_domain\<rparr>)"
    by code_simp
  then have found: "\<exists>t. app_get_telescopic_mapping_text (be_mapping_dump demo_mapping_env) (demo_sepp None)
      ''smf.5gc.mnc10.mcc262.3gppnetwork.org'' [] [] = Inr (True, t)"
    by (simp add: app_get_telescopic_mapping_text_def get_telescopic_mapping_text_def demo_sepp_def
        app_instances_def demo_app_env_def)
  have dump: "fe_dump (ve_n32f (be_server demo_mapping_env)) (be_mapping_json demo_mapping_env ?m) =
      Some (wr (JObj [(''telescopicLabel'', JStr [])]))"
    by (simp add: demo_mapping_env_def demo_sepp_env_def demo_app_env_def demo_wire_env_def)
  have "sbi_serve demo_mapping_env ?req ?w =
      (?w, ([WriteHead 200 JSON_HEADERS, EndBody (wr (JObj [(''telescopicLabel'', JStr [])]))], Inr ()))"
    using mapping_query_echoed[OF _ _ _ _ q _ dump, of ?w "demo_sepp None"] found by auto
  then show ?thesis by (metis demo_parse_wr)
qed

end
