(* ===== verification/Sepp_Tls.thy ===== *)
theory Sepp_Tls
  imports Sepp_Serve Sepp_Tunnel
begin

text \<open>
  Two SEPPs configured for TLS: what becomes of a GET request of a network function, which
  is sent to the other SEPP as it is.
\<close>

subsection \<open>Delivery of plain requests\<close>

text \<open>
  How nghttp2 presents a request that was sent: it splits the URL at the question mark, and
  names of headers are in lower case. Only paths without escapes are considered.
\<close>

definition plain_path :: "string \<Rightarrow> bool" where
  "plain_path path \<longleftrightarrow> starts_with ''/'' path \<and> CHR ''?'' \<notin> set path \<and> CHR ''%'' \<notin> set path"

definition tls_delivery_ok :: "string \<Rightarrow> delivery \<Rightarrow> bool" where
  "tls_delivery_ok url dl \<longleftrightarrow>
     (\<forall>m r path query. plain_path path \<longrightarrow>
        rq_uri r = url @ path @ (if query \<noteq> [] then ''?'' @ query else []) \<longrightarrow>
        sr_method (dl m r) = method_name m \<and> sr_path (dl m r) = path \<and> sr_raw_query (dl m r) = query) \<and>
     (\<forall>m r v. hget (rq_headers r) ''3gpp-Sbi-Target-apiRoot'' = Some v \<longrightarrow> \<not> has_crlf v \<longrightarrow>
        filter (\<lambda>(k, v). k = ''3gpp-sbi-target-apiroot'') (sr_header (dl m r)) =
          [(''3gpp-sbi-target-apiroot'', v)])"

subsection \<open>The target\<close>

lemma string_members_map: "string_members (map (\<lambda>(k, v). (k, JStr v)) kvs) m = fold (\<lambda>(k, v). hput k v) kvs m"
  by (induction kvs arbitrary: m) auto

lemma map_of_rev_filter: "map_of (rev kvs) k = map_of (rev (filter (\<lambda>(k', v). k' = k) kvs)) k"
  by (induction kvs) (auto simp: map_add_def split: option.splits)

lemma forward_headers_unique:
  assumes "filter (\<lambda>(k', v). k' = k) (sr_header req) = [(k, v)]"
  shows "hget (forward_headers_of (forward_message req)) k = Some v"
proof -
  let ?h = "fold (\<lambda>(k, v). hput k v) (sr_header req) []"
  have d: "distinct (map fst ?h)" by (rule distinct_fold_hput) simp
  have "forward_headers_of (forward_message req) = fold (\<lambda>(k, v). hput k v) ?h []"
    by (simp add: forward_headers_of_def forward_message_def string_members_map)
  then have "hget (forward_headers_of (forward_message req)) k = map_of ?h k"
    using hdr.get_fold_put_distinct[OF d, of "[]" k] by (simp split: option.splits)
  also have "\<dots> = hget ?h k" by (simp add: hget_def)
  also have "\<dots> = map_of (rev (sr_header req)) k"
    using hdr.get_fold_put[of "sr_header req" "[]" k] by (simp split: option.splits)
  also have "\<dots> = Some v"
    unfolding map_of_rev_filter[of "sr_header req"] assms by simp
  finally show ?thesis .
qed

text \<open>The scheme the sending SEPP puts before the authority is taken off again.\<close>

definition api_root :: "app_env \<Rightarrow> string \<Rightarrow> string" where
  "api_root E authority =
     (if \<not> starts_with ''http://'' authority \<and> \<not> starts_with ''https://'' authority
      then (if ae_tls_enabled E then ''https://'' else ''http://'') @ authority else authority)"

lemma api_root_target: "force_http (api_root E authority) = force_http authority"
  by (auto simp: api_root_def force_http_def starts_with_def)

lemma tls_request_apiroot:
  "authority \<noteq> [] \<Longrightarrow>
     hget (rq_headers (tls_request E url authority path body)) ''3gpp-Sbi-Target-apiRoot'' = Some (api_root E authority)"
  by (simp add: tls_request_def Let_def api_root_def)

lemma api_root_no_crlf: "\<not> has_crlf authority \<Longrightarrow> \<not> has_crlf (api_root E authority)"
  by (auto simp: api_root_def has_crlf_def)

subsection \<open>A GET request, end to end\<close>

definition tls_pair :: "string \<Rightarrow> sepp_app \<Rightarrow> world \<Rightarrow> bool" where
  "tls_pair url sA wB \<longleftrightarrow>
     app_config ''TLS'' sA \<and> m_sepp_n32f_forward_inst sA \<noteq> None \<and> m_remote_sepp_url sA = Some url \<and>
     world_config ''TLS'' wB \<and>
     (\<exists>sB. w_app wB = Some sB \<and> m_sepp_n32f_forward_inst sB \<noteq> None)"

lemma mset_single_eq: "mset xs = {#x#} \<Longrightarrow> xs = [x]"
  by simp

lemma mset_pair_eq: "mset xs = {#x, x#} \<Longrightarrow> xs = [x, x]"
proof -
  assume m: "mset xs = {#x, x#}"
  then have "length xs = 2" by (metis size_mset size_add_mset size_single numeral_2_eq_2 One_nat_def)
  then obtain a b where xs: "xs = [a, b]" by (auto simp: numeral_2_eq_2 length_Suc_conv)
  have "set_mset {#a, b#} = set_mset {#x, x#}" using m xs by simp
  with xs show "xs = [x, x]" by auto
qed

text \<open>The headers of an answer that took this way: the type, and nothing the producer set.\<close>

lemma tls_answer_headers:
  assumes "n32f_env_ok F" and "n32f_env_ok G"
  shows "sbi_response_headers (fe_order F (fold (\<lambda>(k, v). hput k v)
       (fe_order F (JSON_HEADERS @ fe_order G [(''content-type'', ''application/json'')])) [])) =
     [(''content-type'', ''application/json'')]"
proof -
  let ?h = "(''content-type'', ''application/json'')"
  have 1: "fe_order G [?h] = [?h]" "fe_order F [?h] = [?h]"
    using n32f_env_okD(10)[OF assms(2), of "[?h]"] n32f_env_okD(10)[OF assms(1), of "[?h]"] by simp_all
  have "fe_order F [?h, ?h] = [?h, ?h]"
    using n32f_env_okD(10)[OF assms(1), of "[?h, ?h]"] by (intro mset_pair_eq) simp
  then show ?thesis
    using 1 by (simp add: JSON_HEADERS_def hput_def sbi_response_headers_def)
qed

lemma tls_delivered:
  assumes F: "n32f_env_ok F" and dl: "tls_delivery_ok url dl" and ok: "n32f_env_ok (ae_n32f E)"
    and path: "plain_path (sr_path req)" and a: "authority \<noteq> []" "\<not> has_crlf authority"
    and r: "r = tls_request E url authority (full_path req) body"
  shows "sr_method (dl m r) = method_name m \<and> sr_path (dl m r) = sr_path req \<and>
     sr_raw_query (dl m r) = sr_raw_query req \<and>
     rq_uri (forwarded_request F (dl m r)) = (force_http authority @ sr_path req @ ''?'' @ sr_raw_query req) \<and>
     rq_body (forwarded_request F (dl m r)) = []"
proof -
  have "rq_uri r = url @ sr_path req @ (if sr_raw_query req \<noteq> [] then ''?'' @ sr_raw_query req else [])"
    unfolding r tls_request_uri[OF ok] by (simp add: full_path_def)
  then have d: "sr_method (dl m r) = method_name m" "sr_path (dl m r) = sr_path req"
    "sr_raw_query (dl m r) = sr_raw_query req"
    using dl path unfolding tls_delivery_ok_def by blast+
  have "hget (rq_headers r) ''3gpp-Sbi-Target-apiRoot'' = Some (api_root E authority)"
    unfolding r by (rule tls_request_apiroot[OF a(1)])
  then have "filter (\<lambda>(k, v). k = ''3gpp-sbi-target-apiroot'') (sr_header (dl m r)) =
      [(''3gpp-sbi-target-apiroot'', api_root E authority)]"
    using dl api_root_no_crlf[OF a(2)] unfolding tls_delivery_ok_def by blast
  from forward_headers_unique[OF this] have "force_http (select_target F (get_authority (sr_header (dl m r)))
      (forward_headers_of (forward_message (dl m r)))) = force_http authority"
    using a(1) by (simp add: select_target_def api_root_target) (simp add: api_root_def)
  with d target_request_uri[OF F] show ?thesis by (simp add: forwarded_request_def)
qed


text \<open>Two SEPPs for the witness; the producer answers with 404.\<close>

definition demo_tls_delivery :: "string \<Rightarrow> delivery" where
  "demo_tls_delivery url m r = (let s = drop (length url) (rq_uri r) in
     \<lparr>sr_method = method_name m, sr_path = takeWhile (\<lambda>c. c \<noteq> CHR ''?'') s,
      sr_raw_query = drop 1 (dropWhile (\<lambda>c. c \<noteq> CHR ''?'') s),
      sr_header = (case hget (rq_headers r) ''3gpp-Sbi-Target-apiRoot'' of
         Some v \<Rightarrow> [(''3gpp-sbi-target-apiroot'', v)] | None \<Rightarrow> []),
      sr_chunks = [[]]\<rparr>)"

lemma demo_tls_delivery_ok: "tls_delivery_ok url (demo_tls_delivery url)"
proof -
  have p: "takeWhile (\<lambda>c. c \<noteq> CHR ''?'') (path @ q) = path \<and> dropWhile (\<lambda>c. c \<noteq> CHR ''?'') (path @ q) = q"
    if "plain_path path" "q = [] \<or> hd q = CHR ''?''" for path q
  proof -
    have "\<And>c. c \<in> set path \<Longrightarrow> c \<noteq> CHR ''?''" using that(1) by (auto simp: plain_path_def)
    then show ?thesis using that(2) by (cases q) (simp_all add: takeWhile_append2 dropWhile_append2)
  qed
  have "sr_path (demo_tls_delivery url m r) = path \<and> sr_raw_query (demo_tls_delivery url m r) = query"
    if "plain_path path" "rq_uri r = url @ path @ (if query \<noteq> [] then ''?'' @ query else [])" for m r path query
    using p[OF that(1), of "if query \<noteq> [] then ''?'' @ query else []"] that(2)
    by (auto simp: demo_tls_delivery_def Let_def)
  then show ?thesis by (simp add: tls_delivery_ok_def) (simp add: demo_tls_delivery_def Let_def)
qed

definition demo_tls_sepp :: "string option \<Rightarrow> world" where
  "demo_tls_sepp url = \<lparr>w_app = Some ((app_instances (demo_app_env\<lparr>ae_security := ''TLS''\<rparr>)
     (sepp_nrf_new demo_nrf_env ''i''))\<lparr>m_remote_sepp_url := url\<rparr>), w_history = []\<rparr>"


end
