(* ===== verification/Sepp_Http1.thy ===== *)
theory Sepp_Http1
  imports Sepp_Prelude
begin

text \<open>
  The stubs for HTTP/1 (src/api-server/api and src/api-server/impl): six classes with a route
  table and a handler for each operation, and the server that would hold them
  (src/api-server/sepp-api-server). The parts of an operation that differ are its path
  and the model its body is read into; reading and validating it is library code and a
  parameter.
\<close>

subsection \<open>Answers\<close>

text \<open>
  A handler is the list of its calls of \<^verbatim>\<open>response.send\<close>, code and text. An exception is one of
  the JSON library or another one, with its text.
\<close>

type_synonym sends = "(nat \<times> string) list"

datatype http1_exn = JsonException string | OtherException string

definition parsing_exception :: "http1_exn \<Rightarrow> nat \<times> string" where
  "parsing_exception e = (case e of JsonException w \<Rightarrow> (400, w) | OtherException w \<Rightarrow> (500, w))"

definition operation_exception :: "http1_exn \<Rightarrow> nat \<times> string" where
  "operation_exception e = (500, case e of JsonException w \<Rightarrow> w | OtherException w \<Rightarrow> w)"

definition default_handler :: sends where
  "default_handler = [(404, ''The requested method does not exist'')]"

text \<open>Every implementation sends the same text, so no operation throws.\<close>

definition magic :: "http1_exn + sends" where
  "magic = Inr [(200, ''Do some magic'' @ [CHR 0x0A])]"

definition post_n32f_terminate :: "http1_exn + sends" where "post_n32f_terminate = magic"
definition post_n32f_error :: "http1_exn + sends" where "post_n32f_error = magic"
definition n32f_process_options :: "http1_exn + sends" where "n32f_process_options = magic"
definition post_exchange_params :: "http1_exn + sends" where "post_exchange_params = magic"
definition post_exchange_capability :: "http1_exn + sends" where "post_exchange_capability = magic"
definition post_n32f_process :: "http1_exn + sends" where "post_n32f_process = magic"
definition impl_get_telescopic_mapping :: "http1_exn + sends" where "impl_get_telescopic_mapping = magic"

subsection \<open>Handlers\<close>

text \<open>
  What reading and validating the body of each operation ends with, by the model it is read
  into: \<open>None\<close> for success.
\<close>

record http1_env =
  h1_context_info :: "string \<Rightarrow> http1_exn option"
  h1_error_info :: "string \<Rightarrow> http1_exn option"
  h1_reformatted_req :: "string \<Rightarrow> http1_exn option"
  h1_param_exch :: "string \<Rightarrow> http1_exn option"
  h1_negotiate :: "string \<Rightarrow> http1_exn option"

definition run_operation :: "http1_exn + sends \<Rightarrow> sends" where
  "run_operation oper = (case oper of Inl e \<Rightarrow> [operation_exception e] | Inr s \<Rightarrow> s)"

definition with_body :: "http1_exn option \<Rightarrow> sends \<Rightarrow> sends" where
  "with_body read rest = (case read of Some e \<Rightarrow> [parsing_exception e] | None \<Rightarrow> rest)"

definition post_n32f_terminate_handler :: "http1_env \<Rightarrow> string \<Rightarrow> sends" where
  "post_n32f_terminate_handler H body = with_body (h1_context_info H body) (run_operation post_n32f_terminate)"

definition post_n32f_error_handler :: "http1_env \<Rightarrow> string \<Rightarrow> sends" where
  "post_n32f_error_handler H body = with_body (h1_error_info H body) (run_operation post_n32f_error)"

definition post_exchange_params_handler :: "http1_env \<Rightarrow> string \<Rightarrow> sends" where
  "post_exchange_params_handler H body = with_body (h1_param_exch H body) (run_operation post_exchange_params)"

definition post_exchange_capability_handler :: "http1_env \<Rightarrow> string \<Rightarrow> sends" where
  "post_exchange_capability_handler H body =
     with_body (h1_negotiate H body) (run_operation post_exchange_capability)"

definition n32f_process_options_handler :: "http1_env \<Rightarrow> string \<Rightarrow> sends" where
  "n32f_process_options_handler H body = run_operation n32f_process_options"

text \<open>In these two the call of the operation, one of the last two above, is commented out.\<close>

definition post_n32f_process_handler :: "http1_env \<Rightarrow> string \<Rightarrow> sends" where
  "post_n32f_process_handler H body = with_body (h1_reformatted_req H body) []"

definition get_telescopic_mapping_handler :: "http1_env \<Rightarrow> string \<Rightarrow> sends" where
  "get_telescopic_mapping_handler H body = []"

subsection \<open>Routes\<close>

type_synonym route = "(string \<times> string) \<times> (http1_env \<Rightarrow> string \<Rightarrow> sends)"

definition n32c_base :: string where "n32c_base = ''/n32c-handshake/v1''"

definition terminate_routes :: "route list" where
  "terminate_routes = [((''POST'', n32c_base @ ''/n32f-terminate''), post_n32f_terminate_handler)]"

definition error_routes :: "route list" where
  "error_routes = [((''POST'', n32c_base @ ''/n32f-error''), post_n32f_error_handler)]"

definition params_routes :: "route list" where
  "params_routes = [((''POST'', n32c_base @ ''/exchange-params''), post_exchange_params_handler)]"

definition capability_routes :: "route list" where
  "capability_routes = [((''POST'', n32c_base @ ''/exchange-capability''), post_exchange_capability_handler)]"

definition forward_routes :: "route list" where
  "forward_routes =
     [((''OPTIONS'', ''/n32f-forward/v1'' @ ''/n32f-process''), n32f_process_options_handler),
      ((''POST'', ''/n32f-forward/v1'' @ ''/n32f-process''), post_n32f_process_handler)]"

definition mapping_routes :: "route list" where
  "mapping_routes = [((''GET'', ''/nsepp-telescopic/v1'' @ ''/mapping''), get_telescopic_mapping_handler)]"

text \<open>
  A router with the routes of some of the classes: the first route that fits, else the default
  handler every class registers.
\<close>

definition route_request :: "route list \<Rightarrow> http1_env \<Rightarrow> string \<Rightarrow> string \<Rightarrow> string \<Rightarrow> sends" where
  "route_request routes H method path body =
     (case map_of routes (method, path) of Some h \<Rightarrow> h H body | None \<Rightarrow> default_handler)"

definition all_routes :: "route list" where
  "all_routes = terminate_routes @ error_routes @ params_routes @ capability_routes @ forward_routes @
     mapping_routes"

lemmas stub_defs = post_n32f_terminate_handler_def post_n32f_error_handler_def
  post_exchange_params_handler_def post_exchange_capability_handler_def n32f_process_options_handler_def
  post_n32f_process_handler_def get_telescopic_mapping_handler_def post_n32f_terminate_def
  post_n32f_error_def n32f_process_options_def post_exchange_params_def post_exchange_capability_def

lemmas route_defs = terminate_routes_def error_routes_def params_routes_def capability_routes_def
  forward_routes_def mapping_routes_def n32c_base_def

subsection \<open>The server\<close>

text \<open>
  \<^verbatim>\<open>SEPPApiServer\<close> owns the endpoint and the router of the library. \<open>as_routes\<close> are the routes of
  its router, \<open>as_handler\<close> the router that was installed as the handler of the endpoint. The
  classes above are never constructed, so the router is given no route.
\<close>

record endpoint_options =
  eo_threads :: nat
  eo_reuse_addr :: bool
  eo_max_request_size :: nat

record api_server =
  as_address :: string
  as_routes :: "route list"
  as_options :: "endpoint_options option"
  as_handler :: "route list option"
  as_serving :: bool

definition PISTACHE_SERVER_MAX_PAYLOAD :: nat where "PISTACHE_SERVER_MAX_PAYLOAD = 32768"

definition api_server_new :: "string \<Rightarrow> string \<Rightarrow> api_server" where
  "api_server_new host port =
     \<lparr>as_address = host @ '':'' @ port, as_routes = [], as_options = None, as_handler = None,
      as_serving = False\<rparr>"

definition api_server_init :: "nat \<Rightarrow> api_server \<Rightarrow> api_server" where
  "api_server_init thr s = s\<lparr>as_options := Some \<lparr>eo_threads = thr, eo_reuse_addr = True,
     eo_max_request_size = PISTACHE_SERVER_MAX_PAYLOAD\<rparr>\<rparr>"

definition api_server_start :: "api_server \<Rightarrow> api_server" where
  "api_server_start s = s\<lparr>as_handler := Some (as_routes s), as_serving := True\<rparr>"

definition api_server_shutdown :: "api_server \<Rightarrow> api_server" where
  "api_server_shutdown s = s\<lparr>as_serving := False\<rparr>"

text \<open>What main does with HTTP/1.\<close>

definition http1_server :: "string \<Rightarrow> string \<Rightarrow> api_server" where
  "http1_server host port = api_server_start (api_server_init 2 (api_server_new host port))"

text \<open>
  The answer of the endpoint: \<open>None\<close> when it does not serve. What the library answers when no
  route fits and no default handler was registered is the parameter \<open>unrouted\<close>.
\<close>

definition api_server_answer ::
  "sends \<Rightarrow> api_server \<Rightarrow> http1_env \<Rightarrow> string \<Rightarrow> string \<Rightarrow> string \<Rightarrow> sends option" where
  "api_server_answer unrouted s H method path body =
     (if \<not> as_serving s then None
      else (case as_handler s of
          None \<Rightarrow> None
        | Some routes \<Rightarrow> Some (case map_of routes (method, path) of
              Some h \<Rightarrow> h H body
            | None \<Rightarrow> unrouted)))"

text \<open>
  With HTTP/1 a SEPP serves nothing: whatever is asked for, also with the method and path of one
  of the stubs, is answered by the library alone, in the same way.
\<close>

theorem http1_server_serves_nothing:
  "api_server_answer unrouted (http1_server host port) H method path body = Some unrouted \<and>
   api_server_answer unrouted (api_server_shutdown (http1_server host port)) H method path body = None"
  by (simp add: api_server_answer_def http1_server_def api_server_start_def api_server_init_def
      api_server_new_def api_server_shutdown_def)

subsection \<open>Route helpers\<close>

text \<open>
  The routes the helpers of src/api-server/api\_defs name, with the configured version between
  the two constants. None is a path a server of the program has.
\<close>

definition handshake_get_route :: "string \<Rightarrow> string" where
  "handshake_get_route version = ''/'' @ ''n32c-handshake'' @ ''/'' @ version @ ''/n32c-handshake''"

definition telescopic_get_route :: "string \<Rightarrow> string" where
  "telescopic_get_route version = ''/'' @ ''nsepp-telescopic'' @ ''/'' @ version @ ''/nsepp-telescopic''"

lemma helper_routes_unserved:
  "route_request all_routes H method (handshake_get_route ''v1'') body = default_handler"
  "route_request all_routes H method (telescopic_get_route ''v1'') body = default_handler"
  by (simp_all add: route_request_def all_routes_def route_defs handshake_get_route_def telescopic_get_route_def)

subsection \<open>What the stubs do\<close>

text \<open>
  C40: with all routes of the stubs in place, a request is answered at most once, and it is left
  without an answer in exactly two cases: a mapping query, and an N32-f message whose body is
  valid. No other request is, whatever its body.
\<close>

theorem http1_unanswered:
  "length (route_request all_routes H method path body) \<le> 1 \<and>
   (route_request all_routes H method path body = [] \<longleftrightarrow>
      method = ''GET'' \<and> path = ''/nsepp-telescopic/v1/mapping'' \<or>
      method = ''POST'' \<and> path = ''/n32f-forward/v1/n32f-process'' \<and> h1_reformatted_req H body = None)"
proof -
  have b: "length (with_body r s) \<le> Suc 0 \<longleftrightarrow> r \<noteq> None \<or> length s \<le> Suc 0"
    "with_body r s = [] \<longleftrightarrow> r = None \<and> s = []"
    for r s by (auto simp: with_body_def split: option.split)
  have o: "run_operation magic \<noteq> []" "length (run_operation magic) \<le> Suc 0"
    "length default_handler \<le> Suc 0" "default_handler \<noteq> []"
    by (simp_all add: run_operation_def magic_def default_handler_def)
  have keys: "map fst all_routes = [(''POST'', ''/n32c-handshake/v1/n32f-terminate''),
      (''POST'', ''/n32c-handshake/v1/n32f-error''),
      (''POST'', ''/n32c-handshake/v1/exchange-params''),
      (''POST'', ''/n32c-handshake/v1/exchange-capability''),
      (''OPTIONS'', ''/n32f-forward/v1/n32f-process''),
      (''POST'', ''/n32f-forward/v1/n32f-process''),
      (''GET'', ''/nsepp-telescopic/v1/mapping'')]"
    unfolding all_routes_def route_defs by simp
  let ?silent = "\<lambda>k. k = (''GET'', ''/nsepp-telescopic/v1/mapping'') \<or>
    k = (''POST'', ''/n32f-forward/v1/n32f-process'') \<and> h1_reformatted_req H body = None"
  have each: "\<forall>(k, h) \<in> set all_routes. length (h H body) \<le> Suc 0 \<and> (h H body = [] \<longleftrightarrow> ?silent k)"
    unfolding all_routes_def route_defs stub_defs by (simp add: b o)
  have "length (route_request all_routes H method path body) \<le> 1 \<and>
      (route_request all_routes H method path body = [] \<longleftrightarrow> ?silent (method, path))"
  proof (cases "map_of all_routes (method, path)")
    case None
    then have "(method, path) \<notin> set (map fst all_routes)"
      by (simp add: map_of_eq_None_iff)
    moreover have "(''GET'', ''/nsepp-telescopic/v1/mapping'') \<in> set (map fst all_routes)"
      "(''POST'', ''/n32f-forward/v1/n32f-process'') \<in> set (map fst all_routes)"
      unfolding keys by simp_all
    ultimately have "\<not> ?silent (method, path)" by metis
    with None o show ?thesis by (simp add: route_request_def)
  next
    case (Some h)
    with each map_of_SomeD[OF Some] show ?thesis by (fastforce simp add: route_request_def)
  qed
  then show ?thesis by simp
qed

end
