(* ===== verification/Sepp_Forged.thy ===== *)
theory Sepp_Forged
  imports Sepp_System Sepp_Tunnel
begin

text \<open>
  What the missing key means for a running SEPP: anyone who can reach its NBI server can make
  it send requests to the network functions behind it.
\<close>

lemma run_prins_instance:
  assumes ok: "n32f_env_ok (ve_n32f (be_server B))" and run: "system_started B s0" "steps (system_step B) es s0 sy"
    and cfg: "ae_security (ve_app (be_server B)) = ''PRINS''" "ae_register_nrf (ve_app (be_server B))"
    and app: "w_app (sy_world sy) = Some s"
  obtains f where "m_sepp_n32f_forward_inst s = Some f" and "m_security_capability f = ''PRINS''"
    and "m_enc_key f = []"
proof -
  have inv: "world_inv (ve_app (be_server B)) (sy_world sy)"
    using system_run_inv[OF run] ok by (simp add: system_inv_def)
  then obtain f where "m_sepp_n32f_forward_inst s = Some f"
    using app cfg(2) by (auto simp: world_inv_def shape_def)
  with inv app cfg(1) that show thesis by (auto simp: world_inv_def world_config_def app_config_def)
qed



end
