(* ===== verification/Spec2Isabelle.thy ===== *)
theory Spec2Isabelle
  imports Sepp_Pair Sepp_Tls Sepp_Http1 Sepp_Forged
begin

text \<open>
  Verification library of the OAI SEPP, the Security Edge Protection Proxy of a 5G core network.

  The program. A SEPP stands at the border of a network. Network functions of its own network
  hand it their requests for another network (the SBI server, HTTP/2); it carries them to the
  SEPP of that network, and takes in what that SEPP sends (the NBI server, HTTP/2). Two SEPPs
  first shake hands (the N32-c interface) and then exchange messages (the N32-f interface),
  either wrapped into JOSE objects (PRINS) or as they are (TLS). A SEPP registers at the NRF of
  its network and keeps the registration alive with a heartbeat. The handshake, the N32-f
  instance and the NRF client are components of one application object, which the two
  servers share with the task manager's clock.

  Theories and sources (under src/src):
  \<^item> \<^verbatim>\<open>Sepp_Prelude\<close>: what the components share. Exceptions are the left side of a sum, header
    maps have the interface \<open>string_map\<close>, the network is a function from the list of calls made
    so far to the next response, and the list of calls is the history every operation that
    sends something extends.
  \<^item> \<^verbatim>\<open>Sepp_Json\<close>, \<^verbatim>\<open>Sepp_Decimal\<close>: documents of nlohmann::json with the exceptions of its
    accessors; decimal numbers of the standard library.
  \<^item> \<^verbatim>\<open>Sepp_Telescopic\<close>: sepp\_app/sepp\_telescopic\_fqdn\_mapping, the mapping between FQDNs and
    labels, in both directions.
  \<^item> \<^verbatim>\<open>Sepp_Base64\<close>, \<^verbatim>\<open>Sepp_Jose\<close>: sepp\_app/sepp\_JOSE, base64url and the AES-GCM payloads.
  \<^item> \<^verbatim>\<open>Sepp_N32c\<close>: sepp\_app/sepp\_n32c\_handshake, one function per operation and the state machine
    they form.
  \<^item> \<^verbatim>\<open>Sepp_N32f\<close>, \<^verbatim>\<open>Sepp_Wire\<close>: sepp\_app/sepp\_n32f\_forward, wrapping, unwrapping and the relay to
    the local network function; what two sides rely on when documents travel as text.
  \<^item> \<^verbatim>\<open>Sepp_Profile\<close>, \<^verbatim>\<open>Sepp_Nrf\<close>: sepp\_app/sepp\_profile, sepp\_nrf, sepp\_event and task\_manager.
  \<^item> \<^verbatim>\<open>Sepp_App\<close>: sepp\_app/sepp\_app, constructor, initiator of the handshake, hand-over of requests,
    stop.
  \<^item> \<^verbatim>\<open>Sepp_Nbi\<close>, \<^verbatim>\<open>Sepp_Sbi\<close>: api-server/sepp-http2-nbi-server and sepp-http2-sbi-server, from the
    request to the calls on the response object.
  \<^item> \<^verbatim>\<open>Sepp_World\<close>: a running SEPP as a step relation over requests at both servers in any order and
    the end of the application; frame facts per endpoint and the invariant of all runs.
  \<^item> \<^verbatim>\<open>Sepp_Serve\<close>: what single endpoints of these servers do with a request.
  \<^item> \<^verbatim>\<open>Sepp_System\<close>: the process, which is a running SEPP and the ticks of the task manager's
    clock; its subscribers outlive the application.
  \<^item> \<^verbatim>\<open>Sepp_Tunnel\<close>, \<^verbatim>\<open>Sepp_Handshake\<close>: two SEPPs, the network of one being the NBI server of the
    other; single requests and sequences of them with PRINS, and the handshake.
  \<^item> \<^verbatim>\<open>Sepp_Tls\<close>: two SEPPs with the TLS mechanism.
  \<^item> \<^verbatim>\<open>Sepp_Config\<close>, \<^verbatim>\<open>Sepp_Options\<close>, \<^verbatim>\<open>Sepp_Main\<close>: sepp\_app/sepp\_config, oai\_sepp/options and
    oai\_sepp/main, from the command line to the running program and its signal handler.
  \<^item> \<^verbatim>\<open>Sepp_Deployment\<close>: two programs, each from its own command line and file, one the peer of the
    other.
  \<^item> \<^verbatim>\<open>Sepp_Pair\<close>: the two processes running at the same time, as a step relation that interleaves
    their steps; what one sends is served by the other as it has become by then.
  \<^item> \<^verbatim>\<open>Sepp_Forged\<close>: what anyone who reaches the NBI server of a running SEPP can make it send.
  \<^item> \<^verbatim>\<open>Sepp_Http1\<close>: api-server/api and api-server/impl, the stubs for HTTP/1, api-server/sepp-api-server,
    their server, and api-server/api\_defs.

  State and effects. Each class is a record of its members, each operation a function from the
  state and its arguments to the new state, the documents and headers it fills in, and its
  result or exception; the order of the updates is the code's, so a state changed before an
  exception stays changed. Shared objects are fields of the record that owns them. Numbers of
  fixed width are words where the code can wrap (clock, priority, capacity, sizes, option
  flags).

  What the lemmas show. Round trips: labels, base64url, JWE payloads, additional data, URL
  decoding, profiles. Handshake: what every message changes, agreement of both sides, and a
  refinement of the context identifier to a small specification. Servers: every complete
  request is answered, refusals change nothing. Runs: where requests go, and what a SEPP does
  with each configuration. Process: the heartbeat refines an automaton with two states,
  whatever the servers do between two ticks. Two SEPPs: requests arrive unchanged, in order and
  once each, and their answers return, with PRINS; with TLS only GET requests do, and their
  answers return without status and headers; the handshake ends with a shared context.
  Program: which command lines and files start it.
  Deployment: two programs started from their files have shaken hands when the first one runs,
  and requests travel between them in every later run of the first, and in every run of both.
  What does not hold: since no key is ever set and identifiers are not compared, a SEPP relays
  forged messages in every run, and a termination does not reach its message instance. The
  network cannot keep a program from starting.

  Interfaces. \<open>string_map\<close>, \<open>class_member\<close> and \<open>base64_codec\<close> are interfaces of data, \<open>endpoint\<close> is
  the contract of a handler with the NBI server, \<open>invariant_machine\<close> a step relation with an
  invariant, which \<open>refined_machine\<close> extends by an abstract specification; each is interpreted on the definitions of the code, \<open>endpoint\<close>
  twice for each of the six endpoints, once for the configuration and once for the calls, and
  \<open>refined_machine\<close> for the handshake and for the process; \<open>invariant_machine\<close> also for the servers
  and for the pair of processes, whose invariant is that of each process.

  Parameters and hypotheses. Not under src: the OpenSSL calls, the generated OpenAPI models
  (readers and writers of each model), \<^verbatim>\<open>dump\<close> and \<^verbatim>\<open>parse\<close> of the JSON library, the iteration order of
  unordered maps, the HTTP client, the YAML library and the common configuration code. They are
  fields of environment records; what is relied on is a named hypothesis (\<open>bio_ok\<close>, \<open>gcm_ok\<close>,
  \<open>params_dto_ok\<close>, \<open>negotiate_dto_ok\<close>, \<open>n32f_env_ok\<close>, \<open>wire_ok\<close>, \<open>negotiate_wire_ok\<close>,
  \<open>delivery_ok\<close>, \<open>tls_delivery_ok\<close> and \<open>tunnel_ok\<close>), and witnesses run on concrete
  instances of them.

  Bounds and fuel. No definition has fuel: the loops over data end structurally, the padding
  of base64 text, the search in a query and the loop over the command line by a measure. The
  endless loop of the task manager is run for a number of rounds, and statements about it hold
  for every number. Lengths passed to OpenSSL as int are assumed to fit one.

  Not modelled. Logging and \<^verbatim>\<open>display\<close>, the sockets and threads of the servers, TLS itself (only
  the settings of its context), timer descriptors, waiting between handshake attempts,
  destructors; parallel execution of handlers on shared state (a request is served as one
  step, although the code takes no lock); routing inside nghttp2 (a path it does not know goes
  to \<^verbatim>\<open>/\<close>). In a pair of processes a request to the other network and its service are one
  step, so the two do not overlap. The signal helpers of the HTTP/1 server, which nothing calls,
  and the first function of api\_defs, which names an undeclared class, are left out, and so
  are the types of events and the loggers.
\<close>

subsection \<open>Properties\<close>



text \<open>
  C30: whether a program starts does not depend on the network: whatever the NRF and the other
  SEPP answer, and if nobody answers at all, it ends in the same way, with the same exit code
  or exception, or runs with the same configuration, servers and application; a SEPP that is
  neither registered nor connected to its partner is not told from one that is.
\<close>

theorem start_ignores_network:
  "case main M args of
     Running p \<Rightarrow> \<exists>p'. main (M\<lparr>me_net := net\<rparr>) args = Running p' \<and> pg_config p' = pg_config p \<and>
       pg_servers p' = pg_servers p \<and> pg_status p' = pg_status p \<and> w_app (pg_world p') \<noteq> None
   | x \<Rightarrow> main (M\<lparr>me_net := net\<rparr>) args = x"
proof -
  have run: "case main_run M cfg of
     Running p \<Rightarrow> \<exists>p'. main_run (M\<lparr>me_net := net\<rparr>) cfg = Running p' \<and> pg_config p' = pg_config p \<and>
       pg_servers p' = pg_servers p \<and> pg_status p' = pg_status p \<and> w_app (pg_world p') \<noteq> None
   | x \<Rightarrow> main_run (M\<lparr>me_net := net\<rparr>) cfg = x" for cfg
    using sepp_app_new_net[of "configured cfg (me_env M)" "me_net M" "me_now M" "me_instance_id M"
        "me_context_id M" sepp_event_init "[]" net "[]"]
    by (auto simp: main_run_def Let_def split: sum.splits prod.splits)
  have "(\<exists>cfg. main M args = main_run M cfg \<and> main (M\<lparr>me_net := net\<rparr>) args = main_run (M\<lparr>me_net := net\<rparr>) cfg) \<or>
      (\<exists>x. main M args = x \<and> main (M\<lparr>me_net := net\<rparr>) args = x \<and> (\<forall>p. x \<noteq> Running p))"
    by (auto simp: main_def split: option.split prod.split bool.split sum.split)
  then show ?thesis
  proof (elim disjE exE conjE)
    fix cfg
    assume m: "main M args = main_run M cfg" "main (M\<lparr>me_net := net\<rparr>) args = main_run (M\<lparr>me_net := net\<rparr>) cfg"
    show ?thesis unfolding m by (rule run)
  qed (simp split: outcome.split)
qed

text \<open>
  C6: from the configuration file to the wire: whatever requests a started SEPP serves and however its clock ticks, it sends
  to the other network only when its file gives it the role \<^verbatim>\<open>c-sepp\<close>, only to the SEPP of the
  first roaming partner, and when the file asks for PRINS only by POST to an endpoint of the
  N32 interfaces.
\<close>

theorem program_outbound:
  assumes "main M args = Running p" and "pg_config p = Some cfg" and "n32f_env_ok (ae_n32f (me_env M))"
    and "steps (system_step (program_env B M cfg)) es (program_system p) sy"
    and "HttpCall NbiClient m r \<in> set (w_history (sy_world sy))"
  shows "c_role cfg = ''c-sepp'' \<and>
     (\<exists>q ps path. ae_roaming_partners (me_env M) = q # ps \<and>
        rq_uri r = remote_url (configured cfg (me_env M)) q @ path \<and>
        (c_security cfg = ''PRINS'' \<longrightarrow> m = POST \<and> path \<in> n32_paths))"
proof -
  obtain opts cfg' where "parse_options args options_init = (opts, Some True)"
    and o: "sepp_config_new (me_yaml M) (m_libconfigcfg opts) = Inr cfg'" and "me_config_init M cfg'"
    and run: "main_run M cfg' = Running p"
    by (rule main_runningE[OF assms(1)])
  note st = main_run_started[OF run, of B]
  have cfg: "cfg' = cfg" using st assms(2) by simp
  have started: "system_started (program_env B M cfg) (program_system p)" using st cfg by blast
  have ok: "n32f_env_ok (ve_n32f (be_server (program_env B M cfg)))" using assms(3) by simp
  obtain url where u: "peer_address (configured cfg (me_env M)) = Some url"
    and c: "peer_call (c_security cfg) url (HttpCall NbiClient m r)"
    using system_run_peer_call[OF ok started assms(4,5)] unfolding program_env_simps configured_simps by blast
  obtain q ps where q: "is_c_sepp cfg" "ae_roaming_partners (me_env M) = q # ps"
    "url = remote_url (configured cfg (me_env M)) q"
    using u by (cases "ae_roaming_partners (me_env M)") (simp_all add: peer_address_def split: if_splits)
  have "c_role cfg = ''c-sepp''"
    using config_read_consistent[OF o] q(1) cfg unfolding role_consistent_def is_c_sepp_def by auto
  moreover obtain path where "rq_uri r = url @ path" "c_security cfg = ''PRINS'' \<longrightarrow> m = POST \<and> path \<in> n32_paths"
    using c unfolding peer_call_def by blast
  ultimately show ?thesis using q(2,3) by blast
qed

theorem program_outbound_witness:
  "\<exists>p m r path. main (demo_main ''c-sepp'' ''PRINS'' 2) [''-c'', ''f''] = Running p \<and>
     HttpCall NbiClient m r \<in> set (w_history (pg_world p)) \<and> m = POST \<and> path \<in> n32_paths"
proof -
  obtain p c where p: "main (demo_main ''c-sepp'' ''PRINS'' 2) [''-c'', ''f''] = Running p"
     "pg_config p = Some (demo_config ''c-sepp'' C_SEPP ''PRINS'')"
     "HttpCall NbiClient POST c \<in> set (w_history (pg_world p))"
    using demo_program by blast
  have ok: "n32f_env_ok (ae_n32f (me_env (demo_main ''c-sepp'' ''PRINS'' 2)))"
    using demo_wire_env_ok by (simp add: demo_main_def demo_app_env_def)
  from program_outbound[OF p(1,2) ok steps_Nil, of POST c] p(1,3) show ?thesis
    by (auto simp: demo_config_def program_system_def)
qed







end
